(* ===== verification/Prelude.thy ===== *)
theory Prelude
  imports Main "HOL-Library.Word" "HOL-Library.Char_ord" "HOL-Library.List_Lexorder"
    "HOL-Library.Sublist" "HOL-Library.Signed_Division"
begin

text \<open>
  Shared vocabulary of the development: results with errors, Go's fixed-width integers, decimal
  printing, key-value stores that iterate in key order, and the list lemmas the components use.
  Nothing here models a file of the repository; every component theory imports it.
\<close>

named_theorems store_simps \<open>lookups after store updates\<close>
named_theorems wrap_simps \<open>values that fixed-width arithmetic leaves alone\<close>

section \<open>Results\<close>

text \<open>
  A Go function that returns \<open>(value, error)\<close> is a function into \<open>'e + 'a\<close>: \<open>Inl\<close> is the error
  return. \<open>bindR\<close> is the \<^verbatim>\<open>if err != nil { return err }\<close> idiom.
\<close>

definition bindR :: "'e + 'a \<Rightarrow> ('a \<Rightarrow> 'e + 'b) \<Rightarrow> 'e + 'b" where
  "bindR r f = (case r of Inl e \<Rightarrow> Inl e | Inr x \<Rightarrow> f x)"

lemma bindR_simps [simp]:
  "bindR (Inl e) f = Inl e"
  "bindR (Inr x) f = f x"
  by (simp_all add: bindR_def)

lemma bindR_Inr_iff: "bindR r f = Inr y \<longleftrightarrow> (\<exists>x. r = Inr x \<and> f x = Inr y)"
  by (cases r) auto

lemma bindR_Inl_iff: "bindR r f = Inl e \<longleftrightarrow> r = Inl e \<or> (\<exists>x. r = Inr x \<and> f x = Inl e)"
  by (cases r) auto

lemma bindR_InrE [elim!]:
  assumes "bindR r f = Inr y"
  obtains x where "r = Inr x" and "f x = Inr y"
  using assms by (cases r) auto

definition is_ok :: "'e + 'a \<Rightarrow> bool" where
  "is_ok r = (case r of Inl _ \<Rightarrow> False | Inr _ \<Rightarrow> True)"

lemma is_ok_simps [simp]: "\<not> is_ok (Inl e)" "is_ok (Inr x)"
  by (simp_all add: is_ok_def)

lemma is_ok_iff: "is_ok r \<longleftrightarrow> (\<exists>x. r = Inr x)"
  by (cases r) auto

section \<open>Fixed-width integers\<close>

text \<open>
  Go's \<open>uint32\<close>, \<open>uint64\<close>, \<open>int32\<close> and \<open>int64\<close> values are integers; an operation that can leave
  the range is followed by the wrap-around of its width. Go's integer division truncates towards
  zero, which is \<open>sdiv\<close>.
\<close>

definition u32 :: "int \<Rightarrow> int" where "u32 x = x mod 2 ^ 32"
definition u64 :: "int \<Rightarrow> int" where "u64 x = x mod 2 ^ 64"
definition i32 :: "int \<Rightarrow> int" where "i32 x = (x + 2 ^ 31) mod 2 ^ 32 - 2 ^ 31"
definition i64 :: "int \<Rightarrow> int" where "i64 x = (x + 2 ^ 63) mod 2 ^ 64 - 2 ^ 63"

abbreviation (input) is_u32 :: "int \<Rightarrow> bool" where "is_u32 x \<equiv> 0 \<le> x \<and> x < 2 ^ 32"
abbreviation (input) is_u64 :: "int \<Rightarrow> bool" where "is_u64 x \<equiv> 0 \<le> x \<and> x < 2 ^ 64"
abbreviation (input) is_i64 :: "int \<Rightarrow> bool" where "is_i64 x \<equiv> - (2 ^ 63) \<le> x \<and> x < 2 ^ 63"

lemma u32_range [simp]: "0 \<le> u32 x" "u32 x < 4294967296"
  by (simp_all add: u32_def)

lemma u64_range [simp]: "0 \<le> u64 x" "u64 x < 18446744073709551616"
  by (simp_all add: u64_def)

lemma i64_range: "- 9223372036854775808 \<le> i64 x" "i64 x < 9223372036854775808"
proof -
  have "0 \<le> (x + 2 ^ 63) mod 2 ^ 64" and "(x + 2 ^ 63) mod 2 ^ 64 < (2::int) ^ 64"
    by (rule pos_mod_sign, simp) (rule pos_mod_bound, simp)
  then show "- 9223372036854775808 \<le> i64 x" and "i64 x < 9223372036854775808"
    by (simp_all add: i64_def)
qed

lemma u32_id [wrap_simps]: "0 \<le> x \<Longrightarrow> x < 2 ^ 32 \<Longrightarrow> u32 x = x"
  by (simp add: u32_def)

lemma u64_id [wrap_simps]: "0 \<le> x \<Longrightarrow> x < 2 ^ 64 \<Longrightarrow> u64 x = x"
  by (simp add: u64_def)

lemma i64_id [wrap_simps]: "- (2 ^ 63) \<le> x \<Longrightarrow> x < 2 ^ 63 \<Longrightarrow> i64 x = x"
  by (simp add: i64_def)

lemma i32_id [wrap_simps]: "- (2 ^ 31) \<le> x \<Longrightarrow> x < 2 ^ 31 \<Longrightarrow> i32 x = x"
  by (simp add: i32_def)

lemma u64_idem [simp]: "u64 (u64 x) = u64 x"
  by (simp add: u64_def)

lemma sdiv_nonneg: "0 \<le> a \<Longrightarrow> 0 < b \<Longrightarrow> (a::int) sdiv b = a div b"
  by (simp add: signed_divide_int_def sgn_if)

section \<open>Decimal numerals\<close>

text \<open>\<open>fmt.Sprintf("%d", n)\<close> on unsigned values, \<open>strconv.FormatInt(n, 10)\<close> on signed ones.\<close>

definition digit_char :: "nat \<Rightarrow> char" where
  "digit_char n = char_of (48 + n)"

fun dec_of_nat :: "nat \<Rightarrow> string" where
  "dec_of_nat n = (if n < 10 then [digit_char n] else dec_of_nat (n div 10) @ [digit_char (n mod 10)])"

declare dec_of_nat.simps [simp del]

definition dec_of_int :: "int \<Rightarrow> string" where
  "dec_of_int x = (if x < 0 then CHR ''-'' # dec_of_nat (nat (- x)) else dec_of_nat (nat x))"

definition char_digit :: "char \<Rightarrow> nat" where
  "char_digit c = of_char c - 48"

definition nat_of_dec :: "string \<Rightarrow> nat" where
  "nat_of_dec s = foldl (\<lambda>acc c. acc * 10 + char_digit c) 0 s"

definition is_digit :: "char \<Rightarrow> bool" where
  "is_digit c = (48 \<le> (of_char c :: nat) \<and> (of_char c :: nat) \<le> 57)"

lemma char_digit_digit_char [simp]: "n < 10 \<Longrightarrow> char_digit (digit_char n) = n"
  by (simp add: char_digit_def digit_char_def)

lemma is_digit_digit_char [simp]: "n < 10 \<Longrightarrow> is_digit (digit_char n)"
  by (simp add: is_digit_def digit_char_def)

lemma nat_of_dec_snoc: "nat_of_dec (s @ [c]) = nat_of_dec s * 10 + char_digit c"
  by (simp add: nat_of_dec_def)

lemma nat_of_dec_of_nat [simp]: "nat_of_dec (dec_of_nat n) = n"
proof (induction n rule: dec_of_nat.induct)
  case (1 n)
  show ?case
  proof (cases "n < 10")
    case True
    then show ?thesis by (simp add: dec_of_nat.simps [of n] nat_of_dec_def)
  next
    case False
    with 1 show ?thesis
      by (simp add: dec_of_nat.simps [of n] nat_of_dec_snoc)
  qed
qed

lemma dec_of_nat_inject [simp]: "dec_of_nat m = dec_of_nat n \<longleftrightarrow> m = n"
  by (metis nat_of_dec_of_nat)

lemma dec_of_nat_digits: "c \<in> set (dec_of_nat n) \<Longrightarrow> is_digit c"
proof (induction n rule: dec_of_nat.induct)
  case (1 n)
  show ?case
  proof (cases "n < 10")
    case True
    with 1 show ?thesis by (auto simp: dec_of_nat.simps [of n])
  next
    case False
    with 1 show ?thesis by (auto simp: dec_of_nat.simps [of n])
  qed
qed

lemma dec_of_nat_nonempty [simp]: "dec_of_nat n \<noteq> []"
  by (subst dec_of_nat.simps) simp

lemma not_digit_slash [simp]: "\<not> is_digit CHR ''/''"
  by (simp add: is_digit_def)

lemma dec_of_nat_no_slash: "CHR ''/'' \<notin> set (dec_of_nat n)"
  using dec_of_nat_digits not_digit_slash by blast

text \<open>The same on integers, which evaluate with binary numerals.\<close>

definition int_of_dec :: "string \<Rightarrow> int" where
  "int_of_dec s = foldl (\<lambda>acc c. acc * 10 + int (char_digit c)) 0 s"

lemma int_of_dec_nat: "int_of_dec s = int (nat_of_dec s)"
proof -
  have "foldl (\<lambda>acc c. acc * 10 + int (char_digit c)) (int n) s = int (foldl (\<lambda>acc c. acc * 10 + char_digit c) n s)" for n
  proof (induction s arbitrary: n)
    case (Cons c s)
    from Cons [of "n * 10 + char_digit c"] show ?case by simp
  qed simp
  from this [of 0] show ?thesis by (simp add: int_of_dec_def nat_of_dec_def)
qed

function dec_pos :: "int \<Rightarrow> string" where
  "dec_pos x = (if x < 10 then [digit_char (nat x)] else dec_pos (x div 10) @ [digit_char (nat (x mod 10))])"
  by pat_completeness auto
termination by (relation "measure nat") auto

declare dec_pos.simps [simp del]

lemma dec_pos_nat: "dec_pos (int n) = dec_of_nat n"
proof (induction n rule: dec_of_nat.induct)
  case (1 n)
  show ?case
  proof (cases "n < 10")
    case True
    then show ?thesis by (simp add: dec_of_nat.simps [of n] dec_pos.simps [of "int n"])
  next
    case False
    have "int n div 10 = int (n div 10)" "nat (int n mod 10) = n mod 10" by (simp_all add: zdiv_int nat_mod_as_int)
    with 1 [OF False] False show ?thesis by (simp add: dec_of_nat.simps [of n] dec_pos.simps [of "int n"])
  qed
qed

lemma dec_of_int_code [code]: "dec_of_int x = (if x < 0 then CHR ''-'' # dec_pos (- x) else dec_pos x)"
proof (cases "x < 0")
  case True
  with dec_pos_nat [of "nat (- x)"] show ?thesis by (simp add: dec_of_int_def)
next
  case False
  with dec_pos_nat [of "nat x"] show ?thesis by (simp add: dec_of_int_def)
qed

section \<open>Key-value stores\<close>

text \<open>
  A module's store keyed by one prefix is an association list sorted by key, because the store's
  iterators visit keys in ascending byte order. \<open>map_of\<close> reads it. The values are the decoded
  messages: the stores hold what the module itself wrote.
\<close>

fun kv_set :: "'k::linorder \<Rightarrow> 'v \<Rightarrow> ('k \<times> 'v) list \<Rightarrow> ('k \<times> 'v) list" where
  "kv_set k v [] = [(k, v)]"
| "kv_set k v ((k', v') # m) =
     (if k < k' then (k, v) # (k', v') # m
      else if k = k' then (k, v) # m
      else (k', v') # kv_set k v m)"

definition kv_del :: "'k \<Rightarrow> ('k \<times> 'v) list \<Rightarrow> ('k \<times> 'v) list" where
  "kv_del k m = filter (\<lambda>e. fst e \<noteq> k) m"

definition kv_sorted :: "('k::linorder \<times> 'v) list \<Rightarrow> bool" where
  "kv_sorted m = sorted_wrt (<) (map fst m)"

text \<open>\<open>store.Iterator(p, PrefixEndBytes(p))\<close>: the entries whose key starts with \<open>p\<close>, in key order.\<close>

definition kv_prefix :: "'c list \<Rightarrow> ('c list \<times> 'v) list \<Rightarrow> ('c list \<times> 'v) list" where
  "kv_prefix p m = filter (\<lambda>e. prefix p (fst e)) m"

lemma map_of_kv_set [simp, store_simps]: "map_of (kv_set k v m) = (map_of m)(k \<mapsto> v)"
  by (induction m) (auto simp: fun_eq_iff)

lemma map_of_kv_del [simp, store_simps]: "map_of (kv_del k m) = (map_of m)(k := None)"
  by (induction m) (auto simp: kv_del_def fun_eq_iff)

lemma keys_kv_set [simp]: "fst ` set (kv_set k v m) = insert k (fst ` set m)"
  by (induction k v m rule: kv_set.induct) (simp_all add: insert_commute)

lemma keys_kv_del [simp]: "fst ` set (kv_del k m) = fst ` set m - {k}"
  by (auto simp: kv_del_def)

lemma kv_sorted_Nil [simp]: "kv_sorted []"
  by (simp add: kv_sorted_def)

lemma kv_sorted_Cons: "kv_sorted ((k, v) # m) \<longleftrightarrow> (\<forall>k' \<in> fst ` set m. k < k') \<and> kv_sorted m"
  by (auto simp: kv_sorted_def)

lemma kv_sorted_set [simp, intro]: "kv_sorted m \<Longrightarrow> kv_sorted (kv_set k v m)"
proof (induction m)
  case Nil
  then show ?case by (simp add: kv_sorted_Cons)
next
  case (Cons e m)
  obtain k' v' where e: "e = (k', v')" by (cases e)
  with Cons show ?case
    by (auto simp: kv_sorted_Cons simp del: image_iff dest: order_less_trans)
qed

lemma kv_sorted_del [simp, intro]: "kv_sorted m \<Longrightarrow> kv_sorted (kv_del k m)"
  by (induction m) (auto simp: kv_sorted_Cons kv_del_def)

lemma kv_sorted_distinct: "kv_sorted m \<Longrightarrow> distinct (map fst m)"
  by (auto simp: kv_sorted_def strict_sorted_iff)

lemma kv_sorted_in_iff: "kv_sorted m \<Longrightarrow> (k, v) \<in> set m \<longleftrightarrow> map_of m k = Some v"
  using kv_sorted_distinct map_of_eq_Some_iff by metis

lemma map_of_None_kv_del [simp]: "map_of m k = None \<Longrightarrow> kv_del k m = m"
  by (auto simp: kv_del_def map_of_eq_None_iff intro: filter_True)

text \<open>The sum of a measure over a store, after a write.\<close>

definition kv_sum :: "('v \<Rightarrow> int) \<Rightarrow> ('k \<times> 'v) list \<Rightarrow> int" where
  "kv_sum f m = (\<Sum>e\<leftarrow>m. f (snd e))"

lemma kv_sum_simps [simp]: "kv_sum f [] = 0" "kv_sum f (e # m) = f (snd e) + kv_sum f m"
  by (simp_all add: kv_sum_def)

lemma kv_sum_set:
  assumes "kv_sorted m"
  shows "kv_sum f (kv_set k v m) = kv_sum f m + f v - (case map_of m k of None \<Rightarrow> 0 | Some u \<Rightarrow> f u)"
  using assms
proof (induction m)
  case Nil
  then show ?case by simp
next
  case (Cons e m)
  obtain k' v' where e: "e = (k', v')" by (cases e)
  have "k < k' \<Longrightarrow> map_of m k = None"
    using Cons.prems by (force simp: e kv_sorted_Cons map_of_eq_None_iff)
  with Cons show ?case by (auto simp: e kv_sorted_Cons)
qed

lemma kv_sum_nonneg: "(\<And>k v. (k, v) \<in> set m \<Longrightarrow> 0 \<le> f v) \<Longrightarrow> 0 \<le> kv_sum f m"
proof (induction m)
  case Nil
  then show ?case by simp
next
  case (Cons e m)
  then have "0 \<le> kv_sum f m" and "0 \<le> f (snd e)" by (cases e, fastforce)+
  then show ?case by simp
qed

lemma length_kv_set:
  assumes "kv_sorted m"
  shows "length (kv_set k v m) = (if map_of m k = None then Suc (length m) else length m)"
  using assms
proof (induction m)
  case Nil
  then show ?case by simp
next
  case (Cons e m)
  obtain k' v' where e: "e = (k', v')" by (cases e)
  have "k < k' \<Longrightarrow> map_of m k = None"
    using Cons.prems by (force simp: e kv_sorted_Cons map_of_eq_None_iff)
  with Cons show ?case by (auto simp: e kv_sorted_Cons)
qed

text \<open>The store interface the keepers rely on, with the one property every keeper uses.\<close>

locale kv_store =
  fixes get :: "'m \<Rightarrow> 'k \<Rightarrow> 'v option"
    and put :: "'k \<Rightarrow> 'v \<Rightarrow> 'm \<Rightarrow> 'm"
    and delete :: "'k \<Rightarrow> 'm \<Rightarrow> 'm"
    and wf :: "'m \<Rightarrow> bool"
  assumes get_put: "get (put k v m) k' = (if k' = k then Some v else get m k')"
    and get_delete: "get (delete k m) k' = (if k' = k then None else get m k')"
    and wf_put: "wf m \<Longrightarrow> wf (put k v m)"
    and wf_delete: "wf m \<Longrightarrow> wf (delete k m)"
begin

definition put_all :: "('v \<Rightarrow> 'k) \<Rightarrow> 'v list \<Rightarrow> 'm \<Rightarrow> 'm" where
  "put_all key vs m = fold (\<lambda>v. put (key v) v) vs m"

lemma get_put_all_notin: "k \<notin> key ` set vs \<Longrightarrow> get (put_all key vs m) k = get m k"
  by (induction vs arbitrary: m) (auto simp: put_all_def get_put)

lemma get_put_all:
  "v \<in> set vs \<Longrightarrow> distinct (map key vs) \<Longrightarrow> get (put_all key vs m) (key v) = Some v"
proof (induction vs arbitrary: m)
  case Nil
  then show ?case by simp
next
  case (Cons w vs)
  show ?case
  proof (cases "v = w")
    case True
    with Cons.prems have "key w \<notin> key ` set vs" by simp
    then have "get (put_all key vs (put (key w) w m)) (key w) = Some w"
      by (simp add: get_put_all_notin get_put)
    with True show ?thesis by (simp add: put_all_def)
  next
    case False
    with Cons have "get (put_all key vs (put (key w) w m)) (key v) = Some v" by simp
    then show ?thesis by (simp add: put_all_def)
  qed
qed

lemma wf_put_all: "wf m \<Longrightarrow> wf (put_all key vs m)"
  by (induction vs arbitrary: m) (auto simp: put_all_def wf_put)

end

interpretation kv: kv_store map_of kv_set kv_del kv_sorted
  by unfold_locales auto

section \<open>Lists\<close>

lemma sum_list_map_filter_split:
  fixes f :: "'a \<Rightarrow> int"
  shows "(\<Sum>x\<leftarrow>xs. f x) = (\<Sum>x\<leftarrow>filter P xs. f x) + (\<Sum>x\<leftarrow>filter (\<lambda>x. \<not> P x) xs. f x)"
  by (induction xs) auto

lemma set_map_filter: "set (List.map_filter f xs) = {y. \<exists>x \<in> set xs. f x = Some y}"
  by (force simp: List.map_filter_def)

lemma last_append_single [simp]: "last (xs @ [x]) = x"
  by simp

lemma sorted_map_le_last: "sorted (map f xs) \<Longrightarrow> x \<in> set xs \<Longrightarrow> f x \<le> f (last xs)"
  by (induction xs) auto

end
