(* ===== verification/Sdk.thy ===== *)
theory Sdk
  imports Encoding
begin

text \<open>
  The code outside the repository, as parameters. The keepers of the Cosmos SDK and the hash and
  signature libraries are records of functions that the definitions of the component theories
  take as arguments; the type \<open>'w\<close> is the state those keepers own. The predicates \<open>bank_laws\<close>
  and \<open>account_laws\<close> collect the documented behaviour that some theorems rely on, relative to a
  view \<open>bal\<close> of that state as balances. \<open>ledger_bank\<close> and \<open>ledger_accounts\<close> are a concrete
  instance of the parameters, used by the witnesses.
\<close>

section \<open>Errors of the SDK\<close>

datatype sdk_error =
    ErrInvalidRequest | ErrNotFound | ErrUnauthorized | ErrInvalidAddress
  | ErrInsufficientFunds | ErrIO | ErrExternal

section \<open>Coins\<close>

text \<open>\<open>sdk.Coins\<close>: denominations with integer amounts (\<open>math.Int\<close> is unbounded here).\<close>

type_synonym coins = "(string \<times> int) list"

definition AmountOf :: "coins \<Rightarrow> string \<Rightarrow> int" where
  "AmountOf cs d = (\<Sum>c\<leftarrow>cs. if fst c = d then snd c else 0)"

text \<open>\<open>sdk.NewCoins\<close> of one coin: a zero amount gives the empty set of coins.\<close>

definition NewCoins1 :: "string \<Rightarrow> int \<Rightarrow> coins" where
  "NewCoins1 d a = (if a = 0 then [] else [(d, a)])"

definition coins_nonneg :: "coins \<Rightarrow> bool" where
  "coins_nonneg cs = (\<forall>c \<in> set cs. 0 \<le> snd c)"

lemma AmountOf_Nil [simp]: "AmountOf [] d = 0"
  by (simp add: AmountOf_def)

lemma AmountOf_Cons [simp]: "AmountOf (c # cs) d = (if fst c = d then snd c else 0) + AmountOf cs d"
  by (simp add: AmountOf_def)

lemma AmountOf_NewCoins1 [simp]: "AmountOf (NewCoins1 d a) d' = (if d' = d then a else 0)"
  by (simp add: NewCoins1_def)

lemma coins_nonneg_NewCoins1 [simp]: "coins_nonneg (NewCoins1 d a) \<longleftrightarrow> 0 \<le> a"
  by (simp add: coins_nonneg_def NewCoins1_def)

lemma AmountOf_nonneg: "coins_nonneg cs \<Longrightarrow> 0 \<le> AmountOf cs d"
  by (induction cs) (auto simp: coins_nonneg_def)

section \<open>Address codec\<close>

record addr_codec =
  AccAddressFromBech32 :: "string \<Rightarrow> bytes option"
  ValAddressFromBech32 :: "string \<Rightarrow> bytes option"
  AccAddress_String :: "bytes \<Rightarrow> string"
  ValAddress_String :: "bytes \<Rightarrow> string"

text \<open>What the modules rely on: an address that is printed and read again is the same address.\<close>

definition codec_laws :: "addr_codec \<Rightarrow> bool" where
  "codec_laws ac \<longleftrightarrow>
     (\<forall>a. a \<noteq> [] \<longrightarrow> AccAddressFromBech32 ac (AccAddress_String ac a) = Some a) \<and>
     (\<forall>a. a \<noteq> [] \<longrightarrow> ValAddressFromBech32 ac (ValAddress_String ac a) = Some a) \<and>
     AccAddressFromBech32 ac [] = None \<and> ValAddressFromBech32 ac [] = None"

section \<open>Accounts\<close>

text \<open>The dynamic type of an \<open>sdk.AccountI\<close>, as far as the modules distinguish it.\<close>

datatype account =
    BaseAccount (account_addr: bytes)
  | DelayedVestingAccount (account_addr: bytes) coins int
  | InterchainAccount (account_addr: bytes) string
  | OtherAccount (account_addr: bytes)

record 'w account_keeper =
  GetAccount :: "'w \<Rightarrow> bytes \<Rightarrow> account option"
  SetAccount :: "account \<Rightarrow> 'w \<Rightarrow> 'w"
  NewAccount :: "bytes \<Rightarrow> 'w \<Rightarrow> 'w"
  GetModuleAccount :: "string \<Rightarrow> 'w \<Rightarrow> bool \<times> 'w"
  SetModuleAccount :: "string \<Rightarrow> 'w \<Rightarrow> 'w"
  VestingValid :: "bytes \<Rightarrow> coins \<Rightarrow> int \<Rightarrow> bool"

section \<open>Bank\<close>

record 'w bank_keeper =
  ModuleAddr :: "string \<Rightarrow> bytes"
  SendCoinsFromModuleToAccount :: "string \<Rightarrow> bytes \<Rightarrow> coins \<Rightarrow> 'w \<Rightarrow> sdk_error + 'w"
  SendCoinsFromAccountToModule :: "bytes \<Rightarrow> string \<Rightarrow> coins \<Rightarrow> 'w \<Rightarrow> sdk_error + 'w"
  SendCoinsFromModuleToModule :: "string \<Rightarrow> string \<Rightarrow> coins \<Rightarrow> 'w \<Rightarrow> sdk_error + 'w"
  MintCoins :: "string \<Rightarrow> coins \<Rightarrow> 'w \<Rightarrow> sdk_error + 'w"
  BurnCoins :: "string \<Rightarrow> coins \<Rightarrow> 'w \<Rightarrow> sdk_error + 'w"
  GetBalance :: "'w \<Rightarrow> bytes \<Rightarrow> string \<Rightarrow> int"
  SpendableCoins :: "'w \<Rightarrow> bytes \<Rightarrow> coins"

text \<open>The balances after moving \<open>amt\<close> from one address to another.\<close>

definition moved :: "bytes \<Rightarrow> bytes \<Rightarrow> coins \<Rightarrow> (bytes \<Rightarrow> string \<Rightarrow> int) \<Rightarrow> bytes \<Rightarrow> string \<Rightarrow> int" where
  "moved src dst amt b = (\<lambda>a d. b a d - (if a = src then AmountOf amt d else 0)
                                     + (if a = dst then AmountOf amt d else 0))"

definition bank_laws :: "'w bank_keeper \<Rightarrow> ('w \<Rightarrow> bytes \<Rightarrow> string \<Rightarrow> int) \<Rightarrow> bool" where
  "bank_laws bk bal \<longleftrightarrow>
     (\<forall>m a cs w w'. SendCoinsFromModuleToAccount bk m a cs w = Inr w' \<longrightarrow>
        bal w' = moved (ModuleAddr bk m) a cs (bal w)) \<and>
     (\<forall>m a cs w w'. SendCoinsFromAccountToModule bk a m cs w = Inr w' \<longrightarrow>
        bal w' = moved a (ModuleAddr bk m) cs (bal w)) \<and>
     (\<forall>m n cs w w'. SendCoinsFromModuleToModule bk m n cs w = Inr w' \<longrightarrow>
        bal w' = moved (ModuleAddr bk m) (ModuleAddr bk n) cs (bal w)) \<and>
     (\<forall>m cs w w'. MintCoins bk m cs w = Inr w' \<longrightarrow>
        bal w' = (\<lambda>a d. bal w a d + (if a = ModuleAddr bk m then AmountOf cs d else 0))) \<and>
     (\<forall>m cs w w'. BurnCoins bk m cs w = Inr w' \<longrightarrow>
        bal w' = (\<lambda>a d. bal w a d - (if a = ModuleAddr bk m then AmountOf cs d else 0))) \<and>
     (\<forall>w a d. GetBalance bk w a d = bal w a d)"

lemma bank_lawsD:
  assumes "bank_laws bk bal"
  shows "SendCoinsFromModuleToAccount bk m a cs w = Inr w' \<Longrightarrow> bal w' = moved (ModuleAddr bk m) a cs (bal w)"
    and "SendCoinsFromAccountToModule bk a m cs w = Inr w' \<Longrightarrow> bal w' = moved a (ModuleAddr bk m) cs (bal w)"
    and "SendCoinsFromModuleToModule bk m n cs w = Inr w' \<Longrightarrow>
           bal w' = moved (ModuleAddr bk m) (ModuleAddr bk n) cs (bal w)"
    and "MintCoins bk m cs w = Inr w' \<Longrightarrow>
           bal w' = (\<lambda>a d. bal w a d + (if a = ModuleAddr bk m then AmountOf cs d else 0))"
    and "BurnCoins bk m cs w = Inr w' \<Longrightarrow>
           bal w' = (\<lambda>a d. bal w a d - (if a = ModuleAddr bk m then AmountOf cs d else 0))"
    and "GetBalance bk w a d = bal w a d"
  using assms by (simp_all add: bank_laws_def)

definition account_laws :: "'w account_keeper \<Rightarrow> ('w \<Rightarrow> bytes \<Rightarrow> string \<Rightarrow> int) \<Rightarrow> bool" where
  "account_laws ak bal \<longleftrightarrow>
     (\<forall>acc w. bal (SetAccount ak acc w) = bal w) \<and> (\<forall>a w. bal (NewAccount ak a w) = bal w) \<and>
     (\<forall>m w. bal (snd (GetModuleAccount ak m w)) = bal w) \<and> (\<forall>m w. bal (SetModuleAccount ak m w) = bal w)"

section \<open>A concrete instance\<close>

definition plain_codec :: addr_codec where
  "plain_codec = \<lparr>AccAddressFromBech32 = (\<lambda>a. if a = [] then None else Some (bytes_of_string a)),
     ValAddressFromBech32 = (\<lambda>a. if a = [] then None else Some (bytes_of_string a)),
     AccAddress_String = string_of_bytes, ValAddress_String = string_of_bytes\<rparr>"

lemma plain_codec_laws: "codec_laws plain_codec"
  by (auto simp: codec_laws_def plain_codec_def) (simp_all add: string_of_bytes_def)

text \<open>Accounts and balances as lists, newest entry first.\<close>

record ledger =
  lg_bal :: "((bytes \<times> string) \<times> int) list"
  lg_acc :: "(bytes \<times> account) list"

definition lg_balance :: "ledger \<Rightarrow> bytes \<Rightarrow> string \<Rightarrow> int" where
  "lg_balance l a d = (case map_of (lg_bal l) (a, d) of None \<Rightarrow> 0 | Some x \<Rightarrow> x)"

definition lg_add :: "bytes \<Rightarrow> string \<Rightarrow> int \<Rightarrow> ledger \<Rightarrow> ledger" where
  "lg_add a d x l = l\<lparr>lg_bal := ((a, d), lg_balance l a d + x) # lg_bal l\<rparr>"

fun lg_add_all :: "bytes \<Rightarrow> coins \<Rightarrow> int \<Rightarrow> ledger \<Rightarrow> ledger" where
  "lg_add_all a [] sg l = l"
| "lg_add_all a (c # cs) sg l = lg_add_all a cs sg (lg_add a (fst c) (sg * snd c) l)"

definition lg_covers :: "ledger \<Rightarrow> bytes \<Rightarrow> coins \<Rightarrow> bool" where
  "lg_covers l a cs = (\<forall>c \<in> set cs. AmountOf cs (fst c) \<le> lg_balance l a (fst c))"

definition lg_move :: "bytes \<Rightarrow> bytes \<Rightarrow> coins \<Rightarrow> ledger \<Rightarrow> sdk_error + ledger" where
  "lg_move src dst cs l =
     (if lg_covers l src cs then Inr (lg_add_all dst cs 1 (lg_add_all src cs (- 1) l))
      else Inl ErrInsufficientFunds)"

definition module_address :: "string \<Rightarrow> bytes" where
  "module_address m = 255 # map (\<lambda>c. word_of_nat (of_char c)) m"

definition ledger_bank :: "ledger bank_keeper" where
  "ledger_bank = \<lparr>
     ModuleAddr = module_address,
     SendCoinsFromModuleToAccount = (\<lambda>m a cs. lg_move (module_address m) a cs),
     SendCoinsFromAccountToModule = (\<lambda>a m cs. lg_move a (module_address m) cs),
     SendCoinsFromModuleToModule = (\<lambda>m n cs. lg_move (module_address m) (module_address n) cs),
     MintCoins = (\<lambda>m cs l. Inr (lg_add_all (module_address m) cs 1 l)),
     BurnCoins = (\<lambda>m cs l. if lg_covers l (module_address m) cs
                           then Inr (lg_add_all (module_address m) cs (- 1) l)
                           else Inl ErrInsufficientFunds),
     GetBalance = lg_balance,
     SpendableCoins = (\<lambda>l a. map (\<lambda>e. (snd (fst e), snd e)) (filter (\<lambda>e. fst (fst e) = a) (lg_bal l)))\<rparr>"

definition ledger_accounts :: "ledger account_keeper" where
  "ledger_accounts = \<lparr>
     GetAccount = (\<lambda>l a. map_of (lg_acc l) a),
     SetAccount = (\<lambda>acc l. l\<lparr>lg_acc := (account_addr acc, acc) # lg_acc l\<rparr>),
     NewAccount = (\<lambda>a l. l),
     GetModuleAccount = (\<lambda>m l. (True, l)),
     SetModuleAccount = (\<lambda>m l. l),
     VestingValid = (\<lambda>a cs t. 0 \<le> t)\<rparr>"

lemma lg_balance_add: "lg_balance (lg_add a d x l) = (\<lambda>a' d'. lg_balance l a' d' + (if a' = a \<and> d' = d then x else 0))"
  by (auto simp: lg_balance_def lg_add_def fun_eq_iff)

lemma lg_balance_add_all:
  "lg_balance (lg_add_all a cs sg l) = (\<lambda>a' d. lg_balance l a' d + (if a' = a then sg * AmountOf cs d else 0))"
  by (induction cs arbitrary: l) (auto simp: lg_balance_add fun_eq_iff algebra_simps)

lemma ledger_bank_laws: "bank_laws ledger_bank lg_balance"
  by (auto simp: bank_laws_def ledger_bank_def lg_move_def moved_def lg_balance_add_all fun_eq_iff
      split: if_splits)

lemma ledger_account_laws: "account_laws ledger_accounts lg_balance"
  by (auto simp: account_laws_def ledger_accounts_def lg_balance_def fun_eq_iff)

end
