(* ===== verification/Go_Time.thy ===== *)
theory Go_Time
  imports Prelude
begin

text \<open>
  The part of Go's \<open>time\<close> package the modules use. A \<open>time.Time\<close> in UTC is its number of
  nanoseconds since the Unix epoch. \<open>time_Unix\<close> is \<open>t.Unix()\<close>, \<open>time_of_Unix s n\<close> is
  \<open>time.Unix(s, n)\<close>, \<open>time_After\<close> is \<open>t.After(u)\<close>, and \<open>add_months\<close> is
  \<open>t.AddDate(0, months, 0).Unix()\<close> with the calendar normalisation of \<open>time.Date\<close>.
\<close>

definition time_of_Unix :: "int \<Rightarrow> int \<Rightarrow> int" where
  "time_of_Unix s n = s * 10 ^ 9 + n"

definition time_Unix :: "int \<Rightarrow> int" where
  "time_Unix t = t div 10 ^ 9"

definition time_After :: "int \<Rightarrow> int \<Rightarrow> bool" where
  "time_After t u = (u < t)"

section \<open>The proleptic Gregorian calendar\<close>

definition is_leap :: "int \<Rightarrow> bool" where
  "is_leap y = (y mod 4 = 0 \<and> (y mod 100 \<noteq> 0 \<or> y mod 400 = 0))"

text \<open>Days from 1 January of year 1 to 1 January of year \<open>y\<close>.\<close>

definition days_before_year :: "int \<Rightarrow> int" where
  "days_before_year y = (let z = y - 1 in 365 * z + z div 4 - z div 100 + z div 400)"

text \<open>Days from 1 January to the first of month \<open>m\<close>, months counted from 0.\<close>

definition days_before_month :: "bool \<Rightarrow> int \<Rightarrow> int" where
  "days_before_month leap m =
     [0, 31, 59, 90, 120, 151, 181, 212, 243, 273, 304, 334] ! nat m
       + (if leap \<and> 2 \<le> m then 1 else 0)"

text \<open>The year of a day and its position in that year, as \<open>absDate\<close> computes them.\<close>

definition year_yday :: "int \<Rightarrow> int \<times> int" where
  "year_yday d =
     (let a = d div 146097; d1 = d mod 146097;
          b = d1 div 36524 - d1 div 36524 div 4; d2 = d1 - 36524 * b;
          c = d2 div 1461; d3 = d2 - 1461 * c;
          e = d3 div 365 - d3 div 365 div 4
      in (400 * a + 100 * b + 4 * c + e + 1, d3 - 365 * e))"

definition month_of_yday :: "bool \<Rightarrow> int \<Rightarrow> int" where
  "month_of_yday leap yday =
     int (length (filter (\<lambda>m. days_before_month leap m \<le> yday) [1, 2, 3, 4, 5, 6, 7, 8, 9, 10, 11]))"

text \<open>\<open>time.Date(y, m, 1 + d, \<dots>)\<close> as a day number: the month is normalised into the year.\<close>

definition day_of_date :: "int \<Rightarrow> int \<Rightarrow> int \<Rightarrow> int" where
  "day_of_date y m d =
     (let y' = y + m div 12
      in days_before_year y' + days_before_month (is_leap y') (m mod 12) + d)"

text \<open>719162 days separate 1 January of year 1 and the Unix epoch.\<close>

definition add_months :: "int \<Rightarrow> int \<Rightarrow> int" where
  "add_months t months =
     (let s = time_Unix t; days = s div 86400 + 719162;
          (y, yday) = year_yday days;
          m = month_of_yday (is_leap y) yday;
          d = yday - days_before_month (is_leap y) m
      in (day_of_date y (m + months) d - 719162) * 86400 + s mod 86400)"

lemma div_eqI: "0 < (k::int) \<Longrightarrow> k * q \<le> a \<Longrightarrow> a < k * q + k \<Longrightarrow> a div k = q"
  by (rule int_div_pos_eq [where r = "a - k * q"]) auto

lemma div_bounds: "0 < (k::int) \<Longrightarrow> k * (a div k) \<le> a \<and> a < k * (a div k) + k"
  using pos_mod_sign [of k a] pos_mod_bound [of k a] mult_div_mod_eq [of k a] by linarith

text \<open>The quotient by a short period, cut off where the long period holds one extra day.\<close>

lemma div_cut:
  assumes "0 \<le> (x::int)" "x \<le> 4 * k" "0 < k"
  shows "x div k - x div k div 4 = min (x div k) 3"
proof -
  have "0 \<le> x div k" using assms by (simp add: pos_imp_zdiv_nonneg_iff)
  moreover have "x div k \<le> 4" using assms zdiv_mono1 [of x "4 * k" k] by simp
  ultimately have "x div k \<in> {0, 1, 2, 3, 4}" by auto
  then show ?thesis by auto
qed

lemma days_before_year_parts:
  assumes "0 \<le> b" "b \<le> 3" "0 \<le> c" "c \<le> 24" "0 \<le> e" "e \<le> 3"
  shows "days_before_year (400 * a + 100 * b + 4 * c + e + 1) = 146097 * a + 36524 * b + 1461 * c + 365 * e"
proof -
  have "(400 * a + 100 * b + 4 * c + e) div 4 = 100 * a + 25 * b + c"
    by (rule div_eqI; use assms in \<open>simp add: algebra_simps\<close>)
  moreover have "(400 * a + 100 * b + 4 * c + e) div 100 = 4 * a + b"
    by (rule div_eqI; use assms in \<open>simp add: algebra_simps\<close>)
  moreover have "(400 * a + 100 * b + 4 * c + e) div 400 = a"
    by (rule div_eqI; use assms in \<open>simp add: algebra_simps\<close>)
  ultimately show ?thesis by (simp add: days_before_year_def Let_def)
qed

lemma year_yday_days:
  assumes "year_yday d = (y, yd)"
  shows "days_before_year y + yd = d" and "0 \<le> yd"
proof -
  define a where "a = d div 146097"
  define d1 where "d1 = d mod 146097"
  define b where "b = d1 div 36524 - d1 div 36524 div 4"
  define d2 where "d2 = d1 - 36524 * b"
  define c where "c = d2 div 1461"
  define d3 where "d3 = d2 - 1461 * c"
  define e where "e = d3 div 365 - d3 div 365 div 4"
  have "year_yday d = (400 * a + 100 * b + 4 * c + e + 1, d3 - 365 * e)"
    unfolding year_yday_def Let_def a_def e_def d3_def c_def d2_def b_def d1_def by (rule refl)
  with assms have y: "y = 400 * a + 100 * b + 4 * c + e + 1" and yd: "yd = d3 - 365 * e"
    by (simp_all only: prod.inject)
  have d1: "0 \<le> d1" "d1 < 146097" by (simp_all add: d1_def)
  have "b = min (d1 div 36524) 3" using d1 div_cut [of d1 36524] by (simp add: b_def)
  moreover have "0 \<le> d1 div 36524" using d1 by (simp add: pos_imp_zdiv_nonneg_iff)
  ultimately have b: "0 \<le> b" "b \<le> 3" and d2: "0 \<le> d2" "d2 \<le> 36524"
    using d1 div_bounds [of 36524 d1] by (auto simp: d2_def min_def split: if_splits)
  have "0 \<le> c" "c \<le> 24" and d3: "0 \<le> d3" "d3 < 1461"
    using d2 div_bounds [of 1461 d2] by (auto simp: c_def d3_def)
  then have c: "0 \<le> c" "c \<le> 24" by simp_all
  have "e = min (d3 div 365) 3" using d3 div_cut [of d3 365] by (simp add: e_def)
  moreover have "0 \<le> d3 div 365" using d3 by (simp add: pos_imp_zdiv_nonneg_iff)
  ultimately have e: "0 \<le> e" "e \<le> 3" and "0 \<le> yd"
    using d3 div_bounds [of 365 d3] by (auto simp: yd min_def split: if_splits)
  then show "0 \<le> yd" by simp
  have "d = 146097 * a + d1" by (simp add: a_def d1_def)
  with days_before_year_parts [OF b c e, of a] show "days_before_year y + yd = d"
    by (simp add: y yd d2_def d3_def)
qed

section \<open>Adding months moves time forward\<close>

definition month_start :: "int \<Rightarrow> int" where
  "month_start k = day_of_date 0 k 0"

lemma days_before_month_step:
  assumes "0 \<le> m" "m < 11"
  shows "days_before_month l m + 28 \<le> days_before_month l (m + 1)"
proof -
  from assms have "m = 0 \<or> m = 1 \<or> m = 2 \<or> m = 3 \<or> m = 4 \<or> m = 5 \<or> m = 6 \<or> m = 7 \<or> m = 8 \<or> m = 9 \<or> m = 10"
    by presburger
  then show ?thesis by (auto simp: days_before_month_def)
qed

lemma div_pred: "0 < (k::int) \<Longrightarrow> y div k = (y - 1) div k + (if y mod k = 0 then 1 else 0)"
proof (cases "y mod k = 0")
  case True
  assume "0 < k"
  from True obtain q where "y = k * q" by auto
  moreover have "(k * q - 1) div k = q - 1" using \<open>0 < k\<close> by (intro div_eqI) (auto simp: algebra_simps)
  ultimately show ?thesis using \<open>0 < k\<close> by simp
next
  case False
  assume "0 < k"
  then have "0 < y mod k" using False pos_mod_sign [of k y] by linarith
  then have "(y - 1) div k = y div k"
    using \<open>0 < k\<close> pos_mod_bound [of k y] mult_div_mod_eq [of k y] by (intro div_eqI) linarith+
  with False show ?thesis by simp
qed

lemma days_before_year_step:
  "days_before_year (y + 1) = days_before_year y + 365 + (if is_leap y then 1 else 0)"
proof -
  have 4: "y div 4 = (y - 1) div 4 + (if y mod 4 = 0 then 1 else 0)" by (rule div_pred) simp
  have 100: "y div 100 = (y - 1) div 100 + (if y mod 100 = 0 then 1 else 0)" by (rule div_pred) simp
  have 400: "y div 400 = (y - 1) div 400 + (if y mod 400 = 0 then 1 else 0)" by (rule div_pred) simp
  have "y mod 100 = 0 \<Longrightarrow> y mod 4 = 0" using mod_mod_cancel [of 4 100 y] by simp
  moreover have "y mod 400 = 0 \<Longrightarrow> y mod 100 = 0" using mod_mod_cancel [of 100 400 y] by simp
  moreover define p q r where "p = (y mod 4 = 0)" and "q = (y mod 100 = 0)" and "r = (y mod 400 = 0)"
  ultimately have pqr: "q \<Longrightarrow> p" "r \<Longrightarrow> q" by simp_all
  show ?thesis
    unfolding days_before_year_def is_leap_def Let_def add_diff_cancel_right' 4 100 400
      p_def [symmetric] q_def [symmetric] r_def [symmetric]
    using pqr by (cases p; cases q; cases r) simp_all
qed

lemma divmod_step:
  fixes k :: int
  defines "q \<equiv> k div 12" and "r \<equiv> k mod 12"
  shows "r = 11 \<Longrightarrow> (k + 1) div 12 = q + 1" "r = 11 \<Longrightarrow> (k + 1) mod 12 = 0"
    "r \<noteq> 11 \<Longrightarrow> (k + 1) div 12 = q" "r \<noteq> 11 \<Longrightarrow> (k + 1) mod 12 = r + 1"
proof -
  have k: "k = 12 * q + r" "0 \<le> r" "r < 12" by (simp_all add: q_def r_def)
  show "(k + 1) div 12 = q + 1" if "r = 11"
    by (rule int_div_pos_eq [where r = 0]) (use k that in simp_all)
  show "(k + 1) mod 12 = 0" if "r = 11"
    by (rule int_mod_pos_eq [where q = "q + 1"]) (use k that in simp_all)
  show "(k + 1) div 12 = q" if "r \<noteq> 11"
    by (rule int_div_pos_eq [where r = "r + 1"]) (use k that in simp_all)
  show "(k + 1) mod 12 = r + 1" if "r \<noteq> 11"
    by (rule int_mod_pos_eq [where q = q]) (use k that in simp_all)
qed

lemma month_start_step: "month_start k + 28 \<le> month_start (k + 1)"
proof (cases "k mod 12 = 11")
  case True
  have "day_of_date 0 (k + 1) 0 = days_before_year (k div 12 + 1)"
    unfolding day_of_date_def Let_def add_0 divmod_step(1,2) [OF True] by (simp add: days_before_month_def)
  moreover have "day_of_date 0 k 0 \<le> days_before_year (k div 12) + 335"
    unfolding day_of_date_def Let_def add_0 True by (simp add: days_before_month_def)
  ultimately show ?thesis
    unfolding month_start_def days_before_year_step by (simp split: if_split_asm)
next
  case False
  have "0 \<le> k mod 12" "k mod 12 < 11" using False pos_mod_bound [of 12 k] by simp_all
  from days_before_month_step [OF this, of "is_leap (k div 12)"] show ?thesis
    unfolding month_start_def day_of_date_def Let_def add_0 divmod_step(3,4) [OF False] by linarith
qed

lemma month_start_add: "month_start k + 28 * int n \<le> month_start (k + int n)"
proof (induction n)
  case 0
  then show ?case by simp
next
  case (Suc n)
  then show ?case using month_start_step [of "k + int n"] by (simp add: ac_simps)
qed

lemma day_of_date_month_start: "day_of_date y m d = month_start (12 * y + m) + d"
proof -
  have "(12 * y + m) div 12 = y + m div 12" and "(12 * y + m) mod 12 = m mod 12" by simp_all
  then show ?thesis by (simp add: month_start_def day_of_date_def Let_def)
qed

lemma month_of_yday_range: "0 \<le> month_of_yday l yd" "month_of_yday l yd \<le> 11"
proof -
  have "length (filter (\<lambda>m. days_before_month l m \<le> yd) [1, 2, 3, 4, 5, 6, 7, 8, 9, 10, 11])
      \<le> length [1::int, 2, 3, 4, 5, 6, 7, 8, 9, 10, 11]" by (rule length_filter_le)
  then show "month_of_yday l yd \<le> 11" by (simp add: month_of_yday_def)
  show "0 \<le> month_of_yday l yd" by (simp add: month_of_yday_def)
qed

lemma add_months_forward:
  assumes "0 \<le> n"
  shows "time_Unix t + 28 * n * 86400 \<le> add_months t n"
proof -
  define s where "s = time_Unix t"
  obtain y yd where yy: "year_yday (s div 86400 + 719162) = (y, yd)" by fastforce
  define m where "m = month_of_yday (is_leap y) yd"
  define d where "d = yd - days_before_month (is_leap y) m"
  have m: "0 \<le> m" "m < 12" using month_of_yday_range [of "is_leap y" yd] by (simp_all add: m_def)
  have start: "month_start (12 * y + m) + d = s div 86400 + 719162"
    using year_yday_days [OF yy] m by (simp add: day_of_date_month_start [symmetric] day_of_date_def d_def)
  have "month_start (12 * y + m) + 28 * n \<le> month_start (12 * y + (m + n))"
    using month_start_add [of "12 * y + m" "nat n"] assms by (simp add: ac_simps)
  with start have "s div 86400 + 28 * n \<le> day_of_date y (m + n) d - 719162"
    by (simp add: day_of_date_month_start)
  from mult_right_mono [OF this, of 86400]
  have "(s div 86400 + 28 * n) * 86400 \<le> (day_of_date y (m + n) d - 719162) * 86400" by simp
  moreover have "add_months t n = (day_of_date y (m + n) d - 719162) * 86400 + s mod 86400"
    by (simp add: add_months_def yy s_def [symmetric] m_def [symmetric] d_def [symmetric] Let_def)
  moreover have "s = s div 86400 * 86400 + s mod 86400" by simp
  ultimately have "s + 28 * n * 86400 \<le> add_months t n" by (simp only: distrib_right)
  then show ?thesis by (simp only: s_def)
qed

end
