(* ===== verification/Claim.thy ===== *)
theory Claim
  imports Sdk Go_Time
begin

text \<open>
  The claim module (\<^verbatim>\<open>x/claim\<close>): one-time claims of balances recorded for addresses of the old
  chain. The state holds the parameters, the claim records by old address, the number of records
  and the claims of the current block; \<open>cs_world\<close> is the state of the SDK's keepers. An operation
  that returns an error leaves no trace, since the SDK drops the writes of a failed message.
\<close>

section \<open>Addresses and signatures of the old chain (keeper/crypto)\<close>

record crypto_lib =
  sha256 :: "bytes \<Rightarrow> bytes"
  ripemd160 :: "bytes \<Rightarrow> bytes"
  base58 :: "bytes \<Rightarrow> string"
  secp256k1_verify :: "bytes \<Rightarrow> bytes \<Rightarrow> bytes \<Rightarrow> bool"
  secp256k1_sign :: "bytes \<Rightarrow> bytes \<Rightarrow> bytes option"

definition GetAddressFromPubKey :: "crypto_lib \<Rightarrow> string \<Rightarrow> string option" where
  "GetAddressFromPubKey cl pubKey =
     (if pubKey = [] then None
      else case hex_decode pubKey of
        None \<Rightarrow> None
      | Some publicKeyBytes \<Rightarrow>
          let pubKeyHash = ripemd160 cl (sha256 cl publicKeyBytes);
              versionedPayload = [12, 227] @ pubKeyHash;
              checksum = take 4 (sha256 cl (sha256 cl versionedPayload))
          in Some (base58 cl (versionedPayload @ checksum)))"

text \<open>\<open>None\<close> is an error return, \<open>Some b\<close> the verdict.\<close>

definition claim_VerifySignature :: "crypto_lib \<Rightarrow> string \<Rightarrow> string \<Rightarrow> string \<Rightarrow> bool option" where
  "claim_VerifySignature cl compressedPubKeyHex message signatureHex =
     (case hex_decode compressedPubKeyHex of
        None \<Rightarrow> None
      | Some pk \<Rightarrow>
          if length pk \<noteq> 33 \<or> (pk ! 0 \<noteq> 2 \<and> pk ! 0 \<noteq> 3) then None
          else case hex_decode signatureHex of
            None \<Rightarrow> None
          | Some signature \<Rightarrow>
              if length signature \<noteq> 65 then None
              else Some (secp256k1_verify cl pk (sha256 cl (bytes_of_string message)) (drop 1 signature)))"

definition SignMessage :: "crypto_lib \<Rightarrow> bytes option \<Rightarrow> string \<Rightarrow> string option" where
  "SignMessage cl privKey message =
     (case privKey of
        None \<Rightarrow> None
      | Some sk \<Rightarrow>
          (case secp256k1_sign cl sk (sha256 cl (bytes_of_string message)) of
             None \<Rightarrow> None
           | Some signature \<Rightarrow> Some (hex_encode (27 # signature))))"

section \<open>State\<close>

record claim_params =
  cp_EnableClaims :: bool
  cp_ClaimEndTime :: int
  cp_MaxClaimsPerBlock :: int

record claim_record =
  cr_OldAddress :: string
  cr_Balance :: coins
  cr_Claimed :: bool
  cr_ClaimTime :: int
  cr_DestAddress :: string
  cr_VestedTier :: int

record 'w claim_state =
  cs_params :: claim_params
  cs_records :: "(string \<times> claim_record) list"
  cs_count :: int
  cs_block_claims :: int
  cs_world :: 'w

record msg_claim =
  mc_Creator :: string
  mc_OldAddress :: string
  mc_NewAddress :: string
  mc_PubKey :: string
  mc_Signature :: string

record msg_delayed_claim =
  md_Creator :: string
  md_OldAddress :: string
  md_NewAddress :: string
  md_PubKey :: string
  md_Signature :: string
  md_Tier :: int

record 'w claim_env =
  ce_authority :: string
  ce_codec :: addr_codec
  ce_crypto :: crypto_lib
  ce_accounts :: "'w account_keeper"
  ce_bank :: "'w bank_keeper"

datatype claim_error =
    ErrInvalidSigner | ErrClaimDisabled | ErrTooManyClaims | ErrClaimPeriodExpired
  | ErrClaimNotFound | ErrClaimAlreadyClaimed | ErrInvalidPubKey | ErrMismatchReconstructedAddr
  | ErrInvalidSignature | ErrInvalidParamMaxClaims | ErrInvalidParamClaimDuration
  | ClaimSdk sdk_error | ClaimPanic

definition ClaimModuleName :: string where
  "ClaimModuleName = ''claim''"

definition DefaultClaimsDenom :: string where
  "DefaultClaimsDenom = ''ulume''"

section \<open>Records and counters (claim\_record.go, claim\_count\_per\_block.go)\<close>

definition GetClaimRecord :: "'w claim_state \<Rightarrow> string \<Rightarrow> claim_record option" where
  "GetClaimRecord s address = map_of (cs_records s) address"

definition incrementClaimRecordCount :: "'w claim_state \<Rightarrow> 'w claim_state" where
  "incrementClaimRecordCount s = s\<lparr>cs_count := u64 (cs_count s + 1)\<rparr>"

definition SetClaimRecord :: "claim_record \<Rightarrow> 'w claim_state \<Rightarrow> 'w claim_state" where
  "SetClaimRecord r s =
     (let isNewRecord = (map_of (cs_records s) (cr_OldAddress r) = None);
          s' = s\<lparr>cs_records := kv_set (cr_OldAddress r) r (cs_records s)\<rparr>
      in if isNewRecord then incrementClaimRecordCount s' else s')"

text \<open>The callback returns an error, a request to stop, or neither, with its own state.\<close>

fun iterate_records :: "(claim_record \<Rightarrow> 'a \<Rightarrow> 'e + (bool \<times> 'a)) \<Rightarrow> claim_record list \<Rightarrow> 'a \<Rightarrow> 'e + 'a" where
  "iterate_records cb [] a = Inr a"
| "iterate_records cb (r # rs) a =
     bindR (cb r a) (\<lambda>(stop, a'). if stop then Inr a' else iterate_records cb rs a')"

definition IterateClaimRecords ::
    "(claim_record \<Rightarrow> 'a \<Rightarrow> 'e + (bool \<times> 'a)) \<Rightarrow> 'w claim_state \<Rightarrow> 'a \<Rightarrow> 'e + 'a" where
  "IterateClaimRecords cb s a = iterate_records cb (map snd (cs_records s)) a"

definition GetClaimRecordCount :: "'w claim_state \<Rightarrow> int" where
  "GetClaimRecordCount s = cs_count s"

definition GetBlockClaimCount :: "'w claim_state \<Rightarrow> int" where
  "GetBlockClaimCount s = cs_block_claims s"

definition IncrementBlockClaimCount :: "'w claim_state \<Rightarrow> 'w claim_state" where
  "IncrementBlockClaimCount s = s\<lparr>cs_block_claims := u64 (GetBlockClaimCount s + 1)\<rparr>"

section \<open>Parameters and messages\<close>

definition claim_Params_Validate :: "claim_params \<Rightarrow> claim_error + unit" where
  "claim_Params_Validate p =
     (if cp_MaxClaimsPerBlock p < 1 then Inl ErrInvalidParamMaxClaims
      else if cp_ClaimEndTime p < 1 then Inl ErrInvalidParamClaimDuration
      else Inr ())"

definition MsgClaim_ValidateBasic :: "addr_codec \<Rightarrow> msg_claim \<Rightarrow> claim_error + unit" where
  "MsgClaim_ValidateBasic ac m =
     (case AccAddressFromBech32 ac (mc_Creator m) of
        None \<Rightarrow> Inl (ClaimSdk ErrInvalidAddress) | Some _ \<Rightarrow> Inr ())"

definition MsgDelayedClaim_ValidateBasic :: "addr_codec \<Rightarrow> msg_delayed_claim \<Rightarrow> claim_error + unit" where
  "MsgDelayedClaim_ValidateBasic ac m =
     (case AccAddressFromBech32 ac (md_Creator m) of
        None \<Rightarrow> Inl (ClaimSdk ErrInvalidAddress)
      | Some _ \<Rightarrow> if md_Tier m < 1 \<or> 5 < md_Tier m then Inl (ClaimSdk ErrInvalidRequest) else Inr ())"

definition claim_UpdateParams ::
    "'w claim_env \<Rightarrow> string \<Rightarrow> claim_params \<Rightarrow> 'w claim_state \<Rightarrow> claim_error + 'w claim_state" where
  "claim_UpdateParams env authority p s =
     (if ce_authority env \<noteq> authority then Inl ErrInvalidSigner else Inr (s\<lparr>cs_params := p\<rparr>))"

section \<open>Claiming (msg\_server\_claim.go, msg\_server\_delayed\_claim.go)\<close>

type_synonym 'w account_creator = "int \<Rightarrow> bytes \<Rightarrow> coins \<Rightarrow> int \<Rightarrow> 'w \<Rightarrow> claim_error + int \<times> 'w"

definition CreateBaseAccount :: "'w claim_env \<Rightarrow> 'w account_creator" where
  "CreateBaseAccount env blockTime destAddr balance tier w =
     (let ak = ce_accounts env in
      case GetAccount ak w destAddr of
        None \<Rightarrow> Inr (0, SetAccount ak (BaseAccount destAddr) (NewAccount ak destAddr w))
      | Some _ \<Rightarrow> Inr (0, w))"

definition CreateDelayedAccount :: "'w claim_env \<Rightarrow> 'w account_creator" where
  "CreateDelayedAccount env blockTime destAddr balance vestedTier w =
     (let ak = ce_accounts env in
      bindR (case GetAccount ak w destAddr of
               None \<Rightarrow> Inr (destAddr, NewAccount ak destAddr w)
             | Some (BaseAccount a) \<Rightarrow> Inr (a, w)
             | Some _ \<Rightarrow> Inl (ClaimSdk ErrInvalidRequest))
        (\<lambda>(baseAccount, w').
           let delayMonth = u32 (vestedTier * 6);
               endTime = add_months blockTime delayMonth
           in if \<not> VestingValid ak baseAccount balance endTime then Inl (ClaimSdk ErrInvalidRequest)
              else Inr (endTime, SetAccount ak (DelayedVestingAccount baseAccount balance endTime) w')))"

definition verificationMessage :: "msg_claim \<Rightarrow> string" where
  "verificationMessage m = mc_OldAddress m @ ''.'' @ mc_PubKey m @ ''.'' @ mc_NewAddress m"

definition processClaim ::
    "'w claim_env \<Rightarrow> int \<Rightarrow> msg_claim \<Rightarrow> 'w account_creator \<Rightarrow> int \<Rightarrow> 'w claim_state
       \<Rightarrow> claim_error + 'w claim_state" where
  "processClaim env blockTime msg createAccount vestedTier s =
     (let params = cs_params s in
      if \<not> cp_EnableClaims params then Inl ErrClaimDisabled
      else if time_After blockTime (time_of_Unix (cp_ClaimEndTime params) 0) then Inl ErrClaimPeriodExpired
      else if GetBlockClaimCount s \<ge> cp_MaxClaimsPerBlock params then Inl ErrTooManyClaims
      else case GetClaimRecord s (mc_OldAddress msg) of
        None \<Rightarrow> Inl ErrClaimNotFound
      | Some claimRecord \<Rightarrow>
          if cr_Claimed claimRecord then Inl ErrClaimAlreadyClaimed
          else case GetAddressFromPubKey (ce_crypto env) (mc_PubKey msg) of
            None \<Rightarrow> Inl ErrInvalidPubKey
          | Some reconstructedAddress \<Rightarrow>
              if reconstructedAddress \<noteq> mc_OldAddress msg then Inl ErrMismatchReconstructedAddr
              else if claim_VerifySignature (ce_crypto env) (mc_PubKey msg) (verificationMessage msg)
                        (mc_Signature msg) \<noteq> Some True then Inl ErrInvalidSignature
              else
                let s1 = IncrementBlockClaimCount s in
                case AccAddressFromBech32 (ce_codec env) (mc_NewAddress msg) of
                  None \<Rightarrow> Inl (ClaimSdk ErrInvalidAddress)
                | Some destAddr \<Rightarrow>
                    bindR (createAccount blockTime destAddr (cr_Balance claimRecord) vestedTier (cs_world s1))
                      (\<lambda>(endTime, w1).
                         case SendCoinsFromModuleToAccount (ce_bank env) ClaimModuleName destAddr
                                (cr_Balance claimRecord) w1 of
                           Inl e \<Rightarrow> Inl (ClaimSdk e)
                         | Inr w2 \<Rightarrow>
                             Inr (SetClaimRecord
                               (claimRecord\<lparr>cr_Claimed := True, cr_ClaimTime := time_Unix blockTime,
                                  cr_DestAddress := mc_NewAddress msg, cr_VestedTier := vestedTier\<rparr>)
                               (s1\<lparr>cs_world := w2\<rparr>))))"

definition claim_Claim :: "'w claim_env \<Rightarrow> int \<Rightarrow> msg_claim \<Rightarrow> 'w claim_state \<Rightarrow> claim_error + 'w claim_state" where
  "claim_Claim env blockTime msg s = processClaim env blockTime msg (CreateBaseAccount env) 0 s"

definition msg_claim_of :: "msg_delayed_claim \<Rightarrow> msg_claim" where
  "msg_claim_of m = \<lparr>mc_Creator = [], mc_OldAddress = md_OldAddress m, mc_NewAddress = md_NewAddress m,
     mc_PubKey = md_PubKey m, mc_Signature = md_Signature m\<rparr>"

definition DelayedClaim :: "'w claim_env \<Rightarrow> int \<Rightarrow> msg_delayed_claim \<Rightarrow> 'w claim_state \<Rightarrow> claim_error + 'w claim_state" where
  "DelayedClaim env blockTime msg s =
     processClaim env blockTime (msg_claim_of msg) (CreateDelayedAccount env) (md_Tier msg) s"

section \<open>End of the claim period (abci.go)\<close>

definition claim_EndBlocker :: "'w claim_env \<Rightarrow> int \<Rightarrow> 'w claim_state \<Rightarrow> claim_error + 'w claim_state" where
  "claim_EndBlocker env blockTime s =
     (let params = cs_params s in
      if \<not> cp_EnableClaims params then Inr s
      else if \<not> time_After blockTime (time_of_Unix (cp_ClaimEndTime params) 1) then Inr s
      else
        let w0 = snd (GetModuleAccount (ce_accounts env) ClaimModuleName (cs_world s));
            moduleAddr = ModuleAddr (ce_bank env) ClaimModuleName;
            balance = GetBalance (ce_bank env) w0 moduleAddr DefaultClaimsDenom
        in bindR (if balance \<noteq> 0
                  then case BurnCoins (ce_bank env) ClaimModuleName (NewCoins1 DefaultClaimsDenom balance) w0 of
                         Inl e \<Rightarrow> Inl (ClaimSdk e) | Inr w \<Rightarrow> Inr w
                  else Inr w0)
             (\<lambda>w. Inr (s\<lparr>cs_world := w, cs_params := params\<lparr>cp_EnableClaims := False\<rparr>\<rparr>)))"

section \<open>Genesis (module/genesis.go)\<close>

text \<open>
  The rows of the CSV file, \<open>math.NewIntFromString\<close> and \<open>sdk.ValidateDenom\<close> are arguments. A row with
  fewer than two fields or an unreadable balance, a coin \<open>sdk.NewCoin\<close> refuses, a failed check or a
  failed mint panics.
\<close>

fun loadClaimRecordsFromCSV ::
    "(string \<Rightarrow> bool) \<Rightarrow> (string \<Rightarrow> int option) \<Rightarrow> string \<Rightarrow> string list list \<Rightarrow> claim_error + claim_record list" where
  "loadClaimRecordsFromCSV validDenom newInt denom [] = Inr []"
| "loadClaimRecordsFromCSV validDenom newInt denom (row # rows) =
     (case row of
        addr # bal # _ \<Rightarrow>
          (case newInt bal of
             None \<Rightarrow> Inl ClaimPanic
           | Some balance \<Rightarrow>
               if \<not> validDenom denom \<or> balance < 0 then Inl ClaimPanic
               else bindR (loadClaimRecordsFromCSV validDenom newInt denom rows)
                 (\<lambda>rs. Inr (\<lparr>cr_OldAddress = addr, cr_Balance = NewCoins1 denom balance, cr_Claimed = False,
                     cr_ClaimTime = 0, cr_DestAddress = [], cr_VestedTier = 0\<rparr> # rs)))
      | _ \<Rightarrow> Inl ClaimPanic)"

record claim_genesis =
  cg_Params :: claim_params
  cg_TotalClaimableAmount :: int
  cg_ClaimsDenom :: string

definition claim_initModuleAccount :: "'w claim_env \<Rightarrow> 'w \<Rightarrow> 'w" where
  "claim_initModuleAccount env w =
     (let (found, w') = GetModuleAccount (ce_accounts env) ClaimModuleName w
      in if found then w' else SetModuleAccount (ce_accounts env) ClaimModuleName w')"

definition claim_InitGenesis ::
    "'w claim_env \<Rightarrow> (string \<Rightarrow> bool) \<Rightarrow> (string \<Rightarrow> int option) \<Rightarrow> bool \<Rightarrow> string list list option \<Rightarrow> claim_genesis
       \<Rightarrow> 'w claim_state \<Rightarrow> claim_error + 'w claim_state" where
  "claim_InitGenesis env validDenom newInt skipClaimsCheck csv gs s =
     (if \<not> is_ok (claim_Params_Validate (cg_Params gs)) then Inl ClaimPanic
      else
        let s0 = s\<lparr>cs_params := cg_Params gs, cs_world := claim_initModuleAccount env (cs_world s)\<rparr> in
        if skipClaimsCheck then Inr s0
        else if \<not> 0 < cg_TotalClaimableAmount gs then Inr s0
        else case csv of
          None \<Rightarrow> Inl ClaimPanic
        | Some rows \<Rightarrow>
            bindR (loadClaimRecordsFromCSV validDenom newInt (cg_ClaimsDenom gs) rows)
              (\<lambda>records.
                 let s1 = fold SetClaimRecord records s0;
                     totalCoins = (\<Sum>r\<leftarrow>records. AmountOf (cr_Balance r) (cg_ClaimsDenom gs))
                 in if 0 < totalCoins
                    then if totalCoins \<ge> 2 ^ 64 then Inl ClaimPanic
                         else if totalCoins \<noteq> cg_TotalClaimableAmount gs then Inl ClaimPanic
                         else case MintCoins (ce_bank env) ClaimModuleName
                                     (NewCoins1 (cg_ClaimsDenom gs) totalCoins) (cs_world s1) of
                                Inl e \<Rightarrow> Inl ClaimPanic
                              | Inr w \<Rightarrow> Inr (s1\<lparr>cs_world := w\<rparr>)
                    else Inr s1))"

section \<open>Histories\<close>

text \<open>
  A history of the module is a list of operations. A message or an end-block handler that fails
  leaves the state as it was; a new block clears the transient store with the claim counter.
\<close>

datatype claim_op =
    OpClaim int msg_claim
  | OpDelayedClaim int msg_delayed_claim
  | OpEndBlock int
  | OpNewBlock
  | OpUpdateParams string claim_params

fun claim_exec :: "'w claim_env \<Rightarrow> claim_op \<Rightarrow> 'w claim_state \<Rightarrow> claim_error + 'w claim_state" where
  "claim_exec env (OpClaim t m) s = claim_Claim env t m s"
| "claim_exec env (OpDelayedClaim t m) s = DelayedClaim env t m s"
| "claim_exec env (OpEndBlock t) s = claim_EndBlocker env t s"
| "claim_exec env OpNewBlock s = Inr (s\<lparr>cs_block_claims := 0\<rparr>)"
| "claim_exec env (OpUpdateParams a p) s = claim_UpdateParams env a p s"

definition claim_step :: "'w claim_env \<Rightarrow> claim_op \<Rightarrow> 'w claim_state \<Rightarrow> 'w claim_state" where
  "claim_step env op s = (case claim_exec env op s of Inl _ \<Rightarrow> s | Inr s' \<Rightarrow> s')"

definition claim_run :: "'w claim_env \<Rightarrow> claim_op list \<Rightarrow> 'w claim_state \<Rightarrow> 'w claim_state" where
  "claim_run env ops s = fold (claim_step env) ops s"

definition claim_wf :: "'w claim_state \<Rightarrow> bool" where
  "claim_wf s \<longleftrightarrow> kv_sorted (cs_records s)
     \<and> (\<forall>a r. map_of (cs_records s) a = Some r \<longrightarrow> cr_OldAddress r = a \<and> coins_nonneg (cr_Balance r))
     \<and> cs_count s = u64 (int (length (cs_records s)))"

definition unclaimed_total :: "string \<Rightarrow> 'w claim_state \<Rightarrow> int" where
  "unclaimed_total d s = kv_sum (\<lambda>r. if cr_Claimed r then 0 else AmountOf (cr_Balance r) d) (cs_records s)"

fun is_claim :: "claim_op \<Rightarrow> bool" where
  "is_claim (OpClaim t m) = True"
| "is_claim (OpDelayedClaim t m) = True"
| "is_claim _ = False"

fun claim_msg :: "claim_op \<Rightarrow> msg_claim option" where
  "claim_msg (OpClaim t m) = Some m"
| "claim_msg (OpDelayedClaim t m) = Some (msg_claim_of m)"
| "claim_msg _ = None"

text \<open>The number of claims of a history that succeed.\<close>

fun claims_done :: "'w claim_env \<Rightarrow> claim_op list \<Rightarrow> 'w claim_state \<Rightarrow> nat" where
  "claims_done env [] s = 0"
| "claims_done env (op # ops) s =
     (if is_claim op \<and> is_ok (claim_exec env op s) then 1 else 0) + claims_done env ops (claim_step env op s)"

section \<open>What a successful claim did\<close>

definition claimed_record :: "int \<Rightarrow> msg_claim \<Rightarrow> int \<Rightarrow> claim_record \<Rightarrow> claim_record" where
  "claimed_record t m tier r = r\<lparr>cr_Claimed := True, cr_ClaimTime := time_Unix t,
     cr_DestAddress := mc_NewAddress m, cr_VestedTier := tier\<rparr>"

lemma claimed_record_sel [simp]:
  "cr_OldAddress (claimed_record t m tier r) = cr_OldAddress r"
  "cr_Balance (claimed_record t m tier r) = cr_Balance r"
  "cr_Claimed (claimed_record t m tier r)"
  "cr_DestAddress (claimed_record t m tier r) = mc_NewAddress m"
  by (simp_all add: claimed_record_def)

lemma processClaim_InrE:
  assumes "processClaim env t m ca tier s = Inr s'"
  obtains r dest et w1 w2 where
    "cp_EnableClaims (cs_params s)"
    "\<not> time_After t (time_of_Unix (cp_ClaimEndTime (cs_params s)) 0)"
    "cs_block_claims s < cp_MaxClaimsPerBlock (cs_params s)"
    "map_of (cs_records s) (mc_OldAddress m) = Some r" "\<not> cr_Claimed r"
    "GetAddressFromPubKey (ce_crypto env) (mc_PubKey m) = Some (mc_OldAddress m)"
    "claim_VerifySignature (ce_crypto env) (mc_PubKey m) (verificationMessage m) (mc_Signature m) = Some True"
    "AccAddressFromBech32 (ce_codec env) (mc_NewAddress m) = Some dest"
    "ca t dest (cr_Balance r) tier (cs_world s) = Inr (et, w1)"
    "SendCoinsFromModuleToAccount (ce_bank env) ClaimModuleName dest (cr_Balance r) w1 = Inr w2"
    "s' = SetClaimRecord (claimed_record t m tier r)
            (s\<lparr>cs_block_claims := u64 (cs_block_claims s + 1), cs_world := w2\<rparr>)"
  using assms
  by (auto simp: processClaim_def Let_def GetBlockClaimCount_def IncrementBlockClaimCount_def
      GetClaimRecord_def claimed_record_def split: if_splits option.splits sum.splits)

lemma SetClaimRecord_sel [simp]:
  "cs_params (SetClaimRecord r s) = cs_params s"
  "cs_block_claims (SetClaimRecord r s) = cs_block_claims s"
  "cs_world (SetClaimRecord r s) = cs_world s"
  "cs_records (SetClaimRecord r s) = kv_set (cr_OldAddress r) r (cs_records s)"
  by (simp_all add: SetClaimRecord_def incrementClaimRecordCount_def Let_def)

lemma u64_Suc: "u64 (u64 (int n) + 1) = u64 (int (Suc n))"
  by (simp add: u64_def mod_simps ac_simps)

lemma SetClaimRecord_wf:
  assumes "claim_wf s" "coins_nonneg (cr_Balance r)"
  shows "claim_wf (SetClaimRecord r s)"
  using assms
  by (auto simp: claim_wf_def SetClaimRecord_def incrementClaimRecordCount_def Let_def length_kv_set u64_Suc)

lemma claim_wf_world [simp]:
  "claim_wf (s\<lparr>cs_world := w\<rparr>) = claim_wf s"
  "claim_wf (s\<lparr>cs_params := p\<rparr>) = claim_wf s"
  "claim_wf (s\<lparr>cs_block_claims := n\<rparr>) = claim_wf s"
  by (simp_all add: claim_wf_def)

lemma processClaim_wf:
  assumes "processClaim env t m ca tier s = Inr s'" "claim_wf s"
  shows "claim_wf s'"
  using assms(1)
proof (rule processClaim_InrE)
  fix r dest et w1 w2
  assume r: "map_of (cs_records s) (mc_OldAddress m) = Some r"
    and s': "s' = SetClaimRecord (claimed_record t m tier r)
            (s\<lparr>cs_block_claims := u64 (cs_block_claims s + 1), cs_world := w2\<rparr>)"
  from r assms(2) have "coins_nonneg (cr_Balance r)" by (auto simp: claim_wf_def)
  then show ?thesis unfolding s' by (intro SetClaimRecord_wf) (use assms(2) in simp_all)
qed

text \<open>The world is all that the end-block handler and the parameter update change besides parameters.\<close>

lemma claim_EndBlocker_frame:
  assumes "claim_EndBlocker env t s = Inr s'"
  shows "cs_records s' = cs_records s" "cs_count s' = cs_count s" "cs_block_claims s' = cs_block_claims s"
  using assms by (auto simp: claim_EndBlocker_def Let_def split: if_splits sum.splits)

lemma claim_UpdateParams_frame:
  assumes "claim_UpdateParams env a p s = Inr s'"
  shows "cs_records s' = cs_records s" "cs_count s' = cs_count s" "cs_block_claims s' = cs_block_claims s"
    "cs_world s' = cs_world s"
  using assms by (auto simp: claim_UpdateParams_def split: if_splits)

lemma claim_exec_wf: "claim_exec env op s = Inr s' \<Longrightarrow> claim_wf s \<Longrightarrow> claim_wf s'"
proof (cases op)
  case (OpEndBlock t)
  assume "claim_exec env op s = Inr s'" "claim_wf s"
  then show ?thesis using OpEndBlock claim_EndBlocker_frame [of env t s s'] by (simp add: claim_wf_def)
next
  case (OpUpdateParams a p)
  assume "claim_exec env op s = Inr s'" "claim_wf s"
  then show ?thesis using OpUpdateParams claim_UpdateParams_frame [of env a p s s'] by (simp add: claim_wf_def)
qed (auto simp: claim_Claim_def DelayedClaim_def intro: processClaim_wf)

lemma claim_step_wf: "claim_wf s \<Longrightarrow> claim_wf (claim_step env op s)"
  by (auto simp: claim_step_def split: sum.splits dest: claim_exec_wf)

lemma claim_run_wf: "claim_wf s \<Longrightarrow> claim_wf (claim_run env ops s)"
  by (induction ops arbitrary: s) (auto simp: claim_run_def claim_step_wf)

section \<open>A record is paid once\<close>

lemma processClaim_keeps_claimed:
  assumes "processClaim env t m ca tier s = Inr s'" "claim_wf s"
    and "map_of (cs_records s) a = Some r" "cr_Claimed r"
  shows "map_of (cs_records s') a = Some r"
  using assms(1)
proof (rule processClaim_InrE)
  fix r' dest et w1 w2
  assume r': "map_of (cs_records s) (mc_OldAddress m) = Some r'" "\<not> cr_Claimed r'"
    and s': "s' = SetClaimRecord (claimed_record t m tier r')
            (s\<lparr>cs_block_claims := u64 (cs_block_claims s + 1), cs_world := w2\<rparr>)"
  from r' assms(2) have "cr_OldAddress r' = mc_OldAddress m" by (simp add: claim_wf_def)
  with r' assms(3,4) show ?thesis by (auto simp: s')
qed

lemma claim_step_keeps_claimed:
  assumes "claim_wf s" "map_of (cs_records s) a = Some r" "cr_Claimed r"
  shows "map_of (cs_records (claim_step env op s)) a = Some r"
proof (cases "claim_exec env op s")
  case (Inr s')
  then show ?thesis
    using assms
    by (cases op) (auto simp: claim_step_def claim_Claim_def DelayedClaim_def claim_EndBlocker_frame
        claim_UpdateParams_frame intro: processClaim_keeps_claimed)
qed (use assms in \<open>simp add: claim_step_def\<close>)

lemma claim_run_keeps_claimed:
  assumes "claim_wf s" "map_of (cs_records s) a = Some r" "cr_Claimed r"
  shows "map_of (cs_records (claim_run env ops s)) a = Some r"
  using assms
  by (induction ops arbitrary: s) (auto simp: claim_run_def claim_step_keeps_claimed claim_step_wf)

lemma processClaim_claimed_fails:
  assumes "map_of (cs_records s) (mc_OldAddress m) = Some r" "cr_Claimed r"
  shows "\<not> is_ok (processClaim env t m ca tier s)"
  using assms by (auto simp: is_ok_iff elim!: processClaim_InrE)

section \<open>Balances\<close>

lemma CreateBaseAccount_bal:
  assumes "account_laws (ce_accounts env) bal" "CreateBaseAccount env t a cs tier w = Inr (et, w')"
  shows "bal w' = bal w"
  using assms by (auto simp: CreateBaseAccount_def account_laws_def Let_def split: option.splits)

lemma CreateDelayedAccount_bal:
  assumes "account_laws (ce_accounts env) bal" "CreateDelayedAccount env t a cs tier w = Inr (et, w')"
  shows "bal w' = bal w"
  using assms
  by (auto simp: CreateDelayedAccount_def account_laws_def Let_def split: option.splits account.splits if_splits)

definition creator_keeps_bal :: "('w \<Rightarrow> bytes \<Rightarrow> string \<Rightarrow> int) \<Rightarrow> 'w account_creator \<Rightarrow> bool" where
  "creator_keeps_bal bal ca \<longleftrightarrow> (\<forall>t a cs tier w et w'. ca t a cs tier w = Inr (et, w') \<longrightarrow> bal w' = bal w)"

lemma creators_keep_bal:
  assumes "account_laws (ce_accounts env) bal"
  shows "creator_keeps_bal bal (CreateBaseAccount env)" "creator_keeps_bal bal (CreateDelayedAccount env)"
  using assms by (auto simp: creator_keeps_bal_def dest: CreateBaseAccount_bal CreateDelayedAccount_bal)

lemma processClaim_bal:
  assumes "processClaim env t m ca tier s = Inr s'" "claim_wf s"
    and "bank_laws (ce_bank env) bal" "creator_keeps_bal bal ca"
  obtains r dest where
    "map_of (cs_records s) (mc_OldAddress m) = Some r" "\<not> cr_Claimed r"
    "AccAddressFromBech32 (ce_codec env) (mc_NewAddress m) = Some dest"
    "cs_records s' = kv_set (mc_OldAddress m) (claimed_record t m tier r) (cs_records s)"
    "bal (cs_world s') = moved (ModuleAddr (ce_bank env) ClaimModuleName) dest (cr_Balance r) (bal (cs_world s))"
  using assms(1)
proof (rule processClaim_InrE)
  fix r dest et w1 w2
  assume r: "map_of (cs_records s) (mc_OldAddress m) = Some r" "\<not> cr_Claimed r"
    and d: "AccAddressFromBech32 (ce_codec env) (mc_NewAddress m) = Some dest"
    and ca: "ca t dest (cr_Balance r) tier (cs_world s) = Inr (et, w1)"
    and send: "SendCoinsFromModuleToAccount (ce_bank env) ClaimModuleName dest (cr_Balance r) w1 = Inr w2"
    and s': "s' = SetClaimRecord (claimed_record t m tier r)
            (s\<lparr>cs_block_claims := u64 (cs_block_claims s + 1), cs_world := w2\<rparr>)"
  from r(1) assms(2) have "cr_OldAddress r = mc_OldAddress m" by (simp add: claim_wf_def)
  moreover have "bal w1 = bal (cs_world s)" using assms(4) ca by (auto simp: creator_keeps_bal_def)
  moreover note bank_lawsD(1) [OF assms(3) send]
  ultimately show thesis using that r d by (simp add: s')
qed

lemma unclaimed_total_upd [simp]:
  "unclaimed_total d (s\<lparr>cs_block_claims := n\<rparr>) = unclaimed_total d s"
  "unclaimed_total d (s\<lparr>cs_params := p\<rparr>) = unclaimed_total d s"
  "unclaimed_total d (s\<lparr>cs_world := w\<rparr>) = unclaimed_total d s"
  by (simp_all add: unclaimed_total_def)

lemma unclaimed_total_claim:
  assumes "kv_sorted (cs_records s)" "map_of (cs_records s) a = Some r" "\<not> cr_Claimed r"
    and "cs_records s' = kv_set a (claimed_record t m tier r) (cs_records s)"
  shows "unclaimed_total d s' = unclaimed_total d s - AmountOf (cr_Balance r) d"
  using assms by (simp add: unclaimed_total_def kv_sum_set)

lemma processClaim_solvent:
  assumes "processClaim env t m ca tier s = Inr s'" "claim_wf s"
    and "bank_laws (ce_bank env) bal" "creator_keeps_bal bal ca"
    and "unclaimed_total d s \<le> bal (cs_world s) (ModuleAddr (ce_bank env) ClaimModuleName) d"
  shows "unclaimed_total d s' \<le> bal (cs_world s') (ModuleAddr (ce_bank env) ClaimModuleName) d"
  using assms(1-4)
proof (rule processClaim_bal)
  fix r dest
  assume r: "map_of (cs_records s) (mc_OldAddress m) = Some r" "\<not> cr_Claimed r"
    and recs: "cs_records s' = kv_set (mc_OldAddress m) (claimed_record t m tier r) (cs_records s)"
    and b: "bal (cs_world s') = moved (ModuleAddr (ce_bank env) ClaimModuleName) dest (cr_Balance r) (bal (cs_world s))"
  have sorted: "kv_sorted (cs_records s)" and "0 \<le> AmountOf (cr_Balance r) d"
    using assms(2) r(1) by (auto simp: claim_wf_def AmountOf_nonneg)
  then show ?thesis
    using unclaimed_total_claim [OF sorted r recs, of d] assms(5) by (auto simp: b moved_def)
qed

text \<open>
  The block that ends the claim period: claims are enabled and the block time, in nanoseconds, is more
  than one nanosecond past the end time. \<open>before_burn\<close> says of a history that no end-block handler in it
  runs in such a block; end-block handlers of all other blocks are part of the history.
\<close>

fun burns :: "claim_op \<Rightarrow> claim_params \<Rightarrow> bool" where
  "burns (OpEndBlock t) p \<longleftrightarrow> cp_EnableClaims p \<and> cp_ClaimEndTime p * 10 ^ 9 + 1 < t"
| "burns _ p \<longleftrightarrow> False"

fun before_burn :: "'w claim_env \<Rightarrow> claim_op list \<Rightarrow> 'w claim_state \<Rightarrow> bool" where
  "before_burn env [] s \<longleftrightarrow> True"
| "before_burn env (op # ops) s \<longleftrightarrow> \<not> burns op (cs_params s) \<and> before_burn env ops (claim_step env op s)"

lemma end_block_idle:
  "\<not> burns (OpEndBlock t) (cs_params s) \<Longrightarrow> claim_EndBlocker env t s = Inr s"
  by (auto simp: claim_EndBlocker_def time_After_def time_of_Unix_def Let_def)

lemma claim_step_solvent:
  assumes "claim_wf s" "bank_laws (ce_bank env) bal" "account_laws (ce_accounts env) bal" "\<not> burns op (cs_params s)"
    and "unclaimed_total d s \<le> bal (cs_world s) (ModuleAddr (ce_bank env) ClaimModuleName) d"
  shows "unclaimed_total d (claim_step env op s)
           \<le> bal (cs_world (claim_step env op s)) (ModuleAddr (ce_bank env) ClaimModuleName) d"
proof (cases "claim_exec env op s")
  case (Inr s')
  note solvent = processClaim_solvent [OF _ assms(1,2) _ assms(5)]
  show ?thesis
    using Inr assms(4,5) creators_keep_bal [OF assms(3)]
    by (cases op) (auto simp: claim_step_def claim_Claim_def DelayedClaim_def claim_UpdateParams_def end_block_idle
        simp del: burns.simps(1) intro: solvent split: if_splits)
qed (use assms in \<open>simp add: claim_step_def\<close>)

lemma claim_run_solvent:
  assumes "claim_wf s" "bank_laws (ce_bank env) bal" "account_laws (ce_accounts env) bal"
    and "before_burn env ops s"
    and "unclaimed_total d s \<le> bal (cs_world s) (ModuleAddr (ce_bank env) ClaimModuleName) d"
  shows "unclaimed_total d (claim_run env ops s)
           \<le> bal (cs_world (claim_run env ops s)) (ModuleAddr (ce_bank env) ClaimModuleName) d"
  using assms(1,4,5)
proof (induction ops arbitrary: s)
  case Nil
  then show ?case by (simp add: claim_run_def)
next
  case (Cons op ops)
  have "claim_wf (claim_step env op s)" using Cons.prems(1) by (rule claim_step_wf)
  moreover have "unclaimed_total d (claim_step env op s)
      \<le> bal (cs_world (claim_step env op s)) (ModuleAddr (ce_bank env) ClaimModuleName) d"
    using Cons.prems by (intro claim_step_solvent assms(2,3)) simp_all
  ultimately have "unclaimed_total d (claim_run env ops (claim_step env op s))
      \<le> bal (cs_world (claim_run env ops (claim_step env op s))) (ModuleAddr (ce_bank env) ClaimModuleName) d"
    using Cons.prems(2) by (intro Cons.IH) simp_all
  then show ?case by (simp add: claim_run_def)
qed

section \<open>The limit per block\<close>

fun same_block :: "claim_op \<Rightarrow> bool" where
  "same_block OpNewBlock = False"
| "same_block (OpUpdateParams a p) = False"
| "same_block _ = True"

lemma processClaim_count:
  assumes "processClaim env t m ca tier s = Inr s'" "cp_MaxClaimsPerBlock (cs_params s) < 2 ^ 64"
    and "0 \<le> cs_block_claims s"
  shows "cs_block_claims s' = cs_block_claims s + 1" "cs_params s' = cs_params s"
    "cs_block_claims s < cp_MaxClaimsPerBlock (cs_params s)"
  using assms by (auto elim!: processClaim_InrE simp: wrap_simps)

lemma claim_EndBlocker_max:
  assumes "claim_EndBlocker env t s = Inr s'"
  shows "cp_MaxClaimsPerBlock (cs_params s') = cp_MaxClaimsPerBlock (cs_params s)"
  using assms by (auto simp: claim_EndBlocker_def Let_def split: if_splits sum.splits)

lemma claim_step_count:
  fixes env :: "'w claim_env"
  assumes "same_block op" "cp_MaxClaimsPerBlock (cs_params s) < 2 ^ 64" "0 \<le> cs_block_claims s"
  defines "s' \<equiv> claim_step env op s"
  shows "cp_MaxClaimsPerBlock (cs_params s') = cp_MaxClaimsPerBlock (cs_params s)"
    "cs_block_claims s' = cs_block_claims s + (if is_claim op \<and> is_ok (claim_exec env op s) then 1 else 0)"
    "is_claim op \<and> is_ok (claim_exec env op s) \<Longrightarrow> cs_block_claims s < cp_MaxClaimsPerBlock (cs_params s)"
  using assms
  by (cases op; auto simp: claim_step_def claim_Claim_def DelayedClaim_def is_ok_iff processClaim_count
      claim_EndBlocker_frame claim_EndBlocker_max split: sum.splits)+

lemma claims_done_bound:
  assumes "\<And>op. op \<in> set ops \<Longrightarrow> same_block op"
    and "cp_MaxClaimsPerBlock (cs_params s) < 2 ^ 64" "0 \<le> cs_block_claims s"
    and "cs_block_claims s \<le> cp_MaxClaimsPerBlock (cs_params s)"
  shows "cs_block_claims s + int (claims_done env ops s) \<le> cp_MaxClaimsPerBlock (cs_params s)"
  using assms
proof (induction ops arbitrary: s)
  case Nil
  then show ?case by simp
next
  case (Cons op ops)
  let ?s = "claim_step env op s"
  have "same_block op" using Cons.prems(1) by simp
  note step = claim_step_count [OF this Cons.prems(2,3), of env]
  then have "cs_block_claims ?s + int (claims_done env ops ?s) \<le> cp_MaxClaimsPerBlock (cs_params ?s)"
    using Cons.prems by (intro Cons.IH) (auto split: if_splits)
  with step show ?case by (auto split: if_splits)
qed

section \<open>Genesis and the end of the claim period\<close>

lemma loadClaimRecordsFromCSV_nonneg:
  "loadClaimRecordsFromCSV v f d rows = Inr rs \<Longrightarrow> \<forall>r \<in> set rs. coins_nonneg (cr_Balance r) \<and> \<not> cr_Claimed r"
  by (induction rows arbitrary: rs)
    (auto split: list.splits option.splits if_splits)

lemma fold_SetClaimRecord_world [simp]: "cs_world (fold SetClaimRecord rs s) = cs_world s"
  by (induction rs arbitrary: s) auto

lemma fold_SetClaimRecord:
  assumes "claim_wf s" "\<And>r. r \<in> set rs \<Longrightarrow> coins_nonneg (cr_Balance r) \<and> \<not> cr_Claimed r"
  shows "claim_wf (fold SetClaimRecord rs s) \<and>
    unclaimed_total d (fold SetClaimRecord rs s) \<le> unclaimed_total d s + (\<Sum>r\<leftarrow>rs. AmountOf (cr_Balance r) d)"
  using assms
proof (induction rs arbitrary: s)
  case Nil
  then show ?case by simp
next
  case (Cons r rs)
  have wf: "claim_wf (SetClaimRecord r s)" using Cons.prems by (intro SetClaimRecord_wf) simp_all
  have "0 \<le> (case map_of (cs_records s) (cr_OldAddress r) of None \<Rightarrow> 0
      | Some u \<Rightarrow> if cr_Claimed u then 0 else AmountOf (cr_Balance u) d)"
    using Cons.prems(1) by (auto simp: claim_wf_def AmountOf_nonneg split: option.splits)
  then have "unclaimed_total d (SetClaimRecord r s) \<le> unclaimed_total d s + AmountOf (cr_Balance r) d"
    using Cons.prems by (auto simp: unclaimed_total_def kv_sum_set claim_wf_def split: option.splits)
  moreover have "claim_wf (fold SetClaimRecord rs (SetClaimRecord r s)) \<and>
      unclaimed_total d (fold SetClaimRecord rs (SetClaimRecord r s))
        \<le> unclaimed_total d (SetClaimRecord r s) + (\<Sum>r\<leftarrow>rs. AmountOf (cr_Balance r) d)"
    using Cons.prems by (intro Cons.IH wf) simp_all
  ultimately show ?case by simp
qed

lemma claim_initModuleAccount_bal:
  "account_laws (ce_accounts env) bal \<Longrightarrow> bal (claim_initModuleAccount env w) = bal w"
  by (auto simp: claim_initModuleAccount_def account_laws_def split: prod.splits) (metis snd_conv)+

lemma disabled_claims_fail:
  assumes "\<not> cp_EnableClaims (cs_params s)" "is_claim op"
  shows "claim_exec env op s = Inl ErrClaimDisabled"
  using assms by (cases op) (simp_all add: claim_Claim_def DelayedClaim_def processClaim_def Let_def)

fun no_params :: "claim_op \<Rightarrow> bool" where
  "no_params (OpUpdateParams a p) = False"
| "no_params _ = True"

lemma disabled_step:
  assumes "\<not> cp_EnableClaims (cs_params s)" "no_params op"
  shows "\<not> cp_EnableClaims (cs_params (claim_step env op s))"
  using assms disabled_claims_fail [OF assms(1), of op env]
  by (cases op) (auto simp: claim_step_def claim_EndBlocker_def Let_def)

lemma disabled_run:
  assumes "\<not> cp_EnableClaims (cs_params s)" "\<And>op. op \<in> set ops \<Longrightarrow> no_params op"
  shows "\<not> cp_EnableClaims (cs_params (claim_run env ops s))"
  using assms by (induction ops arbitrary: s) (auto simp: claim_run_def disabled_step)

section \<open>A small chain for the examples\<close>

definition ex_pub :: string where
  "ex_pub = ''02'' @ replicate 64 CHR ''0''"

definition ex_crypto :: crypto_lib where
  "ex_crypto = \<lparr>sha256 = (\<lambda>b. [1, 2, 3, 4, 5]), ripemd160 = (\<lambda>b. [7]), base58 = (\<lambda>b. ''old''),
     secp256k1_verify = (\<lambda>pk h sg. sg = replicate 64 0), secp256k1_sign = (\<lambda>sk h. Some (replicate 64 0))\<rparr>"

definition ex_env :: "ledger claim_env" where
  "ex_env = \<lparr>ce_authority = ''gov'', ce_codec = plain_codec, ce_crypto = ex_crypto,
     ce_accounts = ledger_accounts, ce_bank = ledger_bank\<rparr>"

definition ex_record :: claim_record where
  "ex_record = \<lparr>cr_OldAddress = ''old'', cr_Balance = [(''ulume'', 5)], cr_Claimed = False,
     cr_ClaimTime = 0, cr_DestAddress = [], cr_VestedTier = 0\<rparr>"

definition ex_state :: "ledger claim_state" where
  "ex_state = \<lparr>cs_params = \<lparr>cp_EnableClaims = True, cp_ClaimEndTime = 10, cp_MaxClaimsPerBlock = 1\<rparr>,
     cs_records = [(''old'', ex_record)], cs_count = 1, cs_block_claims = 0,
     cs_world = \<lparr>lg_bal = [((module_address ''claim'', ''ulume''), 5)], lg_acc = []\<rparr>\<rparr>"

definition ex_msg :: msg_claim where
  "ex_msg = \<lparr>mc_Creator = ''c'', mc_OldAddress = ''old'', mc_NewAddress = ''new'', mc_PubKey = ex_pub,
     mc_Signature = ''1b'' @ replicate 128 CHR ''0''\<rparr>"

definition ex_delayed :: msg_delayed_claim where
  "ex_delayed = \<lparr>md_Creator = ''c'', md_OldAddress = ''old'', md_NewAddress = ''new'', md_PubKey = ex_pub,
     md_Signature = ''1b'' @ replicate 128 CHR ''0'', md_Tier = 1\<rparr>"

lemma ex_hex: "hex_decode ex_pub = Some (2 # replicate 32 0)"
  "hex_decode (''1b'' @ replicate 128 CHR ''0'') = Some (27 # replicate 64 0)"
  by code_simp+

lemma ex_claim_ok: "is_ok (claim_exec ex_env (OpClaim 0 ex_msg) ex_state)"
  by code_simp

lemma ex_delayed_ok: "is_ok (claim_exec ex_env (OpDelayedClaim 0 ex_delayed) ex_state)"
  by code_simp

lemma ex_state_wf: "claim_wf ex_state"
  by (auto simp: claim_wf_def ex_state_def ex_record_def kv_sorted_def coins_nonneg_def u64_def)

section \<open>Properties\<close>

text \<open>C2: A claim (immediate or delayed) that succeeds was made for an unclaimed record, under a public
  key that hashes to the record's address and a signature over the destination; it marks exactly
  that record as claimed and moves exactly its balance from the module account to the destination.\<close>

theorem claim_pays_record:
  assumes "claim_exec env op s = Inr s'" "claim_msg op = Some m" "claim_wf s"
    and "bank_laws (ce_bank env) bal" "account_laws (ce_accounts env) bal"
  shows "\<exists>r dest tm tier.
      map_of (cs_records s) (mc_OldAddress m) = Some r \<and> \<not> cr_Claimed r
    \<and> GetAddressFromPubKey (ce_crypto env) (mc_PubKey m) = Some (mc_OldAddress m)
    \<and> claim_VerifySignature (ce_crypto env) (mc_PubKey m) (verificationMessage m) (mc_Signature m) = Some True
    \<and> AccAddressFromBech32 (ce_codec env) (mc_NewAddress m) = Some dest
    \<and> map_of (cs_records s') = (map_of (cs_records s))(mc_OldAddress m \<mapsto> claimed_record tm m tier r)
    \<and> bal (cs_world s') = moved (ModuleAddr (ce_bank env) ClaimModuleName) dest (cr_Balance r) (bal (cs_world s))"
proof -
  obtain tm ca tier where p: "processClaim env tm m ca tier s = Inr s'" and ca: "creator_keeps_bal bal ca"
    using assms(1,2) creators_keep_bal [OF assms(5)]
    by (cases op) (auto simp: claim_Claim_def DelayedClaim_def)
  obtain r dest where r: "map_of (cs_records s) (mc_OldAddress m) = Some r" "\<not> cr_Claimed r"
    and "AccAddressFromBech32 (ce_codec env) (mc_NewAddress m) = Some dest"
    and "cs_records s' = kv_set (mc_OldAddress m) (claimed_record tm m tier r) (cs_records s)"
    and "bal (cs_world s') = moved (ModuleAddr (ce_bank env) ClaimModuleName) dest (cr_Balance r) (bal (cs_world s))"
    by (rule processClaim_bal [OF p assms(3,4) ca])
  moreover have "GetAddressFromPubKey (ce_crypto env) (mc_PubKey m) = Some (mc_OldAddress m)"
    and "claim_VerifySignature (ce_crypto env) (mc_PubKey m) (verificationMessage m) (mc_Signature m) = Some True"
    using p by (auto elim!: processClaim_InrE)
  ultimately show ?thesis by (intro exI [of _ r] exI [of _ dest] exI [of _ tm] exI [of _ tier]) simp
qed

theorem claim_pays_record_witness:
  "\<exists>s'. claim_exec ex_env (OpClaim 0 ex_msg) ex_state = Inr s' \<and>
     (\<exists>r dest tm tier. map_of (cs_records ex_state) ''old'' = Some r \<and>
        lg_balance (cs_world s') =
          moved (ModuleAddr ledger_bank ClaimModuleName) dest (cr_Balance r) (lg_balance (cs_world ex_state)))"
proof -
  obtain s' where s': "claim_exec ex_env (OpClaim 0 ex_msg) ex_state = Inr s'"
    using ex_claim_ok by (auto simp: is_ok_iff)
  have b: "bank_laws (ce_bank ex_env) lg_balance" "account_laws (ce_accounts ex_env) lg_balance"
    by (simp_all add: ex_env_def ledger_bank_laws ledger_account_laws)
  show ?thesis
    using claim_pays_record [OF s' _ ex_state_wf b, of ex_msg] s' by (fastforce simp: ex_msg_def ex_env_def)
qed

text \<open>C8: After a claim for an old address has succeeded, no claim for that address succeeds again,
  whatever operations (claims, blocks, parameter changes) happen in between.\<close>

theorem claim_never_twice:
  assumes "claim_wf s" "claim_exec env op s = Inr s1" "claim_msg op = Some m"
    and "claim_msg op' = Some m'" "mc_OldAddress m' = mc_OldAddress m"
  shows "\<not> is_ok (claim_exec env op' (claim_run env ops s1))"
proof -
  obtain tm ca tier where p: "processClaim env tm m ca tier s = Inr s1"
    using assms(2,3) by (cases op) (auto simp: claim_Claim_def DelayedClaim_def)
  then obtain r where "map_of (cs_records s1) (mc_OldAddress m) = Some r" "cr_Claimed r"
    using assms(1) by (auto elim!: processClaim_InrE simp: claim_wf_def)
  then have "map_of (cs_records (claim_run env ops s1)) (mc_OldAddress m') = Some r" "cr_Claimed r"
    using claim_run_keeps_claimed [OF processClaim_wf [OF p assms(1)]] assms(5) by simp_all
  then show ?thesis
    using assms(4) by (cases op') (auto simp: claim_Claim_def DelayedClaim_def processClaim_claimed_fails)
qed

theorem claim_never_twice_witness:
  "\<exists>s1. claim_exec ex_env (OpClaim 0 ex_msg) ex_state = Inr s1 \<and>
     \<not> is_ok (claim_exec ex_env (OpDelayedClaim 0 ex_delayed) (claim_run ex_env [OpNewBlock] s1))"
proof -
  obtain s1 where s1: "claim_exec ex_env (OpClaim 0 ex_msg) ex_state = Inr s1"
    using ex_claim_ok by (auto simp: is_ok_iff)
  show ?thesis
    using claim_never_twice [OF ex_state_wf s1, of ex_msg "OpDelayedClaim 0 ex_delayed" "msg_claim_of ex_delayed"]
      s1 by (simp add: ex_msg_def msg_claim_of_def ex_delayed_def)
qed

text \<open>C5: The module account covers every balance that is still unclaimed, in every denomination, if it did
  at the start: over any history of claims, delayed claims, parameter updates, new blocks and end-block
  handlers that contains no end block after the claim period. Only that block burns the remainder.\<close>

theorem claim_solvent:
  assumes "claim_wf s" "bank_laws (ce_bank env) bal" "account_laws (ce_accounts env) bal"
    and "before_burn env ops s"
    and "unclaimed_total d s \<le> bal (cs_world s) (ModuleAddr (ce_bank env) ClaimModuleName) d"
  shows "unclaimed_total d (claim_run env ops s)
           \<le> bal (cs_world (claim_run env ops s)) (ModuleAddr (ce_bank env) ClaimModuleName) d"
  by (rule claim_run_solvent [OF assms])

theorem claim_solvent_witness:
  "unclaimed_total ''ulume'' (claim_run ex_env [OpEndBlock 0, OpClaim 0 ex_msg] ex_state)
     \<le> lg_balance (cs_world (claim_run ex_env [OpEndBlock 0, OpClaim 0 ex_msg] ex_state)) (ModuleAddr ledger_bank ClaimModuleName) ''ulume''"
proof -
  have b: "bank_laws (ce_bank ex_env) lg_balance" "account_laws (ce_accounts ex_env) lg_balance"
    by (simp_all add: ex_env_def ledger_bank_laws ledger_account_laws)
  have "unclaimed_total ''ulume'' ex_state
      \<le> lg_balance (cs_world ex_state) (ModuleAddr (ce_bank ex_env) ClaimModuleName) ''ulume''"
    by code_simp
  moreover have "before_burn ex_env [OpEndBlock 0, OpClaim 0 ex_msg] ex_state" by code_simp
  ultimately show ?thesis using claim_solvent [OF ex_state_wf b] by (simp add: ex_env_def)
qed

text \<open>C13: Within one block at most MaxClaimsPerBlock claims succeed, over any sequence of operations that
  neither starts a new block nor changes the parameters.\<close>

theorem claim_block_limit:
  assumes "\<forall>op \<in> set ops. same_block op" "cs_block_claims s = 0"
    and "0 \<le> cp_MaxClaimsPerBlock (cs_params s)" "cp_MaxClaimsPerBlock (cs_params s) < 2 ^ 64"
  shows "int (claims_done env ops s) \<le> cp_MaxClaimsPerBlock (cs_params s)"
  using claims_done_bound [of ops s env] assms by simp

theorem claim_block_limit_witness:
  "int (claims_done ex_env [OpClaim 0 ex_msg, OpClaim 0 ex_msg] ex_state) \<le> 1"
  using claim_block_limit [of "[OpClaim 0 ex_msg, OpClaim 0 ex_msg]" ex_state ex_env]
  by (simp add: ex_state_def)

text \<open>C14: When the end-block handler runs after the claim period, the module account holds no ulume
  afterwards and claims are disabled: every later claim fails with ErrClaimDisabled until the
  parameters are changed.\<close>

theorem claim_period_end:
  assumes "claim_EndBlocker env t s = Inr s'" "cp_EnableClaims (cs_params s)"
    and "time_After t (time_of_Unix (cp_ClaimEndTime (cs_params s)) 1)"
    and "bank_laws (ce_bank env) bal" "account_laws (ce_accounts env) bal"
    and "\<forall>op \<in> set ops. no_params op" "is_claim op"
  shows "bal (cs_world s') (ModuleAddr (ce_bank env) ClaimModuleName) DefaultClaimsDenom = 0
    \<and> cs_records s' = cs_records s
    \<and> claim_exec env op (claim_run env ops s') = Inl ErrClaimDisabled"
proof -
  have off: "\<not> cp_EnableClaims (cs_params s')"
    using assms(1-3) by (auto simp: claim_EndBlocker_def Let_def split: if_splits sum.splits)
  have "bal (cs_world s') (ModuleAddr (ce_bank env) ClaimModuleName) DefaultClaimsDenom = 0"
    using assms(1-3) bank_lawsD(5,6) [OF assms(4)]
    by (auto simp: claim_EndBlocker_def Let_def split: if_splits sum.splits)
  with disabled_claims_fail [OF disabled_run [OF off]] assms(6,7) claim_EndBlocker_frame [OF assms(1)]
  show ?thesis by simp
qed

theorem claim_period_end_witness:
  "\<exists>s'. claim_EndBlocker ex_env (20 * 10 ^ 9) ex_state = Inr s' \<and>
     lg_balance (cs_world s') (ModuleAddr ledger_bank ClaimModuleName) DefaultClaimsDenom = 0 \<and>
     claim_exec ex_env (OpClaim 0 ex_msg) (claim_run ex_env [OpNewBlock] s') = Inl ErrClaimDisabled"
proof -
  have "is_ok (claim_EndBlocker ex_env (20 * 10 ^ 9) ex_state)" by code_simp
  then obtain s' where s': "claim_EndBlocker ex_env (20 * 10 ^ 9) ex_state = Inr s'" by (auto simp: is_ok_iff)
  have b: "bank_laws (ce_bank ex_env) lg_balance" "account_laws (ce_accounts ex_env) lg_balance"
    by (simp_all add: ex_env_def ledger_bank_laws ledger_account_laws)
  have "cp_EnableClaims (cs_params ex_state)"
    and "time_After (20 * 10 ^ 9) (time_of_Unix (cp_ClaimEndTime (cs_params ex_state)) 1)"
    by (simp_all add: ex_state_def time_After_def time_of_Unix_def)
  from claim_period_end [OF s' this b, of "[OpNewBlock]" "OpClaim 0 ex_msg"] s' show ?thesis
    by (simp add: ex_env_def)
qed

text \<open>C15: A delayed claim of tier 1 to 5 locks the balance in a vesting account whose end time lies at
  least 28 days per month, six months per tier, after the block time.\<close>

theorem delayed_account_end_time:
  assumes "CreateDelayedAccount env t dest balance tier w = Inr (endTime, w')"
    and "1 \<le> tier" "tier \<le> 5"
  shows "time_Unix t + 28 * (6 * tier) * 86400 \<le> endTime
    \<and> (\<exists>a w1. w' = SetAccount (ce_accounts env) (DelayedVestingAccount a balance endTime) w1)"
proof -
  have "u32 (tier * 6) = 6 * tier" using assms(2,3) by (simp add: u32_def)
  moreover have "endTime = add_months t (u32 (tier * 6))"
    and "\<exists>a w1. w' = SetAccount (ce_accounts env) (DelayedVestingAccount a balance endTime) w1"
    using assms(1) by (auto simp: CreateDelayedAccount_def Let_def split: if_splits) blast
  ultimately show ?thesis using add_months_forward [of "6 * tier" t] assms(2) by simp
qed

theorem delayed_account_end_time_witness:
  "\<exists>e w'. CreateDelayedAccount ex_env 0 [1] [] 2 (cs_world ex_state) = Inr (e, w') \<and> 28 * 12 * 86400 \<le> e"
proof -
  have "is_ok (CreateDelayedAccount ex_env 0 [1] [] 2 (cs_world ex_state))" by code_simp
  then obtain e w' where e: "CreateDelayedAccount ex_env 0 [1] [] 2 (cs_world ex_state) = Inr (e, w')"
    by (auto simp: is_ok_iff)
  from delayed_account_end_time [OF this] e show ?thesis by (simp add: time_Unix_def)
qed

text \<open>C16: A genesis that initialises the module from an empty store leaves a well-formed state whose
  module account covers all claim records.\<close>

theorem claim_genesis_solvent:
  assumes "claim_InitGenesis env validDenom newInt skip csv gs s = Inr s'" "cs_records s = []" "cs_count s = 0"
    and "bank_laws (ce_bank env) bal" "account_laws (ce_accounts env) bal"
    and "0 \<le> bal (cs_world s) (ModuleAddr (ce_bank env) ClaimModuleName) (cg_ClaimsDenom gs)"
  shows "claim_wf s' \<and> unclaimed_total (cg_ClaimsDenom gs) s'
    \<le> bal (cs_world s') (ModuleAddr (ce_bank env) ClaimModuleName) (cg_ClaimsDenom gs)"
proof -
  let ?d = "cg_ClaimsDenom gs"
  define s0 where "s0 = s\<lparr>cs_params := cg_Params gs, cs_world := claim_initModuleAccount env (cs_world s)\<rparr>"
  have wf0: "claim_wf s0" and u0: "unclaimed_total ?d s0 = 0"
    using assms(2,3) by (simp_all add: s0_def claim_wf_def unclaimed_total_def u64_def)
  have b0: "bal (cs_world s0) = bal (cs_world s)"
    by (simp add: s0_def claim_initModuleAccount_bal [OF assms(5)])
  show ?thesis
  proof (cases "s' = s0")
    case True
    then show ?thesis using wf0 u0 b0 assms(6) by simp
  next
    case False
    then obtain rows rs where rs: "loadClaimRecordsFromCSV validDenom newInt ?d rows = Inr rs"
      and cases: "s' = fold SetClaimRecord rs s0 \<and> \<not> 0 < (\<Sum>r\<leftarrow>rs. AmountOf (cr_Balance r) ?d) \<or>
        (\<exists>w. MintCoins (ce_bank env) ClaimModuleName (NewCoins1 ?d (\<Sum>r\<leftarrow>rs. AmountOf (cr_Balance r) ?d)) (cs_world s0) = Inr w
           \<and> s' = (fold SetClaimRecord rs s0)\<lparr>cs_world := w\<rparr>)"
      using assms(1)
      by (auto simp: claim_InitGenesis_def s0_def [symmetric] Let_def split: if_splits option.splits sum.splits)
    from fold_SetClaimRecord [OF wf0, of rs ?d] loadClaimRecordsFromCSV_nonneg [OF rs]
    have "claim_wf (fold SetClaimRecord rs s0)"
      and "unclaimed_total ?d (fold SetClaimRecord rs s0) \<le> (\<Sum>r\<leftarrow>rs. AmountOf (cr_Balance r) ?d)"
      by (auto simp: u0)
    then show ?thesis using cases bank_lawsD(4) [OF assms(4)] assms(6) b0 by fastforce
  qed
qed

definition ex_newInt :: "string \<Rightarrow> int option" where
  "ex_newInt x = (if x = ''5'' then Some 5 else None)"

definition ex_genesis :: claim_genesis where
  "ex_genesis = \<lparr>cg_Params = cs_params ex_state, cg_TotalClaimableAmount = 5, cg_ClaimsDenom = ''ulume''\<rparr>"

definition ex_empty :: "ledger claim_state" where
  "ex_empty = ex_state\<lparr>cs_records := [], cs_count := 0, cs_world := \<lparr>lg_bal = [], lg_acc = []\<rparr>\<rparr>"

theorem claim_genesis_solvent_witness:
  "\<exists>s'. claim_InitGenesis ex_env (\<lambda>d. 3 \<le> length d) ex_newInt False (Some [[''old'', ''5'']]) ex_genesis ex_empty = Inr s' \<and> claim_wf s'"
proof -
  have "is_ok (claim_InitGenesis ex_env (\<lambda>d. 3 \<le> length d) ex_newInt False (Some [[''old'', ''5'']]) ex_genesis ex_empty)" by code_simp
  then obtain s' where s': "claim_InitGenesis ex_env (\<lambda>d. 3 \<le> length d) ex_newInt False (Some [[''old'', ''5'']]) ex_genesis ex_empty = Inr s'"
    by (auto simp: is_ok_iff)
  have b: "bank_laws (ce_bank ex_env) lg_balance" "account_laws (ce_accounts ex_env) lg_balance"
    by (simp_all add: ex_env_def ledger_bank_laws ledger_account_laws)
  have "cs_records ex_empty = []" "cs_count ex_empty = 0"
    "0 \<le> lg_balance (cs_world ex_empty) (ModuleAddr (ce_bank ex_env) ClaimModuleName) (cg_ClaimsDenom ex_genesis)"
    by (simp_all add: ex_empty_def lg_balance_def)
  from claim_genesis_solvent [OF s' this(1,2) b this(3)] s' show ?thesis by blast
qed

text \<open>C17: What SignMessage produces for a key pair, VerifySignature accepts, when the signature library
  verifies its own 64-byte signatures.\<close>

theorem sign_then_verify:
  assumes "SignMessage cl (Some sk) msg = Some sig"
    and "length pk = 33" "pk ! 0 = 2 \<or> pk ! 0 = 3"
    and "\<And>h sg. secp256k1_sign cl sk h = Some sg \<Longrightarrow> length sg = 64 \<and> secp256k1_verify cl pk h sg"
  shows "claim_VerifySignature cl (hex_encode pk) msg sig = Some True"
  using assms by (auto simp: SignMessage_def claim_VerifySignature_def split: option.splits)

theorem sign_then_verify_witness:
  "\<exists>sig. SignMessage ex_crypto (Some [1]) ''m'' = Some sig \<and>
     claim_VerifySignature ex_crypto (hex_encode (2 # replicate 32 0)) ''m'' sig = Some True"
proof -
  obtain sig where s: "SignMessage ex_crypto (Some [1]) ''m'' = Some sig"
    by (simp add: SignMessage_def ex_crypto_def)
  from sign_then_verify [OF s, of "2 # replicate 32 0"] s show ?thesis by (auto simp: ex_crypto_def)
qed

end
