(* ===== verification/Merkle.thy ===== *)
theory Merkle
  imports Encoding
begin

text \<open>
  The Merkle tree over file chunks (x/action/v1/merkle/merkle.go). BLAKE3 is an argument
  \<open>blake3\<close>; a fixed array of 32 bytes is a byte list. Indexing out of range, where Go panics, is
  the value None.
\<close>

section \<open>Definitions\<close>

definition HashSize :: nat where
  "HashSize = 32"

datatype merkle_error = ErrEmptyInput | ErrIndexOutOfRange | MerklePanic

definition HashLeaf :: "(bytes \<Rightarrow> bytes) \<Rightarrow> int \<Rightarrow> bytes \<Rightarrow> bytes" where
  "HashLeaf blake3 index chunk = blake3 (0 # be32 index @ chunk)"

definition HashInternal :: "(bytes \<Rightarrow> bytes) \<Rightarrow> bytes \<Rightarrow> bytes \<Rightarrow> bytes" where
  "HashInternal blake3 left right = blake3 (1 # left @ right)"

record merkle_tree =
  mt_Root :: bytes
  mt_Leaves :: "bytes list"
  mt_Levels :: "bytes list list"
  mt_LeafCount :: nat

record merkle_proof =
  mp_ChunkIndex :: int
  mp_LeafHash :: bytes
  mp_PathHashes :: "bytes list"
  mp_PathDirections :: "bool list"

text \<open>One level: duplicate the last node of an odd level, then hash neighbours.\<close>

definition pad_level :: "'a list \<Rightarrow> 'a list" where
  "pad_level current = (if odd (length current) then current @ [last current] else current)"

fun pair_up :: "('a \<Rightarrow> 'a \<Rightarrow> 'a) \<Rightarrow> 'a list \<Rightarrow> 'a list" where
  "pair_up h (x # y # rest) = h x y # pair_up h rest"
| "pair_up h _ = []"

lemma length_pair_up [simp]: "length (pair_up h xs) = length xs div 2"
  by (induction h xs rule: pair_up.induct) auto

lemma length_pad_level: "length (pad_level xs) = length xs + length xs mod 2"
  by (auto simp: pad_level_def odd_iff_mod_2_eq_one)

text \<open>The levels from the given one up to the root.\<close>

function build_levels :: "('a \<Rightarrow> 'a \<Rightarrow> 'a) \<Rightarrow> 'a list \<Rightarrow> 'a list list" where
  "build_levels h current =
     (if length current > 1
      then let padded = pad_level current in padded # build_levels h (pair_up h padded)
      else [current])"
  by pat_completeness auto
termination by (relation "measure (\<lambda>(h, c). length c)") (auto simp: length_pad_level)

declare build_levels.simps [simp del]

definition BuildTree :: "(bytes \<Rightarrow> bytes) \<Rightarrow> bytes list \<Rightarrow> merkle_error + merkle_tree" where
  "BuildTree blake3 chunks =
     (let n = length chunks in
      if n = 0 then Inl ErrEmptyInput
      else
        let leaves = map (\<lambda>i. HashLeaf blake3 (u32 (int i)) (chunks ! i)) [0..<n];
            levels = build_levels (HashInternal blake3) leaves
        in Inr \<lparr>mt_Root = hd (last levels), mt_Leaves = leaves, mt_Levels = levels, mt_LeafCount = n\<rparr>)"

definition nth_opt :: "'a list \<Rightarrow> nat \<Rightarrow> 'a option" where
  "nth_opt xs i = (if i < length xs then Some (xs ! i) else None)"

fun gen_path :: "'a list list \<Rightarrow> nat \<Rightarrow> ('a \<times> bool) list option" where
  "gen_path (nodes # nodes' # rest) idx =
     (case (if even idx then map_option (\<lambda>s. (s, True)) (nth_opt nodes (idx + 1))
            else map_option (\<lambda>s. (s, False)) (nth_opt nodes (idx - 1))) of
        None \<Rightarrow> None
      | Some step \<Rightarrow> map_option ((#) step) (gen_path (nodes' # rest) (idx div 2)))"
| "gen_path _ idx = Some []"

definition GenerateProof :: "merkle_tree \<Rightarrow> int \<Rightarrow> merkle_error + merkle_proof" where
  "GenerateProof t index =
     (if index < 0 \<or> index \<ge> int (mt_LeafCount t) then Inl ErrIndexOutOfRange
      else case (nth_opt (mt_Leaves t) (nat index), gen_path (mt_Levels t) (nat index)) of
        (Some leaf, Some path) \<Rightarrow>
          Inr \<lparr>mp_ChunkIndex = u32 index, mp_LeafHash = leaf, mp_PathHashes = map fst path,
               mp_PathDirections = map snd path\<rparr>
      | _ \<Rightarrow> Inl MerklePanic)"

definition verify_step :: "('a \<Rightarrow> 'a \<Rightarrow> 'a) \<Rightarrow> 'a \<Rightarrow> 'a \<times> bool \<Rightarrow> 'a" where
  "verify_step h current sib = (if snd sib then h current (fst sib) else h (fst sib) current)"

definition merkle_Verify :: "(bytes \<Rightarrow> bytes) \<Rightarrow> merkle_proof \<Rightarrow> bytes \<Rightarrow> bool" where
  "merkle_Verify blake3 p root \<longleftrightarrow>
     length (mp_PathHashes p) = length (mp_PathDirections p) \<and>
     foldl (verify_step (HashInternal blake3)) (mp_LeafHash p) (zip (mp_PathHashes p) (mp_PathDirections p)) = root"

section \<open>Shape of the tree\<close>

lemma build_levels_Nil [simp]: "build_levels h cur \<noteq> []"
  by (subst build_levels.simps) (simp add: Let_def)

lemma even_pad [simp]: "even (length (pad_level xs))"
  by (simp add: length_pad_level)

lemma pad_level_nth: "i < length xs \<Longrightarrow> pad_level xs ! i = xs ! i"
  by (simp add: pad_level_def nth_append)

lemma pair_up_nth:
  "2 * j + 1 < length xs \<Longrightarrow> pair_up h xs ! j = h (xs ! (2 * j)) (xs ! (2 * j + 1))"
proof (induction h xs arbitrary: j rule: pair_up.induct)
  case (1 h x y rest)
  then show ?case by (cases j) auto
qed auto

lemma build_levels_hd: "length cur > 1 \<Longrightarrow> hd (build_levels h cur) = pad_level cur"
  by (subst build_levels.simps) (simp add: Let_def)

lemma build_levels_unfold:
  "length cur > 1 \<Longrightarrow> \<exists>nodes rest. build_levels h (pair_up h (pad_level cur)) = nodes # rest \<and>
     build_levels h cur = pad_level cur # nodes # rest"
  by (subst (2) build_levels.simps) (simp add: Let_def neq_Nil_conv [symmetric])

section \<open>Completeness and binding\<close>

text \<open>The directions of the path of an index: true when the sibling is on the right.\<close>

fun index_dirs :: "nat \<Rightarrow> nat \<Rightarrow> bool list" where
  "index_dirs 0 idx = []"
| "index_dirs (Suc k) idx = even idx # index_dirs k (idx div 2)"

definition step_pair :: "'a \<Rightarrow> 'a \<times> bool \<Rightarrow> 'a \<times> 'a" where
  "step_pair current sib = (if snd sib then (current, fst sib) else (fst sib, current))"

fun path_pairs :: "('a \<Rightarrow> 'a \<Rightarrow> 'a) \<Rightarrow> 'a \<Rightarrow> ('a \<times> bool) list \<Rightarrow> ('a \<times> 'a) list" where
  "path_pairs h x [] = []"
| "path_pairs h x (s # rest) = step_pair x s # path_pairs h (verify_step h x s) rest"

definition level_pairs :: "'a list \<Rightarrow> ('a \<times> 'a) set" where
  "level_pairs nodes = {(nodes ! (2 * j), nodes ! (2 * j + 1)) | j. 2 * j + 1 < length nodes}"

definition tree_pairs :: "'a list list \<Rightarrow> ('a \<times> 'a) set" where
  "tree_pairs levels = \<Union> (level_pairs ` set levels)"

lemma verify_step_pair: "verify_step h x s = case_prod h (step_pair x s)"
  by (simp add: verify_step_def step_pair_def)

lemma idx_bounds:
  assumes "idx < length cur" "length cur > 1"
  shows "2 * (idx div 2) + 1 < length (pad_level cur)" "idx div 2 < length (pair_up h (pad_level cur))"
proof -
  have e: "even (length (pad_level cur))" "idx < length (pad_level cur)"
    using assms by (auto simp: length_pad_level)
  show "2 * (idx div 2) + 1 < length (pad_level cur)"
  proof (cases "even idx")
    case True
    then have "idx + 1 \<noteq> length (pad_level cur)" using e(1) by (metis even_plus_one_iff)
    with True e(2) show ?thesis by simp
  next
    case False
    then show ?thesis using e(2) by (simp add: odd_two_times_div_two_succ)
  qed
  then show "idx div 2 < length (pair_up h (pad_level cur))" by simp
qed

lemma gen_path_complete:
  assumes "idx < length cur"
  shows "\<exists>path. gen_path (build_levels h cur) idx = Some path
    \<and> length path + 1 = length (build_levels h cur)
    \<and> map snd path = index_dirs (length path) idx
    \<and> foldl (verify_step h) (cur ! idx) path = hd (last (build_levels h cur))"
  using assms
proof (induction "length cur" arbitrary: cur idx rule: less_induct)
  case less
  show ?case
  proof (cases "length cur > 1")
    case True
    let ?c = "pad_level cur" and ?n = "pair_up h (pad_level cur)" and ?j = "idx div 2"
    note b = idx_bounds(1) [OF less.prems True] idx_bounds(2) [OF less.prems True, of h]
    obtain nodes rest where lv: "build_levels h ?n = nodes # rest" "build_levels h cur = ?c # nodes # rest"
      using build_levels_unfold [OF True] by blast
    have "length ?n < length cur" using True by (simp add: length_pad_level)
    then obtain path where path: "gen_path (nodes # rest) ?j = Some path"
      "length path + 1 = length (nodes # rest)" "map snd path = index_dirs (length path) ?j"
      "foldl (verify_step h) (?n ! ?j) path = hd (last (nodes # rest))"
      using less.hyps [OF _ b(2)] lv(1) by auto
    define s where "s = (if even idx then ?c ! (idx + 1) else ?c ! (idx - 1), even idx)"
    have x: "cur ! idx = ?c ! idx" using less.prems by (simp add: pad_level_nth)
    have step: "verify_step h (cur ! idx) s = ?n ! ?j"
      using pair_up_nth [OF b(1), of h] x
      by (cases "even idx") (auto simp: s_def verify_step_def odd_two_times_div_two_nat)
    have "gen_path (?c # nodes # rest) idx = Some (s # path)"
      using b(1) path(1) by (cases "even idx") (auto simp: s_def nth_opt_def odd_two_times_div_two_nat)
    then show ?thesis using path step lv by (intro exI [of _ "s # path"]) (simp add: s_def)
  next
    case False
    then show ?thesis using less.prems by (subst (1 2 3) build_levels.simps) (cases cur; auto)
  qed
qed

text \<open>
  A path of the right shape that reaches the root starts from the leaf of its index, or shows two
  different pairs with the same hash, one in the tree and one on the path.
\<close>

lemma path_binding:
  assumes "idx < length cur" "length path + 1 = length (build_levels h cur)"
    and "map snd path = index_dirs (length path) idx"
    and "foldl (verify_step h) x path = hd (last (build_levels h cur))"
  shows "x = cur ! idx \<or> (\<exists>p \<in> tree_pairs (build_levels h cur). \<exists>q \<in> set (path_pairs h x path).
           p \<noteq> q \<and> case_prod h p = case_prod h q)"
  using assms
proof (induction "length cur" arbitrary: cur idx x path rule: less_induct)
  case less
  show ?case
  proof (cases "length cur > 1")
    case True
    let ?c = "pad_level cur" and ?n = "pair_up h (pad_level cur)" and ?j = "idx div 2"
    note b = idx_bounds(1) [OF less.prems(1) True] idx_bounds(2) [OF less.prems(1) True, of h]
    obtain nodes rest where lv: "build_levels h ?n = nodes # rest" "build_levels h cur = ?c # nodes # rest"
      using build_levels_unfold [OF True] by blast
    from less.prems(2) lv obtain s path' where p: "path = s # path'" by (cases path) auto
    let ?y = "verify_step h x s" and ?t = "(?c ! (2 * ?j), ?c ! (2 * ?j + 1))"
    have s: "snd s = even idx" using less.prems(3) p by simp
    have "length ?n < length cur" using True by (simp add: length_pad_level)
    from less.hyps [OF this b(2), of path' ?y] less.prems p lv
    have "?y = ?n ! ?j \<or> (\<exists>p \<in> tree_pairs (nodes # rest). \<exists>q \<in> set (path_pairs h ?y path').
           p \<noteq> q \<and> case_prod h p = case_prod h q)" by auto
    then show ?thesis
    proof
      assume "?y = ?n ! ?j"
      then have eq: "case_prod h (step_pair x s) = case_prod h ?t"
        using pair_up_nth [OF b(1), of h] by (simp add: verify_step_pair)
      show ?thesis
      proof (cases "step_pair x s = ?t")
        case True
        then have "x = ?c ! idx"
          using s by (cases "even idx") (auto simp: step_pair_def odd_two_times_div_two_succ split: if_splits)
        then show ?thesis using less.prems(1) by (simp add: pad_level_nth)
      next
        case False
        moreover have "?t \<in> tree_pairs (build_levels h cur)"
          using b(1) by (auto simp: tree_pairs_def level_pairs_def lv(2))
        ultimately show ?thesis using eq p by force
      qed
    next
      assume "\<exists>p \<in> tree_pairs (nodes # rest). \<exists>q \<in> set (path_pairs h ?y path').
           p \<noteq> q \<and> case_prod h p = case_prod h q"
      moreover have "tree_pairs (nodes # rest) \<subseteq> tree_pairs (build_levels h cur)"
        by (auto simp: tree_pairs_def lv(2))
      moreover have "set (path_pairs h ?y path') \<subseteq> set (path_pairs h x path)" by (auto simp: p)
      ultimately show ?thesis by blast
    qed
  next
    case False
    then show ?thesis using less.prems
      by (subst (asm) (1 2) build_levels.simps) (cases cur; auto)
  qed
qed

lemma BuildTree_fields:
  assumes "BuildTree blake3 chunks = Inr t"
  defines "leaves \<equiv> map (\<lambda>i. HashLeaf blake3 (u32 (int i)) (chunks ! i)) [0..<length chunks]"
  shows "mt_Leaves t = leaves" "mt_Levels t = build_levels (HashInternal blake3) leaves"
    "mt_LeafCount t = length chunks" "mt_Root t = hd (last (mt_Levels t))" "chunks \<noteq> []"
  using assms by (auto simp: BuildTree_def Let_def split: if_splits)

lemma GenerateProof_complete:
  assumes "BuildTree blake3 chunks = Inr t" "0 \<le> i" "i < int (length chunks)"
  shows "\<exists>p. GenerateProof t i = Inr p \<and> merkle_Verify blake3 p (mt_Root t)
    \<and> mp_LeafHash p = HashLeaf blake3 (u32 i) (chunks ! nat i) \<and> mp_ChunkIndex p = u32 i"
proof -
  let ?h = "HashInternal blake3" and ?leaves = "map (\<lambda>i. HashLeaf blake3 (u32 (int i)) (chunks ! i)) [0..<length chunks]"
  note t = BuildTree_fields [OF assms(1)]
  have i: "nat i < length ?leaves" "nat i < length chunks" using assms by auto
  obtain path where path: "gen_path (build_levels ?h ?leaves) (nat i) = Some path"
    "foldl (verify_step ?h) (?leaves ! nat i) path = hd (last (build_levels ?h ?leaves))"
    using gen_path_complete [OF i(1)] by blast
  have zip: "zip (map fst path) (map snd path) = path" by (simp add: zip_map_fst_snd)
  have "?leaves ! nat i = HashLeaf blake3 (u32 i) (chunks ! nat i)" using i assms(2) by simp
  with assms(2,3) i path zip show ?thesis
    by (simp add: GenerateProof_def t nth_opt_def merkle_Verify_def)
qed

section \<open>Properties\<close>

text \<open>C29: Every chunk of a built tree has a proof: generating it never fails or reads out of range, and it
  carries the hash of the chunk at its index and verifies against the root. Any other index is
  rejected.\<close>

theorem merkle_complete:
  assumes "BuildTree blake3 chunks = Inr t"
  shows "if 0 \<le> i \<and> i < int (length chunks)
     then \<exists>p. GenerateProof t i = Inr p \<and> merkle_Verify blake3 p (mt_Root t)
        \<and> mp_LeafHash p = HashLeaf blake3 (u32 i) (chunks ! nat i) \<and> mp_ChunkIndex p = u32 i
     else GenerateProof t i = Inl ErrIndexOutOfRange"
proof (cases "0 \<le> i \<and> i < int (length chunks)")
  case True
  with GenerateProof_complete [OF assms, of i] show ?thesis by simp
next
  case False
  then have "GenerateProof t i = Inl ErrIndexOutOfRange"
    by (auto simp: GenerateProof_def BuildTree_fields(3) [OF assms])
  with False show ?thesis by simp
qed

definition ex_chunks :: "bytes list" where
  "ex_chunks = [[1], [2], [3]]"

theorem merkle_complete_witness:
  "\<exists>t p. BuildTree (\<lambda>x. x) ex_chunks = Inr t \<and> GenerateProof t 2 = Inr p \<and> merkle_Verify (\<lambda>x. x) p (mt_Root t)"
proof -
  obtain t where t: "BuildTree (\<lambda>x. x) ex_chunks = Inr t"
    by (simp add: BuildTree_def ex_chunks_def Let_def)
  with merkle_complete [OF t, of 2] show ?thesis by (auto simp: ex_chunks_def)
qed

text \<open>C10: The root binds the chunks: a proof with the shape of an index (its path length and directions)
  that verifies carries the hash of the chunk at this index, unless it exhibits a collision between
  a pair of nodes of the tree and a pair of nodes on its own path.\<close>

theorem merkle_binding:
  assumes "BuildTree blake3 chunks = Inr t" "i < length chunks" "merkle_Verify blake3 p (mt_Root t)"
    and "length (mp_PathHashes p) + 1 = length (mt_Levels t)"
    and "mp_PathDirections p = index_dirs (length (mp_PathHashes p)) i"
  shows "mp_LeafHash p = HashLeaf blake3 (u32 (int i)) (chunks ! i)
    \<or> (\<exists>x \<in> tree_pairs (mt_Levels t).
        \<exists>y \<in> set (path_pairs (HashInternal blake3) (mp_LeafHash p) (zip (mp_PathHashes p) (mp_PathDirections p))).
          x \<noteq> y \<and> case_prod (HashInternal blake3) x = case_prod (HashInternal blake3) y)"
proof -
  let ?h = "HashInternal blake3" and ?leaves = "map (\<lambda>i. HashLeaf blake3 (u32 (int i)) (chunks ! i)) [0..<length chunks]"
  note f = BuildTree_fields [OF assms(1)]
  have t: "mt_Levels t = build_levels ?h ?leaves" "mt_Root t = hd (last (build_levels ?h ?leaves))"
    using f(2,4) by simp_all
  let ?path = "zip (mp_PathHashes p) (mp_PathDirections p)"
  have len: "length (mp_PathHashes p) = length (mp_PathDirections p)" using assms(3) by (simp add: merkle_Verify_def)
  have "mp_LeafHash p = ?leaves ! i \<or> (\<exists>x \<in> tree_pairs (build_levels ?h ?leaves).
      \<exists>y \<in> set (path_pairs ?h (mp_LeafHash p) ?path). x \<noteq> y \<and> case_prod ?h x = case_prod ?h y)"
  proof (rule path_binding)
    show "i < length ?leaves" using assms(2) by simp
    show "length ?path + 1 = length (build_levels ?h ?leaves)" using assms(4) len unfolding t by simp
    show "map snd ?path = index_dirs (length ?path) i" using assms(5) len by (metis map_snd_zip length_zip min.idem)
    show "foldl (verify_step ?h) (mp_LeafHash p) ?path = hd (last (build_levels ?h ?leaves))"
      using assms(3) unfolding merkle_Verify_def t by blast
  qed
  then show ?thesis using assms(2) by (simp add: t(1))
qed

theorem merkle_binding_witness:
  "\<exists>t p. BuildTree (\<lambda>x. x) ex_chunks = Inr t \<and> merkle_Verify (\<lambda>x. x) p (mt_Root t) \<and>
     (mp_LeafHash p = HashLeaf (\<lambda>x. x) 0 [1] \<or>
      (\<exists>x \<in> tree_pairs (mt_Levels t). \<exists>y. x \<noteq> y \<and> case_prod (HashInternal (\<lambda>x. x)) x = case_prod (HashInternal (\<lambda>x. x)) y))"
proof -
  obtain t where t: "BuildTree (\<lambda>x. x) ex_chunks = Inr t"
    by (simp add: BuildTree_def ex_chunks_def Let_def)
  have "(case BuildTree (\<lambda>x. x) ex_chunks of Inr t \<Rightarrow>
      (case GenerateProof t 0 of Inr p \<Rightarrow> merkle_Verify (\<lambda>x. x) p (mt_Root t) \<and>
         length (mp_PathHashes p) + 1 = length (mt_Levels t) \<and>
         mp_PathDirections p = index_dirs (length (mp_PathHashes p)) 0 | _ \<Rightarrow> False) | _ \<Rightarrow> False)"
    by code_simp
  then obtain p where p: "merkle_Verify (\<lambda>x. x) p (mt_Root t)" "length (mp_PathHashes p) + 1 = length (mt_Levels t)"
    "mp_PathDirections p = index_dirs (length (mp_PathHashes p)) 0"
    by (auto simp: t split: sum.splits)
  have "(0::nat) < length ex_chunks" by (simp add: ex_chunks_def)
  moreover have "u32 (int 0) = 0" "ex_chunks ! 0 = [1]" by (simp_all add: ex_chunks_def u32_def)
  ultimately have "mp_LeafHash p = HashLeaf (\<lambda>x. x) 0 [1] \<or>
      (\<exists>x \<in> tree_pairs (mt_Levels t). \<exists>y. x \<noteq> y \<and> case_prod (HashInternal (\<lambda>x. x)) x = case_prod (HashInternal (\<lambda>x. x)) y)"
    using merkle_binding [OF t _ p] by metis
  with t p(1) show ?thesis by blast
qed

end
