(* ===== verification/Svc.thy ===== *)
theory Svc
  imports Merkle Sdk
begin

text \<open>
  The storage verification challenge and the identifier check of the action module
  (x/action/v1/keeper/svc.go, crypto.go, the commitment rules of action_cascade.go, and
  types/metadata.go). Protobuf and JSON decoding, BLAKE3, zstd and base58 are arguments. A decoded
  repeated field holds no nil message, so the nil checks on its elements have no branch here.
  The random index of the identifier check is an argument: the code draws it per validator.
\<close>

unbundle bit_operations_syntax

section \<open>Errors and messages\<close>

datatype action_error =
    ErrActionExpired | ErrInvalidActionType | ErrActionNotFound | ErrInvalidMetadata
  | ErrInvalidActionState | ErrInvalidSignature | ErrInternalError | ErrInvalidID | ErrUnauthorizedSN
  | ErrInvalidExpiration | ErrInvalidPrice | ErrActionAddress | ErrFinalizationError
  | ErrInvalidFileSize | ErrInvalidAppPubKey | ErrWrongProofCount | ErrWrongChallengeIndex
  | ErrInvalidMerkleProof | ErrInvalidSigner | ActSdk sdk_error | ActionPanic

datatype hash_algo = HASH_ALGO_UNSPECIFIED | HASH_ALGO_BLAKE3 | HASH_ALGO_SHA256 | HASH_ALGO_OTHER int

record availability_commitment =
  ac_CommitmentType :: string
  ac_HashAlgo :: hash_algo
  ac_ChunkSize :: int
  ac_TotalSize :: int
  ac_NumChunks :: int
  ac_Root :: bytes
  ac_ChallengeIndices :: "int list"

record chunk_proof =
  ck_ChunkIndex :: int
  ck_LeafHash :: bytes
  ck_PathHashes :: "bytes list"
  ck_PathDirections :: "bool list"

record cascade_metadata =
  cm_DataHash :: string
  cm_FileName :: string
  cm_RqIdsIc :: int
  cm_RqIdsMax :: int
  cm_RqIdsIds :: "string list"
  cm_Signatures :: string
  cm_Public :: bool
  cm_AvailabilityCommitment :: "availability_commitment option"
  cm_ChunkProofs :: "chunk_proof list"
  cm_IndexArtifactCount :: int
  cm_SymbolArtifactCount :: int

record sense_metadata =
  sm_DataHash :: string
  sm_DdAndFingerprintsIc :: int
  sm_CollectionId :: string
  sm_GroupId :: string
  sm_DdAndFingerprintsMax :: int
  sm_DdAndFingerprintsIds :: "string list"
  sm_Signatures :: string

section \<open>The commitment made at registration\<close>

definition cascadeCommitmentType :: string where
  "cascadeCommitmentType = ''lep5/chunk-merkle/v1''"

definition isPowerOf2 :: "int \<Rightarrow> bool" where
  "isPowerOf2 v \<longleftrightarrow> v > 0 \<and> v AND (u32 (v - 1)) = 0"

text \<open>The loop over the challenge indices, with the set of those already seen.\<close>

fun check_indices :: "int \<Rightarrow> int list \<Rightarrow> int list \<Rightarrow> string + unit" where
  "check_indices num seen [] = Inr ()"
| "check_indices num seen (idx # rest) =
     (if idx \<ge> num then Inl ''challenge index out of range''
      else if idx \<in> set seen then Inl ''duplicate challenge index''
      else check_indices num (idx # seen) rest)"

definition validateAvailabilityCommitment ::
  "availability_commitment option \<Rightarrow> int \<Rightarrow> int \<Rightarrow> string + unit" where
  "validateAvailabilityCommitment commitment challengeCount minChunks =
     (case commitment of None \<Rightarrow> Inr () | Some c \<Rightarrow>
        if ac_CommitmentType c \<noteq> cascadeCommitmentType then Inl ''commitment_type''
        else if ac_HashAlgo c \<noteq> HASH_ALGO_BLAKE3 then Inl ''hash_algo''
        else if ac_TotalSize c < 4 then Inl ''total_size''
        else if \<not> isPowerOf2 (ac_ChunkSize c) then Inl ''chunk_size must be a power of 2''
        else if ac_ChunkSize c < 1 \<or> ac_ChunkSize c > 262144 then Inl ''chunk_size''
        else
          let expectedNumChunks =
            u32 (u64 (u64 (ac_TotalSize c + ac_ChunkSize c) - 1) div ac_ChunkSize c) in
          if ac_NumChunks c \<noteq> expectedNumChunks then Inl ''num_chunks''
          else if ac_NumChunks c < minChunks then Inl ''num_chunks below minimum''
          else if length (ac_Root c) \<noteq> 32 then Inl ''root''
          else if ac_NumChunks c \<ge> minChunks then
            if u32 (int (length (ac_ChallengeIndices c))) \<noteq> min challengeCount (ac_NumChunks c)
            then Inl ''challenge_indices''
            else check_indices (ac_NumChunks c) [] (ac_ChallengeIndices c)
          else Inr ())"

section \<open>The proofs checked at finalization\<close>

definition bytesToMerkleHash :: "bytes \<Rightarrow> string + bytes" where
  "bytesToMerkleHash value = (if length value \<noteq> HashSize then Inl ''hash size'' else Inr value)"

fun mapR :: "('a \<Rightarrow> 'e + 'b) \<Rightarrow> 'a list \<Rightarrow> 'e + 'b list" where
  "mapR f [] = Inr []"
| "mapR f (x # xs) = bindR (f x) (\<lambda>y. bindR (mapR f xs) (\<lambda>ys. Inr (y # ys)))"

definition chunkProofToMerkleProof :: "chunk_proof \<Rightarrow> string + merkle_proof" where
  "chunkProofToMerkleProof proof =
     (if length (ck_PathHashes proof) \<noteq> length (ck_PathDirections proof) then Inl ''path length mismatch''
      else bindR (bytesToMerkleHash (ck_LeafHash proof)) (\<lambda>leafHash.
           bindR (mapR bytesToMerkleHash (ck_PathHashes proof)) (\<lambda>pathHashes.
             Inr \<lparr>mp_ChunkIndex = ck_ChunkIndex proof, mp_LeafHash = leafHash, mp_PathHashes = pathHashes,
                  mp_PathDirections = ck_PathDirections proof\<rparr>)))"

fun verify_proofs :: "(bytes \<Rightarrow> bytes) \<Rightarrow> bytes \<Rightarrow> (chunk_proof \<times> int) list \<Rightarrow> action_error + unit" where
  "verify_proofs blake3 root [] = Inr ()"
| "verify_proofs blake3 root ((proof, expected) # rest) =
     (if ck_ChunkIndex proof \<noteq> expected then Inl ErrWrongChallengeIndex
      else case chunkProofToMerkleProof proof of
        Inl _ \<Rightarrow> Inl ErrInvalidMerkleProof
      | Inr merkleProof \<Rightarrow>
          if \<not> merkle_Verify blake3 merkleProof root then Inl ErrInvalidMerkleProof
          else verify_proofs blake3 root rest)"

definition VerifyChunkProofs ::
  "(bytes \<Rightarrow> bytes) \<Rightarrow> (bytes \<Rightarrow> cascade_metadata option) \<Rightarrow> bytes \<Rightarrow> chunk_proof list \<Rightarrow> action_error + unit" where
  "VerifyChunkProofs blake3 unmarshal metadataBytes proofs =
     (case unmarshal metadataBytes of
        None \<Rightarrow> Inl ErrInvalidMetadata
      | Some metadata \<Rightarrow>
          (case cm_AvailabilityCommitment metadata of
             None \<Rightarrow> Inr ()
           | Some commitment \<Rightarrow>
               let expectedIndices = ac_ChallengeIndices commitment in
               if expectedIndices = [] then Inr ()
               else if length proofs \<noteq> length expectedIndices then Inl ErrWrongProofCount
               else case bytesToMerkleHash (ac_Root commitment) of
                 Inl _ \<Rightarrow> Inl ErrInvalidMerkleProof
               | Inr root \<Rightarrow> verify_proofs blake3 root (zip proofs expectedIndices)))"

section \<open>Artifact counts\<close>

definition CascadeArtifactCountsWithFallbackStrict :: "cascade_metadata \<Rightarrow> string + int \<times> int" where
  "CascadeArtifactCountsWithFallbackStrict meta =
     (let fallback = u32 (int (length (cm_RqIdsIds meta)));
          idx = (if cm_IndexArtifactCount meta = 0 then fallback else cm_IndexArtifactCount meta);
          sym = (if cm_SymbolArtifactCount meta = 0 then fallback else cm_SymbolArtifactCount meta)
      in if idx = 0 \<or> sym = 0 then Inl ''cascade artifact counts unavailable'' else Inr (idx, sym))"

section \<open>Kademlia identifiers\<close>

record kad_libs =
  kl_zstd :: "bytes \<Rightarrow> bytes option"
  kl_blake3 :: "bytes \<Rightarrow> bytes"
  kl_base58 :: "bytes \<Rightarrow> string"

definition ZstdCompress :: "kad_libs \<Rightarrow> bytes \<Rightarrow> string + bytes" where
  "ZstdCompress kl data =
     (case kl_zstd kl data of None \<Rightarrow> Inl ''failed to compress with zstd'' | Some compressed \<Rightarrow> Inr compressed)"

definition CreateKademliaID :: "kad_libs \<Rightarrow> string \<Rightarrow> int \<Rightarrow> string + string" where
  "CreateKademliaID kl signatures counter =
     bindR (ZstdCompress kl (bytes_of_string (signatures @ ''.'' @ dec_of_int counter)))
       (\<lambda>compressedData. Inr (kl_base58 kl (kl_blake3 kl compressedData)))"

text \<open>
  \<open>random\<close> is the number drawn by \<open>rand.Int\<close>, which panics for a bound that is not positive as an
  \<open>int64\<close> and otherwise returns a number below the bound.
\<close>

datatype kad_error = KadText string | KadInvalidID | KadPanic

definition VerifyKademliaIDs ::
  "kad_libs \<Rightarrow> int \<Rightarrow> string list \<Rightarrow> string \<Rightarrow> int \<Rightarrow> int \<Rightarrow> kad_error + unit" where
  "VerifyKademliaIDs kl random ids signatures counterIc counterMax =
     (if ids = [] then Inl (KadText ''empty ID'')
      else if signatures = [] then Inl (KadText ''empty signatures'')
      else if counterMax \<le> 0 then Inl (KadText ''invalid counter'')
      else if int (length ids) \<noteq> counterMax then Inl (KadText ''number of ids'')
      else if [] \<in> set ids then Inl (KadText ''rq_id is empty'')
      else if i64 counterMax \<le> 0 then Inl KadPanic
      else
        let idIndex = random mod i64 counterMax in
        if idIndex \<ge> counterMax then Inl (KadText ''invalid random index'')
        else
          let randomID = ids ! nat idIndex; counter = u64 (counterIc + idIndex) in
          case CreateKademliaID kl signatures counter of
            Inl e \<Rightarrow> Inl (KadText e)
          | Inr expectedID \<Rightarrow> if randomID \<noteq> expectedID then Inl KadInvalidID else Inr ())"

section \<open>Lemmas\<close>

lemma power_two_and:
  fixes v :: int
  assumes "v > 0"
  shows "v AND (v - 1) = 0 \<longleftrightarrow> (\<exists>k. v = 2 ^ k)"
  using assms
proof (induction "nat v" arbitrary: v rule: less_induct)
  case less
  show ?case
  proof (cases "even v")
    case True
    then obtain u where u: "v = 2 * u" by (elim evenE)
    have "(v - 1) div 2 = u - 1" using u by simp
    then have "v AND (v - 1) = 2 * (u AND (u - 1))"
      using True by (subst and_rec) (simp add: u)
    moreover have "u AND (u - 1) = 0 \<longleftrightarrow> (\<exists>k. u = 2 ^ k)" using u less by simp
    moreover have "(\<exists>k. u = 2 ^ k) \<longleftrightarrow> (\<exists>k. v = 2 ^ k)"
    proof
      assume "\<exists>k. v = 2 ^ k"
      then obtain k where k: "v = 2 ^ k" by blast
      with True obtain j where "k = Suc j" by (cases k) auto
      with k u show "\<exists>k. u = 2 ^ k" by auto
    qed (use u in \<open>auto intro: exI [of _ "Suc _"]\<close>)
    ultimately show ?thesis by simp
  next
    case False
    then obtain u where u: "v = 2 * u + 1" by (elim oddE)
    have "v AND (v - 1) = 2 * u" by (subst and_rec) (simp add: u)
    moreover have "u = 0 \<longleftrightarrow> (\<exists>k. v = 2 ^ k)"
    proof
      assume "\<exists>k. v = 2 ^ k"
      then obtain k where k: "v = 2 ^ k" by blast
      with False have "k = 0" by (cases k) auto
      with k u show "u = 0" by simp
    qed (use u in \<open>auto intro: exI [of _ 0]\<close>)
    ultimately show ?thesis by simp
  qed
qed

lemma isPowerOf2_iff: "is_u32 v \<Longrightarrow> isPowerOf2 v \<longleftrightarrow> (\<exists>k. v = 2 ^ k)"
proof -
  assume v: "is_u32 v"
  show ?thesis
  proof (cases "v > 0")
    case True
    with v show ?thesis by (simp add: isPowerOf2_def u32_id power_two_and)
  next
    case False
    then show ?thesis by (auto simp: isPowerOf2_def)
  qed
qed

lemma check_indices_iff:
  "check_indices num seen xs = Inr () \<longleftrightarrow> (\<forall>i \<in> set xs. i < num \<and> i \<notin> set seen) \<and> distinct xs"
  by (induction xs arbitrary: seen) auto

lemma mapR_hash_iff [simp]:
  "mapR bytesToMerkleHash hs = (if \<forall>h \<in> set hs. length h = HashSize then Inr hs else Inl ''hash size'')"
  by (induction hs) (auto simp: bytesToMerkleHash_def)

text \<open>When a wire proof is accepted against a root.\<close>

definition proof_accepted :: "(bytes \<Rightarrow> bytes) \<Rightarrow> bytes \<Rightarrow> chunk_proof \<times> int \<Rightarrow> bool" where
  "proof_accepted blake3 root pe = (case pe of (p, expected) \<Rightarrow>
     ck_ChunkIndex p = expected \<and> length (ck_PathHashes p) = length (ck_PathDirections p) \<and>
     (\<forall>h \<in> set (ck_LeafHash p # ck_PathHashes p). length h = HashSize) \<and>
     merkle_Verify blake3 \<lparr>mp_ChunkIndex = ck_ChunkIndex p, mp_LeafHash = ck_LeafHash p,
       mp_PathHashes = ck_PathHashes p, mp_PathDirections = ck_PathDirections p\<rparr> root)"

lemma verify_proofs_iff:
  "verify_proofs blake3 root ps = Inr () \<longleftrightarrow> (\<forall>pe \<in> set ps. proof_accepted blake3 root pe)"
proof (induction blake3 root ps rule: verify_proofs.induct)
  case (2 blake3 root p expected rest)
  then show ?case
    by (auto simp: chunkProofToMerkleProof_def proof_accepted_def bytesToMerkleHash_def)
qed simp

lemma VerifyChunkProofs_ok_iff:
  assumes "unmarshal mb = Some m" "cm_AvailabilityCommitment m = Some c" "ac_ChallengeIndices c \<noteq> []"
  shows "VerifyChunkProofs blake3 unmarshal mb proofs = Inr () \<longleftrightarrow>
     length proofs = length (ac_ChallengeIndices c) \<and> length (ac_Root c) = HashSize \<and>
     (\<forall>pe \<in> set (zip proofs (ac_ChallengeIndices c)). proof_accepted blake3 (ac_Root c) pe)"
  using assms by (auto simp: VerifyChunkProofs_def Let_def bytesToMerkleHash_def verify_proofs_iff)

text \<open>The proof a storage node sends for one index of a tree.\<close>

definition honest_proof :: "merkle_tree \<Rightarrow> int \<Rightarrow> chunk_proof" where
  "honest_proof t i = (case GenerateProof t i of
     Inr p \<Rightarrow> \<lparr>ck_ChunkIndex = mp_ChunkIndex p, ck_LeafHash = mp_LeafHash p, ck_PathHashes = mp_PathHashes p,
              ck_PathDirections = mp_PathDirections p\<rparr>
   | Inl _ \<Rightarrow> \<lparr>ck_ChunkIndex = i, ck_LeafHash = [], ck_PathHashes = [], ck_PathDirections = []\<rparr>)"

lemma gen_path_hashes:
  "gen_path levels i = Some path \<Longrightarrow> \<forall>nodes \<in> set levels. \<forall>x \<in> set nodes. P x \<Longrightarrow>
     \<forall>x \<in> set (map fst path). P x"
proof (induction levels i arbitrary: path rule: gen_path.induct)
  case (1 nodes nodes' rest idx)
  then show ?case by (fastforce simp: nth_opt_def split: option.splits if_splits)
qed auto

lemma pair_up_all: "(\<And>x y. P (h x y)) \<Longrightarrow> \<forall>x \<in> set (pair_up h xs). P x"
  by (induction h xs rule: pair_up.induct) auto

lemma build_levels_all:
  assumes "\<And>x y. P (h x y)" "\<forall>x \<in> set cur. P x"
  shows "\<forall>nodes \<in> set (build_levels h cur). \<forall>x \<in> set nodes. P x"
  using assms
proof (induction h cur rule: build_levels.induct)
  case (1 h cur)
  have pad: "\<forall>x \<in> set (pad_level cur). P x"
    using 1(3) by (cases "cur = []") (auto simp: pad_level_def)
  show ?case
  proof (cases "length cur > 1")
    case True
    have "\<forall>nodes \<in> set (build_levels h (pair_up h (pad_level cur))). \<forall>x \<in> set nodes. P x"
      using 1(1) [OF True refl 1(2) pair_up_all] 1(2) by blast
    with True pad show ?thesis by (subst build_levels.simps) (simp add: Let_def)
  next
    case False
    with 1(3) show ?thesis by (subst build_levels.simps) simp
  qed
qed

lemma build_levels_ends: "cur \<noteq> [] \<Longrightarrow> last (build_levels h cur) \<noteq> []"
proof (induction h cur rule: build_levels.induct)
  case (1 h cur)
  show ?case
  proof (cases "length cur > 1")
    case True
    then have "length (pair_up h (pad_level cur)) > 0" by (simp add: length_pad_level)
    then have "pair_up h (pad_level cur) \<noteq> []" by (metis length_greater_0_conv)
    with 1 True show ?thesis by (subst build_levels.simps) (simp add: Let_def)
  next
    case False
    with 1(2) show ?thesis by (subst build_levels.simps) simp
  qed
qed

lemma tree_hash_sizes:
  assumes "BuildTree blake3 chunks = Inr t" "\<And>b. length (blake3 b) = HashSize"
  shows "length (mt_Root t) = HashSize"
    and "\<forall>nodes \<in> set (mt_Levels t). \<forall>x \<in> set nodes. length x = HashSize"
    and "\<forall>x \<in> set (mt_Leaves t). length x = HashSize"
proof -
  let ?leaves = "map (\<lambda>i. HashLeaf blake3 (u32 (int i)) (chunks ! i)) [0..<length chunks]"
  note t = BuildTree_fields [OF assms(1)]
  show leaves: "\<forall>x \<in> set (mt_Leaves t). length x = HashSize"
    by (auto simp: t(1) HashLeaf_def assms(2))
  show levels: "\<forall>nodes \<in> set (mt_Levels t). \<forall>x \<in> set nodes. length x = HashSize"
    using build_levels_all [of "\<lambda>x. length x = HashSize" "HashInternal blake3" ?leaves] leaves t
    by (auto simp: HashInternal_def assms(2))
  have ne: "mt_Levels t \<noteq> []" "last (mt_Levels t) \<noteq> []"
    using t(5) by (auto simp: t(2) intro!: build_levels_ends)
  then show "length (mt_Root t) = HashSize"
    unfolding t(4) by (intro bspec [OF bspec [OF levels last_in_set] hd_in_set])
qed

lemma honest_proof_accepted:
  assumes "BuildTree blake3 chunks = Inr t" "\<And>b. length (blake3 b) = HashSize"
    and "0 \<le> i" "i < int (length chunks)" "is_u32 i"
  shows "proof_accepted blake3 (mt_Root t) (honest_proof t i, i)"
proof -
  from GenerateProof_complete [OF assms(1) assms(3,4)] obtain p where
    p: "GenerateProof t i = Inr p" "merkle_Verify blake3 p (mt_Root t)" "mp_ChunkIndex p = u32 i"
    by blast
  from p(1) obtain leaf path where lp: "nth_opt (mt_Leaves t) (nat i) = Some leaf"
    "gen_path (mt_Levels t) (nat i) = Some path"
    "mp_LeafHash p = leaf" "mp_PathHashes p = map fst path" "mp_PathDirections p = map snd path"
    by (auto simp: GenerateProof_def split: if_splits option.splits prod.splits)
  have "\<forall>h \<in> set (mp_PathHashes p). length h = HashSize"
    using gen_path_hashes [OF lp(2) tree_hash_sizes(2) [OF assms(1,2)]] lp(4) by simp
  moreover have "length (mp_LeafHash p) = HashSize"
    using tree_hash_sizes(3) [OF assms(1,2)] lp(1,3) by (auto simp: nth_opt_def split: if_splits dest: nth_mem)
  moreover have "mp_ChunkIndex p = i" using p(3) assms(5) by (simp add: u32_id)
  ultimately show ?thesis
    using p(1,2) lp(4,5) by (simp add: proof_accepted_def honest_proof_def merkle_Verify_def)
qed

section \<open>Properties\<close>

text \<open>C30: A storage node that holds the file passes the challenge. When the commitment's root is the root of
  the tree over the chunks and its challenge indices lie in the file, the generated proofs of these
  indices are accepted.\<close>

theorem svc_honest_accepted:
  assumes "BuildTree blake3 chunks = Inr t" "\<forall>b. length (blake3 b) = HashSize"
    and "unmarshal mb = Some m" "cm_AvailabilityCommitment m = Some c" "ac_Root c = mt_Root t"
    and "\<forall>i \<in> set (ac_ChallengeIndices c). is_u32 i \<and> i < int (length chunks)"
  shows "VerifyChunkProofs blake3 unmarshal mb (map (honest_proof t) (ac_ChallengeIndices c)) = Inr ()"
proof (cases "ac_ChallengeIndices c = []")
  case True
  then show ?thesis using assms(3,4) by (simp add: VerifyChunkProofs_def)
next
  case False
  have "proof_accepted blake3 (ac_Root c) pe"
    if "pe \<in> set (zip (map (honest_proof t) (ac_ChallengeIndices c)) (ac_ChallengeIndices c))" for pe
  proof -
    from that obtain i where "i \<in> set (ac_ChallengeIndices c)" "pe = (honest_proof t i, i)"
      by (auto simp: set_zip)
    with honest_proof_accepted [OF assms(1)] assms(2,5,6) show ?thesis by auto
  qed
  then show ?thesis
    using False assms tree_hash_sizes(1) [OF assms(1)]
    by (auto simp: VerifyChunkProofs_ok_iff [of unmarshal mb m c, OF assms(3,4) False])
qed

definition ex_blake3 :: "bytes \<Rightarrow> bytes" where
  "ex_blake3 b = take 32 (b @ replicate 32 0)"

definition ex_tree :: merkle_tree where
  "ex_tree = projr (BuildTree ex_blake3 ex_chunks)"

definition ex_commitment :: availability_commitment where
  "ex_commitment = \<lparr>ac_CommitmentType = cascadeCommitmentType, ac_HashAlgo = HASH_ALGO_BLAKE3, ac_ChunkSize = 2,
     ac_TotalSize = 8, ac_NumChunks = 4, ac_Root = mt_Root ex_tree, ac_ChallengeIndices = [2, 0]\<rparr>"

definition ex_cascade :: cascade_metadata where
  "ex_cascade = \<lparr>cm_DataHash = ''h'', cm_FileName = ''f'', cm_RqIdsIc = 1, cm_RqIdsMax = 2, cm_RqIdsIds = [],
     cm_Signatures = ''d.s'', cm_Public = False, cm_AvailabilityCommitment = Some ex_commitment,
     cm_ChunkProofs = [], cm_IndexArtifactCount = 0, cm_SymbolArtifactCount = 0\<rparr>"

lemma ex_tree_built: "BuildTree ex_blake3 ex_chunks = Inr ex_tree"
  by (simp add: ex_tree_def BuildTree_def ex_chunks_def Let_def)

lemma ex_blake3_size: "length (ex_blake3 b) = HashSize"
  by (simp add: ex_blake3_def HashSize_def)

theorem svc_honest_accepted_witness:
  "VerifyChunkProofs ex_blake3 (\<lambda>_. Some ex_cascade) [] (map (honest_proof ex_tree) [2, 0]) = Inr ()"
  using svc_honest_accepted [OF ex_tree_built, of "\<lambda>_. Some ex_cascade" "[]" ex_cascade ex_commitment]
  by (simp add: ex_blake3_size ex_cascade_def ex_commitment_def ex_chunks_def)

text \<open>C31: The challenge does not require the file. The root itself, as a leaf with an empty path, is accepted
  as the proof for every challenged index, because the check ties neither the leaf nor the length
  and directions of the path to the index.\<close>

theorem svc_root_as_leaf_accepted:
  assumes "unmarshal mb = Some m" "cm_AvailabilityCommitment m = Some c" "length (ac_Root c) = HashSize"
  shows "VerifyChunkProofs blake3 unmarshal mb
     (map (\<lambda>i. \<lparr>ck_ChunkIndex = i, ck_LeafHash = ac_Root c, ck_PathHashes = [], ck_PathDirections = []\<rparr>)
        (ac_ChallengeIndices c)) = Inr ()"
proof (cases "ac_ChallengeIndices c = []")
  case True
  then show ?thesis using assms by (simp add: VerifyChunkProofs_def)
next
  case False
  show ?thesis
    using assms(3)
    by (auto simp: VerifyChunkProofs_ok_iff [of unmarshal mb m c, OF assms(1,2) False] set_zip proof_accepted_def merkle_Verify_def)
qed

theorem svc_root_as_leaf_accepted_witness:
  "VerifyChunkProofs (\<lambda>_. []) (\<lambda>_. Some (ex_cascade\<lparr>cm_AvailabilityCommitment :=
       Some (ex_commitment\<lparr>ac_Root := replicate 32 7\<rparr>)\<rparr>)) []
     (map (\<lambda>i. \<lparr>ck_ChunkIndex = i, ck_LeafHash = replicate 32 7, ck_PathHashes = [], ck_PathDirections = []\<rparr>) [2, 0])
   = Inr ()"
  using svc_root_as_leaf_accepted [of "\<lambda>_. Some (ex_cascade\<lparr>cm_AvailabilityCommitment :=
       Some (ex_commitment\<lparr>ac_Root := replicate 32 7\<rparr>)\<rparr>)" "[]" _ "ex_commitment\<lparr>ac_Root := replicate 32 7\<rparr>" "\<lambda>_. []"]
  by (simp add: HashSize_def ex_commitment_def)

text \<open>The rules for a commitment, without machine arithmetic.\<close>

definition valid_commitment :: "int \<Rightarrow> int \<Rightarrow> availability_commitment \<Rightarrow> bool" where
  "valid_commitment challengeCount minChunks c \<longleftrightarrow>
     ac_CommitmentType c = cascadeCommitmentType \<and> ac_HashAlgo c = HASH_ALGO_BLAKE3 \<and> 4 \<le> ac_TotalSize c \<and>
     (\<exists>k \<le> 18. ac_ChunkSize c = 2 ^ k) \<and>
     (ac_NumChunks c - 1) * ac_ChunkSize c < ac_TotalSize c \<and> ac_TotalSize c \<le> ac_NumChunks c * ac_ChunkSize c \<and>
     minChunks \<le> ac_NumChunks c \<and> length (ac_Root c) = 32 \<and>
     int (length (ac_ChallengeIndices c)) = min challengeCount (ac_NumChunks c) \<and>
     (\<forall>i \<in> set (ac_ChallengeIndices c). i < ac_NumChunks c) \<and> distinct (ac_ChallengeIndices c)"

lemma ceil_div_iff:
  fixes n :: int
  assumes "0 < d"
  shows "n = (x + d - 1) div d \<longleftrightarrow> (n - 1) * d < x \<and> x \<le> n * d"
proof -
  have "(x + d - 1) div d = n \<longleftrightarrow> n * d \<le> x + d - 1 \<and> x + d - 1 < n * d + d"
  proof
    assume n: "(x + d - 1) div d = n"
    have "n * d + (x + d - 1) mod d = x + d - 1" using div_mult_mod_eq [of "x + d - 1" d] n by simp
    moreover have "0 \<le> (x + d - 1) mod d" "(x + d - 1) mod d < d" using assms by simp_all
    ultimately show "n * d \<le> x + d - 1 \<and> x + d - 1 < n * d + d" by linarith
  next
    assume a: "n * d \<le> x + d - 1 \<and> x + d - 1 < n * d + d"
    then have "(x + d - 1 - n * d) div d = 0" using assms by (simp add: div_pos_pos_trivial)
    moreover have "(x + d - 1 - n * d + n * d) div d = n + (x + d - 1 - n * d) div d"
      using assms by (intro div_mult_self1) simp
    ultimately show "(x + d - 1) div d = n" by simp
  qed
  moreover have "n * d \<le> x + d - 1 \<and> x + d - 1 < n * d + d \<longleftrightarrow> (n - 1) * d < x \<and> x \<le> n * d"
    by (auto simp: algebra_simps)
  ultimately show ?thesis by (simp add: eq_commute [of n])
qed

lemma div_less_int:
  fixes n :: int
  assumes "0 < d" "y < n * d"
  shows "y div d < n"
proof (rule ccontr)
  assume "\<not> y div d < n"
  then have "n * d \<le> y div d * d" using assms(1) by simp
  also have "\<dots> \<le> y" using assms(1) div_mult_mod_eq [of y d] pos_mod_sign [of d y] by linarith
  finally show False using assms(2) by simp
qed

lemma chunk_size_iff:
  assumes "is_u32 v"
  shows "isPowerOf2 v \<and> \<not> (v < 1 \<or> v > 262144) \<longleftrightarrow> (\<exists>k \<le> 18. v = 2 ^ k)"
proof -
  have "\<not> ((2::int) ^ k < 1 \<or> (2::int) ^ k > 262144) \<longleftrightarrow> k \<le> 18" for k :: nat
    using power_increasing_iff [of "2::int" k 18] by (auto simp: not_less power_le_one_iff)
  then show ?thesis by (auto simp: isPowerOf2_iff [OF assms] simp del: de_Morgan_disj)
qed

text \<open>C32: A commitment is accepted at registration exactly when it obeys the rules: the chunk size is a power
  of two up to 256 KiB, the chunk count is the size divided by it and rounded up, and the challenge
  indices are distinct chunks in the number the parameters ask for; provided the file has less than
  2^32 chunks, so that the count is not truncated.\<close>

theorem commitment_rules:
  assumes "is_u32 (ac_ChunkSize c)" "is_u64 (ac_TotalSize c)"
    and "ac_TotalSize c \<le> (2 ^ 32 - 1) * ac_ChunkSize c" "int (length (ac_ChallengeIndices c)) < 2 ^ 32"
  shows "validateAvailabilityCommitment (Some c) challengeCount minChunks = Inr () \<longleftrightarrow>
         valid_commitment challengeCount minChunks c"
proof (cases "isPowerOf2 (ac_ChunkSize c) \<and> \<not> (ac_ChunkSize c < 1 \<or> ac_ChunkSize c > 262144) \<and> 4 \<le> ac_TotalSize c")
  case True
  let ?d = "ac_ChunkSize c" and ?x = "ac_TotalSize c"
  have d: "0 < ?d" "?d \<le> 262144" "4 \<le> ?x" using True by auto
  have bound: "?x \<le> 4294967295 * 262144" using assms(3) d(2) by simp
  have "(?x + ?d - 1) div ?d < 2 ^ 32"
  proof -
    have "?x + ?d - 1 < 2 ^ 32 * ?d" using assms(3) d by (simp add: algebra_simps)
    with d(1) show ?thesis by (rule div_less_int)
  qed
  moreover have "0 \<le> (?x + ?d - 1) div ?d" using d by (simp add: pos_imp_zdiv_nonneg_iff)
  ultimately have n: "u32 (u64 (u64 (?x + ?d) - 1) div ?d) = (?x + ?d - 1) div ?d"
    using d bound by (simp add: u64_id u32_id)
  show ?thesis
    using True chunk_size_iff [OF assms(1)] assms(4)
    by (auto simp: validateAvailabilityCommitment_def valid_commitment_def Let_def n ceil_div_iff [OF d(1)]
        check_indices_iff u32_id)
next
  case False
  then show ?thesis
    using chunk_size_iff [OF assms(1)]
    by (auto simp: validateAvailabilityCommitment_def valid_commitment_def Let_def)
qed

theorem commitment_rules_witness:
  "valid_commitment 2 4 ex_commitment \<and> validateAvailabilityCommitment (Some ex_commitment) 2 4 = Inr ()"
proof -
  have "length (mt_Root ex_tree) = 32"
    using tree_hash_sizes(1) [OF ex_tree_built ex_blake3_size] by (simp add: HashSize_def)
  then have "valid_commitment 2 4 ex_commitment"
    by (auto simp: valid_commitment_def ex_commitment_def intro!: exI [of _ 1])
  then show ?thesis
    using commitment_rules [of ex_commitment 2 4] by (simp add: ex_commitment_def)
qed


lemma kademlia_draw:
  assumes "ids \<noteq> []" "signatures \<noteq> []" "counterMax = int (length ids)" "counterMax < 2 ^ 63" "[] \<notin> set ids"
  shows "VerifyKademliaIDs kl random ids signatures counterIc counterMax = Inr () \<longleftrightarrow>
      CreateKademliaID kl signatures (u64 (counterIc + random mod counterMax)) = Inr (ids ! nat (random mod counterMax))"
proof -
  have pos: "0 < counterMax" using assms(1,3) by simp
  have "i64 counterMax = counterMax" using assms(4) pos by (simp add: i64_id)
  moreover have "\<not> counterMax \<le> random mod counterMax" using pos by (simp add: not_le)
  ultimately show ?thesis
    using assms pos by (auto simp: VerifyKademliaIDs_def Let_def split: sum.splits)
qed

text \<open>C34: The identifier check looks at one position only, drawn at random. All draws accept exactly when every
  identifier is the one computed from the signatures and its counter; a single wrong identifier makes
  the draw that hits it reject, so that two validators can disagree.\<close>

theorem kademlia_verdict:
  assumes "ids \<noteq> []" "signatures \<noteq> []" "counterMax = int (length ids)" "counterMax < 2 ^ 63" "[] \<notin> set ids"
  shows "(VerifyKademliaIDs kl random ids signatures counterIc counterMax = Inr () \<longleftrightarrow>
      CreateKademliaID kl signatures (u64 (counterIc + random mod counterMax)) = Inr (ids ! nat (random mod counterMax)))
    \<and> ((\<forall>random. VerifyKademliaIDs kl random ids signatures counterIc counterMax = Inr ()) \<longleftrightarrow>
      (\<forall>i < length ids. CreateKademliaID kl signatures (u64 (counterIc + int i)) = Inr (ids ! i)))"
proof (intro conjI)
  note v = kademlia_draw [OF assms]
  have pos: "0 < counterMax" using assms(1,3) by simp
  show "VerifyKademliaIDs kl random ids signatures counterIc counterMax = Inr () \<longleftrightarrow>
      CreateKademliaID kl signatures (u64 (counterIc + random mod counterMax)) = Inr (ids ! nat (random mod counterMax))"
    by (rule v)
  show "(\<forall>random. VerifyKademliaIDs kl random ids signatures counterIc counterMax = Inr ()) \<longleftrightarrow>
      (\<forall>i < length ids. CreateKademliaID kl signatures (u64 (counterIc + int i)) = Inr (ids ! i))"
  proof (intro iffI allI impI)
    fix i assume a: "\<forall>random. VerifyKademliaIDs kl random ids signatures counterIc counterMax = Inr ()"
      and i: "i < length ids"
    then show "CreateKademliaID kl signatures (u64 (counterIc + int i)) = Inr (ids ! i)"
      using v [of kl "int i" counterIc] assms(3) by simp
  next
    fix random assume a: "\<forall>i < length ids. CreateKademliaID kl signatures (u64 (counterIc + int i)) = Inr (ids ! i)"
    have "nat (random mod counterMax) < length ids" using pos assms(3) by (simp add: nat_less_iff)
    with a have "CreateKademliaID kl signatures (u64 (counterIc + int (nat (random mod counterMax)))) =
        Inr (ids ! nat (random mod counterMax))" by blast
    then show "VerifyKademliaIDs kl random ids signatures counterIc counterMax = Inr ()"
      using pos v [of kl random counterIc] by simp
  qed
qed

definition ex_kad :: kad_libs where
  "ex_kad = \<lparr>kl_zstd = Some, kl_blake3 = (\<lambda>b. b), kl_base58 = hex_encode\<rparr>"

theorem kademlia_verdict_witness:
  "let good = projr (CreateKademliaID ex_kad ''d.s'' 7) in
   VerifyKademliaIDs ex_kad 2 [good, ''x''] ''d.s'' 7 2 = Inr ()
   \<and> VerifyKademliaIDs ex_kad 3 [good, ''x''] ''d.s'' 7 2 \<noteq> Inr ()"
proof -
  let ?good = "projr (CreateKademliaID ex_kad ''d.s'' 7)"
  have c: "CreateKademliaID ex_kad ''d.s'' 7 = Inr ?good" "?good \<noteq> []"
    "CreateKademliaID ex_kad ''d.s'' 8 \<noteq> Inr ''x''" by code_simp+
  then show ?thesis
    using kademlia_verdict [of "[?good, ''x'']" "''d.s''" 2 ex_kad 2 7]
      kademlia_verdict [of "[?good, ''x'']" "''d.s''" 2 ex_kad 3 7]
    by (simp add: u64_def)
qed

end
