(* ===== verification/Go_Float.thy ===== *)
theory Go_Float
  imports Complex_Main Prelude "HOL-Library.Log_Nat"
begin

text \<open>
  Go's \<open>float64\<close> as far as the modules compare and classify values: not a number, the two
  infinities, or a finite value as an exact rational. The comparisons are those of IEEE 754: every
  comparison with a NaN is false. \<open>float_of_u64\<close> is the conversion \<open>float64(x)\<close> of an unsigned
  integer, which rounds to 53 significant bits, ties to even. \<open>duration_secs\<close> is the number of whole
  seconds of a duration as the code computes it, through a float.
\<close>

datatype float64 = FNaN | FPosInf | FNegInf | FFin rat

fun flt_less :: "float64 \<Rightarrow> float64 \<Rightarrow> bool" where
  "flt_less FNaN y = False"
| "flt_less x FNaN = False"
| "flt_less FPosInf y = False"
| "flt_less x FNegInf = False"
| "flt_less FNegInf y = True"
| "flt_less x FPosInf = True"
| "flt_less (FFin x) (FFin y) = (x < y)"

fun flt_le :: "float64 \<Rightarrow> float64 \<Rightarrow> bool" where
  "flt_le FNaN y = False"
| "flt_le x FNaN = False"
| "flt_le FNegInf y = True"
| "flt_le x FPosInf = True"
| "flt_le FPosInf y = False"
| "flt_le x FNegInf = False"
| "flt_le (FFin x) (FFin y) = (x \<le> y)"

fun flt_finite :: "float64 \<Rightarrow> bool" where
  "flt_finite (FFin x) = True"
| "flt_finite x = False"

definition round53 :: "nat \<Rightarrow> nat" where
  "round53 n =
     (if n < 2 ^ 53 then n
      else let e = floorlog 2 n - 53; q = n div 2 ^ e; r = n mod 2 ^ e
           in (if 2 * r < 2 ^ e \<or> (2 * r = 2 ^ e \<and> even q) then q else q + 1) * 2 ^ e)"

definition float_of_u64 :: "int \<Rightarrow> float64" where
  "float_of_u64 n = FFin (rat_of_nat (round53 (nat n)))"

text \<open>
  A positive rational rounded to 53 significant bits, ties to even, for values of at least
  \<open>2^-47\<close>; and \<open>time.Duration.Seconds\<close> of a number of nanoseconds with \<open>int64(...)\<close> of it, where whole
  seconds of an \<open>int64\<close> duration are below \<open>2^34\<close> and exact.
\<close>

definition round_sig :: "rat \<Rightarrow> rat" where
  "round_sig x =
     (if x \<le> 0 then 0
      else let s = 2 ^ (floorlog 2 (nat \<lfloor>x * 2 ^ 100\<rfloor>) - 53) / 2 ^ 100;
               q = \<lfloor>x / s\<rfloor>; r = x / s - of_int q
           in of_int (if r < 1 / 2 \<or> (r = 1 / 2 \<and> even q) then q else q + 1) * s)"

definition duration_secs :: "int \<Rightarrow> int" where
  "duration_secs d =
     (let n = \<bar>d\<bar>; sec = n div 10 ^ 9; nsec = n mod 10 ^ 9
      in sgn d * (if nsec = 0 then sec
                  else \<lfloor>round_sig (of_int sec + round_sig (of_int nsec / 10 ^ 9))\<rfloor>))"

lemma float_of_u64_exact: "0 \<le> n \<Longrightarrow> n < 2 ^ 53 \<Longrightarrow> float_of_u64 n = FFin (rat_of_int n)"
  by (simp add: float_of_u64_def round53_def nat_less_iff)

lemma flt_le_finite: "flt_finite x \<Longrightarrow> flt_finite y \<Longrightarrow> flt_le x y \<longleftrightarrow> \<not> flt_less y x"
  by (cases x; cases y) auto

lemma flt_not_less_trans: "flt_finite x \<Longrightarrow> flt_finite y \<Longrightarrow> flt_finite z \<Longrightarrow>
    \<not> flt_less x y \<Longrightarrow> \<not> flt_less y z \<Longrightarrow> \<not> flt_less x z"
  by (cases x; cases y; cases z) auto

lemma flt_finite_of_u64 [simp]: "flt_finite (float_of_u64 n)"
  by (simp add: float_of_u64_def)

end
