(* ===== verification/Supernode_Params.thy ===== *)
theory Supernode_Params
  imports Sdk Go_Float
begin

text \<open>
  Parameters of the supernode module (types/params.go, keeper/params.go, keeper/msg\_update\_params.go)
  and the compliance check of reported metrics (keeper/metrics\_validation.go). The semantic
  versions and the check of a coin come from libraries and are arguments. A nil slice of ports is
  the empty list, which is what the protobuf codec reads back for it.
\<close>

named_theorems sn_param_simps

section \<open>Data\<close>

record reward_distribution =
  rd_PaymentPeriodBlocks :: int
  rd_RegistrationFeeShareBps :: int
  rd_MinCascadeBytesForPayment :: int
  rd_NewSnRampUpPeriods :: int
  rd_MeasurementSmoothingPeriods :: int
  rd_UsageGrowthCapBpsPerPeriod :: int

record sn_params =
  sp_MinimumStakeForSn :: "string \<times> int"
  sp_ReportingThreshold :: int
  sp_SlashingThreshold :: int
  sp_MetricsThresholds :: string
  sp_EvidenceRetentionPeriod :: string
  sp_SlashingFraction :: string
  sp_InactivityPenaltyPeriod :: string
  sp_MetricsUpdateIntervalBlocks :: int
  sp_MetricsGracePeriodBlocks :: int
  sp_MetricsFreshnessMaxBlocks :: int
  sp_MinSupernodeVersion :: string
  sp_MinCpuCores :: int
  sp_MaxCpuUsagePercent :: int
  sp_MinMemGb :: int
  sp_MaxMemUsagePercent :: int
  sp_MinStorageGb :: int
  sp_MaxStorageUsagePercent :: int
  sp_RequiredOpenPorts :: "int list"
  sp_RewardDistribution :: "reward_distribution option"

text \<open>The libraries: \<open>coin.Validate()\<close>, \<open>semver.NewVersion\<close> (as validity) and \<open>LessThan\<close>.\<close>

record sn_libs =
  coin_Validate :: "string \<times> int \<Rightarrow> bool"
  semver_valid :: "string \<Rightarrow> bool"
  semver_LessThan :: "string \<Rightarrow> string \<Rightarrow> bool"

section \<open>Defaults\<close>

definition DefaultRewardDistribution :: reward_distribution where
  "DefaultRewardDistribution = \<lparr>rd_PaymentPeriodBlocks = 100800, rd_RegistrationFeeShareBps = 200,
     rd_MinCascadeBytesForPayment = 1073741824, rd_NewSnRampUpPeriods = 4,
     rd_MeasurementSmoothingPeriods = 4, rd_UsageGrowthCapBpsPerPeriod = 1000\<rparr>"

definition DefaultRequiredOpenPorts :: "int list" where
  "DefaultRequiredOpenPorts = [4444, 4445, 8002]"

text \<open>A numeric field that is zero, or a string or list that is empty, takes the default.\<close>

definition dflt :: "'a::zero \<Rightarrow> 'a \<Rightarrow> 'a" where
  "dflt d x = (if x = 0 then d else x)"

definition dflts :: "'a list \<Rightarrow> 'a list \<Rightarrow> 'a list" where
  "dflts d x = (if x = [] then d else x)"

definition WithDefaults :: "sn_params \<Rightarrow> sn_params" where
  "WithDefaults p = p\<lparr>
     sp_MetricsUpdateIntervalBlocks := dflt 400 (sp_MetricsUpdateIntervalBlocks p),
     sp_MetricsGracePeriodBlocks := dflt 100 (sp_MetricsGracePeriodBlocks p),
     sp_MetricsFreshnessMaxBlocks := dflt 5000 (sp_MetricsFreshnessMaxBlocks p),
     sp_MinSupernodeVersion := dflts ''2.0.0'' (sp_MinSupernodeVersion p),
     sp_MinCpuCores := dflt 8 (sp_MinCpuCores p),
     sp_MaxCpuUsagePercent := dflt 90 (sp_MaxCpuUsagePercent p),
     sp_MinMemGb := dflt 16 (sp_MinMemGb p),
     sp_MaxMemUsagePercent := dflt 90 (sp_MaxMemUsagePercent p),
     sp_MinStorageGb := dflt 1000 (sp_MinStorageGb p),
     sp_MaxStorageUsagePercent := dflt 90 (sp_MaxStorageUsagePercent p),
     sp_RequiredOpenPorts := dflts DefaultRequiredOpenPorts (sp_RequiredOpenPorts p),
     sp_RewardDistribution := Some (case sp_RewardDistribution p of
        None \<Rightarrow> DefaultRewardDistribution
      | Some d \<Rightarrow> d\<lparr>
          rd_PaymentPeriodBlocks := dflt 100800 (rd_PaymentPeriodBlocks d),
          rd_MinCascadeBytesForPayment := dflt 1073741824 (rd_MinCascadeBytesForPayment d),
          rd_MeasurementSmoothingPeriods := dflt 4 (rd_MeasurementSmoothingPeriods d),
          rd_UsageGrowthCapBpsPerPeriod := dflt 1000 (rd_UsageGrowthCapBpsPerPeriod d)\<rparr>)\<rparr>"

definition sn_NewParams :: "string \<times> int \<Rightarrow> int \<Rightarrow> int \<Rightarrow> string \<Rightarrow> string \<Rightarrow> string \<Rightarrow> string \<Rightarrow>
    int \<Rightarrow> int \<Rightarrow> int \<Rightarrow> string \<Rightarrow> int \<Rightarrow> int \<Rightarrow> int \<Rightarrow> int \<Rightarrow> int \<Rightarrow> int \<Rightarrow> int list \<Rightarrow> sn_params" where
  "sn_NewParams minStake reporting slashing thresholds retention fraction penalty
     updateInterval grace freshness minVersion minCpu maxCpu minMem maxMem minStorage maxStorage ports =
   \<lparr>sp_MinimumStakeForSn = minStake, sp_ReportingThreshold = reporting, sp_SlashingThreshold = slashing,
    sp_MetricsThresholds = thresholds, sp_EvidenceRetentionPeriod = retention,
    sp_SlashingFraction = fraction, sp_InactivityPenaltyPeriod = penalty,
    sp_MetricsUpdateIntervalBlocks = updateInterval, sp_MetricsGracePeriodBlocks = grace,
    sp_MetricsFreshnessMaxBlocks = freshness, sp_MinSupernodeVersion = minVersion,
    sp_MinCpuCores = minCpu, sp_MaxCpuUsagePercent = maxCpu, sp_MinMemGb = minMem,
    sp_MaxMemUsagePercent = maxMem, sp_MinStorageGb = minStorage, sp_MaxStorageUsagePercent = maxStorage,
    sp_RequiredOpenPorts = ports, sp_RewardDistribution = None\<rparr>"

definition sn_DefaultParams :: sn_params where
  "sn_DefaultParams = WithDefaults (sn_NewParams (''ulume'', 0) 0 0 [] [] [] [] 400 100 5000 ''2.0.0''
     8 90 16 90 1000 90 DefaultRequiredOpenPorts)"

section \<open>Validation\<close>

text \<open>The error is the name of the offending field.\<close>

type_synonym param_error = string

definition check :: "'e \<Rightarrow> bool \<Rightarrow> 'e + unit" where
  "check e b = (if b then Inr () else Inl e)"

definition validatePositiveUint64 :: "string \<Rightarrow> int \<Rightarrow> param_error + unit" where
  "validatePositiveUint64 field v = check field (v \<noteq> 0)"

definition validatePercentUint64 :: "string \<Rightarrow> int \<Rightarrow> param_error + unit" where
  "validatePercentUint64 field v = check field (v \<le> 100)"

definition validateVersionString :: "sn_libs \<Rightarrow> string \<Rightarrow> param_error + unit" where
  "validateVersionString L v = check ''min supernode version'' (v \<noteq> [] \<and> semver_valid L v)"

definition validateRequiredPorts :: "int list \<Rightarrow> param_error + unit" where
  "validateRequiredPorts ports = check ''required ports'' (list_all (\<lambda>p. p \<noteq> 0) ports)"

fun checks :: "('e + unit) list \<Rightarrow> 'e + unit" where
  "checks [] = Inr ()"
| "checks (c # cs) = bindR c (\<lambda>_. checks cs)"

text \<open>The thresholds, fractions and minima without a check in the source are not listed.\<close>

definition sn_Params_Validate :: "sn_libs \<Rightarrow> sn_params \<Rightarrow> param_error + unit" where
  "sn_Params_Validate L p = checks
     ([check ''minimum stake'' (coin_Validate L (sp_MinimumStakeForSn p)),
       validatePositiveUint64 ''metrics update interval (blocks)'' (sp_MetricsUpdateIntervalBlocks p),
       validatePositiveUint64 ''metrics grace period'' (sp_MetricsGracePeriodBlocks p),
       validatePositiveUint64 ''metrics freshness max blocks'' (sp_MetricsFreshnessMaxBlocks p),
       validateVersionString L (sp_MinSupernodeVersion p),
       validatePercentUint64 ''max cpu usage percent'' (sp_MaxCpuUsagePercent p),
       validatePercentUint64 ''max mem usage percent'' (sp_MaxMemUsagePercent p),
       validatePercentUint64 ''max storage usage percent'' (sp_MaxStorageUsagePercent p),
       validateRequiredPorts (sp_RequiredOpenPorts p)]
      @ (case sp_RewardDistribution p of
           None \<Rightarrow> [Inl ''reward_distribution must be present'']
         | Some d \<Rightarrow>
             [check ''payment_period_blocks'' (rd_PaymentPeriodBlocks d \<noteq> 0),
              check ''registration_fee_share_bps'' (rd_RegistrationFeeShareBps d \<le> 10000),
              check ''min_cascade_bytes_for_payment'' (rd_MinCascadeBytesForPayment d \<noteq> 0),
              check ''measurement_smoothing_periods'' (rd_MeasurementSmoothingPeriods d \<noteq> 0)]))"

section \<open>Updating (msg\_update\_params.go)\<close>

text \<open>A field of the proposal replaces the stored one unless it is zero or empty.\<close>

definition merge_coin :: "sn_libs \<Rightarrow> string \<times> int \<Rightarrow> string \<times> int \<Rightarrow> string \<times> int" where
  "merge_coin L base inc = (if coin_Validate L inc \<and> snd inc \<noteq> 0 then inc else base)"

definition mergeParams :: "sn_libs \<Rightarrow> sn_params \<Rightarrow> sn_params \<Rightarrow> sn_params" where
  "mergeParams L b i =
   \<lparr>sp_MinimumStakeForSn = merge_coin L (sp_MinimumStakeForSn b) (sp_MinimumStakeForSn i),
    sp_ReportingThreshold = dflt (sp_ReportingThreshold b) (sp_ReportingThreshold i),
    sp_SlashingThreshold = dflt (sp_SlashingThreshold b) (sp_SlashingThreshold i),
    sp_MetricsThresholds = dflts (sp_MetricsThresholds b) (sp_MetricsThresholds i),
    sp_EvidenceRetentionPeriod = dflts (sp_EvidenceRetentionPeriod b) (sp_EvidenceRetentionPeriod i),
    sp_SlashingFraction = dflts (sp_SlashingFraction b) (sp_SlashingFraction i),
    sp_InactivityPenaltyPeriod = dflts (sp_InactivityPenaltyPeriod b) (sp_InactivityPenaltyPeriod i),
    sp_MetricsUpdateIntervalBlocks = dflt (sp_MetricsUpdateIntervalBlocks b) (sp_MetricsUpdateIntervalBlocks i),
    sp_MetricsGracePeriodBlocks = dflt (sp_MetricsGracePeriodBlocks b) (sp_MetricsGracePeriodBlocks i),
    sp_MetricsFreshnessMaxBlocks = dflt (sp_MetricsFreshnessMaxBlocks b) (sp_MetricsFreshnessMaxBlocks i),
    sp_MinSupernodeVersion = dflts (sp_MinSupernodeVersion b) (sp_MinSupernodeVersion i),
    sp_MinCpuCores = dflt (sp_MinCpuCores b) (sp_MinCpuCores i),
    sp_MaxCpuUsagePercent = dflt (sp_MaxCpuUsagePercent b) (sp_MaxCpuUsagePercent i),
    sp_MinMemGb = dflt (sp_MinMemGb b) (sp_MinMemGb i),
    sp_MaxMemUsagePercent = dflt (sp_MaxMemUsagePercent b) (sp_MaxMemUsagePercent i),
    sp_MinStorageGb = dflt (sp_MinStorageGb b) (sp_MinStorageGb i),
    sp_MaxStorageUsagePercent = dflt (sp_MaxStorageUsagePercent b) (sp_MaxStorageUsagePercent i),
    sp_RequiredOpenPorts = dflts (sp_RequiredOpenPorts b) (sp_RequiredOpenPorts i),
    sp_RewardDistribution = (case sp_RewardDistribution i of None \<Rightarrow> sp_RewardDistribution b | Some d \<Rightarrow> Some d)\<rparr>"

text \<open>The stored parameters are absent before genesis.\<close>

definition sn_GetParams :: "sn_params option \<Rightarrow> sn_params" where
  "sn_GetParams stored = (case stored of None \<Rightarrow> sn_DefaultParams | Some p \<Rightarrow> WithDefaults p)"

definition sn_SetParams :: "sn_params \<Rightarrow> sn_params option" where
  "sn_SetParams p = Some (WithDefaults p)"

definition GetRegistrationFeeShareBps :: "sn_params option \<Rightarrow> int" where
  "GetRegistrationFeeShareBps stored =
     (case sp_RewardDistribution (sn_GetParams stored) of None \<Rightarrow> 0 | Some d \<Rightarrow> rd_RegistrationFeeShareBps d)"

definition sn_UpdateParams ::
    "sn_libs \<Rightarrow> string \<Rightarrow> string \<Rightarrow> sn_params \<Rightarrow> sn_params option \<Rightarrow> param_error + sn_params option" where
  "sn_UpdateParams L authority signer incoming stored =
     (if authority \<noteq> signer then Inl ''invalid authority''
      else let merged = WithDefaults (mergeParams L (sn_GetParams stored) incoming)
           in bindR (sn_Params_Validate L merged) (\<lambda>_. Inr (sn_SetParams merged)))"

section \<open>Compliance of metrics (metrics\_validation.go)\<close>

datatype port_state = PORT_STATE_UNKNOWN | PORT_STATE_OPEN | PORT_STATE_CLOSED

record sn_metrics =
  sm_VersionMajor :: int
  sm_VersionMinor :: int
  sm_VersionPatch :: int
  sm_CpuCoresTotal :: float64
  sm_CpuUsagePercent :: float64
  sm_MemTotalGb :: float64
  sm_MemUsagePercent :: float64
  sm_MemFreeGb :: float64
  sm_DiskTotalGb :: float64
  sm_DiskUsagePercent :: float64
  sm_DiskFreeGb :: float64
  sm_UptimeSeconds :: float64
  sm_PeersCount :: int
  sm_OpenPorts :: "(int \<times> port_state) list"
  sm_CascadeKademliaDbBytes :: float64

text \<open>An issue stands for the text the code prints, with its arguments.\<close>

datatype issue =
    InvalidNumeric string | InvalidReportedVersion | VersionBelow string string | InvalidMinVersion
  | MustBePositive string | MustBeNonNegative string | BelowMinimum string float64 int
  | OutsidePercent string | AboveMax string float64 int | FreeExceedsTotal string
  | InvalidPort int | InvalidRequiredPort int | RequiredPortClosed int | DiskStorageFull

record compliance_result =
  co_Issues :: "issue list"
  co_StorageFull :: bool

definition IsCompliant :: "compliance_result \<Rightarrow> bool" where
  "IsCompliant r \<longleftrightarrow> co_Issues r = [] \<and> \<not> co_StorageFull r"

definition AllIssues :: "compliance_result \<Rightarrow> issue list" where
  "AllIssues r = (if \<not> co_StorageFull r then co_Issues r else co_Issues r @ [DiskStorageFull])"

definition buildVersion :: "sn_metrics \<Rightarrow> string" where
  "buildVersion m = dec_of_int (sm_VersionMajor m) @ ''.'' @ dec_of_int (sm_VersionMinor m)
     @ ''.'' @ dec_of_int (sm_VersionPatch m)"

definition issue_if :: "bool \<Rightarrow> issue \<Rightarrow> issue list" where
  "issue_if b i = (if b then [i] else [])"

definition checkFinite :: "string \<Rightarrow> float64 \<Rightarrow> issue list" where
  "checkFinite name v = issue_if (\<not> flt_finite v) (InvalidNumeric name)"

definition usage_issues :: "string \<Rightarrow> float64 \<Rightarrow> int \<Rightarrow> issue list" where
  "usage_issues name u mx =
     (if flt_less u (FFin 0) \<or> flt_less (FFin 100) u then [OutsidePercent name]
      else if flt_less (FFin 0) u then issue_if (flt_less (float_of_u64 mx) u) (AboveMax name u mx)
      else [])"

fun merge_port :: "(int \<times> port_state) list \<Rightarrow> int \<Rightarrow> port_state \<Rightarrow> (int \<times> port_state) list" where
  "merge_port ps port st =
     (case map_of ps port of
        None \<Rightarrow> kv_set port st ps
      | Some prev \<Rightarrow>
          if prev = PORT_STATE_CLOSED then ps
          else if st = PORT_STATE_CLOSED then kv_set port st ps
          else if prev = PORT_STATE_OPEN then ps
          else kv_set port st ps)"

fun portStates :: "(int \<times> port_state) list \<Rightarrow> (int \<times> port_state) list \<times> issue list
    \<Rightarrow> (int \<times> port_state) list \<times> issue list" where
  "portStates [] acc = acc"
| "portStates ((port, st) # rest) (ps, issues) =
     (if port = 0 \<or> 65535 < port then portStates rest (ps, issues @ [InvalidPort port])
      else portStates rest (merge_port ps port st, issues))"

definition required_issues :: "(int \<times> port_state) list \<Rightarrow> int list \<Rightarrow> issue list" where
  "required_issues ps required = concat (map (\<lambda>r.
     if r = 0 \<or> 65535 < r then [InvalidRequiredPort r]
     else issue_if (map_of ps r = Some PORT_STATE_CLOSED) (RequiredPortClosed r)) required)"

definition version_issues :: "sn_libs \<Rightarrow> sn_params \<Rightarrow> sn_metrics \<Rightarrow> issue list" where
  "version_issues L p m =
     (if semver_valid L (sp_MinSupernodeVersion p)
      then if \<not> semver_valid L (buildVersion m) then [InvalidReportedVersion]
           else issue_if (semver_LessThan L (buildVersion m) (sp_MinSupernodeVersion p))
                  (VersionBelow (buildVersion m) (sp_MinSupernodeVersion p))
      else [InvalidMinVersion])"

definition evaluateCompliance :: "sn_libs \<Rightarrow> sn_params \<Rightarrow> sn_metrics \<Rightarrow> compliance_result" where
  "evaluateCompliance L p m =
     (let (ports, portIssues) = portStates (sm_OpenPorts m) ([], [])
      in \<lparr>co_Issues =
            version_issues L p m
          @ checkFinite ''cpu.cores_total'' (sm_CpuCoresTotal m)
          @ checkFinite ''cpu.usage_percent'' (sm_CpuUsagePercent m)
          @ issue_if (flt_le (sm_CpuCoresTotal m) (FFin 0)) (MustBePositive ''cpu.cores_total'')
          @ issue_if (flt_less (sm_CpuCoresTotal m) (float_of_u64 (sp_MinCpuCores p)))
              (BelowMinimum ''cpu cores'' (sm_CpuCoresTotal m) (sp_MinCpuCores p))
          @ usage_issues ''cpu.usage_percent'' (sm_CpuUsagePercent m) (sp_MaxCpuUsagePercent p)
          @ checkFinite ''mem.total_gb'' (sm_MemTotalGb m)
          @ checkFinite ''mem.usage_percent'' (sm_MemUsagePercent m)
          @ checkFinite ''mem.free_gb'' (sm_MemFreeGb m)
          @ issue_if (flt_le (sm_MemTotalGb m) (FFin 0)) (MustBePositive ''mem.total_gb'')
          @ issue_if (flt_less (sm_MemFreeGb m) (FFin 0)) (MustBeNonNegative ''mem.free_gb'')
          @ issue_if (flt_less (sm_MemTotalGb m) (sm_MemFreeGb m)) (FreeExceedsTotal ''mem'')
          @ issue_if (flt_less (sm_MemTotalGb m) (float_of_u64 (sp_MinMemGb p)))
              (BelowMinimum ''mem total'' (sm_MemTotalGb m) (sp_MinMemGb p))
          @ usage_issues ''mem.usage_percent'' (sm_MemUsagePercent m) (sp_MaxMemUsagePercent p)
          @ checkFinite ''disk.total_gb'' (sm_DiskTotalGb m)
          @ checkFinite ''disk.usage_percent'' (sm_DiskUsagePercent m)
          @ checkFinite ''disk.free_gb'' (sm_DiskFreeGb m)
          @ issue_if (flt_le (sm_DiskTotalGb m) (FFin 0)) (MustBePositive ''disk.total_gb'')
          @ issue_if (flt_less (sm_DiskFreeGb m) (FFin 0)) (MustBeNonNegative ''disk.free_gb'')
          @ issue_if (flt_less (sm_DiskTotalGb m) (sm_DiskFreeGb m)) (FreeExceedsTotal ''disk'')
          @ issue_if (flt_less (sm_DiskTotalGb m) (float_of_u64 (sp_MinStorageGb p)))
              (BelowMinimum ''disk total'' (sm_DiskTotalGb m) (sp_MinStorageGb p))
          @ issue_if (flt_less (sm_DiskUsagePercent m) (FFin 0) \<or> flt_less (FFin 100) (sm_DiskUsagePercent m))
              (OutsidePercent ''disk.usage_percent'')
          @ portIssues
          @ required_issues ports (sp_RequiredOpenPorts p)
          @ checkFinite ''uptime_seconds'' (sm_UptimeSeconds m)
          @ issue_if (flt_less (sm_UptimeSeconds m) (FFin 0)) (MustBeNonNegative ''uptime_seconds'')
          @ issue_if (sm_PeersCount m = 0) (MustBePositive ''peers_count'')
          @ checkFinite ''cascade_kademlia_db_bytes'' (sm_CascadeKademliaDbBytes m)
          @ issue_if (flt_less (sm_CascadeKademliaDbBytes m) (FFin 0))
              (MustBeNonNegative ''cascade_kademlia_db_bytes''),
          co_StorageFull = flt_less (float_of_u64 (sp_MaxStorageUsagePercent p)) (sm_DiskUsagePercent m)\<rparr>)"

section \<open>A specification of compliance\<close>

definition in_range :: "float64 \<Rightarrow> float64 \<Rightarrow> float64 \<Rightarrow> bool" where
  "in_range lo x hi \<longleftrightarrow> flt_le lo x \<and> flt_le x hi"

definition compliant :: "sn_libs \<Rightarrow> sn_params \<Rightarrow> sn_metrics \<Rightarrow> bool" where
  "compliant L p m \<longleftrightarrow>
     semver_valid L (sp_MinSupernodeVersion p) \<and> semver_valid L (buildVersion m)
   \<and> \<not> semver_LessThan L (buildVersion m) (sp_MinSupernodeVersion p)
   \<and> flt_finite (sm_CpuCoresTotal m) \<and> flt_less (FFin 0) (sm_CpuCoresTotal m)
   \<and> flt_le (float_of_u64 (sp_MinCpuCores p)) (sm_CpuCoresTotal m)
   \<and> in_range (FFin 0) (sm_CpuUsagePercent m) (FFin 100)
   \<and> flt_le (sm_CpuUsagePercent m) (float_of_u64 (sp_MaxCpuUsagePercent p))
   \<and> flt_finite (sm_MemTotalGb m) \<and> flt_less (FFin 0) (sm_MemTotalGb m)
   \<and> flt_le (float_of_u64 (sp_MinMemGb p)) (sm_MemTotalGb m)
   \<and> in_range (FFin 0) (sm_MemFreeGb m) (sm_MemTotalGb m)
   \<and> in_range (FFin 0) (sm_MemUsagePercent m) (FFin 100)
   \<and> flt_le (sm_MemUsagePercent m) (float_of_u64 (sp_MaxMemUsagePercent p))
   \<and> flt_finite (sm_DiskTotalGb m) \<and> flt_less (FFin 0) (sm_DiskTotalGb m)
   \<and> flt_le (float_of_u64 (sp_MinStorageGb p)) (sm_DiskTotalGb m)
   \<and> in_range (FFin 0) (sm_DiskFreeGb m) (sm_DiskTotalGb m)
   \<and> in_range (FFin 0) (sm_DiskUsagePercent m) (FFin 100)
   \<and> flt_le (sm_DiskUsagePercent m) (float_of_u64 (sp_MaxStorageUsagePercent p))
   \<and> list_all (\<lambda>(port, _). port \<noteq> 0 \<and> port \<le> 65535) (sm_OpenPorts m)
   \<and> list_all (\<lambda>r. r \<noteq> 0 \<and> r \<le> 65535 \<and> (r, PORT_STATE_CLOSED) \<notin> set (sm_OpenPorts m)) (sp_RequiredOpenPorts p)
   \<and> flt_finite (sm_UptimeSeconds m) \<and> flt_le (FFin 0) (sm_UptimeSeconds m)
   \<and> sm_PeersCount m \<noteq> 0
   \<and> flt_finite (sm_CascadeKademliaDbBytes m) \<and> flt_le (FFin 0) (sm_CascadeKademliaDbBytes m)"

section \<open>Lemmas\<close>

lemma issue_if_Nil [simp]: "issue_if b i = [] \<longleftrightarrow> \<not> b"
  by (simp add: issue_if_def)

lemma checkFinite_Nil [simp]: "checkFinite n v = [] \<longleftrightarrow> flt_finite v"
  by (simp add: checkFinite_def)

lemma flt_of_u64_nonneg: "flt_le (FFin 0) (float_of_u64 n)"
  by (simp add: float_of_u64_def)

lemma usage_issues_Nil:
  "flt_finite u \<Longrightarrow> usage_issues n u mx = [] \<longleftrightarrow> in_range (FFin 0) u (FFin 100) \<and> flt_le u (float_of_u64 mx)"
  using flt_of_u64_nonneg [of mx]
  by (cases u; cases "float_of_u64 mx") (auto simp: usage_issues_def in_range_def)

lemma flt_le_iff_pos: "flt_finite x \<Longrightarrow> \<not> flt_le x (FFin 0) \<longleftrightarrow> flt_less (FFin 0) x"
  by (cases x) auto

lemma flt_not_less_iff: "flt_finite x \<Longrightarrow> flt_finite y \<Longrightarrow> \<not> flt_less x y \<longleftrightarrow> flt_le y x"
  by (cases x; cases y) auto

lemma in_range_finite: "flt_finite lo \<Longrightarrow> flt_finite hi \<Longrightarrow> in_range lo x hi \<Longrightarrow> flt_finite x"
  by (cases x; cases lo; cases hi) (auto simp: in_range_def)

lemma in_range_free:
  "flt_finite t \<Longrightarrow> in_range (FFin 0) x t \<longleftrightarrow> flt_finite x \<and> flt_le (FFin 0) x \<and> flt_le x t"
  by (cases x; cases t) (auto simp: in_range_def)

lemma in_range_pct: "in_range (FFin 0) x (FFin 100) \<longleftrightarrow> flt_finite x \<and> flt_le (FFin 0) x \<and> flt_le x (FFin 100)"
  by (simp add: in_range_free)

lemma kv_set_port [simp]: "map_of (kv_set p st ps) q = (if q = p then Some st else map_of ps q)"
  by (simp add: map_of_kv_set)

text \<open>A port is recorded as closed if and only if it was so before or some entry reports it closed.\<close>

lemma portStates_closed:
  "map_of (fst (portStates ports (ps, is))) r = Some PORT_STATE_CLOSED \<longleftrightarrow>
     map_of ps r = Some PORT_STATE_CLOSED \<or>
     (r \<noteq> 0 \<and> r \<le> 65535 \<and> (r, PORT_STATE_CLOSED) \<in> set ports)"
  by (induction ports "(ps, is)" arbitrary: ps "is" rule: portStates.induct)
     (auto split: option.splits if_splits)

lemma portStates_issues:
  "snd (portStates ports (ps, is)) = is @ map (\<lambda>(p, _). InvalidPort p)
     (filter (\<lambda>(p, _). p = 0 \<or> 65535 < p) ports)"
  by (induction ports "(ps, is)" arbitrary: ps "is" rule: portStates.induct)
     (auto split: option.splits if_splits)

lemma required_issues_Nil:
  "required_issues (fst (portStates ports ([], is))) rs = [] \<longleftrightarrow>
     list_all (\<lambda>r. r \<noteq> 0 \<and> r \<le> 65535 \<and> (r, PORT_STATE_CLOSED) \<notin> set ports) rs"
  by (induction rs) (auto simp: required_issues_def portStates_closed)

lemma port_issues_Nil:
  "snd (portStates ports (ps, [])) = [] \<longleftrightarrow> list_all (\<lambda>(port, _). port \<noteq> 0 \<and> port \<le> 65535) ports"
  by (auto simp: portStates_issues list_all_iff filter_empty_conv)

lemma version_issues_Nil:
  "version_issues L p m = [] \<longleftrightarrow> semver_valid L (sp_MinSupernodeVersion p) \<and> semver_valid L (buildVersion m)
     \<and> \<not> semver_LessThan L (buildVersion m) (sp_MinSupernodeVersion p)"
  by (simp add: version_issues_def)

lemma checks_ok: "checks cs = Inr () \<longleftrightarrow> (\<forall>c \<in> set cs. c = Inr ())"
  by (induction cs) (auto simp: bindR_Inr_iff)

lemma check_ok [simp]: "check e b = Inr () \<longleftrightarrow> b"
  by (simp add: check_def)

lemma dflt_dflt [simp]: "dflt d (dflt d x) = dflt d x" "dflts e (dflts e y) = dflts e y"
  by (simp_all add: dflt_def dflts_def)

lemma WithDefaults_idem: "WithDefaults (WithDefaults p) = WithDefaults p"
  by (cases "sp_RewardDistribution p") (simp_all add: WithDefaults_def dflt_def DefaultRewardDistribution_def)

lemma sn_Get_Set_params: "sn_GetParams (sn_SetParams p) = WithDefaults p"
  by (simp add: sn_GetParams_def sn_SetParams_def WithDefaults_idem)

section \<open>Properties\<close>

text \<open>C27: The compliance check reports no issue if and only if the report meets the specification:
  version not below the minimum, every number finite and within its bounds, all reported ports
  valid, and no required port reported closed by any of its (possibly repeated) entries.\<close>

theorem evaluateCompliance_spec:
  "IsCompliant (evaluateCompliance L p m) \<longleftrightarrow> compliant L p m"
  unfolding IsCompliant_def evaluateCompliance_def compliant_def
  by (simp add: split_beta version_issues_Nil required_issues_Nil port_issues_Nil usage_issues_Nil
        flt_le_iff_pos flt_not_less_iff in_range_pct in_range_free cong: conj_cong) blast

text \<open>C28: An accepted parameter update was signed by the authority, and what is read afterwards is the
  proposal merged into the previous parameters, which passes validation; reading and storing again
  changes nothing.\<close>

theorem sn_UpdateParams_valid:
  assumes "sn_UpdateParams L authority signer incoming stored = Inr stored'"
  shows "signer = authority
    \<and> sn_GetParams stored' = WithDefaults (mergeParams L (sn_GetParams stored) incoming)
    \<and> sn_Params_Validate L (sn_GetParams stored') = Inr ()
    \<and> sn_SetParams (sn_GetParams stored') = stored'"
proof -
  let ?m = "WithDefaults (mergeParams L (sn_GetParams stored) incoming)"
  have s: "signer = authority" "sn_Params_Validate L ?m = Inr ()" "stored' = sn_SetParams ?m"
    using assms by (auto simp: sn_UpdateParams_def Let_def bindR_Inr_iff split: if_splits)
  then have "sn_GetParams stored' = ?m" by (simp add: sn_Get_Set_params WithDefaults_idem)
  with s show ?thesis by simp
qed

definition ex_libs :: sn_libs where
  "ex_libs = \<lparr>coin_Validate = (\<lambda>c. fst c \<noteq> [] \<and> 0 \<le> snd c), semver_valid = (\<lambda>v. v \<noteq> []),
     semver_LessThan = (\<lambda>_ _. False)\<rparr>"

theorem sn_UpdateParams_valid_witness:
  "\<exists>stored'. sn_UpdateParams ex_libs ''gov'' ''gov'' (sn_DefaultParams\<lparr>sp_MinCpuCores := 4\<rparr>) None = Inr stored'
     \<and> sn_Params_Validate ex_libs (sn_GetParams stored') = Inr ()"
proof -
  have "is_ok (sn_UpdateParams ex_libs ''gov'' ''gov'' (sn_DefaultParams\<lparr>sp_MinCpuCores := 4\<rparr>) None)" by code_simp
  then obtain stored' where
    s: "sn_UpdateParams ex_libs ''gov'' ''gov'' (sn_DefaultParams\<lparr>sp_MinCpuCores := 4\<rparr>) None = Inr stored'"
    by (auto simp: is_ok_iff)
  with sn_UpdateParams_valid [OF s] show ?thesis by blast
qed

end
