(* ===== verification/Supernode.thy ===== *)
theory Supernode
  imports Supernode_Params
begin

text \<open>
  The supernode registry: the records and their index by account (keeper/supernode.go,
  types/super\_node.go), the messages (keeper/msg\_server\_*.go), the staking hooks (keeper/hooks.go)
  and the transitions other modules ask for (keeper/metrics\_state.go, metrics\_staleness.go).
  The staking keeper and the address codec are arguments; events and logs are not modelled. The key
  families of the store (\<open>sn_\<close>, \<open>sna_\<close>, \<open>snm_\<close>, \<open>p_supernode\<close>) are separate fields.
\<close>

named_theorems sn_simps

section \<open>Data\<close>

datatype supernode_state =
    SuperNodeStateUnspecified | SuperNodeStateActive | SuperNodeStateDisabled | SuperNodeStateStopped
  | SuperNodeStatePenalized | SuperNodeStatePostponed | SuperNodeStateStorageFull

record state_record =
  sr_State :: supernode_state
  sr_Height :: int
  sr_Reason :: string

record sn_evidence =
  ev_ReporterAddress :: string
  ev_ValidatorAddress :: string
  ev_ActionId :: string
  ev_EvidenceType :: string
  ev_Description :: string
  ev_Severity :: int
  ev_Height :: int

record ip_history =
  ih_Address :: string
  ih_Height :: int

record account_history =
  ah_Account :: string
  ah_Height :: int

record metrics_aggregate =
  ma_Metrics :: "(string \<times> float64) list"
  ma_ReportCount :: int
  ma_Height :: int

record supernode =
  sn_ValidatorAddress :: string
  sn_States :: "state_record list"
  sn_Evidence :: "sn_evidence list"
  sn_PrevIpAddresses :: "ip_history list"
  sn_Note :: string
  sn_Metrics :: "metrics_aggregate option"
  sn_SupernodeAccount :: string
  sn_P2PPort :: string
  sn_PrevSupernodeAccounts :: "account_history list"

record sn_metrics_state =
  ms_ValidatorAddress :: string
  ms_Metrics :: "sn_metrics option"
  ms_ReportCount :: int
  ms_Height :: int

record sn_store =
  ss_supernodes :: "(bytes \<times> supernode) list"
  ss_accounts :: "(string \<times> bytes) list"
  ss_metrics :: "(bytes \<times> sn_metrics_state) list"
  ss_params :: "sn_params option"

text \<open>A validator as the staking keeper returns it; decimals are integers scaled by \<open>10^18\<close>.\<close>

record validator =
  v_Jailed :: bool
  v_DelegatorShares :: int
  v_TokensFromShares :: "int \<Rightarrow> int"

record sn_env =
  se_codec :: addr_codec
  se_libs :: sn_libs
  se_authority :: string
  se_Height :: int
  se_Validator :: "bytes \<Rightarrow> validator option"
  se_Delegation :: "bytes \<Rightarrow> bytes \<Rightarrow> int option"

datatype sn_error =
    ErrEmptyIPAddress | ErrInvalidSuperNodeState | ErrSupernodeAccountUnspecified
  | ErrInvalidSupernodeAddress | SnSdk sdk_error | SnParams string | SnInvalid string

section \<open>Validation (super\_node.go)\<close>

definition DefaultP2PPort :: string where
  "DefaultP2PPort = ''4445''"

definition DefaultVersion :: string where
  "DefaultVersion = ''1.0.0''"

text \<open>The method fills an empty note and an empty port; its result is the receiver afterwards.\<close>

definition SuperNode_Validate :: "addr_codec \<Rightarrow> supernode \<Rightarrow> sn_error + supernode" where
  "SuperNode_Validate ac s =
     (if ValAddressFromBech32 ac (sn_ValidatorAddress s) = None then Inl (SnSdk ErrExternal)
      else if sn_SupernodeAccount s = [] then Inl ErrSupernodeAccountUnspecified
      else if AccAddressFromBech32 ac (sn_SupernodeAccount s) = None then Inl ErrInvalidSupernodeAddress
      else
        let s1 = s\<lparr>sn_Note := dflts DefaultVersion (sn_Note s)\<rparr> in
        if sn_States s1 = [] then Inl ErrInvalidSuperNodeState
        else if list_ex (\<lambda>st. sr_State st = SuperNodeStateUnspecified) (sn_States s1)
             then Inl ErrInvalidSuperNodeState
        else if sn_PrevIpAddresses s1 = [] \<or> ih_Address (hd (sn_PrevIpAddresses s1)) = []
             then Inl ErrEmptyIPAddress
        else Inr (s1\<lparr>sn_P2PPort := dflts DefaultP2PPort (sn_P2PPort s1)\<rparr>))"

section \<open>Records and the account index (keeper/supernode.go)\<close>

definition QuerySuperNode :: "sn_store \<Rightarrow> bytes \<Rightarrow> supernode option" where
  "QuerySuperNode s valOperAddr = map_of (ss_supernodes s) valOperAddr"

definition SetSuperNode :: "addr_codec \<Rightarrow> supernode \<Rightarrow> sn_store \<Rightarrow> sn_error + sn_store" where
  "SetSuperNode ac sn0 s =
     bindR (SuperNode_Validate ac sn0) (\<lambda>sn.
       case ValAddressFromBech32 ac (sn_ValidatorAddress sn) of
         None \<Rightarrow> Inl (SnSdk ErrExternal)
       | Some valOperAddr \<Rightarrow>
           let existing = QuerySuperNode s valOperAddr;
               acct = sn_SupernodeAccount sn
           in if acct \<noteq> [] \<and> map_of (ss_accounts s) acct \<notin> {None, Some valOperAddr}
              then Inl (SnSdk ErrInvalidRequest)
              else
                let s1 = s\<lparr>ss_supernodes := kv_set valOperAddr sn (ss_supernodes s)\<rparr>;
                    s2 = (case existing of
                            Some old \<Rightarrow>
                              if sn_SupernodeAccount old \<noteq> [] \<and> sn_SupernodeAccount old \<noteq> acct
                              then s1\<lparr>ss_accounts := kv_del (sn_SupernodeAccount old) (ss_accounts s1)\<rparr> else s1
                          | None \<Rightarrow> s1)
                in Inr (if acct \<noteq> [] then s2\<lparr>ss_accounts := kv_set acct valOperAddr (ss_accounts s2)\<rparr> else s2))"

definition DeleteSuperNode :: "bytes \<Rightarrow> sn_store \<Rightarrow> sn_store" where
  "DeleteSuperNode valOperAddr s =
     (let s1 = (case QuerySuperNode s valOperAddr of
                  Some old \<Rightarrow> if sn_SupernodeAccount old \<noteq> []
                     then s\<lparr>ss_accounts := kv_del (sn_SupernodeAccount old) (ss_accounts s)\<rparr> else s
                | None \<Rightarrow> s)
      in s1\<lparr>ss_supernodes := kv_del valOperAddr (ss_supernodes s1)\<rparr>)"

definition stateIn :: "supernode_state \<Rightarrow> supernode_state list \<Rightarrow> bool" where
  "stateIn st filters = list_ex (\<lambda>sf. sf = st) filters"

definition shouldFilter :: "supernode_state list \<Rightarrow> bool" where
  "shouldFilter filters \<longleftrightarrow> filters \<noteq> [] \<and> \<not> list_ex (\<lambda>sf. sf = SuperNodeStateUnspecified) filters"

definition last_state :: "supernode \<Rightarrow> supernode_state" where
  "last_state sn = sr_State (last (sn_States sn))"

definition GetAllSuperNodes :: "supernode_state list \<Rightarrow> sn_store \<Rightarrow> supernode list" where
  "GetAllSuperNodes filters s =
     filter (\<lambda>sn. sn_States sn \<noteq> [] \<and> (\<not> shouldFilter filters \<or> stateIn (last_state sn) filters))
       (map snd (ss_supernodes s))"

definition GetSuperNodeByAccount :: "sn_store \<Rightarrow> string \<Rightarrow> supernode option" where
  "GetSuperNodeByAccount s acct =
     (case map_of (ss_accounts s) acct of
        None \<Rightarrow> None
      | Some valOperAddr \<Rightarrow>
          (case QuerySuperNode s valOperAddr of
             None \<Rightarrow> None
           | Some sn \<Rightarrow> if sn_SupernodeAccount sn \<noteq> acct then None else Some sn))"

definition GetMinStake :: "sn_store \<Rightarrow> int" where
  "GetMinStake s = snd (sp_MinimumStakeForSn (sn_GetParams (ss_params s)))"

definition append_state :: "sn_env \<Rightarrow> supernode_state \<Rightarrow> string \<Rightarrow> supernode \<Rightarrow> supernode" where
  "append_state env st reason sn =
     sn\<lparr>sn_States := sn_States sn @ [\<lparr>sr_State = st, sr_Height = se_Height env, sr_Reason = reason\<rparr>]\<rparr>"

definition IsSuperNodeActive :: "sn_store \<Rightarrow> bytes \<Rightarrow> bool" where
  "IsSuperNodeActive s valAddr =
     (case QuerySuperNode s valAddr of
        None \<Rightarrow> False
      | Some sn \<Rightarrow> sn_States sn \<noteq> [] \<and> last_state sn = SuperNodeStateActive)"

text \<open>Storing the new state; its failure is reported as an I/O error.\<close>

definition save_io :: "sn_env \<Rightarrow> supernode \<Rightarrow> sn_store \<Rightarrow> sn_error + sn_store" where
  "save_io env sn s = (case SetSuperNode (se_codec env) sn s of Inl _ \<Rightarrow> Inl (SnSdk ErrIO) | Inr s' \<Rightarrow> Inr s')"

definition SetSuperNodeActive :: "sn_env \<Rightarrow> bytes \<Rightarrow> sn_store \<Rightarrow> sn_error + sn_store" where
  "SetSuperNodeActive env valAddr s =
     (case QuerySuperNode s valAddr of
        None \<Rightarrow> Inl (SnSdk ErrNotFound)
      | Some sn \<Rightarrow>
          if sn_States sn = [] then Inl (SnSdk ErrInvalidRequest)
          else (case last_state sn of
                  SuperNodeStateDisabled \<Rightarrow> Inr s
                | SuperNodeStateStopped \<Rightarrow> save_io env (append_state env SuperNodeStateActive [] sn) s
                | SuperNodeStateActive \<Rightarrow> Inr s
                | _ \<Rightarrow> Inr s))"

definition SetSuperNodeStopped :: "sn_env \<Rightarrow> bytes \<Rightarrow> sn_store \<Rightarrow> sn_error + sn_store" where
  "SetSuperNodeStopped env valAddr s =
     (case QuerySuperNode s valAddr of
        None \<Rightarrow> Inl (SnSdk ErrNotFound)
      | Some sn \<Rightarrow>
          if sn_States sn = [] then Inl (SnSdk ErrInvalidRequest)
          else if last_state sn = SuperNodeStateActive
               then save_io env (append_state env SuperNodeStateStopped [] sn) s
          else Inr s)"

section \<open>Degraded states (metrics\_state.go)\<close>

definition markPostponed :: "sn_env \<Rightarrow> supernode \<Rightarrow> string \<Rightarrow> sn_store \<Rightarrow> sn_error + sn_store" where
  "markPostponed env sn reason s =
     (if sn_States sn = [] then Inl (SnSdk ErrInvalidRequest)
      else if last_state sn = SuperNodeStatePostponed then Inr s
      else SetSuperNode (se_codec env) (append_state env SuperNodeStatePostponed reason sn) s)"

definition recover_target :: "supernode_state \<Rightarrow> supernode_state" where
  "recover_target target = (if target = SuperNodeStateUnspecified then SuperNodeStateActive else target)"

definition recoverFromPostponed ::
    "sn_env \<Rightarrow> supernode \<Rightarrow> supernode_state \<Rightarrow> sn_store \<Rightarrow> sn_error + sn_store" where
  "recoverFromPostponed env sn target s =
     SetSuperNode (se_codec env) (append_state env (recover_target target) [] sn) s"

definition markStorageFull :: "sn_env \<Rightarrow> supernode \<Rightarrow> sn_store \<Rightarrow> sn_error + sn_store" where
  "markStorageFull env sn s =
     (if sn_States sn = [] then Inl (SnSdk ErrInvalidRequest)
      else if last_state sn = SuperNodeStateStorageFull then Inr s
      else SetSuperNode (se_codec env) (append_state env SuperNodeStateStorageFull [] sn) s)"

definition recoverFromStorageFull ::
    "sn_env \<Rightarrow> supernode \<Rightarrow> supernode_state \<Rightarrow> sn_store \<Rightarrow> sn_error + sn_store" where
  "recoverFromStorageFull env sn target s =
     SetSuperNode (se_codec env) (append_state env (recover_target target) [] sn) s"

definition SetSuperNodePostponed :: "sn_env \<Rightarrow> bytes \<Rightarrow> string \<Rightarrow> sn_store \<Rightarrow> sn_error + sn_store" where
  "SetSuperNodePostponed env valAddr reason s =
     (case QuerySuperNode s valAddr of
        None \<Rightarrow> Inl (SnSdk ErrNotFound) | Some sn \<Rightarrow> markPostponed env sn reason s)"

definition RecoverSuperNodeFromPostponed :: "sn_env \<Rightarrow> bytes \<Rightarrow> sn_store \<Rightarrow> sn_error + sn_store" where
  "RecoverSuperNodeFromPostponed env valAddr s =
     (case QuerySuperNode s valAddr of
        None \<Rightarrow> Inl (SnSdk ErrNotFound)
      | Some sn \<Rightarrow>
          if sn_States sn = [] then Inl (SnSdk ErrInvalidRequest)
          else if last_state sn \<noteq> SuperNodeStatePostponed then Inr s
          else recoverFromPostponed env sn SuperNodeStateActive s)"

definition MarkSuperNodeStorageFull :: "sn_env \<Rightarrow> bytes \<Rightarrow> sn_store \<Rightarrow> sn_error + sn_store" where
  "MarkSuperNodeStorageFull env valAddr s =
     (case QuerySuperNode s valAddr of
        None \<Rightarrow> Inl (SnSdk ErrNotFound) | Some sn \<Rightarrow> markStorageFull env sn s)"

section \<open>Eligibility of a validator\<close>

definition TruncateInt :: "int \<Rightarrow> int" where
  "TruncateInt d = d sdiv (10 ^ 18)"

definition delegated_tokens :: "sn_env \<Rightarrow> validator \<Rightarrow> bytes \<Rightarrow> string \<Rightarrow> int" where
  "delegated_tokens env v valOperAddr acct =
     (case AccAddressFromBech32 (se_codec env) acct of
        None \<Rightarrow> 0
      | Some a \<Rightarrow> (case se_Delegation env a valOperAddr of
                     None \<Rightarrow> 0 | Some shares \<Rightarrow> TruncateInt (v_TokensFromShares v shares)))"

definition CheckValidatorSupernodeEligibility ::
    "sn_env \<Rightarrow> validator \<Rightarrow> string \<Rightarrow> string \<Rightarrow> sn_store \<Rightarrow> sn_error + unit" where
  "CheckValidatorSupernodeEligibility env v valAddr acct s =
     (case ValAddressFromBech32 (se_codec env) valAddr of
        None \<Rightarrow> Inl (SnSdk ErrInvalidAddress)
      | Some valOperAddr \<Rightarrow>
          (case se_Delegation env valOperAddr valOperAddr of
             None \<Rightarrow> Inl (SnSdk ErrInvalidRequest)
           | Some selfShares \<Rightarrow>
               if v_DelegatorShares v = 0 then Inl (SnSdk ErrInvalidRequest)
               else
                 let self = TruncateInt (v_TokensFromShares v selfShares);
                     sndel = (if acct \<noteq> [] then delegated_tokens env v valOperAddr acct
                              else case QuerySuperNode s valOperAddr of
                                     Some sn \<Rightarrow> if sn_SupernodeAccount sn \<noteq> []
                                        then delegated_tokens env v valOperAddr (sn_SupernodeAccount sn) else 0
                                   | None \<Rightarrow> 0)
                 in if self + sndel < GetMinStake s then Inl (SnSdk ErrInvalidRequest) else Inr ()))"

definition IsEligibleAndNotJailedValidator :: "sn_env \<Rightarrow> bytes \<Rightarrow> sn_store \<Rightarrow> bool" where
  "IsEligibleAndNotJailedValidator env valAddr s =
     (case se_Validator env valAddr of
        None \<Rightarrow> False
      | Some v \<Rightarrow> \<not> v_Jailed v \<and>
          is_ok (CheckValidatorSupernodeEligibility env v (ValAddress_String (se_codec env) valAddr) [] s))"

definition VerifyValidatorOperator :: "addr_codec \<Rightarrow> bytes \<Rightarrow> string \<Rightarrow> sn_error + unit" where
  "VerifyValidatorOperator ac valOperAddr creator =
     (case AccAddressFromBech32 ac creator of
        None \<Rightarrow> Inl (SnSdk ErrInvalidAddress)
      | Some a \<Rightarrow> if a \<noteq> valOperAddr then Inl (SnSdk ErrUnauthorized) else Inr ())"

section \<open>Messages\<close>

record msg_register =
  mr_Creator :: string
  mr_ValidatorAddress :: string
  mr_IpAddress :: string
  mr_SupernodeAccount :: string
  mr_P2PPort :: string

record msg_update_sn =
  mu_Creator :: string
  mu_ValidatorAddress :: string
  mu_IpAddress :: string
  mu_Note :: string
  mu_SupernodeAccount :: string
  mu_P2PPort :: string

record msg_metrics =
  mm_ValidatorAddress :: string
  mm_SupernodeAccount :: string
  mm_Metrics :: sn_metrics

definition new_supernode :: "sn_env \<Rightarrow> msg_register \<Rightarrow> supernode" where
  "new_supernode env msg =
     \<lparr>sn_ValidatorAddress = mr_ValidatorAddress msg,
      sn_States = [\<lparr>sr_State = SuperNodeStateActive, sr_Height = se_Height env, sr_Reason = []\<rparr>],
      sn_Evidence = [],
      sn_PrevIpAddresses = [\<lparr>ih_Address = mr_IpAddress msg, ih_Height = se_Height env\<rparr>],
      sn_Note = [], sn_Metrics = None, sn_SupernodeAccount = mr_SupernodeAccount msg,
      sn_P2PPort = mr_P2PPort msg,
      sn_PrevSupernodeAccounts = [\<lparr>ah_Account = mr_SupernodeAccount msg, ah_Height = se_Height env\<rparr>]\<rparr>"

definition RegisterSupernode :: "sn_env \<Rightarrow> msg_register \<Rightarrow> sn_store \<Rightarrow> sn_error + sn_store" where
  "RegisterSupernode env msg s =
     (case ValAddressFromBech32 (se_codec env) (mr_ValidatorAddress msg) of
        None \<Rightarrow> Inl (SnSdk ErrInvalidAddress)
      | Some valOperAddr \<Rightarrow>
          bindR (VerifyValidatorOperator (se_codec env) valOperAddr (mr_Creator msg)) (\<lambda>_.
            case QuerySuperNode s valOperAddr of
              Some existing \<Rightarrow>
                if sn_States existing \<noteq> [] \<and> last_state existing = SuperNodeStateDisabled
                then (case se_Validator env valOperAddr of
                        None \<Rightarrow> Inl (SnSdk ErrNotFound)
                      | Some v \<Rightarrow>
                          if v_Jailed v then Inl (SnSdk ErrInvalidRequest)
                          else bindR (CheckValidatorSupernodeEligibility env v (mr_ValidatorAddress msg)
                                        (sn_SupernodeAccount existing) s)
                                 (\<lambda>_. save_io env (append_state env SuperNodeStateActive [] existing) s))
                else Inl (SnSdk ErrInvalidRequest)
            | None \<Rightarrow>
                (case se_Validator env valOperAddr of
                   None \<Rightarrow> Inl (SnSdk ErrNotFound)
                 | Some v \<Rightarrow>
                     if v_Jailed v then Inl (SnSdk ErrInvalidRequest)
                     else bindR (CheckValidatorSupernodeEligibility env v (mr_ValidatorAddress msg)
                                   (mr_SupernodeAccount msg) s)
                            (\<lambda>_. bindR (SuperNode_Validate (se_codec env) (new_supernode env msg))
                              (\<lambda>supernode. save_io env supernode s)))))"

text \<open>Deregister, start and stop: the creator, the validator and the store.\<close>

definition DeregisterSupernode :: "sn_env \<Rightarrow> string \<Rightarrow> string \<Rightarrow> sn_store \<Rightarrow> sn_error + sn_store" where
  "DeregisterSupernode env creator valAddr s =
     (case ValAddressFromBech32 (se_codec env) valAddr of
        None \<Rightarrow> Inl (SnSdk ErrInvalidAddress)
      | Some valOperAddr \<Rightarrow>
          bindR (VerifyValidatorOperator (se_codec env) valOperAddr creator) (\<lambda>_.
            case QuerySuperNode s valOperAddr of
              None \<Rightarrow> Inl (SnSdk ErrNotFound)
            | Some sn \<Rightarrow>
                if sn_States sn = [] then Inl (SnSdk ErrInvalidRequest)
                else SetSuperNode (se_codec env)
                       (if last_state sn \<noteq> SuperNodeStateDisabled
                        then append_state env SuperNodeStateDisabled [] sn else sn) s))"

definition StartSupernode :: "sn_env \<Rightarrow> string \<Rightarrow> string \<Rightarrow> sn_store \<Rightarrow> sn_error + sn_store" where
  "StartSupernode env creator valAddr s =
     (case ValAddressFromBech32 (se_codec env) valAddr of
        None \<Rightarrow> Inl (SnSdk ErrInvalidAddress)
      | Some valOperAddr \<Rightarrow>
          (case QuerySuperNode s valOperAddr of
             None \<Rightarrow> Inl (SnSdk ErrNotFound)
           | Some sn \<Rightarrow>
               bindR (VerifyValidatorOperator (se_codec env) valOperAddr creator) (\<lambda>_.
                 if sn_States sn = [] then Inl (SnSdk ErrInvalidRequest)
                 else (case last_state sn of
                         SuperNodeStateStopped \<Rightarrow>
                           SetSuperNode (se_codec env) (append_state env SuperNodeStateActive [] sn) s
                       | _ \<Rightarrow> Inl (SnSdk ErrInvalidRequest)))))"

definition StopSupernode :: "sn_env \<Rightarrow> string \<Rightarrow> string \<Rightarrow> sn_store \<Rightarrow> sn_error + sn_store" where
  "StopSupernode env creator valAddr s =
     (case ValAddressFromBech32 (se_codec env) valAddr of
        None \<Rightarrow> Inl (SnSdk ErrInvalidAddress)
      | Some valOperAddr \<Rightarrow>
          (case QuerySuperNode s valOperAddr of
             None \<Rightarrow> Inl (SnSdk ErrNotFound)
           | Some sn \<Rightarrow>
               bindR (VerifyValidatorOperator (se_codec env) valOperAddr creator) (\<lambda>_.
                 if sn_States sn = [] then Inl (SnSdk ErrInvalidRequest)
                 else (case last_state sn of
                         SuperNodeStateStopped \<Rightarrow> Inl (SnSdk ErrInvalidRequest)
                       | SuperNodeStateDisabled \<Rightarrow> Inl (SnSdk ErrInvalidRequest)
                       | _ \<Rightarrow> SetSuperNode (se_codec env) (append_state env SuperNodeStateStopped [] sn) s))))"

definition update_ip :: "sn_env \<Rightarrow> string \<Rightarrow> supernode \<Rightarrow> supernode" where
  "update_ip env ip sn =
     (let currentIP = (if sn_PrevIpAddresses sn = [] then [] else ih_Address (last (sn_PrevIpAddresses sn)))
      in if ip \<noteq> [] \<and> currentIP \<noteq> ip
         then sn\<lparr>sn_PrevIpAddresses := sn_PrevIpAddresses sn @ [\<lparr>ih_Address = ip, ih_Height = se_Height env\<rparr>]\<rparr>
         else sn)"

definition update_account :: "sn_env \<Rightarrow> string \<Rightarrow> supernode \<Rightarrow> supernode" where
  "update_account env acct sn =
     (if sn_SupernodeAccount sn = acct then sn
      else let h = sn_PrevSupernodeAccounts sn in
        sn\<lparr>sn_PrevSupernodeAccounts :=
             (if h = [] \<or> ah_Account (last h) \<noteq> acct
              then h @ [\<lparr>ah_Account = acct, ah_Height = se_Height env\<rparr>] else h),
           sn_SupernodeAccount := acct\<rparr>)"

definition UpdateSupernode :: "sn_env \<Rightarrow> msg_update_sn \<Rightarrow> sn_store \<Rightarrow> sn_error + sn_store" where
  "UpdateSupernode env msg s =
     (case ValAddressFromBech32 (se_codec env) (mu_ValidatorAddress msg) of
        None \<Rightarrow> Inl (SnSdk ErrInvalidAddress)
      | Some valOperAddr \<Rightarrow>
          (case QuerySuperNode s valOperAddr of
             None \<Rightarrow> Inl (SnSdk ErrNotFound)
           | Some sn \<Rightarrow>
               bindR (VerifyValidatorOperator (se_codec env) valOperAddr (mu_Creator msg)) (\<lambda>_.
                 let acct = mu_SupernodeAccount msg; sn1 = update_ip env (mu_IpAddress msg) sn in
                 if acct \<noteq> [] \<and> AccAddressFromBech32 (se_codec env) acct = None
                 then Inl (SnSdk ErrInvalidAddress)
                 else
                   let sn2 = (if acct \<noteq> [] then update_account env acct sn1 else sn1);
                       sn3 = sn2\<lparr>sn_Note := dflts (sn_Note sn2) (mu_Note msg)\<rparr>
                   in SetSuperNode (se_codec env)
                        (sn3\<lparr>sn_P2PPort := dflts (sn_P2PPort sn3) (mu_P2PPort msg)\<rparr>) s)))"

section \<open>Metrics (metrics\_store.go, msg\_server\_report\_supernode\_metrics.go)\<close>

definition SetMetricsState :: "addr_codec \<Rightarrow> sn_metrics_state \<Rightarrow> sn_store \<Rightarrow> sn_error + sn_store" where
  "SetMetricsState ac st s =
     (case ValAddressFromBech32 ac (ms_ValidatorAddress st) of
        None \<Rightarrow> Inl (SnSdk ErrExternal)
      | Some valAddr \<Rightarrow> Inr (s\<lparr>ss_metrics := kv_set valAddr st (ss_metrics s)\<rparr>))"

definition DeleteMetricsState :: "bytes \<Rightarrow> sn_store \<Rightarrow> sn_store" where
  "DeleteMetricsState valAddr s = s\<lparr>ss_metrics := kv_del valAddr (ss_metrics s)\<rparr>"

definition GetMetricsState :: "sn_store \<Rightarrow> bytes \<Rightarrow> sn_metrics_state option" where
  "GetMetricsState s valAddr = map_of (ss_metrics s) valAddr"

definition MsgReportSupernodeMetrics_ValidateBasic :: "addr_codec \<Rightarrow> msg_metrics \<Rightarrow> sn_error + unit" where
  "MsgReportSupernodeMetrics_ValidateBasic ac m =
     (if mm_ValidatorAddress m = [] then Inl (SnInvalid ''validator address'')
      else if ValAddressFromBech32 ac (mm_ValidatorAddress m) = None then Inl (SnInvalid ''validator address'')
      else if mm_SupernodeAccount m = [] then Inl (SnInvalid ''supernode account'')
      else if AccAddressFromBech32 ac (mm_SupernodeAccount m) = None then Inl (SnInvalid ''supernode account'')
      else Inr ())"

text \<open>The result carries the response (compliance and issues) with the new store.\<close>

definition ReportSupernodeMetrics ::
    "sn_env \<Rightarrow> msg_metrics \<Rightarrow> sn_store \<Rightarrow> sn_error + (bool \<times> issue list) \<times> sn_store" where
  "ReportSupernodeMetrics env msg s =
     bindR (MsgReportSupernodeMetrics_ValidateBasic (se_codec env) msg) (\<lambda>_.
       case ValAddressFromBech32 (se_codec env) (mm_ValidatorAddress msg) of
         None \<Rightarrow> Inl (SnSdk ErrExternal)
       | Some valAddr \<Rightarrow>
           (case QuerySuperNode s valAddr of
              None \<Rightarrow> Inl (SnSdk ErrNotFound)
            | Some sn \<Rightarrow>
                if sn_SupernodeAccount sn = [] then Inl (SnSdk ErrUnauthorized)
                else if mm_SupernodeAccount msg \<noteq> sn_SupernodeAccount sn then Inl (SnSdk ErrUnauthorized)
                else
                  let result = evaluateCompliance (se_libs env) (sn_GetParams (ss_params s)) (mm_Metrics msg);
                      count = (case GetMetricsState s valAddr of None \<Rightarrow> 0 | Some e \<Rightarrow> ms_ReportCount e)
                  in bindR (SetMetricsState (se_codec env)
                        \<lparr>ms_ValidatorAddress = sn_ValidatorAddress sn, ms_Metrics = Some (mm_Metrics msg),
                         ms_ReportCount = u64 (count + 1), ms_Height = se_Height env\<rparr> s)
                       (\<lambda>s1. bindR (SetSuperNode (se_codec env) sn s1)
                          (\<lambda>s2. Inr ((IsCompliant result, AllIssues result), s2)))))"

section \<open>Staleness (metrics\_staleness.go)\<close>

definition overdueThreshold :: "sn_store \<Rightarrow> int" where
  "overdueThreshold s = (let p = sn_GetParams (ss_params s)
     in i64 (u64 (sp_MetricsUpdateIntervalBlocks p + sp_MetricsGracePeriodBlocks p)))"

text \<open>An error of the transition is logged and the loop goes on.\<close>

definition staleness_step :: "sn_env \<Rightarrow> int \<Rightarrow> supernode \<Rightarrow> sn_store \<Rightarrow> sn_store" where
  "staleness_step env threshold sn s =
     (if sn_States sn = [] \<or> last_state sn \<notin> {SuperNodeStateActive, SuperNodeStateStorageFull} then s
      else case ValAddressFromBech32 (se_codec env) (sn_ValidatorAddress sn) of
        None \<Rightarrow> s
      | Some valAddr \<Rightarrow>
          let lastHeight = (case GetMetricsState s valAddr of None \<Rightarrow> 0 | Some st \<Rightarrow> ms_Height st);
              registrationHeight = sr_Height (hd (sn_States sn));
              postpone = (\<lambda>reason. case markPostponed env sn reason s of Inl _ \<Rightarrow> s | Inr s' \<Rightarrow> s')
          in if lastHeight = 0
             then if registrationHeight = 0 then s
                  else if threshold < i64 (se_Height env - registrationHeight)
                       then postpone ''no metrics reported'' else s
             else if threshold < i64 (se_Height env - lastHeight) then postpone ''metrics overdue'' else s)"

definition HandleMetricsStaleness :: "sn_env \<Rightarrow> sn_store \<Rightarrow> sn_store" where
  "HandleMetricsStaleness env s = fold (staleness_step env (overdueThreshold s)) (GetAllSuperNodes [] s) s"

definition lastNonDegradedState :: "state_record list \<Rightarrow> supernode_state" where
  "lastNonDegradedState states =
     (case find (\<lambda>r. sr_State r \<noteq> SuperNodeStatePostponed \<and> sr_State r \<noteq> SuperNodeStateStorageFull) (rev states) of
        None \<Rightarrow> SuperNodeStateUnspecified | Some r \<Rightarrow> sr_State r)"

section \<open>Staking hooks (hooks.go)\<close>

definition eligibility_hook :: "sn_env \<Rightarrow> bytes \<Rightarrow> sn_store \<Rightarrow> sn_error + sn_store" where
  "eligibility_hook env valAddr s =
     (if QuerySuperNode s valAddr = None then Inr s
      else if IsEligibleAndNotJailedValidator env valAddr s
           then if \<not> IsSuperNodeActive s valAddr then SetSuperNodeActive env valAddr s else Inr s
           else if IsSuperNodeActive s valAddr then SetSuperNodeStopped env valAddr s else Inr s)"

definition AfterValidatorBonded :: "sn_env \<Rightarrow> bytes \<Rightarrow> sn_store \<Rightarrow> sn_error + sn_store" where
  "AfterValidatorBonded env valAddr s = eligibility_hook env valAddr s"

definition AfterDelegationModified :: "sn_env \<Rightarrow> bytes \<Rightarrow> sn_store \<Rightarrow> sn_error + sn_store" where
  "AfterDelegationModified env valAddr s = eligibility_hook env valAddr s"

definition AfterValidatorBeginUnbonding :: "sn_env \<Rightarrow> bytes \<Rightarrow> sn_store \<Rightarrow> sn_error + sn_store" where
  "AfterValidatorBeginUnbonding env valAddr s =
     (if QuerySuperNode s valAddr = None then Inr s
      else if IsSuperNodeActive s valAddr \<and> \<not> IsEligibleAndNotJailedValidator env valAddr s
           then SetSuperNodeStopped env valAddr s else Inr s)"

definition AfterValidatorRemoved :: "sn_env \<Rightarrow> bytes \<Rightarrow> sn_store \<Rightarrow> sn_error + sn_store" where
  "AfterValidatorRemoved env valAddr s =
     (if QuerySuperNode s valAddr = None then Inr s
      else if IsSuperNodeActive s valAddr then SetSuperNodeStopped env valAddr s else Inr s)"

section \<open>Writers of other modules\<close>

text \<open>
  The audit module (\<open>SetReport\<close>) makes a STORAGE\_FULL reporter active again when its disk usage is back
  in range.
\<close>

definition report_reactivates :: "sn_env \<Rightarrow> bytes \<Rightarrow> sn_store \<Rightarrow> sn_error + sn_store" where
  "report_reactivates env valAddr s =
     (case QuerySuperNode s valAddr of
        None \<Rightarrow> Inr s
      | Some sn \<Rightarrow>
          if sn_States sn \<noteq> [] \<and> last_state sn = SuperNodeStateStorageFull
          then SetSuperNode (se_codec env) (append_state env SuperNodeStateActive [] sn) s
          else Inr s)"

text \<open>
  The migration of accounts to the EVM key type (x/evmigration) rewrites the account of a supernode
  and its history, or moves the whole record to a new validator address.
\<close>

definition migrate_account :: "sn_env \<Rightarrow> string \<Rightarrow> string \<Rightarrow> supernode \<Rightarrow> supernode" where
  "migrate_account env legacy acct sn =
     sn\<lparr>sn_SupernodeAccount := acct,
        sn_PrevSupernodeAccounts :=
          map (\<lambda>x. if ah_Account x = legacy then x\<lparr>ah_Account := acct\<rparr> else x) (sn_PrevSupernodeAccounts sn)
            @ [\<lparr>ah_Account = acct, ah_Height = se_Height env\<rparr>]\<rparr>"

definition MigrateSupernode :: "sn_env \<Rightarrow> bytes \<Rightarrow> bytes \<Rightarrow> sn_store \<Rightarrow> sn_error + sn_store" where
  "MigrateSupernode env legacyAddr newAddr s =
     (let ac = se_codec env; legacy = AccAddress_String ac legacyAddr in
      case GetSuperNodeByAccount s legacy of
        None \<Rightarrow> Inr s
      | Some sn \<Rightarrow> SetSuperNode ac (migrate_account env legacy (AccAddress_String ac newAddr) sn) s)"

definition MigrateValidatorSupernode :: "sn_env \<Rightarrow> bytes \<Rightarrow> bytes \<Rightarrow> bytes \<Rightarrow> bytes \<Rightarrow> sn_store \<Rightarrow> sn_error + sn_store" where
  "MigrateValidatorSupernode env oldValAddr newValAddr legacyAddr newAddr s =
     (case QuerySuperNode s oldValAddr of
        None \<Rightarrow> Inr s
      | Some sn0 \<Rightarrow>
          let ac = se_codec env; s1 = DeleteSuperNode oldValAddr s; legacy = AccAddress_String ac legacyAddr;
              sn1 = sn0\<lparr>sn_ValidatorAddress := ValAddress_String ac newValAddr\<rparr>;
              sn2 = (if sn_SupernodeAccount sn1 = legacy then migrate_account env legacy (AccAddress_String ac newAddr) sn1 else sn1);
              sn3 = sn2\<lparr>sn_Evidence := map (\<lambda>x. if ev_ValidatorAddress x = ValAddress_String ac oldValAddr
                        then x\<lparr>ev_ValidatorAddress := ValAddress_String ac newValAddr\<rparr> else x) (sn_Evidence sn2)\<rparr>
          in bindR (case GetMetricsState s1 oldValAddr of
                      None \<Rightarrow> Inr s1
                    | Some m \<Rightarrow> bindR (SetMetricsState ac (m\<lparr>ms_ValidatorAddress := ValAddress_String ac newValAddr\<rparr>) s1)
                                   (\<lambda>s2. Inr (DeleteMetricsState oldValAddr s2)))
               (\<lambda>s3. SetSuperNode ac sn3 s3))"

section \<open>Operations and reachable stores\<close>

text \<open>
  The operations that write the registry: the messages of the module, the staking hooks, the transitions
  and the metrics the audit module writes, and the migration of a supernode account.
  \<open>HandleMetricsStaleness\<close> is not one of them: the end-block handler no longer calls it.
\<close>

datatype sn_op =
    OpRegister msg_register | OpDeregister string string | OpStart string string | OpStop string string
  | OpUpdate msg_update_sn | OpMetrics msg_metrics
  | OpBonded bytes | OpDelegation bytes | OpUnbonding bytes | OpRemoved bytes
  | OpPostpone bytes string | OpRecover bytes | OpStorageFull bytes | OpReportActive bytes
  | OpSetMetrics sn_metrics_state | OpMigrateAccount bytes bytes
  | OpSnParams string sn_params

fun sn_exec :: "sn_env \<Rightarrow> sn_op \<Rightarrow> sn_store \<Rightarrow> sn_error + sn_store" where
  "sn_exec env (OpRegister m) s = RegisterSupernode env m s"
| "sn_exec env (OpDeregister c v) s = DeregisterSupernode env c v s"
| "sn_exec env (OpStart c v) s = StartSupernode env c v s"
| "sn_exec env (OpStop c v) s = StopSupernode env c v s"
| "sn_exec env (OpUpdate m) s = UpdateSupernode env m s"
| "sn_exec env (OpMetrics m) s = bindR (ReportSupernodeMetrics env m s) (\<lambda>(_, s'). Inr s')"
| "sn_exec env (OpBonded v) s = AfterValidatorBonded env v s"
| "sn_exec env (OpDelegation v) s = AfterDelegationModified env v s"
| "sn_exec env (OpUnbonding v) s = AfterValidatorBeginUnbonding env v s"
| "sn_exec env (OpRemoved v) s = AfterValidatorRemoved env v s"
| "sn_exec env (OpPostpone v r) s = SetSuperNodePostponed env v r s"
| "sn_exec env (OpRecover v) s = RecoverSuperNodeFromPostponed env v s"
| "sn_exec env (OpStorageFull v) s = MarkSuperNodeStorageFull env v s"
| "sn_exec env (OpReportActive v) s = report_reactivates env v s"
| "sn_exec env (OpSetMetrics st) s = SetMetricsState (se_codec env) st s"
| "sn_exec env (OpMigrateAccount legacy acct) s = MigrateSupernode env legacy acct s"
| "sn_exec env (OpSnParams signer p) s =
     (case sn_UpdateParams (se_libs env) (se_authority env) signer p (ss_params s) of
        Inl e \<Rightarrow> Inl (SnParams e) | Inr p' \<Rightarrow> Inr (s\<lparr>ss_params := p'\<rparr>))"

definition sn_empty :: sn_store where
  "sn_empty = \<lparr>ss_supernodes = [], ss_accounts = [], ss_metrics = [], ss_params = None\<rparr>"

text \<open>
  The stores a chain can reach with its block height: heights do not decrease. A validator that migrates
  takes its record to its new address.
\<close>

inductive sn_reachable :: "addr_codec \<Rightarrow> int \<Rightarrow> sn_store \<Rightarrow> bool" for ac :: addr_codec where
  init: "sn_reachable ac h sn_empty"
| exec: "sn_reachable ac h s \<Longrightarrow> se_codec env = ac \<Longrightarrow> se_Height env = h \<Longrightarrow> sn_exec env op s = Inr s'
    \<Longrightarrow> sn_reachable ac h s'"
| rekey: "sn_reachable ac h s \<Longrightarrow> se_codec env = ac \<Longrightarrow> se_Height env = h
    \<Longrightarrow> MigrateValidatorSupernode env old new legacy acct s = Inr s' \<Longrightarrow> sn_reachable ac h s'"
| block: "sn_reachable ac h s \<Longrightarrow> h \<le> h' \<Longrightarrow> sn_reachable ac h' s"

section \<open>Invariant\<close>

definition sn_rec_ok :: "addr_codec \<Rightarrow> int \<Rightarrow> bytes \<Rightarrow> supernode \<Rightarrow> bool" where
  "sn_rec_ok ac h v sn \<longleftrightarrow>
     ValAddressFromBech32 ac (sn_ValidatorAddress sn) = Some v \<and> SuperNode_Validate ac sn = Inr sn
   \<and> sorted (map sr_Height (sn_States sn)) \<and> sr_Height (last (sn_States sn)) \<le> h
   \<and> sn_PrevSupernodeAccounts sn \<noteq> [] \<and> ah_Account (last (sn_PrevSupernodeAccounts sn)) = sn_SupernodeAccount sn"

text \<open>The account index is exactly the inverse of the accounts of the records.\<close>

definition sn_wf :: "addr_codec \<Rightarrow> int \<Rightarrow> sn_store \<Rightarrow> bool" where
  "sn_wf ac h s \<longleftrightarrow>
     kv_sorted (ss_supernodes s) \<and> kv_sorted (ss_accounts s) \<and> kv_sorted (ss_metrics s)
   \<and> (\<forall>v sn. QuerySuperNode s v = Some sn \<longrightarrow> sn_rec_ok ac h v sn)
   \<and> (\<forall>acct v. map_of (ss_accounts s) acct = Some v \<longleftrightarrow>
        (\<exists>sn. QuerySuperNode s v = Some sn \<and> sn_SupernodeAccount sn = acct))
   \<and> (\<forall>v st. GetMetricsState s v = Some st \<longrightarrow> ValAddressFromBech32 ac (ms_ValidatorAddress st) = Some v)"

text \<open>The transitions of the latest state that each operation may make.\<close>

fun transition_ok :: "sn_op \<Rightarrow> supernode_state option \<Rightarrow> supernode_state \<Rightarrow> bool" where
  "transition_ok (OpRegister _) old new \<longleftrightarrow>
     old \<in> {None, Some SuperNodeStateDisabled} \<and> new = SuperNodeStateActive"
| "transition_ok (OpDeregister _ _) old new \<longleftrightarrow>
     old \<notin> {None, Some SuperNodeStateDisabled} \<and> new = SuperNodeStateDisabled"
| "transition_ok (OpStart _ _) old new \<longleftrightarrow> old = Some SuperNodeStateStopped \<and> new = SuperNodeStateActive"
| "transition_ok (OpStop _ _) old new \<longleftrightarrow>
     old \<in> {Some SuperNodeStateActive, Some SuperNodeStatePenalized, Some SuperNodeStatePostponed,
            Some SuperNodeStateStorageFull} \<and> new = SuperNodeStateStopped"
| "transition_ok (OpBonded _) old new \<longleftrightarrow>
     (old = Some SuperNodeStateStopped \<and> new = SuperNodeStateActive)
   \<or> (old = Some SuperNodeStateActive \<and> new = SuperNodeStateStopped)"
| "transition_ok (OpDelegation _) old new \<longleftrightarrow>
     (old = Some SuperNodeStateStopped \<and> new = SuperNodeStateActive)
   \<or> (old = Some SuperNodeStateActive \<and> new = SuperNodeStateStopped)"
| "transition_ok (OpUnbonding _) old new \<longleftrightarrow> old = Some SuperNodeStateActive \<and> new = SuperNodeStateStopped"
| "transition_ok (OpRemoved _) old new \<longleftrightarrow> old = Some SuperNodeStateActive \<and> new = SuperNodeStateStopped"
| "transition_ok (OpPostpone _ _) old new \<longleftrightarrow>
     old \<notin> {None, Some SuperNodeStatePostponed} \<and> new = SuperNodeStatePostponed"
| "transition_ok (OpRecover _) old new \<longleftrightarrow> old = Some SuperNodeStatePostponed \<and> new = SuperNodeStateActive"
| "transition_ok (OpStorageFull _) old new \<longleftrightarrow>
     old \<notin> {None, Some SuperNodeStateStorageFull} \<and> new = SuperNodeStateStorageFull"
| "transition_ok (OpReportActive _) old new \<longleftrightarrow> old = Some SuperNodeStateStorageFull \<and> new = SuperNodeStateActive"
| "transition_ok _ old new \<longleftrightarrow> False"

text \<open>
  What an operation may do to one record: create it, or extend its history by at most one state and
  keep the account history in step with the account.
\<close>

definition accounts_ok :: "supernode \<Rightarrow> bool" where
  "accounts_ok sn \<longleftrightarrow> sn_PrevSupernodeAccounts sn \<noteq> [] \<and>
     ah_Account (last (sn_PrevSupernodeAccounts sn)) = sn_SupernodeAccount sn"

definition rec_change :: "sn_env \<Rightarrow> sn_op \<Rightarrow> supernode option \<Rightarrow> supernode \<Rightarrow> bool" where
  "rec_change env op old sn' \<longleftrightarrow>
     (case old of
        None \<Rightarrow> (\<exists>r. sn_States sn' = [r] \<and> sr_Height r = se_Height env \<and> transition_ok op None (sr_State r))
              \<and> accounts_ok sn'
      | Some sn \<Rightarrow> sn_ValidatorAddress sn' = sn_ValidatorAddress sn \<and> (accounts_ok sn \<longrightarrow> accounts_ok sn')
              \<and> (sn_States sn' = sn_States sn \<or>
                 (\<exists>r. sn_States sn' = sn_States sn @ [r] \<and> sr_Height r = se_Height env
                    \<and> transition_ok op (Some (last_state sn)) (sr_State r))))"

text \<open>An operation that stores at most one record: nothing changes, or \<open>sn'\<close> is stored for \<open>v\<close>.\<close>

definition one_record :: "sn_env \<Rightarrow> sn_op \<Rightarrow> sn_store \<Rightarrow> sn_store \<Rightarrow> bool" where
  "one_record env op s s' \<longleftrightarrow> s' = s \<or>
     (\<exists>v sn'. ValAddressFromBech32 (se_codec env) (sn_ValidatorAddress sn') = Some v
        \<and> rec_change env op (QuerySuperNode s v) sn' \<and> SetSuperNode (se_codec env) sn' s = Inr s')"

section \<open>Storing a record\<close>

lemma Validate_InrE:
  assumes "SuperNode_Validate ac sn = Inr sn'"
  obtains "sn' = sn\<lparr>sn_Note := dflts DefaultVersion (sn_Note sn), sn_P2PPort := dflts DefaultP2PPort (sn_P2PPort sn)\<rparr>"
    "sn_SupernodeAccount sn \<noteq> []" "AccAddressFromBech32 ac (sn_SupernodeAccount sn) \<noteq> None"
    "sn_States sn \<noteq> []" "\<forall>st \<in> set (sn_States sn). sr_State st \<noteq> SuperNodeStateUnspecified"
    "sn_PrevIpAddresses sn \<noteq> []" "ih_Address (hd (sn_PrevIpAddresses sn)) \<noteq> []"
  using assms by (auto simp: SuperNode_Validate_def Let_def list_ex_iff split: if_splits)

lemma Validate_keeps:
  assumes "SuperNode_Validate ac sn = Inr sn'"
  shows "sn_ValidatorAddress sn' = sn_ValidatorAddress sn" "sn_States sn' = sn_States sn"
    "sn_SupernodeAccount sn' = sn_SupernodeAccount sn" "sn_PrevIpAddresses sn' = sn_PrevIpAddresses sn"
    "sn_PrevSupernodeAccounts sn' = sn_PrevSupernodeAccounts sn"
  using assms by (auto elim: Validate_InrE)

lemma Validate_idem: "SuperNode_Validate ac sn = Inr sn' \<Longrightarrow> SuperNode_Validate ac sn' = Inr sn'"
  by (auto simp: SuperNode_Validate_def Let_def DefaultVersion_def DefaultP2PPort_def split: if_splits)

lemma Validate_append:
  "SuperNode_Validate ac sn = Inr sn \<Longrightarrow> st \<noteq> SuperNodeStateUnspecified \<Longrightarrow>
     SuperNode_Validate ac (append_state env st r sn) = Inr (append_state env st r sn)"
  by (cases sn) (auto simp: SuperNode_Validate_def Let_def append_state_def split: if_splits)

lemma SetSuperNode_InrE:
  assumes "SetSuperNode ac sn s = Inr s'"
  obtains sn' v where "SuperNode_Validate ac sn = Inr sn'"
    "ValAddressFromBech32 ac (sn_ValidatorAddress sn) = Some v"
    "map_of (ss_accounts s) (sn_SupernodeAccount sn) \<in> {None, Some v}"
    "ss_supernodes s' = kv_set v sn' (ss_supernodes s)" "ss_metrics s' = ss_metrics s" "ss_params s' = ss_params s"
    "ss_accounts s' = kv_set (sn_SupernodeAccount sn) v (case QuerySuperNode s v of
        Some old \<Rightarrow> if sn_SupernodeAccount old \<noteq> [] \<and> sn_SupernodeAccount old \<noteq> sn_SupernodeAccount sn
                    then kv_del (sn_SupernodeAccount old) (ss_accounts s) else ss_accounts s
      | None \<Rightarrow> ss_accounts s)"
proof -
  from assms obtain sn' v where v: "SuperNode_Validate ac sn = Inr sn'"
    and va: "ValAddressFromBech32 ac (sn_ValidatorAddress sn) = Some v"
    by (auto simp: SetSuperNode_def bindR_Inr_iff Validate_keeps split: option.splits)
  have "sn_SupernodeAccount sn \<noteq> []" using v by (rule Validate_InrE)
  with assms show ?thesis
    by (intro that [OF v va])
       (auto simp: SetSuperNode_def Let_def Validate_keeps [OF v] v va split: option.splits if_splits)
qed

lemma sn_wfD:
  assumes "sn_wf ac h s"
  shows "kv_sorted (ss_supernodes s)" "kv_sorted (ss_accounts s)" "kv_sorted (ss_metrics s)"
    and "QuerySuperNode s v = Some sn \<Longrightarrow> sn_rec_ok ac h v sn"
    and "map_of (ss_accounts s) acct = Some v \<longleftrightarrow> (\<exists>sn. QuerySuperNode s v = Some sn \<and> sn_SupernodeAccount sn = acct)"
    and "GetMetricsState s v = Some st \<Longrightarrow> ValAddressFromBech32 ac (ms_ValidatorAddress st) = Some v"
  using assms by (auto simp: sn_wf_def)

lemma Query_after_set:
  "ss_supernodes s' = kv_set v sn (ss_supernodes s) \<Longrightarrow>
     QuerySuperNode s' w = (if w = v then Some sn else QuerySuperNode s w)"
  by (simp add: QuerySuperNode_def map_of_kv_set)

lemma SetSuperNode_wf:
  assumes set: "SetSuperNode ac sn s = Inr s'" and wf: "sn_wf ac h s"
    and "sorted (map sr_Height (sn_States sn))" "sr_Height (last (sn_States sn)) \<le> h" "accounts_ok sn"
  shows "sn_wf ac h s'"
proof -
  from set obtain sn' v where v: "SuperNode_Validate ac sn = Inr sn'"
    and va: "ValAddressFromBech32 ac (sn_ValidatorAddress sn) = Some v"
    and idx: "map_of (ss_accounts s) (sn_SupernodeAccount sn) \<in> {None, Some v}"
    and s': "ss_supernodes s' = kv_set v sn' (ss_supernodes s)" "ss_metrics s' = ss_metrics s"
    and acc: "ss_accounts s' = kv_set (sn_SupernodeAccount sn) v (case QuerySuperNode s v of
        Some old \<Rightarrow> if sn_SupernodeAccount old \<noteq> [] \<and> sn_SupernodeAccount old \<noteq> sn_SupernodeAccount sn
                    then kv_del (sn_SupernodeAccount old) (ss_accounts s) else ss_accounts s
      | None \<Rightarrow> ss_accounts s)"
    by (rule SetSuperNode_InrE)
  note q = Query_after_set [OF s'(1)] and k = Validate_keeps [OF v]
  have new: "sn_rec_ok ac h v sn'"
    using assms(3-5) va Validate_idem [OF v] k by (simp add: sn_rec_ok_def accounts_ok_def)
  have old_acct: "sn_SupernodeAccount old \<noteq> []" if "QuerySuperNode s w = Some old" for w old
    using sn_wfD(4) [OF wf that] by (auto simp: sn_rec_ok_def elim: Validate_InrE)
  have idx': "w = v" if "QuerySuperNode s w = Some x" "sn_SupernodeAccount x = sn_SupernodeAccount sn" for w x
  proof -
    have "map_of (ss_accounts s) (sn_SupernodeAccount sn) = Some w" using sn_wfD(5) [OF wf] that by blast
    with idx show ?thesis by simp
  qed
  have "map_of (ss_accounts s') acct = Some w \<longleftrightarrow>
      (\<exists>x. QuerySuperNode s' w = Some x \<and> sn_SupernodeAccount x = acct)" for acct w
  proof (cases "QuerySuperNode s v")
    case None
    then show ?thesis
      using sn_wfD(5) [OF wf] idx' k(3) unfolding q by (auto simp: acc map_of_kv_set)
  next
    case (Some old)
    let ?A = "sn_SupernodeAccount sn" and ?O = "sn_SupernodeAccount old"
    have lookup: "map_of (ss_accounts s') acct =
        (if acct = ?A then Some v else if acct = ?O then None else map_of (ss_accounts s) acct)"
      using Some old_acct [OF Some] by (simp add: acc)
    have only_v: "w' = v" if "QuerySuperNode s w' = Some x" "sn_SupernodeAccount x = ?O" for w' x
      using sn_wfD(5) [OF wf, of ?O w'] sn_wfD(5) [OF wf, of ?O v] that Some by fastforce
    consider "acct = ?A" | "acct \<noteq> ?A" "acct = ?O" | "acct \<noteq> ?A" "acct \<noteq> ?O" by blast
    then show ?thesis
    proof cases
      case 1
      then show ?thesis using idx' k(3) unfolding lookup q by auto
    next
      case 2
      then show ?thesis using only_v k(3) unfolding lookup q by auto
    next
      case 3
      then show ?thesis using sn_wfD(5) [OF wf, of acct w] k(3) Some unfolding lookup q by auto
    qed
  qed
  moreover have "kv_sorted (ss_supernodes s')" "kv_sorted (ss_accounts s')" "kv_sorted (ss_metrics s')"
    using sn_wfD(1-3) [OF wf] by (simp_all add: s' acc kv_sorted_set kv_sorted_del split: option.split)
  ultimately show ?thesis
    using sn_wfD(4,6) [OF wf] new s'(2) by (auto simp: sn_wf_def q GetMetricsState_def split: if_splits)
qed

section \<open>Every operation keeps the invariant\<close>

definition sn_rel :: "sn_env \<Rightarrow> sn_op \<Rightarrow> sn_store \<Rightarrow> sn_store \<Rightarrow> bool" where
  "sn_rel env op s s' \<longleftrightarrow> (\<forall>v. QuerySuperNode s' v = QuerySuperNode s v \<or>
     (\<exists>sn'. QuerySuperNode s' v = Some sn' \<and> rec_change env op (QuerySuperNode s v) sn'))"

lemma sn_rel_refl [simp]: "sn_rel env op s s"
  by (simp add: sn_rel_def)

lemma rec_change_Validate:
  assumes "SuperNode_Validate ac sn = Inr sn'"
  shows "rec_change env op old sn' \<longleftrightarrow> rec_change env op old sn"
  unfolding rec_change_def accounts_ok_def Validate_keeps [OF assms] ..

lemma one_record_rel:
  assumes "one_record env op s s'"
  shows "sn_rel env op s s'"
  using assms unfolding one_record_def sn_rel_def
  by (elim disjE exE conjE SetSuperNode_InrE) (auto simp: Query_after_set rec_change_Validate)

lemma rec_change_sorted:
  assumes "rec_change env op old sn'" "\<And>sn. old = Some sn \<Longrightarrow> sn_rec_ok ac (se_Height env) v sn"
  shows "sorted (map sr_Height (sn_States sn')) \<and> sr_Height (last (sn_States sn')) \<le> se_Height env \<and> accounts_ok sn'"
proof (cases old)
  case (Some sn)
  then have ok: "sorted (map sr_Height (sn_States sn))" "sr_Height (last (sn_States sn)) \<le> se_Height env"
    "sn_States sn \<noteq> []" "accounts_ok sn"
    using assms(2) by (auto simp: sn_rec_ok_def accounts_ok_def elim: Validate_InrE)
  then have "\<forall>r \<in> set (sn_States sn). sr_Height r \<le> se_Height env"
    using sorted_map_le_last [OF ok(1)] by fastforce
  with ok assms(1) Some show ?thesis by (auto simp: rec_change_def sorted_append)
qed (use assms(1) in \<open>auto simp: rec_change_def\<close>)

lemma one_record_wf:
  assumes "one_record env op s s'" "sn_wf (se_codec env) (se_Height env) s"
  shows "sn_wf (se_codec env) (se_Height env) s'"
  using assms(1) unfolding one_record_def
proof (elim disjE exE conjE)
  fix v sn' assume "rec_change env op (QuerySuperNode s v) sn'" and set: "SetSuperNode (se_codec env) sn' s = Inr s'"
  with rec_change_sorted [OF this(1) sn_wfD(4) [OF assms(2)]] SetSuperNode_wf [OF set assms(2)]
  show ?thesis by blast
qed (use assms(2) in simp)

lemma rec_change_append:
  "sn_States sn \<noteq> [] \<Longrightarrow> transition_ok op (Some (last_state sn)) st \<Longrightarrow>
     rec_change env op (Some sn) (append_state env st r sn)"
  by (auto simp: rec_change_def append_state_def accounts_ok_def)

lemma rec_change_refl: "rec_change env op (Some sn) sn"
  by (simp add: rec_change_def)

lemma append_state_validator [simp]: "sn_ValidatorAddress (append_state env st r sn) = sn_ValidatorAddress sn"
  by (simp add: append_state_def)

lemma one_recordI:
  assumes "SetSuperNode (se_codec env) sn' s = Inr s'" "QuerySuperNode s v = Some sn"
    and "sn_wf (se_codec env) h s" "rec_change env op (Some sn) sn'"
  shows "one_record env op s s'"
proof -
  have "ValAddressFromBech32 (se_codec env) (sn_ValidatorAddress sn) = Some v"
    using sn_wfD(4) [OF assms(3,2)] by (simp add: sn_rec_ok_def)
  moreover have "sn_ValidatorAddress sn' = sn_ValidatorAddress sn"
    using assms(4) by (simp add: rec_change_def)
  ultimately show ?thesis
    using assms unfolding one_record_def by (intro disjI2 exI [of _ v] exI [of _ sn']) simp
qed

lemma one_record_refl [simp]: "one_record env op s s"
  by (simp add: one_record_def)

lemma save_io_Inr: "save_io env sn s = Inr s' \<longleftrightarrow> SetSuperNode (se_codec env) sn s = Inr s'"
  by (auto simp: save_io_def split: sum.splits)

lemmas keeper_defs = SetSuperNodeActive_def SetSuperNodeStopped_def markPostponed_def markStorageFull_def
  recoverFromPostponed_def recover_target_def SetSuperNodePostponed_def RecoverSuperNodeFromPostponed_def
  MarkSuperNodeStorageFull_def save_io_Inr

lemma SetSuperNodeActive_one:
  assumes "SetSuperNodeActive env v s = Inr s'" "sn_wf (se_codec env) h s"
    and "transition_ok op (Some SuperNodeStateStopped) SuperNodeStateActive"
  shows "one_record env op s s'"
  using assms by (auto simp: SetSuperNodeActive_def save_io_Inr intro!: one_recordI rec_change_append
      split: option.splits if_splits supernode_state.splits)

lemma SetSuperNodeStopped_one:
  assumes "SetSuperNodeStopped env v s = Inr s'" "sn_wf (se_codec env) h s"
    and "transition_ok op (Some SuperNodeStateActive) SuperNodeStateStopped"
  shows "one_record env op s s'"
  using assms by (auto simp: SetSuperNodeStopped_def save_io_Inr intro!: one_recordI rec_change_append
      split: option.splits if_splits)

lemma hooks_one:
  assumes "sn_wf (se_codec env) h s"
  shows "AfterValidatorBonded env v s = Inr s' \<Longrightarrow> one_record env (OpBonded v) s s'"
    and "AfterDelegationModified env v s = Inr s' \<Longrightarrow> one_record env (OpDelegation v) s s'"
    and "AfterValidatorBeginUnbonding env v s = Inr s' \<Longrightarrow> one_record env (OpUnbonding v) s s'"
    and "AfterValidatorRemoved env v s = Inr s' \<Longrightarrow> one_record env (OpRemoved v) s s'"
  using SetSuperNodeActive_one [OF _ assms] SetSuperNodeStopped_one [OF _ assms]
  by (auto simp: AfterValidatorBonded_def AfterDelegationModified_def eligibility_hook_def
      AfterValidatorBeginUnbonding_def AfterValidatorRemoved_def split: if_splits)

lemma audit_ops_one:
  assumes "sn_wf (se_codec env) h s"
  shows "SetSuperNodePostponed env v r s = Inr s' \<Longrightarrow> one_record env (OpPostpone v r) s s'"
    and "RecoverSuperNodeFromPostponed env v s = Inr s' \<Longrightarrow> one_record env (OpRecover v) s s'"
    and "MarkSuperNodeStorageFull env v s = Inr s' \<Longrightarrow> one_record env (OpStorageFull v) s s'"
    and "report_reactivates env v s = Inr s' \<Longrightarrow> one_record env (OpReportActive v) s s'"
  using assms
  by (auto simp: keeper_defs report_reactivates_def intro!: one_recordI rec_change_append split: option.splits if_splits)

lemma last_state_specified:
  assumes "sn_wf ac h s" "QuerySuperNode s v = Some sn"
  shows "last_state sn \<noteq> SuperNodeStateUnspecified"
proof -
  have "SuperNode_Validate ac sn = Inr sn" using sn_wfD(4) [OF assms] by (simp add: sn_rec_ok_def)
  then show ?thesis by (rule Validate_InrE) (simp add: last_state_def)
qed

lemma operator_ops_one:
  assumes "sn_wf (se_codec env) h s"
  shows "DeregisterSupernode env c v s = Inr s' \<Longrightarrow> one_record env (OpDeregister c v) s s'"
    and "StartSupernode env c v s = Inr s' \<Longrightarrow> one_record env (OpStart c v) s s'"
    and "StopSupernode env c v s = Inr s' \<Longrightarrow> one_record env (OpStop c v) s s'"
  using assms last_state_specified [OF assms]
  by (auto simp: DeregisterSupernode_def StartSupernode_def StopSupernode_def intro!: rec_change_refl rec_change_append
      split: option.splits if_splits supernode_state.splits elim!: one_recordI)

lemma UpdateSupernode_one:
  assumes "UpdateSupernode env m s = Inr s'" "sn_wf (se_codec env) h s"
  shows "one_record env (OpUpdate m) s s'"
  using assms
  by (auto simp: UpdateSupernode_def Let_def update_ip_def update_account_def rec_change_def accounts_ok_def
      elim!: one_recordI split: option.splits if_splits)

lemma migrate_account_change: "rec_change env op (Some sn) (migrate_account env legacy acct sn)"
  by (simp add: rec_change_def migrate_account_def accounts_ok_def)

lemma MigrateSupernode_one:
  assumes "MigrateSupernode env legacy acct s = Inr s'" "sn_wf (se_codec env) h s"
  shows "one_record env (OpMigrateAccount legacy acct) s s'"
  using assms migrate_account_change
  by (auto simp: MigrateSupernode_def GetSuperNodeByAccount_def Let_def elim!: one_recordI split: option.splits if_splits)

lemma RegisterSupernode_one:
  assumes "RegisterSupernode env m s = Inr s'" "sn_wf (se_codec env) h s"
  shows "one_record env (OpRegister m) s s'"
proof -
  from assms(1) obtain v where v: "ValAddressFromBech32 (se_codec env) (mr_ValidatorAddress m) = Some v"
    by (auto simp: RegisterSupernode_def split: option.splits)
  show ?thesis
  proof (cases "QuerySuperNode s v")
    case None
    then obtain sn where sn: "SuperNode_Validate (se_codec env) (new_supernode env m) = Inr sn"
      "SetSuperNode (se_codec env) sn s = Inr s'"
      using assms(1) by (auto simp: RegisterSupernode_def v save_io_Inr split: option.splits if_splits)
    moreover have "rec_change env (OpRegister m) None (new_supernode env m)"
      by (simp add: rec_change_def new_supernode_def accounts_ok_def)
    moreover have "ValAddressFromBech32 (se_codec env) (sn_ValidatorAddress sn) = Some v"
      using v by (simp add: Validate_keeps [OF sn(1)] new_supernode_def)
    ultimately show ?thesis
      using None rec_change_Validate [OF sn(1)] unfolding one_record_def
      by (intro disjI2 exI [of _ v] exI [of _ sn]) simp
  next
    case (Some sn)
    with assms show ?thesis
      by (auto simp: RegisterSupernode_def v save_io_Inr intro!: one_recordI rec_change_append
          split: option.splits if_splits)
  qed
qed

lemma sn_wf_metrics:
  assumes "sn_wf ac h s" "ValAddressFromBech32 ac (ms_ValidatorAddress st) = Some v"
  shows "sn_wf ac h (s\<lparr>ss_metrics := kv_set v st (ss_metrics s)\<rparr>)"
  using assms by (auto simp: sn_wf_def QuerySuperNode_def GetMetricsState_def kv_sorted_set)

lemma ReportSupernodeMetrics_InrE:
  assumes "ReportSupernodeMetrics env m s = Inr (resp, s')" "sn_wf (se_codec env) h s"
  obtains v sn st where "QuerySuperNode s v = Some sn" "mm_SupernodeAccount m = sn_SupernodeAccount sn"
    "ValAddressFromBech32 (se_codec env) (mm_ValidatorAddress m) = Some v"
    "ValAddressFromBech32 (se_codec env) (ms_ValidatorAddress st) = Some v"
    "SetSuperNode (se_codec env) sn (s\<lparr>ss_metrics := kv_set v st (ss_metrics s)\<rparr>) = Inr s'"
    "st = \<lparr>ms_ValidatorAddress = sn_ValidatorAddress sn, ms_Metrics = Some (mm_Metrics m),
       ms_ReportCount = u64 ((case GetMetricsState s v of None \<Rightarrow> 0 | Some e \<Rightarrow> ms_ReportCount e) + 1),
       ms_Height = se_Height env\<rparr>"
proof -
  from assms(1) obtain v sn where v: "ValAddressFromBech32 (se_codec env) (mm_ValidatorAddress m) = Some v"
    "QuerySuperNode s v = Some sn" "mm_SupernodeAccount m = sn_SupernodeAccount sn"
    by (auto simp: ReportSupernodeMetrics_def bindR_Inr_iff split: option.splits if_splits)
  moreover from this have "ValAddressFromBech32 (se_codec env) (sn_ValidatorAddress sn) = Some v"
    using sn_wfD(4) [OF assms(2)] by (simp add: sn_rec_ok_def)
  ultimately show ?thesis using assms(1)
    by (intro that) (auto simp: ReportSupernodeMetrics_def SetMetricsState_def Let_def bindR_Inr_iff split: if_splits)
qed

lemma metrics_exec:
  assumes "sn_exec env (OpMetrics m) s = Inr s'" "sn_wf (se_codec env) (se_Height env) s"
  shows "sn_rel env (OpMetrics m) s s' \<and> sn_wf (se_codec env) (se_Height env) s'"
proof -
  from assms(1) obtain resp where "ReportSupernodeMetrics env m s = Inr (resp, s')"
    by (auto simp: bindR_Inr_iff)
  then obtain v sn st where q: "QuerySuperNode s v = Some sn"
    and st: "ValAddressFromBech32 (se_codec env) (ms_ValidatorAddress st) = Some v"
    and set: "SetSuperNode (se_codec env) sn (s\<lparr>ss_metrics := kv_set v st (ss_metrics s)\<rparr>) = Inr s'"
    using assms(2) by (rule ReportSupernodeMetrics_InrE)
  let ?s1 = "s\<lparr>ss_metrics := kv_set v st (ss_metrics s)\<rparr>"
  have q1: "QuerySuperNode ?s1 = QuerySuperNode s" by (simp add: QuerySuperNode_def fun_eq_iff)
  note wf1 = sn_wf_metrics [OF assms(2) st]
  have "one_record env (OpMetrics m) ?s1 s'"
    using one_recordI [OF set _ wf1 rec_change_refl] q q1 by simp
  from one_record_rel [OF this] one_record_wf [OF this wf1] show ?thesis
    by (simp add: sn_rel_def q1)
qed

text \<open>The staleness loop works on a snapshot; each step changes only the record of its own validator.\<close>

lemma staleness_step_one:
  assumes "QuerySuperNode s v = Some sn" "sn_wf (se_codec env) (se_Height env) s"
  shows "one_record env (OpPostpone u r) s (staleness_step env thr sn s)"
    and "w \<noteq> v \<Longrightarrow> QuerySuperNode (staleness_step env thr sn s) w = QuerySuperNode s w"
proof -
  have v: "ValAddressFromBech32 (se_codec env) (sn_ValidatorAddress sn) = Some v"
    using sn_wfD(4) [OF assms(2,1)] by (simp add: sn_rec_ok_def)
  have *: "staleness_step env thr sn s = s \<or> (\<exists>r. sn_States sn \<noteq> [] \<and>
      last_state sn \<in> {SuperNodeStateActive, SuperNodeStateStorageFull} \<and>
      SetSuperNode (se_codec env) (append_state env SuperNodeStatePostponed r sn) s = Inr (staleness_step env thr sn s))"
    by (auto simp: staleness_step_def v Let_def markPostponed_def split: sum.splits option.splits)
  then show "one_record env (OpPostpone u r) s (staleness_step env thr sn s)"
    by (auto elim!: one_recordI [OF _ assms] intro!: rec_change_append)
  show "QuerySuperNode (staleness_step env thr sn s) w = QuerySuperNode s w" if "w \<noteq> v"
    using * that v by (auto elim!: SetSuperNode_InrE simp: Query_after_set)
qed

lemma staleness_fold:
  assumes "sn_wf (se_codec env) (se_Height env) s" "distinct (map fst l)"
    and "\<And>v sn. (v, sn) \<in> set l \<Longrightarrow> QuerySuperNode s v = Some sn"
  shows "sn_wf (se_codec env) (se_Height env) (fold (staleness_step env thr) (map snd l) s)
       \<and> sn_rel env (OpPostpone u r) s (fold (staleness_step env thr) (map snd l) s)
       \<and> (\<forall>w. w \<notin> fst ` set l \<longrightarrow>
            QuerySuperNode (fold (staleness_step env thr) (map snd l) s) w = QuerySuperNode s w)"
  using assms
proof (induction l arbitrary: s)
  case (Cons p l)
  obtain v sn where p: "p = (v, sn)" by force
  let ?s1 = "staleness_step env thr sn s"
  have q: "QuerySuperNode s v = Some sn" using Cons.prems(3) p by simp
  note step = staleness_step_one [OF q Cons.prems(1), where thr = thr]
  have "sn_wf (se_codec env) (se_Height env) ?s1" by (rule one_record_wf [OF step(1) Cons.prems(1)])
  moreover have "QuerySuperNode ?s1 w = Some x" if "(w, x) \<in> set l" for w x
    using that Cons.prems(2,3) step(2) [of w] p by (force simp: image_iff)
  ultimately have IH: "sn_wf (se_codec env) (se_Height env) (fold (staleness_step env thr) (map snd l) ?s1)
       \<and> sn_rel env (OpPostpone u r) ?s1 (fold (staleness_step env thr) (map snd l) ?s1)
       \<and> (\<forall>w. w \<notin> fst ` set l \<longrightarrow>
            QuerySuperNode (fold (staleness_step env thr) (map snd l) ?s1) w = QuerySuperNode ?s1 w)"
    using Cons.IH [of ?s1] Cons.prems(2) by simp
  have "v \<notin> fst ` set l" using Cons.prems(2) p by simp
  then have "sn_rel env (OpPostpone u r) s (fold (staleness_step env thr) (map snd l) ?s1)"
    using IH one_record_rel [OF step(1)] step(2) unfolding sn_rel_def by metis
  with IH step(2) p show ?case by auto
qed simp

lemma staleness_exec:
  assumes "sn_wf (se_codec env) (se_Height env) s"
  shows "sn_rel env (OpPostpone u r) s (HandleMetricsStaleness env s)
       \<and> sn_wf (se_codec env) (se_Height env) (HandleMetricsStaleness env s)"
proof -
  let ?l = "filter (\<lambda>x. sn_States (snd x) \<noteq> []) (ss_supernodes s)"
  have all: "GetAllSuperNodes [] s = map snd ?l"
    by (simp add: GetAllSuperNodes_def shouldFilter_def filter_map comp_def)
  have d: "distinct (map fst (ss_supernodes s))" by (rule kv_sorted_distinct [OF sn_wfD(1) [OF assms]])
  then have "distinct (map fst ?l)" by (rule distinct_map_filter)
  moreover have "QuerySuperNode s v = Some sn" if "(v, sn) \<in> set ?l" for v sn
    using that d by (simp add: QuerySuperNode_def map_of_is_SomeI)
  ultimately show ?thesis
    using staleness_fold [OF assms, of ?l] unfolding HandleMetricsStaleness_def all by blast
qed

lemma sn_exec_rel:
  assumes "sn_exec env op s = Inr s'" "sn_wf (se_codec env) (se_Height env) s"
  shows "sn_rel env op s s' \<and> sn_wf (se_codec env) (se_Height env) s'"
proof -
  have one: ?thesis if "one_record env op s s'"
    using one_record_rel [OF that] one_record_wf [OF that assms(2)] by blast
  show ?thesis
  proof (cases op)
    case (OpMetrics m)
    then show ?thesis using metrics_exec assms by blast
  next
    case (OpSetMetrics st)
    then obtain v where "ValAddressFromBech32 (se_codec env) (ms_ValidatorAddress st) = Some v"
      "s' = s\<lparr>ss_metrics := kv_set v st (ss_metrics s)\<rparr>" using assms(1) by (auto simp: SetMetricsState_def split: option.splits)
    then show ?thesis using sn_wf_metrics [OF assms(2)] by (simp add: sn_rel_def QuerySuperNode_def)
  next
    case (OpSnParams signer p)
    then obtain p' where "s' = s\<lparr>ss_params := p'\<rparr>" using assms(1) by (auto split: sum.splits)
    then show ?thesis using assms(2)
      by (simp add: sn_wf_def sn_rel_def QuerySuperNode_def GetMetricsState_def)
  qed (use assms RegisterSupernode_one operator_ops_one UpdateSupernode_one hooks_one audit_ops_one MigrateSupernode_one one in \<open>auto\<close>)
qed

text \<open>A validator takes its record along when it migrates.\<close>

lemma DeleteSuperNode_wf:
  assumes "sn_wf ac h s" "QuerySuperNode s v = Some sn"
  shows "sn_wf ac h (DeleteSuperNode v s)" "QuerySuperNode (DeleteSuperNode v s) w = (if w = v then None else QuerySuperNode s w)"
proof -
  have acc: "sn_SupernodeAccount sn \<noteq> []" using sn_wfD(4) [OF assms] by (auto simp: sn_rec_ok_def elim: Validate_InrE)
  have d: "DeleteSuperNode v s = s\<lparr>ss_accounts := kv_del (sn_SupernodeAccount sn) (ss_accounts s), ss_supernodes := kv_del v (ss_supernodes s)\<rparr>"
    using assms(2) acc by (simp add: DeleteSuperNode_def)
  show q: "QuerySuperNode (DeleteSuperNode v s) w = (if w = v then None else QuerySuperNode s w)" for w
    by (simp add: d QuerySuperNode_def)
  have da: "ss_accounts (DeleteSuperNode v s) = kv_del (sn_SupernodeAccount sn) (ss_accounts s)" by (simp add: d)
  have only: "w = v" if "QuerySuperNode s w = Some x" "sn_SupernodeAccount x = sn_SupernodeAccount sn" for w x
    using sn_wfD(5) [OF assms(1), of "sn_SupernodeAccount sn"] that assms(2) by (metis option.inject)
  have "map_of (ss_accounts (DeleteSuperNode v s)) a = Some w \<longleftrightarrow>
      (\<exists>x. QuerySuperNode (DeleteSuperNode v s) w = Some x \<and> sn_SupernodeAccount x = a)" for a w
  proof (cases "a = sn_SupernodeAccount sn")
    case True
    then show ?thesis using only [of w] by (auto simp: q da)
  next
    case False
    then have "w \<noteq> v" if "QuerySuperNode s w = Some x" "sn_SupernodeAccount x = a" for x using that assms(2) by auto
    then show ?thesis using False sn_wfD(5) [OF assms(1), of a w] by (auto simp: q da)
  qed
  moreover have "kv_sorted (ss_supernodes (DeleteSuperNode v s))" "kv_sorted (ss_accounts (DeleteSuperNode v s))"
    "ss_metrics (DeleteSuperNode v s) = ss_metrics s"
    using sn_wfD(1,2) [OF assms(1)] by (simp_all add: d)
  ultimately show "sn_wf ac h (DeleteSuperNode v s)"
    using sn_wfD(3) [OF assms(1)] sn_wfD(4) [OF assms(1)] sn_wfD(6) [OF assms(1)]
    by (simp add: sn_wf_def q GetMetricsState_def)
qed

lemma MigrateValidatorSupernode_InrE:
  assumes "MigrateValidatorSupernode env old new legacy acct s = Inr s'" "QuerySuperNode s old = Some sn" "sn_wf (se_codec env) h s"
  obtains s3 sn3 where "SetSuperNode (se_codec env) sn3 s3 = Inr s'" "sn_wf (se_codec env) h s3"
    "\<And>w. QuerySuperNode s3 w = (if w = old then None else QuerySuperNode s w)"
    "sn_ValidatorAddress sn3 = ValAddress_String (se_codec env) new" "sn_States sn3 = sn_States sn" "accounts_ok sn3"
proof -
  let ?ac = "se_codec env" and ?s1 = "DeleteSuperNode old s"
  let ?new = "ValAddress_String (se_codec env) new"
  note d = DeleteSuperNode_wf [OF assms(3,2)]
  have a: "accounts_ok sn" using sn_wfD(4) [OF assms(3,2)] by (simp add: sn_rec_ok_def accounts_ok_def)
  from assms(1,2) obtain s3 sn3 where set: "SetSuperNode ?ac sn3 s3 = Inr s'"
    and m: "(case GetMetricsState ?s1 old of None \<Rightarrow> Inr ?s1
        | Some m \<Rightarrow> bindR (SetMetricsState ?ac (m\<lparr>ms_ValidatorAddress := ?new\<rparr>) ?s1) (\<lambda>s2. Inr (DeleteMetricsState old s2))) = Inr s3"
    and sn3: "sn_ValidatorAddress sn3 = ?new" "sn_States sn3 = sn_States sn" "accounts_ok sn3"
    using a by (auto simp: MigrateValidatorSupernode_def Let_def migrate_account_def accounts_ok_def elim!: bindR_InrE split: if_splits)
  have "sn_wf ?ac h (DeleteMetricsState old x)" if "sn_wf ?ac h x" for x
    using that by (auto simp: DeleteMetricsState_def sn_wf_def QuerySuperNode_def GetMetricsState_def split: if_splits)
  then have "sn_wf ?ac h s3" using m d(1) sn_wf_metrics [OF d(1)]
    by (auto simp: SetMetricsState_def split: option.splits elim!: bindR_InrE)
  moreover have "QuerySuperNode s3 w = (if w = old then None else QuerySuperNode s w)" for w
    using m unfolding d(2) [symmetric]
    by (auto simp: SetMetricsState_def DeleteMetricsState_def QuerySuperNode_def split: option.splits elim!: bindR_InrE)
  ultimately show ?thesis using set sn3 by (intro that)
qed

lemma MigrateValidatorSupernode_wf:
  assumes "MigrateValidatorSupernode env old new legacy acct s = Inr s'" "sn_wf (se_codec env) h s"
  shows "sn_wf (se_codec env) h s'"
proof (cases "QuerySuperNode s old")
  case None
  then show ?thesis using assms by (simp add: MigrateValidatorSupernode_def)
next
  case (Some sn)
  have ok: "sn_rec_ok (se_codec env) h old sn" by (rule sn_wfD(4) [OF assms(2) Some])
  show ?thesis using assms(1) Some assms(2)
    by (rule MigrateValidatorSupernode_InrE) (use ok in \<open>auto simp: sn_rec_ok_def intro: SetSuperNode_wf\<close>)
qed

lemma sn_wf_mono: "sn_wf ac h s \<Longrightarrow> h \<le> h' \<Longrightarrow> sn_wf ac h' s"
  unfolding sn_wf_def sn_rec_ok_def by force

lemma sn_wf_empty: "sn_wf ac h sn_empty"
  by (simp add: sn_wf_def sn_empty_def QuerySuperNode_def GetMetricsState_def kv_sorted_def)

lemma sn_reachable_wf: "sn_reachable ac h s \<Longrightarrow> sn_wf ac h s"
  by (induction rule: sn_reachable.induct) (auto simp: sn_wf_empty sn_wf_mono dest: sn_exec_rel MigrateValidatorSupernode_wf)

section \<open>Transitions cannot fail\<close>

lemma SetSuperNode_append_ok:
  assumes "sn_wf (se_codec env) h s" "QuerySuperNode s v = Some sn" "st \<noteq> SuperNodeStateUnspecified"
  obtains s' where "SetSuperNode (se_codec env) (append_state env st r sn) s = Inr s'"
    "QuerySuperNode s' v = Some (append_state env st r sn)"
proof -
  have ok: "sn_rec_ok (se_codec env) h v sn" by (rule sn_wfD(4) [OF assms(1,2)])
  then have val: "SuperNode_Validate (se_codec env) (append_state env st r sn) = Inr (append_state env st r sn)"
    using Validate_append assms(3) by (simp add: sn_rec_ok_def)
  have "map_of (ss_accounts s) (sn_SupernodeAccount sn) = Some v"
    using sn_wfD(5) [OF assms(1)] assms(2) by blast
  then have "is_ok (SetSuperNode (se_codec env) (append_state env st r sn) s)"
    using ok val assms(2) by (simp add: SetSuperNode_def sn_rec_ok_def append_state_def Let_def)
  then obtain s' where s': "SetSuperNode (se_codec env) (append_state env st r sn) s = Inr s'"
    by (auto simp: is_ok_iff)
  moreover have "QuerySuperNode s' v = Some (append_state env st r sn)"
    using s' ok val by (auto elim!: SetSuperNode_InrE simp: Query_after_set sn_rec_ok_def)
  ultimately show ?thesis by (rule that)
qed

lemma save_io_append_ok:
  assumes "sn_wf (se_codec env) h s" "QuerySuperNode s v = Some sn" "st \<noteq> SuperNodeStateUnspecified"
  shows "is_ok (save_io env (append_state env st r sn) s)"
  by (rule SetSuperNode_append_ok [OF assms, of r]) (simp add: save_io_def)

lemma wf_States_nonempty: "sn_wf ac h s \<Longrightarrow> QuerySuperNode s v = Some sn \<Longrightarrow> sn_States sn \<noteq> []"
  using sn_wfD(4) by (fastforce simp: sn_rec_ok_def elim: Validate_InrE)

lemma state_setters_ok:
  assumes "sn_wf (se_codec env) h s" "QuerySuperNode s v = Some sn"
  shows "is_ok (SetSuperNodeActive env v s)" "is_ok (SetSuperNodeStopped env v s)"
  using assms(2) wf_States_nonempty [OF assms] save_io_append_ok [OF assms]
  by (auto simp: SetSuperNodeActive_def SetSuperNodeStopped_def split: supernode_state.split)

lemma SetSuperNode_frame:
  "SetSuperNode ac sn s = Inr s' \<Longrightarrow> ValAddressFromBech32 ac (sn_ValidatorAddress sn) = Some a \<Longrightarrow> w \<noteq> a \<Longrightarrow>
     QuerySuperNode s' w = QuerySuperNode s w"
  by (auto elim!: SetSuperNode_InrE simp: Query_after_set)

lemma Verify_ok: "VerifyValidatorOperator ac v c = Inr () \<longleftrightarrow> AccAddressFromBech32 ac c = Some v"
  by (auto simp: VerifyValidatorOperator_def split: option.splits)

lemma Eligibility_ok:
  assumes "CheckValidatorSupernodeEligibility env v valAddr acct s = Inr ()"
    "ValAddressFromBech32 (se_codec env) valAddr = Some a" "acct \<noteq> []"
  obtains shares where "se_Delegation env a a = Some shares"
    "GetMinStake s \<le> TruncateInt (v_TokensFromShares v shares) + delegated_tokens env v a acct"
  using assms by (auto simp: CheckValidatorSupernodeEligibility_def Let_def split: option.splits if_splits)

section \<open>An example chain\<close>

definition ex_validator :: validator where
  "ex_validator = \<lparr>v_Jailed = False, v_DelegatorShares = 10 ^ 19, v_TokensFromShares = (\<lambda>x. x)\<rparr>"

definition ex_sn_env :: sn_env where
  "ex_sn_env = \<lparr>se_codec = plain_codec, se_libs = ex_libs, se_authority = ''gov'', se_Height = 5,
     se_Validator = (\<lambda>_. Some ex_validator), se_Delegation = (\<lambda>_ _. Some (10 ^ 19))\<rparr>"

definition ex_register :: msg_register where
  "ex_register = \<lparr>mr_Creator = ''val'', mr_ValidatorAddress = ''val'', mr_IpAddress = ''1.2.3.4'',
     mr_SupernodeAccount = ''acc'', mr_P2PPort = []\<rparr>"

definition ex_val :: bytes where
  "ex_val = bytes_of_string ''val''"

definition ex_sn_store :: sn_store where
  "ex_sn_store = projr (sn_exec ex_sn_env (OpRegister ex_register) sn_empty)"

definition ex_sn_postponed :: sn_store where
  "ex_sn_postponed = projr (sn_exec ex_sn_env (OpPostpone ex_val ''late'') ex_sn_store)"

lemma ex_sn_store_exec: "sn_exec ex_sn_env (OpRegister ex_register) sn_empty = Inr ex_sn_store"
  by code_simp

lemma ex_sn_postponed_exec: "sn_exec ex_sn_env (OpPostpone ex_val ''late'') ex_sn_store = Inr ex_sn_postponed"
  by code_simp

lemma ex_env_sel [simp]: "se_codec ex_sn_env = plain_codec" "se_Height ex_sn_env = 5"
  by (simp_all add: ex_sn_env_def)

lemma ex_sn_reachable: "sn_reachable plain_codec 5 ex_sn_store"
  by (rule sn_reachable.exec [OF sn_reachable.init _ _ ex_sn_store_exec]) simp_all

lemma ex_postponed_reachable: "sn_reachable plain_codec 5 ex_sn_postponed"
  by (rule sn_reachable.exec [OF ex_sn_reachable _ _ ex_sn_postponed_exec]) simp_all

section \<open>Properties\<close>

text \<open>C9: In every reachable store the account index is exact: looking up an account returns the record
  that carries it, and no two validators share an account.\<close>

theorem supernode_index_exact:
  assumes "sn_reachable ac h s"
  shows "(GetSuperNodeByAccount s acct = Some sn \<longleftrightarrow>
            (\<exists>v. QuerySuperNode s v = Some sn \<and> sn_SupernodeAccount sn = acct))
    \<and> (QuerySuperNode s v = Some sn1 \<and> QuerySuperNode s w = Some sn2
         \<and> sn_SupernodeAccount sn1 = sn_SupernodeAccount sn2 \<longrightarrow> v = w)"
proof -
  note idx = sn_wfD(5) [OF sn_reachable_wf [OF assms]]
  have "v = w" if "QuerySuperNode s v = Some sn1" "QuerySuperNode s w = Some sn2"
    "sn_SupernodeAccount sn1 = sn_SupernodeAccount sn2"
    using idx [of "sn_SupernodeAccount sn1" v] idx [of "sn_SupernodeAccount sn1" w] that by auto
  moreover have "GetSuperNodeByAccount s acct = Some sn \<longleftrightarrow>
      (\<exists>v. QuerySuperNode s v = Some sn \<and> sn_SupernodeAccount sn = acct)"
    using idx [of acct] by (auto simp: GetSuperNodeByAccount_def split: option.splits) (metis option.inject option.distinct(1))+
  ultimately show ?thesis by blast
qed

theorem supernode_index_exact_witness:
  "\<exists>sn. GetSuperNodeByAccount ex_sn_store ''acc'' = Some sn \<and> QuerySuperNode ex_sn_store ex_val = Some sn"
proof -
  have "GetSuperNodeByAccount ex_sn_store ''acc'' = QuerySuperNode ex_sn_store ex_val
      \<and> GetSuperNodeByAccount ex_sn_store ''acc'' \<noteq> None" by code_simp
  then show ?thesis using supernode_index_exact [OF ex_sn_reachable, of "''acc''"] by auto
qed



text \<open>C21: The staking hooks never fail in a reachable store, so they cannot block the staking module.\<close>

theorem supernode_hooks_total:
  assumes "sn_reachable (se_codec env) h s"
  shows "is_ok (AfterValidatorBonded env v s) \<and> is_ok (AfterDelegationModified env v s)
    \<and> is_ok (AfterValidatorBeginUnbonding env v s) \<and> is_ok (AfterValidatorRemoved env v s)"
  using state_setters_ok [OF sn_reachable_wf [OF assms]]
  by (auto simp: AfterValidatorBonded_def AfterDelegationModified_def eligibility_hook_def
      AfterValidatorBeginUnbonding_def AfterValidatorRemoved_def)

theorem supernode_hooks_total_witness: "is_ok (AfterValidatorRemoved ex_sn_env ex_val ex_sn_store)"
proof -
  have "sn_reachable (se_codec ex_sn_env) 5 ex_sn_store" using ex_sn_reachable by simp
  from supernode_hooks_total [OF this] show ?thesis by blast
qed

text \<open>C22: A registration that succeeds was made by the validator's operator account, for a validator that
  is not jailed and whose self-delegation together with the delegation of the supernode account
  reaches the minimum stake; the record is then active at the current height.\<close>

theorem register_requires_stake:
  assumes "RegisterSupernode env m s = Inr s'" "sn_reachable (se_codec env) (se_Height env) s"
  shows "\<exists>a v shares sn.
      ValAddressFromBech32 (se_codec env) (mr_ValidatorAddress m) = Some a
    \<and> AccAddressFromBech32 (se_codec env) (mr_Creator m) = Some a
    \<and> se_Validator env a = Some v \<and> \<not> v_Jailed v \<and> se_Delegation env a a = Some shares
    \<and> QuerySuperNode s' a = Some sn
    \<and> GetMinStake s \<le> TruncateInt (v_TokensFromShares v shares) + delegated_tokens env v a (sn_SupernodeAccount sn)
    \<and> last_state sn = SuperNodeStateActive \<and> sr_Height (last (sn_States sn)) = se_Height env"
proof -
  note wf = sn_reachable_wf [OF assms(2)]
  from assms(1) obtain a v where a: "ValAddressFromBech32 (se_codec env) (mr_ValidatorAddress m) = Some a"
    and c: "AccAddressFromBech32 (se_codec env) (mr_Creator m) = Some a"
    and v: "se_Validator env a = Some v" "\<not> v_Jailed v"
    by (auto simp: RegisterSupernode_def bindR_Inr_iff Verify_ok split: option.splits if_splits)
  show ?thesis
  proof (cases "QuerySuperNode s a")
    case None
    with assms(1) a c v obtain sn where el: "CheckValidatorSupernodeEligibility env v (mr_ValidatorAddress m)
        (mr_SupernodeAccount m) s = Inr ()"
      and sn: "SuperNode_Validate (se_codec env) (new_supernode env m) = Inr sn"
      and set: "SetSuperNode (se_codec env) sn s = Inr s'"
      by (auto simp: RegisterSupernode_def save_io_Inr split: option.splits)
    have k: "sn_SupernodeAccount sn = mr_SupernodeAccount m" "sn_States sn = sn_States (new_supernode env m)"
      "mr_SupernodeAccount m \<noteq> []" "sn_ValidatorAddress sn = mr_ValidatorAddress m"
      using Validate_keeps [OF sn] Validate_InrE [OF sn] by (auto simp: new_supernode_def)
    have "QuerySuperNode s' a = Some sn"
      using set a k(4) Validate_idem [OF sn] by (auto elim!: SetSuperNode_InrE simp: Query_after_set)
    with a c v k show ?thesis
      using Eligibility_ok [OF el a k(3)] by (auto simp: new_supernode_def last_state_def)
  next
    case (Some old)
    with assms(1) a c v have el: "CheckValidatorSupernodeEligibility env v (mr_ValidatorAddress m)
        (sn_SupernodeAccount old) s = Inr ()"
      and set: "SetSuperNode (se_codec env) (append_state env SuperNodeStateActive [] old) s = Inr s'"
      by (auto simp: RegisterSupernode_def save_io_Inr split: option.splits if_splits)
    have ok: "sn_SupernodeAccount old \<noteq> []"
      using sn_wfD(4) [OF wf Some] by (auto simp: sn_rec_ok_def elim: Validate_InrE)
    have "QuerySuperNode s' a = Some (append_state env SuperNodeStateActive [] old)"
      using SetSuperNode_append_ok [OF wf Some, of SuperNodeStateActive "[]"] set by force
    with a c v show ?thesis
      using Eligibility_ok [OF el a ok] by (auto simp: append_state_def last_state_def)
  qed
qed

theorem register_requires_stake_witness:
  "\<exists>a sn. ValAddressFromBech32 plain_codec ''val'' = Some a \<and> QuerySuperNode ex_sn_store a = Some sn
     \<and> last_state sn = SuperNodeStateActive"
proof -
  have r: "RegisterSupernode ex_sn_env ex_register sn_empty = Inr ex_sn_store" using ex_sn_store_exec by simp
  from register_requires_stake [OF r sn_reachable.init] show ?thesis by (auto simp: ex_register_def)
qed

text \<open>C23: Deregistering, starting, stopping and updating are reserved to the operator of the validator they
  name, and change the record of no other validator.\<close>

theorem operator_authorised:
  assumes "sn_exec env op s = Inr s'" "sn_reachable (se_codec env) (se_Height env) s"
    and "op = OpDeregister c val \<or> op = OpStart c val \<or> op = OpStop c val \<or>
         (\<exists>m. op = OpUpdate m \<and> mu_Creator m = c \<and> mu_ValidatorAddress m = val)"
  shows "\<exists>a. AccAddressFromBech32 (se_codec env) c = Some a \<and> ValAddressFromBech32 (se_codec env) val = Some a
    \<and> (\<forall>w. w \<noteq> a \<longrightarrow> QuerySuperNode s' w = QuerySuperNode s w)"
proof -
  note wf = sn_reachable_wf [OF assms(2)]
  have addr: "ValAddressFromBech32 (se_codec env) (sn_ValidatorAddress sn) = Some a"
    if "QuerySuperNode s a = Some sn" for a sn
    using sn_wfD(4) [OF wf that] by (simp add: sn_rec_ok_def)
  obtain a where a: "ValAddressFromBech32 (se_codec env) val = Some a" "AccAddressFromBech32 (se_codec env) c = Some a"
    using assms(1,3)
    by (auto simp: DeregisterSupernode_def StartSupernode_def StopSupernode_def UpdateSupernode_def
        Verify_ok bindR_Inr_iff split: option.splits)
  have "QuerySuperNode s' w = QuerySuperNode s w" if "w \<noteq> a" for w
    using assms(1,3) a that addr
    by (auto simp: DeregisterSupernode_def StartSupernode_def StopSupernode_def UpdateSupernode_def Let_def
        update_ip_def update_account_def Verify_ok bindR_Inr_iff
        elim!: SetSuperNode_frame split: option.splits if_splits supernode_state.splits)
  with a show ?thesis by blast
qed

theorem operator_authorised_witness:
  "\<exists>s' a. sn_exec ex_sn_env (OpStop ''val'' ''val'') ex_sn_store = Inr s'
     \<and> AccAddressFromBech32 plain_codec ''val'' = Some a
     \<and> (\<forall>w. w \<noteq> a \<longrightarrow> QuerySuperNode s' w = QuerySuperNode ex_sn_store w)"
proof -
  have "is_ok (sn_exec ex_sn_env (OpStop ''val'' ''val'') ex_sn_store)" by code_simp
  then obtain s' where s': "sn_exec ex_sn_env (OpStop ''val'' ''val'') ex_sn_store = Inr s'" by (auto simp: is_ok_iff)
  have r: "sn_reachable (se_codec ex_sn_env) (se_Height ex_sn_env) ex_sn_store" using ex_sn_reachable by simp
  from operator_authorised [OF s' r, of "''val''" "''val''"] s' show ?thesis by auto
qed

text \<open>C24: An operator can always bring a postponed, penalised or storage-full supernode back to active by
  stopping and starting it, without any recovery by the enforcing module.\<close>

theorem stop_start_reactivates:
  assumes "sn_reachable (se_codec env) (se_Height env) s" "QuerySuperNode s a = Some sn"
    and "last_state sn \<in> {SuperNodeStatePostponed, SuperNodeStatePenalized, SuperNodeStateStorageFull}"
    and "ValAddressFromBech32 (se_codec env) val = Some a" "AccAddressFromBech32 (se_codec env) c = Some a"
  shows "\<exists>s1 s2. StopSupernode env c val s = Inr s1 \<and> StartSupernode env c val s1 = Inr s2
    \<and> IsSuperNodeActive s2 a"
proof -
  note wf = sn_reachable_wf [OF assms(1)]
  obtain s1 where s1: "SetSuperNode (se_codec env) (append_state env SuperNodeStateStopped [] sn) s = Inr s1"
    "QuerySuperNode s1 a = Some (append_state env SuperNodeStateStopped [] sn)"
    by (rule SetSuperNode_append_ok [OF wf assms(2), of SuperNodeStateStopped "[]"]) auto
  have stop: "StopSupernode env c val s = Inr s1"
    using assms s1 wf_States_nonempty [OF wf assms(2)]
    by (auto simp: StopSupernode_def VerifyValidatorOperator_def split: supernode_state.split)
  then have "sn_exec env (OpStop c val) s = Inr s1" by simp
  then have wf1: "sn_wf (se_codec env) (se_Height env) s1" using sn_exec_rel wf by blast
  obtain s2 where s2: "SetSuperNode (se_codec env) (append_state env SuperNodeStateActive []
      (append_state env SuperNodeStateStopped [] sn)) s1 = Inr s2"
    "QuerySuperNode s2 a = Some (append_state env SuperNodeStateActive [] (append_state env SuperNodeStateStopped [] sn))"
    by (rule SetSuperNode_append_ok [OF wf1 s1(2), of SuperNodeStateActive "[]"]) auto
  then have "StartSupernode env c val s1 = Inr s2" "IsSuperNodeActive s2 a"
    using assms s1(2)
    by (auto simp: StartSupernode_def VerifyValidatorOperator_def last_state_def append_state_def IsSuperNodeActive_def)
  with stop show ?thesis by blast
qed

theorem stop_start_reactivates_witness:
  "\<exists>s1 s2. StopSupernode ex_sn_env ''val'' ''val'' ex_sn_postponed = Inr s1
     \<and> StartSupernode ex_sn_env ''val'' ''val'' s1 = Inr s2 \<and> IsSuperNodeActive s2 ex_val"
proof -
  have "map_option last_state (QuerySuperNode ex_sn_postponed ex_val) = Some SuperNodeStatePostponed" by code_simp
  then obtain sn where q: "QuerySuperNode ex_sn_postponed ex_val = Some sn" "last_state sn = SuperNodeStatePostponed"
    by auto
  have r: "sn_reachable (se_codec ex_sn_env) (se_Height ex_sn_env) ex_sn_postponed" using ex_postponed_reachable by simp
  have "ValAddressFromBech32 (se_codec ex_sn_env) ''val'' = Some ex_val"
    and "AccAddressFromBech32 (se_codec ex_sn_env) ''val'' = Some ex_val"
    by (simp_all add: plain_codec_def ex_val_def)
  from stop_start_reactivates [OF r q(1) _ this] q(2) show ?thesis by simp
qed

end
