(* ===== verification/Go_Sort.thy ===== *)
theory Go_Sort
  imports Prelude "HOL-Library.Multiset"
begin

text \<open>
  Go's \<open>sort\<close> package as the modules use it. \<open>sort_Search n f\<close> is the binary search of
  \<open>sort.Search\<close>. \<open>slice_stable lt xs\<close> is the result of \<open>sort.SliceStable\<close> with the strict
  comparison \<open>lt\<close>: it is written as an insertion sort that keeps equal elements in their order,
  which determines the result of every stable sort when \<open>lt\<close> is a strict weak order. The locale
  \<open>strict_weak\<close> has the laws a comparison must satisfy.
\<close>

section \<open>Binary search\<close>

function search_loop :: "(nat \<Rightarrow> bool) \<Rightarrow> nat \<Rightarrow> nat \<Rightarrow> nat" where
  "search_loop f i j =
     (if i < j then let h = (i + j) div 2 in if \<not> f h then search_loop f (h + 1) j else search_loop f i h
      else i)"
  by pat_completeness auto
termination by (relation "measure (\<lambda>(f, i, j). j - i)") auto

declare search_loop.simps [simp del]

definition sort_Search :: "nat \<Rightarrow> (nat \<Rightarrow> bool) \<Rightarrow> nat" where
  "sort_Search n f = search_loop f 0 n"

lemma search_loop_spec:
  assumes "i \<le> j" "j \<le> n" "\<And>k l. k \<le> l \<Longrightarrow> l < n \<Longrightarrow> f k \<Longrightarrow> f l"
    and "\<And>k. k < i \<Longrightarrow> \<not> f k" "\<And>k. j \<le> k \<Longrightarrow> k < n \<Longrightarrow> f k"
  shows "search_loop f i j \<le> n \<and> (\<forall>k < search_loop f i j. \<not> f k) \<and> (\<forall>k < n. search_loop f i j \<le> k \<longrightarrow> f k)"
  using assms(1,2,4,5)
proof (induction "j - i" arbitrary: i j rule: less_induct)
  case less
  show ?case
  proof (cases "i < j")
    case True
    let ?h = "(i + j) div 2"
    have h: "i \<le> ?h" "?h < j" using True by auto
    show ?thesis
    proof (cases "f ?h")
      case f: True
      have "\<And>k. ?h \<le> k \<Longrightarrow> k < n \<Longrightarrow> f k" using assms(3) f by blast
      then have "search_loop f i ?h \<le> n \<and> (\<forall>k < search_loop f i ?h. \<not> f k) \<and> (\<forall>k < n. search_loop f i ?h \<le> k \<longrightarrow> f k)"
        using less.hyps [of ?h i] less.prems h by fastforce
      then show ?thesis using True f by (subst (1 2 3) search_loop.simps) (simp add: Let_def)
    next
      case f: False
      have "\<not> f k" if "k < ?h + 1" for k
      proof
        assume "f k"
        then have "f ?h" using assms(3) [of k ?h] that h less.prems(2) by simp
        with f show False ..
      qed
      then have "search_loop f (?h + 1) j \<le> n \<and> (\<forall>k < search_loop f (?h + 1) j. \<not> f k)
          \<and> (\<forall>k < n. search_loop f (?h + 1) j \<le> k \<longrightarrow> f k)"
        using less.hyps [of j "?h + 1"] less.prems h by fastforce
      then show ?thesis using True f by (subst (1 2 3) search_loop.simps) (simp add: Let_def)
    qed
  next
    case False
    then show ?thesis using less.prems by (subst (1 2 3) search_loop.simps) auto
  qed
qed

lemma sort_Search_spec:
  assumes "\<And>k l. k \<le> l \<Longrightarrow> l < n \<Longrightarrow> f k \<Longrightarrow> f l"
  shows "sort_Search n f \<le> n" "k < sort_Search n f \<Longrightarrow> \<not> f k" "sort_Search n f \<le> k \<Longrightarrow> k < n \<Longrightarrow> f k"
proof -
  have "search_loop f 0 n \<le> n \<and> (\<forall>k < search_loop f 0 n. \<not> f k) \<and> (\<forall>k < n. search_loop f 0 n \<le> k \<longrightarrow> f k)"
    by (rule search_loop_spec) (use assms in auto)
  then show "sort_Search n f \<le> n" "k < sort_Search n f \<Longrightarrow> \<not> f k" "sort_Search n f \<le> k \<Longrightarrow> k < n \<Longrightarrow> f k"
    unfolding sort_Search_def by simp_all
qed

section \<open>Stable sorting\<close>

fun stable_insert :: "('a \<Rightarrow> 'a \<Rightarrow> bool) \<Rightarrow> 'a \<Rightarrow> 'a list \<Rightarrow> 'a list" where
  "stable_insert lt x [] = [x]"
| "stable_insert lt x (y # ys) = (if lt y x then y # stable_insert lt x ys else x # y # ys)"

fun slice_stable :: "('a \<Rightarrow> 'a \<Rightarrow> bool) \<Rightarrow> 'a list \<Rightarrow> 'a list" where
  "slice_stable lt [] = []"
| "slice_stable lt (x # xs) = stable_insert lt x (slice_stable lt xs)"

lemma mset_stable_insert [simp]: "mset (stable_insert lt x xs) = add_mset x (mset xs)"
  by (induction xs) auto

lemma mset_slice_stable [simp]: "mset (slice_stable lt xs) = mset xs"
  by (induction xs) auto

lemma set_slice_stable [simp]: "set (slice_stable lt xs) = set xs"
  by (metis mset_slice_stable set_mset_mset)

lemma length_slice_stable [simp]: "length (slice_stable lt xs) = length xs"
  by (metis mset_slice_stable size_mset)

locale strict_weak =
  fixes lt :: "'a \<Rightarrow> 'a \<Rightarrow> bool"
  assumes asym: "lt x y \<Longrightarrow> \<not> lt y x"
    and neg_trans: "\<not> lt x y \<Longrightarrow> \<not> lt y z \<Longrightarrow> \<not> lt x z"
begin

definition ordered :: "'a list \<Rightarrow> bool" where
  "ordered xs = sorted_wrt (\<lambda>x y. \<not> lt y x) xs"

lemma ordered_insert: "ordered xs \<Longrightarrow> ordered (stable_insert lt x xs)"
proof (induction xs)
  case (Cons y ys)
  have set: "set (stable_insert lt x ys) = insert x (set ys)"
    by (metis mset_stable_insert set_mset_add_mset_insert set_mset_mset)
  show ?case
  proof (cases "lt y x")
    case True
    then show ?thesis using Cons asym set by (auto simp: ordered_def)
  next
    case False
    then show ?thesis using Cons.prems neg_trans by (auto simp: ordered_def)
  qed
qed (simp add: ordered_def)

lemma ordered_sort: "ordered (slice_stable lt xs)"
  by (induction xs) (simp_all add: ordered_insert, simp add: ordered_def)

text \<open>When different elements of the list are comparable, the result depends only on the elements.\<close>

lemma ordered_unique:
  assumes "ordered xs" "ordered ys" "mset xs = mset ys"
    and "\<And>x y. x \<in> set xs \<Longrightarrow> y \<in> set xs \<Longrightarrow> x \<noteq> y \<Longrightarrow> lt x y \<or> lt y x"
  shows "xs = ys"
  using assms
proof (induction xs arbitrary: ys)
  case (Cons x xs)
  then obtain y ys' where ys: "ys = y # ys'" by (cases ys) auto
  have sets: "set (x # xs) = set ys" using Cons.prems(3) by (metis set_mset_mset)
  have "x = y"
  proof (rule ccontr)
    assume ne: "x \<noteq> y"
    then have "x \<in> set ys'" "y \<in> set xs" using sets ys by auto
    then show False using Cons.prems(1,2,4) ne ys by (fastforce simp: ordered_def)
  qed
  moreover have "xs = ys'"
    using Cons.IH [of ys'] Cons.prems ys \<open>x = y\<close> by (auto simp: ordered_def)
  ultimately show ?case using ys by simp
qed simp

lemma sort_perm:
  assumes "mset xs = mset ys" "\<And>x y. x \<in> set xs \<Longrightarrow> y \<in> set xs \<Longrightarrow> x \<noteq> y \<Longrightarrow> lt x y \<or> lt y x"
  shows "slice_stable lt xs = slice_stable lt ys"
  by (rule ordered_unique) (use assms ordered_sort in auto)

text \<open>The first \<open>n\<close> elements of the sorted list come before all others.\<close>

lemma take_sort_before:
  assumes "x \<in> set (take n (slice_stable lt xs))" "y \<in> set (drop n (slice_stable lt xs))"
  shows "\<not> lt y x"
proof -
  have "sorted_wrt (\<lambda>x y. \<not> lt y x) (take n (slice_stable lt xs) @ drop n (slice_stable lt xs))"
    using ordered_sort [of xs] unfolding ordered_def by simp
  then show ?thesis using assms unfolding sorted_wrt_append by blast
qed

end

text \<open>Comparing by a key of a linear order.\<close>

lemma strict_weak_key: "strict_weak (\<lambda>x y. key x < (key y :: 'k::linorder))"
  by unfold_locales auto

end
