(* ===== verification/Supernode_Select.thy ===== *)
theory Supernode_Select
  imports Supernode Go_Sort
begin

text \<open>
  The selection of supernodes for a block (keeper/query\_get\_top\_super\_nodes\_for\_block.go): the state of
  a supernode at a past height by binary search, the XOR distance to the hash of the block and the
  ranking by distance. BLAKE3 is an argument; request strings are ASCII.
\<close>

section \<open>Definitions\<close>

definition DetermineStateAtBlock :: "state_record list \<Rightarrow> int \<Rightarrow> supernode_state option" where
  "DetermineStateAtBlock states blockHeight =
     (if states = [] then None
      else let pos = sort_Search (length states) (\<lambda>i. blockHeight < sr_Height (states ! i))
           in if pos = 0 then None else Some (sr_State (states ! (pos - 1))))"

definition xor_bytes :: "bytes \<Rightarrow> bytes \<Rightarrow> bytes" where
  "xor_bytes a b = map (\<lambda>i. xor (if i < length a then a ! i else 0) (if i < length b then b ! i else 0))
     [0..<max (length a) (length b)]"

text \<open>\<open>big.Int.SetBytes\<close>: big-endian.\<close>

definition be_int :: "bytes \<Rightarrow> nat" where
  "be_int bs = foldl (\<lambda>acc b. acc * 256 + unat b) 0 bs"

definition xorDistance :: "bytes \<Rightarrow> bytes \<Rightarrow> nat" where
  "xorDistance a b = be_int (xor_bytes a b)"

definition hashValidatorAddress :: "addr_codec \<Rightarrow> (bytes \<Rightarrow> bytes) \<Rightarrow> string \<Rightarrow> bytes option" where
  "hashValidatorAddress ac blake3 valAddr = map_option blake3 (ValAddressFromBech32 ac valAddr)"

definition calcDistance :: "addr_codec \<Rightarrow> (bytes \<Rightarrow> bytes) \<Rightarrow> bytes \<Rightarrow> supernode \<Rightarrow> nat option" where
  "calcDistance ac blake3 blockHash sn =
     map_option (xorDistance blockHash) (hashValidatorAddress ac blake3 (sn_ValidatorAddress sn))"

definition GetBlockHashForHeight :: "(bytes \<Rightarrow> bytes) \<Rightarrow> int \<Rightarrow> sn_error + bytes" where
  "GetBlockHashForHeight blake3 height =
     (if height \<le> 0 then Inl (SnSdk ErrInvalidRequest) else Inr (blake3 (bytes_of_string (dec_of_int height))))"

definition distance_less :: "supernode \<times> nat \<Rightarrow> supernode \<times> nat \<Rightarrow> bool" where
  "distance_less a b = (if snd a \<noteq> snd b then snd a < snd b
                        else sn_ValidatorAddress (fst a) < sn_ValidatorAddress (fst b))"

definition sn_distances :: "addr_codec \<Rightarrow> (bytes \<Rightarrow> bytes) \<Rightarrow> bytes \<Rightarrow> supernode list \<Rightarrow> (supernode \<times> nat) list" where
  "sn_distances ac blake3 blockHash sns =
     List.map_filter (\<lambda>sn. map_option (Pair sn) (calcDistance ac blake3 blockHash sn)) sns"

definition RankSuperNodesByDistance ::
    "addr_codec \<Rightarrow> (bytes \<Rightarrow> bytes) \<Rightarrow> bytes \<Rightarrow> supernode list \<Rightarrow> int \<Rightarrow> supernode list" where
  "RankSuperNodesByDistance ac blake3 blockHash sns topN =
     (let distances = slice_stable distance_less (sn_distances ac blake3 blockHash sns);
          n = (if int (length distances) < topN then length distances else nat topN)
      in map fst (take n distances))"

section \<open>The query\<close>

definition to_upper :: "char \<Rightarrow> char" where
  "to_upper c = (let n = of_char c :: nat in if 97 \<le> n \<and> n \<le> 122 then char_of (n - 32) else c)"

definition is_space :: "char \<Rightarrow> bool" where
  "is_space c = ((of_char c :: nat) \<in> {9, 10, 11, 12, 13, 32})"

definition TrimSpace :: "string \<Rightarrow> string" where
  "TrimSpace s = rev (dropWhile is_space (rev (dropWhile is_space s)))"

definition parse_state :: "string \<Rightarrow> supernode_state" where
  "parse_state s =
     (let normalized = map to_upper (TrimSpace s) in
      if normalized \<in> {''SUPERNODE_STATE_ACTIVE'', ''ACTIVE''} then SuperNodeStateActive
      else if normalized \<in> {''SUPERNODE_STATE_DISABLED'', ''DISABLED''} then SuperNodeStateDisabled
      else if normalized \<in> {''SUPERNODE_STATE_STOPPED'', ''STOPPED''} then SuperNodeStateStopped
      else if normalized \<in> {''SUPERNODE_STATE_PENALIZED'', ''PENALIZED''} then SuperNodeStatePenalized
      else if normalized \<in> {''SUPERNODE_STATE_POSTPONED'', ''POSTPONED''} then SuperNodeStatePostponed
      else if normalized \<in> {''SUPERNODE_STATE_STORAGE_FULL'', ''STORAGE_FULL''} then SuperNodeStateStorageFull
      else SuperNodeStateUnspecified)"

record top_request =
  tr_BlockHeight :: int
  tr_Limit :: int
  tr_State :: string

definition DefaultLimit :: int where
  "DefaultLimit = 25"

definition qualifies :: "supernode_state \<Rightarrow> int \<Rightarrow> supernode \<Rightarrow> bool" where
  "qualifies stateFilter blockHeight sn =
     (sn_States sn \<noteq> [] \<and>
      (case DetermineStateAtBlock (sn_States sn) blockHeight of
         None \<Rightarrow> False
       | Some st \<Rightarrow>
           st \<noteq> SuperNodeStateUnspecified
         \<and> \<not> (stateFilter = SuperNodeStateUnspecified \<and> (st = SuperNodeStatePostponed \<or> st = SuperNodeStateStorageFull))
         \<and> \<not> (stateFilter \<noteq> SuperNodeStateUnspecified \<and> st \<noteq> stateFilter)))"

definition GetTopSuperNodesForBlock ::
    "addr_codec \<Rightarrow> (bytes \<Rightarrow> bytes) \<Rightarrow> top_request \<Rightarrow> sn_store \<Rightarrow> sn_error + supernode list" where
  "GetTopSuperNodesForBlock ac blake3 req s =
     (let stateFilter = parse_state (tr_State req); blockHeight = tr_BlockHeight req in
      if blockHeight \<le> 0 then Inl (SnSdk ErrInvalidRequest)
      else
        let limit = (if tr_Limit req \<le> 0 then DefaultLimit else tr_Limit req);
            validSns = filter (qualifies stateFilter blockHeight) (GetAllSuperNodes [] s)
        in bindR (GetBlockHashForHeight blake3 blockHeight)
             (\<lambda>blockHash. Inr (RankSuperNodesByDistance ac blake3 blockHash validSns limit)))"

section \<open>State at a block\<close>

definition state_at :: "state_record list \<Rightarrow> int \<Rightarrow> supernode_state option" where
  "state_at states h =
     (let past = filter (\<lambda>r. sr_Height r \<le> h) states in if past = [] then None else Some (sr_State (last past)))"

lemma sorted_filter_take:
  assumes "\<And>k. k < p \<Longrightarrow> P (xs ! k)" "\<And>k. p \<le> k \<Longrightarrow> k < length xs \<Longrightarrow> \<not> P (xs ! k)" "p \<le> length xs"
  shows "filter P xs = take p xs"
proof -
  have "filter P (take p xs) = take p xs"
    using assms(1,3) by (auto simp: filter_id_conv in_set_conv_nth)
  moreover have "filter P (drop p xs) = []"
    using assms(2) by (auto simp: filter_empty_conv in_set_conv_nth)
  ultimately show ?thesis by (metis append.right_neutral append_take_drop_id filter_append)
qed

lemma DetermineStateAtBlock_state_at:
  assumes "sorted (map sr_Height states)"
  shows "DetermineStateAtBlock states h = state_at states h"
proof -
  let ?f = "\<lambda>i. h < sr_Height (states ! i)" and ?n = "length states"
  have mono: "?f l" if "k \<le> l" "l < ?n" "?f k" for k l
    using sorted_nth_mono [OF assms, of k l] that by simp
  let ?p = "sort_Search ?n ?f"
  have spec: "?p \<le> ?n" "\<And>k. k < ?p \<Longrightarrow> \<not> ?f k" "\<And>k. ?p \<le> k \<Longrightarrow> k < ?n \<Longrightarrow> ?f k"
    using sort_Search_spec [of ?n ?f] mono by blast+
  have "filter (\<lambda>r. sr_Height r \<le> h) states = take ?p states"
  proof (rule sorted_filter_take)
    show "sr_Height (states ! k) \<le> h" if "k < ?p" for k using spec(2) [OF that] by simp
    show "\<not> sr_Height (states ! k) \<le> h" if "?p \<le> k" "k < ?n" for k using spec(3) [OF that] by simp
    show "?p \<le> ?n" by (rule spec(1))
  qed
  moreover have "last (take ?p states) = states ! (?p - 1)" if "?p \<noteq> 0" "states \<noteq> []"
    using that spec(1) by (simp add: last_conv_nth)
  ultimately show ?thesis
    by (auto simp: DetermineStateAtBlock_def state_at_def Let_def)
qed

lemma state_at_append: "h < sr_Height r \<Longrightarrow> state_at (states @ [r]) h = state_at states h"
  by (simp add: state_at_def)

section \<open>XOR distance\<close>

lemma be_int_snoc [simp]: "be_int (bs @ [b]) = be_int bs * 256 + unat b"
  by (simp add: be_int_def)

lemma unat_byte_less: "unat (b :: 8 word) < 256"
proof -
  have "unat b < 2 ^ LENGTH(8)" by (rule unsigned_less)
  then show ?thesis by simp
qed

lemma be_int_inject: "length xs = length ys \<Longrightarrow> be_int xs = be_int ys \<longleftrightarrow> xs = ys"
proof (induction xs arbitrary: ys rule: rev_induct)
  case (snoc x xs)
  then obtain y ys' where ys: "ys = ys' @ [y]" by (metis append_butlast_last_id length_0_conv snoc_eq_iff_butlast)
  have split: "(a * 256 + b) div 256 = a" "(a * 256 + b) mod 256 = b" if "b < 256" for a b :: nat
    using that by simp_all
  have "a = c \<and> b = d" if "a * 256 + b = c * 256 + d" "b < 256" "d < 256" for a b c d :: nat
    using that split [of b a] split [of d c] by simp
  then have "be_int (xs @ [x]) = be_int ys \<longleftrightarrow> be_int xs = be_int ys' \<and> unat x = unat y"
    using unat_byte_less [of x] unat_byte_less [of y] by (auto simp: ys)
  with snoc ys show ?case by (simp add: word_unat_eq_iff)
qed simp

lemma be_int_bound: "be_int bs < 256 ^ length bs"
proof (induction bs rule: rev_induct)
  case (snoc b bs)
  then have "be_int bs + 1 \<le> 256 ^ length bs" by simp
  then have "(be_int bs + 1) * 256 \<le> 256 ^ length bs * 256" by (rule mult_le_mono1)
  then show ?case using unat_byte_less [of b] by simp
qed (simp add: be_int_def)

lemma length_xor_bytes [simp]: "length (xor_bytes a b) = max (length a) (length b)"
  by (simp add: xor_bytes_def)

lemma xor_bytes_commute: "xor_bytes a b = xor_bytes b a"
  by (simp add: xor_bytes_def max.commute xor.commute)

lemma xor_bytes_inject:
  assumes "length h = n" "length a = n" "length b = n"
  shows "xor_bytes h a = xor_bytes h b \<longleftrightarrow> a = b"
proof
  assume eq: "xor_bytes h a = xor_bytes h b"
  have "a ! i = b ! i" if "i < n" for i
  proof -
    have "xor (h ! i) (a ! i) = xor (h ! i) (b ! i)"
      using arg_cong [OF eq, of "\<lambda>x. x ! i"] that assms by (simp add: xor_bytes_def)
    then have "xor (h ! i) (xor (h ! i) (a ! i)) = xor (h ! i) (xor (h ! i) (b ! i))" by simp
    then show ?thesis by (simp only: xor.assoc [symmetric] xor_self_eq xor.left_neutral)
  qed
  then show "a = b" using assms by (simp add: nth_equalityI)
qed simp

section \<open>Ranking\<close>

interpretation dist: strict_weak distance_less
  by unfold_locales (auto simp: distance_less_def not_less split: if_splits)

definition closer :: "addr_codec \<Rightarrow> (bytes \<Rightarrow> bytes) \<Rightarrow> bytes \<Rightarrow> supernode \<Rightarrow> supernode \<Rightarrow> bool" where
  "closer ac blake3 blockHash x y \<longleftrightarrow>
     (\<exists>dx dy. calcDistance ac blake3 blockHash x = Some dx \<and> calcDistance ac blake3 blockHash y = Some dy
        \<and> (dx < dy \<or> (dx = dy \<and> sn_ValidatorAddress x \<le> sn_ValidatorAddress y)))"

lemma sn_distances_alt:
  "sn_distances ac blake3 bh sns =
     map (\<lambda>sn. (sn, the (calcDistance ac blake3 bh sn))) (filter (\<lambda>sn. calcDistance ac blake3 bh sn \<noteq> None) sns)"
  by (induction sns) (auto simp: sn_distances_def List.map_filter_def)

lemma set_sn_distances:
  "(x, d) \<in> set (sn_distances ac blake3 bh sns) \<longleftrightarrow> x \<in> set sns \<and> calcDistance ac blake3 bh x = Some d"
  by (auto simp: sn_distances_alt)

lemma rank_take:
  "RankSuperNodesByDistance ac blake3 bh sns topN =
     map fst (take (nat topN) (slice_stable distance_less (sn_distances ac blake3 bh sns)))"
  by (auto simp: RankSuperNodesByDistance_def Let_def)

lemma rank_subset:
  "x \<in> set (RankSuperNodesByDistance ac blake3 bh sns topN) \<Longrightarrow> x \<in> set sns"
  by (auto simp: rank_take set_sn_distances dest!: in_set_takeD)

lemma rank_length:
  "length (RankSuperNodesByDistance ac blake3 bh sns topN) =
     min (nat topN) (length (filter (\<lambda>sn. calcDistance ac blake3 bh sn \<noteq> None) sns))"
  by (simp add: rank_take sn_distances_alt)

lemma rank_distinct:
  assumes "distinct sns"
  shows "distinct (RankSuperNodesByDistance ac blake3 bh sns topN)"
proof -
  let ?D = "sn_distances ac blake3 bh sns" and ?S = "slice_stable distance_less (sn_distances ac blake3 bh sns)"
  have "map fst ?D = filter (\<lambda>sn. calcDistance ac blake3 bh sn \<noteq> None) sns" by (simp add: sn_distances_alt comp_def)
  then have "distinct (map fst ?D)" using assms by simp
  moreover have "mset (map fst ?S) = mset (map fst ?D)" by simp
  ultimately have "distinct (map fst ?S)" by (metis mset_eq_imp_distinct_iff)
  then show ?thesis by (simp add: rank_take take_map [symmetric] distinct_take)
qed

lemma rank_closest:
  assumes "x \<in> set (RankSuperNodesByDistance ac blake3 bh sns topN)" "y \<in> set sns"
    and "y \<notin> set (RankSuperNodesByDistance ac blake3 bh sns topN)" "calcDistance ac blake3 bh y = Some dy"
  shows "closer ac blake3 bh x y"
proof -
  let ?S = "slice_stable distance_less (sn_distances ac blake3 bh sns)" and ?n = "nat topN"
  from assms(1) obtain dx where x: "(x, dx) \<in> set (take ?n ?S)" by (auto simp: rank_take)
  then have dx: "calcDistance ac blake3 bh x = Some dx" using set_sn_distances in_set_takeD by fastforce
  have "(y, dy) \<in> set ?S" using assms(2,4) by (simp add: set_sn_distances)
  moreover have "(y, dy) \<notin> set (take ?n ?S)" using assms(3) by (force simp: rank_take)
  ultimately have "(y, dy) \<in> set (drop ?n ?S)" by (metis Un_iff append_take_drop_id set_append)
  from dist.take_sort_before [OF x this] dx assms(4) show ?thesis
    unfolding closer_def distance_less_def by (auto split: if_splits)
qed

lemma rank_perm:
  assumes "mset sns = mset sns'" "inj_on sn_ValidatorAddress (set sns)"
  shows "RankSuperNodesByDistance ac blake3 bh sns topN = RankSuperNodesByDistance ac blake3 bh sns' topN"
proof -
  have "mset (sn_distances ac blake3 bh sns) = mset (sn_distances ac blake3 bh sns')"
    using assms(1) by (simp add: sn_distances_alt mset_filter [symmetric] del: mset_filter) (simp add: mset_filter)
  moreover have "distance_less p q \<or> distance_less q p"
    if "p \<in> set (sn_distances ac blake3 bh sns)" "q \<in> set (sn_distances ac blake3 bh sns)" "p \<noteq> q" for p q
  proof -
    obtain x dx y dy where pq: "p = (x, dx)" "q = (y, dy)" by (cases p, cases q)
    show ?thesis
    proof (cases "sn_ValidatorAddress x = sn_ValidatorAddress y")
      case True
      then have "x = y" using that pq assms(2) by (auto simp: set_sn_distances dest: inj_onD)
      with that pq show ?thesis by (simp add: set_sn_distances)
    next
      case False
      then show ?thesis by (auto simp: pq distance_less_def)
    qed
  qed
  ultimately have "slice_stable distance_less (sn_distances ac blake3 bh sns) =
      slice_stable distance_less (sn_distances ac blake3 bh sns')"
    by (rule dist.sort_perm)
  then show ?thesis by (simp add: rank_take)
qed

section \<open>Records of a reachable store\<close>

lemma GetAll_query:
  assumes "sn_wf ac h s"
  shows "sn \<in> set (GetAllSuperNodes [] s) \<longleftrightarrow> (\<exists>v. QuerySuperNode s v = Some sn)"
proof -
  have "kv_sorted (ss_supernodes s)" by (rule sn_wfD(1) [OF assms])
  then have d: "distinct (map fst (ss_supernodes s))" by (rule kv_sorted_distinct)
  have "sn \<in> snd ` set (ss_supernodes s) \<longleftrightarrow> (\<exists>v. QuerySuperNode s v = Some sn)"
    using d by (auto simp: QuerySuperNode_def dest: map_of_SomeD intro: rev_image_eqI)
  then show ?thesis
    using wf_States_nonempty [OF assms] by (auto simp: GetAllSuperNodes_def shouldFilter_def)
qed

lemma GetAll_inj:
  assumes "sn_wf ac h s"
  shows "inj_on sn_ValidatorAddress (set (GetAllSuperNodes [] s))" "distinct (GetAllSuperNodes [] s)"
proof -
  have addr: "ValAddressFromBech32 ac (sn_ValidatorAddress sn) = Some v" if "QuerySuperNode s v = Some sn" for v sn
    using sn_wfD(4) [OF assms that] by (simp add: sn_rec_ok_def)
  show "inj_on sn_ValidatorAddress (set (GetAllSuperNodes [] s))"
  proof (rule inj_onI)
    fix x y assume "x \<in> set (GetAllSuperNodes [] s)" "y \<in> set (GetAllSuperNodes [] s)"
      and eq: "sn_ValidatorAddress x = sn_ValidatorAddress y"
    then obtain v w where "QuerySuperNode s v = Some x" "QuerySuperNode s w = Some y"
      using GetAll_query [OF assms] by blast
    with addr eq show "x = y" by (metis option.inject)
  qed
  have d: "distinct (map fst (ss_supernodes s))" by (rule kv_sorted_distinct [OF sn_wfD(1) [OF assms]])
  have "inj_on snd (set (ss_supernodes s))"
  proof (rule inj_onI)
    fix p q assume "p \<in> set (ss_supernodes s)" "q \<in> set (ss_supernodes s)" "snd p = snd q"
    then have "QuerySuperNode s (fst p) = Some (snd p)" "QuerySuperNode s (fst q) = Some (snd p)"
      using d by (metis QuerySuperNode_def map_of_is_SomeI prod.collapse)+
    then have "Some (fst p) = Some (fst q)" using addr by metis
    then have "fst p = fst q" by simp
    with \<open>snd p = snd q\<close> show "p = q" by (simp add: prod_eq_iff)
  qed
  then have "distinct (map snd (ss_supernodes s))" using d by (simp add: distinct_map)
  then show "distinct (GetAllSuperNodes [] s)" by (simp add: GetAllSuperNodes_def)
qed

lemma reachable_state_at:
  assumes "sn_reachable ac h s" "QuerySuperNode s v = Some sn"
  shows "DetermineStateAtBlock (sn_States sn) b = state_at (sn_States sn) b"
  using sn_wfD(4) [OF sn_reachable_wf [OF assms(1)] assms(2)]
  by (intro DetermineStateAtBlock_state_at) (simp add: sn_rec_ok_def)

lemma qualifies_iff:
  assumes "sn_reachable ac h s" "st \<noteq> SuperNodeStateUnspecified"
  shows "x \<in> set (filter (qualifies st b) (GetAllSuperNodes [] s)) \<longleftrightarrow>
    (\<exists>v. QuerySuperNode s v = Some x) \<and> state_at (sn_States x) b = Some st"
proof -
  note wf = sn_reachable_wf [OF assms(1)]
  show ?thesis
    using GetAll_query [OF wf] reachable_state_at [OF assms(1)] wf_States_nonempty [OF wf] assms(2)
    by (fastforce simp: qualifies_def split: option.splits)
qed

lemma top_members:
  assumes "GetTopSuperNodesForBlock ac blake3 req s = Inr R" "sn_reachable ac h s"
    and "parse_state (tr_State req) = st" "st \<noteq> SuperNodeStateUnspecified" "x \<in> set R"
  shows "\<exists>v. QuerySuperNode s v = Some x \<and> state_at (sn_States x) (tr_BlockHeight req) = Some st"
proof -
  obtain bh lim where "R = RankSuperNodesByDistance ac blake3 bh (filter (qualifies st (tr_BlockHeight req)) (GetAllSuperNodes [] s)) lim"
    using assms(1,3) by (auto simp: GetTopSuperNodesForBlock_def Let_def split: if_splits)
  then have "x \<in> set (filter (qualifies st (tr_BlockHeight req)) (GetAllSuperNodes [] s))"
    using rank_subset assms(5) by fast
  then show ?thesis unfolding qualifies_iff [OF assms(2,4)] by blast
qed

section \<open>Properties\<close>

text \<open>C20: In a reachable store the binary search finds the state of a supernode at any height: that of the
  last record of its history not above the height, with the last write of a block winning.\<close>

theorem state_at_block_correct:
  assumes "sn_reachable ac h s" "QuerySuperNode s v = Some sn"
  shows "DetermineStateAtBlock (sn_States sn) b =
    (let past = filter (\<lambda>r. sr_Height r \<le> b) (sn_States sn) in if past = [] then None else Some (sr_State (last past)))"
  using reachable_state_at [OF assms] by (simp add: state_at_def)

theorem state_at_block_correct_witness:
  "\<exists>sn. QuerySuperNode ex_sn_postponed ex_val = Some sn \<and>
     DetermineStateAtBlock (sn_States sn) 5 = Some SuperNodeStatePostponed"
proof -
  have "map_option sn_States (QuerySuperNode ex_sn_postponed ex_val) =
      Some [\<lparr>sr_State = SuperNodeStateActive, sr_Height = 5, sr_Reason = []\<rparr>,
            \<lparr>sr_State = SuperNodeStatePostponed, sr_Height = 5, sr_Reason = ''late''\<rparr>]" by code_simp
  then obtain sn where sn: "QuerySuperNode ex_sn_postponed ex_val = Some sn"
    "sn_States sn = [\<lparr>sr_State = SuperNodeStateActive, sr_Height = 5, sr_Reason = []\<rparr>,
            \<lparr>sr_State = SuperNodeStatePostponed, sr_Height = 5, sr_Reason = ''late''\<rparr>]" by auto
  from state_at_block_correct [OF ex_postponed_reachable sn(1), of 5] sn show ?thesis by simp
qed



text \<open>C25: The ranking returns distinct supernodes of its input, as many as requested or available, the
  closest ones by distance and then address, and does not depend on the order of the input.\<close>

theorem rank_by_distance_correct:
  assumes "distinct sns" "inj_on sn_ValidatorAddress (set sns)" "mset sns' = mset sns"
    and "\<forall>sn \<in> set sns. ValAddressFromBech32 ac (sn_ValidatorAddress sn) \<noteq> None"
  shows "let R = RankSuperNodesByDistance ac blake3 bh sns topN in
      distinct R \<and> set R \<subseteq> set sns \<and> length R = min (nat topN) (length sns)
    \<and> (\<forall>x \<in> set R. \<forall>y \<in> set sns - set R. closer ac blake3 bh x y)
    \<and> RankSuperNodesByDistance ac blake3 bh sns' topN = R"
proof -
  have d: "calcDistance ac blake3 bh sn \<noteq> None" if "sn \<in> set sns" for sn
    using that assms(4) by (simp add: calcDistance_def hashValidatorAddress_def)
  then have "filter (\<lambda>sn. calcDistance ac blake3 bh sn \<noteq> None) sns = sns" by (simp add: filter_id_conv)
  then have "length (RankSuperNodesByDistance ac blake3 bh sns topN) = min (nat topN) (length sns)"
    by (simp add: rank_length)
  moreover have "closer ac blake3 bh x y"
    if xy: "x \<in> set (RankSuperNodesByDistance ac blake3 bh sns topN)"
      "y \<in> set sns - set (RankSuperNodesByDistance ac blake3 bh sns topN)" for x y
  proof -
    obtain dy where "calcDistance ac blake3 bh y = Some dy" using d xy(2) by blast
    then show ?thesis using rank_closest xy by blast
  qed
  ultimately show ?thesis
    using rank_distinct [OF assms(1)] rank_subset rank_perm [OF assms(3) [symmetric] assms(2)]
    unfolding Let_def by (intro conjI) auto
qed

theorem rank_by_distance_correct_witness:
  "let sns = GetAllSuperNodes [] ex_sn_store; R = RankSuperNodesByDistance plain_codec (\<lambda>b. b) [1] sns 3 in
     length R = min 3 (length sns) \<and> set R \<subseteq> set sns"
proof -
  note wf = sn_reachable_wf [OF ex_sn_reachable]
  have "\<forall>sn \<in> set (GetAllSuperNodes [] ex_sn_store). ValAddressFromBech32 plain_codec (sn_ValidatorAddress sn) \<noteq> None"
    by code_simp
  from rank_by_distance_correct [OF GetAll_inj(2) [OF wf] GetAll_inj(1) [OF wf] refl this, of "\<lambda>b. b" "[1]" 3]
  show ?thesis by (simp add: Let_def)
qed

text \<open>C18: The query for the top supernodes of a block with a requested state returns only supernodes that
  had this state at the block, at most the limit, and leaves out such a supernode only when it
  returns the full limit of supernodes that are at least as close.\<close>

theorem top_supernodes_correct:
  assumes "GetTopSuperNodesForBlock ac blake3 req s = Inr R" "sn_reachable ac h s"
    and "parse_state (tr_State req) = st" "st \<noteq> SuperNodeStateUnspecified" "0 < tr_Limit req"
  shows "distinct R \<and> int (length R) \<le> tr_Limit req
    \<and> (\<forall>x \<in> set R. \<exists>v. QuerySuperNode s v = Some x \<and> state_at (sn_States x) (tr_BlockHeight req) = Some st)
    \<and> (\<forall>v y. QuerySuperNode s v = Some y \<and> state_at (sn_States y) (tr_BlockHeight req) = Some st \<and> y \<notin> set R \<longrightarrow>
         int (length R) = tr_Limit req \<and>
         (\<forall>x \<in> set R. closer ac blake3 (blake3 (bytes_of_string (dec_of_int (tr_BlockHeight req)))) x y))"
proof -
  let ?b = "tr_BlockHeight req" and ?bh = "blake3 (bytes_of_string (dec_of_int (tr_BlockHeight req)))"
  let ?sns = "filter (qualifies st ?b) (GetAllSuperNodes [] s)"
  note wf = sn_reachable_wf [OF assms(2)]
  have R: "R = RankSuperNodesByDistance ac blake3 ?bh ?sns (tr_Limit req)"
    using assms(1,3,5)
    by (auto simp: GetTopSuperNodesForBlock_def GetBlockHashForHeight_def Let_def split: if_splits)
  have q: "x \<in> set ?sns \<longleftrightarrow> (\<exists>v. QuerySuperNode s v = Some x) \<and> state_at (sn_States x) ?b = Some st" for x
    by (rule qualifies_iff [OF assms(2,4)])
  have d: "calcDistance ac blake3 ?bh x \<noteq> None" if x: "x \<in> set ?sns" for x
  proof -
    obtain v where "QuerySuperNode s v = Some x" using x q by blast
    then show ?thesis using sn_wfD(4) [OF wf] by (simp add: sn_rec_ok_def calcDistance_def hashValidatorAddress_def)
  qed
  have len: "length R = min (nat (tr_Limit req)) (length ?sns)"
  proof -
    have "filter (\<lambda>sn. calcDistance ac blake3 ?bh sn \<noteq> None) ?sns = ?sns" using d unfolding filter_id_conv by blast
    then show ?thesis unfolding R rank_length by metis
  qed
  have dist: "distinct R" unfolding R using GetAll_inj(2) [OF wf] by (intro rank_distinct) simp
  have sub: "set R \<subseteq> set ?sns" unfolding R using rank_subset by fast
  have "int (length R) = tr_Limit req" "\<forall>x \<in> set R. closer ac blake3 ?bh x y"
    if y: "y \<in> set ?sns" "y \<notin> set R" for y
  proof -
    have "set R \<subset> set ?sns" using sub y by blast
    then have "card (set R) < card (set ?sns)" by (simp add: psubset_card_mono)
    then have "length R < length ?sns" using dist card_length [of ?sns] by (simp add: distinct_card)
    then show "int (length R) = tr_Limit req" using len assms(5) by simp
    obtain dy where "calcDistance ac blake3 ?bh y = Some dy" using d y(1) by blast
    then show "\<forall>x \<in> set R. closer ac blake3 ?bh x y" using rank_closest y unfolding R by blast
  qed
  moreover have "int (length R) \<le> tr_Limit req" using len assms(5) by simp
  ultimately show ?thesis using dist sub q by blast
qed

definition ex_top :: top_request where
  "ex_top = \<lparr>tr_BlockHeight = 7, tr_Limit = 3, tr_State = '' active''\<rparr>"

theorem top_supernodes_correct_witness:
  "\<exists>R. GetTopSuperNodesForBlock plain_codec (\<lambda>b. b) ex_top ex_sn_store = Inr R \<and> distinct R \<and> length R \<le> 3"
proof -
  have "is_ok (GetTopSuperNodesForBlock plain_codec (\<lambda>b. b) ex_top ex_sn_store)" by code_simp
  then obtain R where R: "GetTopSuperNodesForBlock plain_codec (\<lambda>b. b) ex_top ex_sn_store = Inr R"
    by (auto simp: is_ok_iff)
  have "parse_state (tr_State ex_top) = SuperNodeStateActive" "0 < tr_Limit ex_top" by code_simp+
  from top_supernodes_correct [OF R ex_sn_reachable this(1) _ this(2)] R show ?thesis
    by (auto simp: ex_top_def)
qed

text \<open>C26: The XOR distance to a block hash is symmetric, bounded, zero only for equal hashes, and gives
  different hashes different distances, so that ties need a hash collision.\<close>

theorem xor_distance_metric:
  assumes "length h = n" "length a = n" "length b = n"
  shows "xorDistance h a = xorDistance a h \<and> xorDistance h a < 256 ^ n
    \<and> (xorDistance h a = 0 \<longleftrightarrow> h = a) \<and> (xorDistance h a = xorDistance h b \<longleftrightarrow> a = b)"
proof -
  have inj: "xorDistance h x = xorDistance h y \<longleftrightarrow> x = y" if "length x = n" "length y = n" for x y
    using that assms(1) by (simp add: xorDistance_def be_int_inject xor_bytes_inject)
  have "xor_bytes h h = replicate n 0"
    using assms(1) by (auto simp: xor_bytes_def list_eq_iff_nth_eq)
  moreover have "be_int (replicate k 0) = 0" for k
    by (induction k) (simp_all add: be_int_def)
  ultimately have "xorDistance h h = 0" by (simp add: xorDistance_def)
  with inj [OF assms(1,2)] inj [OF assms(2,3)] show ?thesis
    using be_int_bound [of "xor_bytes h a"] assms by (auto simp: xorDistance_def xor_bytes_commute [of h a])
qed

theorem xor_distance_metric_witness: "xorDistance [1, 2] [3, 4] = xorDistance [3, 4] [1, 2] \<and> xorDistance [1, 2] [3, 4] < 256 ^ 2"
  using xor_distance_metric [of "[1, 2]" 2 "[3, 4]" "[3, 4]"] by simp

end
