(* ===== verification/Action_Types.thy ===== *)
theory Action_Types
  imports Svc Supernode_Select Go_Time
begin

text \<open>
  Data of the action module: actions and their states (types/action.pb.go, action_state.pb.go),
  parameters (types/params.go), messages with their stateless checks (types/message_*.go,
  types/action_type*.go) and the environment of the keeper. JSON and protobuf codecs, coin and
  decimal parsing, the SDK keepers and the audit keeper interface are fields of the environment.
  \<open>ae_VerifySig\<close> stands for decoding a signature and checking it directly or as an ADR-36 document.
\<close>

section \<open>Actions\<close>

datatype action_state =
    ActionStateUnspecified | ActionStatePending | ActionStateProcessing | ActionStateDone
  | ActionStateApproved | ActionStateRejected | ActionStateFailed | ActionStateExpired

definition ActionState_String :: "action_state \<Rightarrow> string" where
  "ActionState_String st = (case st of
     ActionStateUnspecified \<Rightarrow> ''ACTION_STATE_UNSPECIFIED'' | ActionStatePending \<Rightarrow> ''ACTION_STATE_PENDING''
   | ActionStateProcessing \<Rightarrow> ''ACTION_STATE_PROCESSING'' | ActionStateDone \<Rightarrow> ''ACTION_STATE_DONE''
   | ActionStateApproved \<Rightarrow> ''ACTION_STATE_APPROVED'' | ActionStateRejected \<Rightarrow> ''ACTION_STATE_REJECTED''
   | ActionStateFailed \<Rightarrow> ''ACTION_STATE_FAILED'' | ActionStateExpired \<Rightarrow> ''ACTION_STATE_EXPIRED'')"

datatype action_type = ActionTypeUnspecified | ActionTypeSense | ActionTypeCascade

definition ActionType_String :: "action_type \<Rightarrow> string" where
  "ActionType_String t = (case t of
     ActionTypeUnspecified \<Rightarrow> ''ACTION_TYPE_UNSPECIFIED'' | ActionTypeSense \<Rightarrow> ''ACTION_TYPE_SENSE''
   | ActionTypeCascade \<Rightarrow> ''ACTION_TYPE_CASCADE'')"

text \<open>\<open>None\<close> in \<open>act_Metadata\<close> is the nil slice.\<close>

record action =
  act_Creator :: string
  act_ActionID :: string
  act_ActionType :: action_type
  act_Metadata :: "bytes option"
  act_Price :: string
  act_ExpirationTime :: int
  act_State :: action_state
  act_BlockHeight :: int
  act_SuperNodes :: "string list"
  act_FileSizeKbs :: int
  act_AppPubkey :: bytes

definition raw :: "bytes option \<Rightarrow> bytes" where
  "raw m = (case m of None \<Rightarrow> [] | Some b \<Rightarrow> b)"

type_synonym coin = "string \<times> int"

section \<open>Parameters\<close>

record action_params =
  ap_BaseActionFee :: coin
  ap_FeePerKbyte :: coin
  ap_MaxActionsPerBlock :: int
  ap_MinSuperNodes :: int
  ap_MaxDdAndFingerprints :: int
  ap_MaxRaptorQSymbols :: int
  ap_ExpirationDuration :: int
  ap_MinProcessingTime :: int
  ap_MaxProcessingTime :: int
  ap_SuperNodeFeeShare :: string
  ap_FoundationFeeShare :: string
  ap_SvcChallengeCount :: int
  ap_SvcMinChunksForChallenge :: int

definition action_DefaultParams :: action_params where
  "action_DefaultParams = \<lparr>
     ap_BaseActionFee = (''ulume'', 10000), ap_FeePerKbyte = (''ulume'', 10), ap_MaxActionsPerBlock = 10,
     ap_MinSuperNodes = 3, ap_MaxDdAndFingerprints = 50, ap_MaxRaptorQSymbols = 50,
     ap_ExpirationDuration = 24 * 3600 * 10 ^ 9, ap_MinProcessingTime = 60 * 10 ^ 9,
     ap_MaxProcessingTime = 3600 * 10 ^ 9, ap_SuperNodeFeeShare = ''1.000000000000000000'',
     ap_FoundationFeeShare = ''0.000000000000000000'', ap_SvcChallengeCount = 8,
     ap_SvcMinChunksForChallenge = 4\<rparr>"

definition action_WithDefaults :: "action_params \<Rightarrow> action_params" where
  "action_WithDefaults p =
     (let p1 = (if ap_SvcChallengeCount p = 0 then p\<lparr>ap_SvcChallengeCount := 8\<rparr> else p)
      in if ap_SvcMinChunksForChallenge p1 = 0 then p1\<lparr>ap_SvcMinChunksForChallenge := 4\<rparr> else p1)"

section \<open>Environment\<close>

datatype action_evidence = EvSignatureFailure | EvNotInTop10 | EvActionExpired

record 'w audit_iface =
  ak_CreateEvidence :: "string \<Rightarrow> string \<Rightarrow> string \<Rightarrow> action_evidence \<Rightarrow> string list \<Rightarrow> 'w \<Rightarrow> 'w option"
  ak_SetTicketArtifactCounts :: "string \<Rightarrow> int \<Rightarrow> int \<Rightarrow> 'w \<Rightarrow> 'w option"

record 'w action_env =
  ae_codec :: addr_codec
  ae_bank :: "'w bank_keeper"
  ae_auth :: "'w account_keeper"
  ae_audit :: "'w audit_iface option"
  ae_FundCommunityPool :: "coins \<Rightarrow> bytes \<Rightarrow> 'w \<Rightarrow> 'w option"
  ae_PubKey :: "'w \<Rightarrow> bytes \<Rightarrow> bytes option"
  ae_VerifySig :: "bytes \<Rightarrow> string \<Rightarrow> string \<Rightarrow> string \<Rightarrow> bool"
  ae_ParseCoin :: "string \<Rightarrow> coin option"
  ae_CoinString :: "coin \<Rightarrow> string"
  ae_CoinValid :: "coin \<Rightarrow> bool"
  ae_DecFromStr :: "string \<Rightarrow> int option"
  ae_DecMul :: "int \<Rightarrow> int \<Rightarrow> int"
  ae_cascade_std_json :: "string \<Rightarrow> cascade_metadata option"
  ae_cascade_json :: "string \<Rightarrow> cascade_metadata option"
  ae_cascade_unmarshal :: "bytes \<Rightarrow> cascade_metadata option"
  ae_cascade_marshal :: "cascade_metadata \<Rightarrow> bytes"
  ae_sense_std_json :: "string \<Rightarrow> sense_metadata option"
  ae_sense_json :: "string \<Rightarrow> sense_metadata option"
  ae_sense_unmarshal :: "bytes \<Rightarrow> sense_metadata option"
  ae_sense_marshal :: "sense_metadata \<Rightarrow> bytes"
  ae_kad :: kad_libs
  ae_authority :: bytes
  ae_reward :: bool
  ae_sn :: sn_store
  ae_BlockHeight :: int
  ae_BlockTime :: int
  ae_random :: int
  ae_map_order :: "string list \<Rightarrow> string list"

definition action_ModuleName :: string where
  "action_ModuleName = ''action''"

section \<open>Parameter validation\<close>

definition validateDuration :: "int \<Rightarrow> string + unit" where
  "validateDuration d = (if d \<le> 0 then Inl ''duration must be positive'' else Inr ())"

definition validateCoin :: "'w action_env \<Rightarrow> coin \<Rightarrow> string + unit" where
  "validateCoin env c = (if \<not> ae_CoinValid env c then Inl ''invalid coin'' else Inr ())"

definition validateDecString :: "'w action_env \<Rightarrow> string \<Rightarrow> string + unit" where
  "validateDecString env str = (case ae_DecFromStr env str of
     None \<Rightarrow> Inl ''invalid decimal string''
   | Some dec \<Rightarrow> if dec < 0 then Inl ''decimal string must be non-negative'' else Inr ())"

definition action_Params_Validate :: "'w action_env \<Rightarrow> action_params \<Rightarrow> string + unit" where
  "action_Params_Validate env p =
     bindR (validateCoin env (ap_BaseActionFee p)) (\<lambda>_.
     bindR (validateCoin env (ap_FeePerKbyte p)) (\<lambda>_.
     bindR (validateDuration (ap_ExpirationDuration p)) (\<lambda>_.
     bindR (validateDuration (ap_MinProcessingTime p)) (\<lambda>_.
     bindR (validateDuration (ap_MaxProcessingTime p)) (\<lambda>_.
     bindR (validateDecString env (ap_SuperNodeFeeShare p)) (\<lambda>_.
     bindR (validateDecString env (ap_FoundationFeeShare p)) (\<lambda>_.
     if ap_MinProcessingTime p \<ge> ap_MaxProcessingTime p then Inl ''min processing time''
     else case ae_DecFromStr env (ap_SuperNodeFeeShare p) of
       None \<Rightarrow> Inl ''invalid super node fee share''
     | Some superNodeShare \<Rightarrow>
         (case ae_DecFromStr env (ap_FoundationFeeShare p) of
            None \<Rightarrow> Inl ''invalid foundation fee share''
          | Some foundationShare \<Rightarrow>
              if superNodeShare + foundationShare \<noteq> 10 ^ 18 then Inl ''fee shares must sum to 1.0''
              else Inr ()))))))))"

section \<open>Messages\<close>

datatype message_type = MsgTypeRequest | MsgTypeFinalize | MsgTypeApprove

record msg_request_action =
  rq_Creator :: string
  rq_ActionType :: string
  rq_Metadata :: string
  rq_Price :: string
  rq_ExpirationTime :: string
  rq_FileSizeKbs :: string
  rq_AppPubkey :: bytes

record msg_finalize_action =
  fz_Creator :: string
  fz_ActionId :: string
  fz_ActionType :: string
  fz_Metadata :: string

record msg_approve_action =
  pv_Creator :: string
  pv_ActionId :: string

text \<open>\<open>strconv.ParseInt(s, 10, 64)\<close>: the value it returns and whether there was no error.\<close>

definition ParseInt :: "string \<Rightarrow> int \<times> bool" where
  "ParseInt s =
     (let neg = (case s of c # _ \<Rightarrow> c = CHR ''-'' | [] \<Rightarrow> False);
          body = (case s of c # r \<Rightarrow> if c = CHR ''-'' \<or> c = CHR ''+'' then r else s | [] \<Rightarrow> []);
          n = int_of_dec body; v = (if neg then - n else n)
      in if body = [] \<or> \<not> list_all is_digit body then (0, False)
         else if v \<ge> 2 ^ 63 then (2 ^ 63 - 1, False)
         else if v < - (2 ^ 63) then (- (2 ^ 63), False)
         else (v, True))"

text \<open>The validator registry holds the two action types under two names each.\<close>

definition ParseActionType :: "string \<Rightarrow> action_error + action_type" where
  "ParseActionType s =
     (if s = [] then Inl ErrInvalidActionType
      else let u = map to_upper s in
        if u = ''CASCADE'' \<or> u = ''ACTION_TYPE_CASCADE'' then Inr ActionTypeCascade
        else if u = ''SENSE'' \<or> u = ''ACTION_TYPE_SENSE'' then Inr ActionTypeSense
        else Inl ErrInvalidActionType)"

definition parsed_type :: "string \<Rightarrow> action_type" where
  "parsed_type s = (case ParseActionType s of Inl _ \<Rightarrow> ActionTypeUnspecified | Inr t \<Rightarrow> t)"

definition CascadeValidator_ValidateBasic :: "'w action_env \<Rightarrow> string \<Rightarrow> message_type \<Rightarrow> string + unit" where
  "CascadeValidator_ValidateBasic env metadataStr msgType =
     (case ae_cascade_std_json env metadataStr of
        None \<Rightarrow> Inl ''failed to unmarshal cascade metadata''
      | Some m \<Rightarrow>
          if msgType = MsgTypeRequest \<and> cm_DataHash m = [] then Inl ''data_hash''
          else if msgType = MsgTypeRequest \<and> cm_FileName m = [] then Inl ''file_name''
          else if msgType = MsgTypeRequest \<and> cm_RqIdsIc m = 0 then Inl ''rq_ids_ic''
          else if msgType = MsgTypeRequest \<and> cm_Signatures m = [] then Inl ''signatures''
          else if msgType = MsgTypeFinalize \<and> cm_RqIdsIds m = [] then Inl ''rq_ids_ids''
          else Inr ())"

definition SenseValidator_ValidateBasic :: "'w action_env \<Rightarrow> string \<Rightarrow> message_type \<Rightarrow> string + unit" where
  "SenseValidator_ValidateBasic env metadataStr msgType =
     (case ae_sense_std_json env metadataStr of
        None \<Rightarrow> Inl ''failed to unmarshal sense metadata''
      | Some m \<Rightarrow>
          if msgType = MsgTypeRequest \<and> sm_DataHash m = [] then Inl ''data_hash''
          else if msgType = MsgTypeRequest \<and> sm_DdAndFingerprintsIc m = 0 then Inl ''dd_and_fingerprints_ic''
          else if msgType = MsgTypeFinalize \<and> sm_DdAndFingerprintsIds m = [] then Inl ''dd_and_fingerprints_ids''
          else if msgType = MsgTypeFinalize \<and> sm_Signatures m = [] then Inl ''signatures''
          else Inr ())"

definition DoActionValidation :: "'w action_env \<Rightarrow> string \<Rightarrow> string \<Rightarrow> message_type \<Rightarrow> action_error + unit" where
  "DoActionValidation env metadata actionTypeStr msgType =
     bindR (ParseActionType actionTypeStr) (\<lambda>actionType.
       case (case actionType of
               ActionTypeCascade \<Rightarrow> CascadeValidator_ValidateBasic env metadata msgType
             | ActionTypeSense \<Rightarrow> SenseValidator_ValidateBasic env metadata msgType
             | ActionTypeUnspecified \<Rightarrow> Inl ''no validator registered'') of
         Inl _ \<Rightarrow> Inl ErrInvalidMetadata
       | Inr _ \<Rightarrow> Inr ())"

definition MsgRequestAction_ValidateBasic :: "'w action_env \<Rightarrow> msg_request_action \<Rightarrow> action_error + unit" where
  "MsgRequestAction_ValidateBasic env msg =
     (if AccAddressFromBech32 (ae_codec env) (rq_Creator msg) = None then Inl (ActSdk ErrInvalidAddress)
      else bindR (ParseActionType (rq_ActionType msg)) (\<lambda>_.
      if rq_Price msg = [] then Inl ErrInvalidPrice
      else if ae_ParseCoin env (rq_Price msg) = None then Inl ErrInvalidPrice
      else if rq_ExpirationTime msg = [] then Inl ErrInvalidExpiration
      else if \<not> snd (ParseInt (rq_ExpirationTime msg)) then Inl ErrInvalidExpiration
      else if fst (ParseInt (rq_ExpirationTime msg)) < 0 then Inl ErrInvalidExpiration
      else if rq_Metadata msg = [] then Inl ErrInvalidMetadata
      else case DoActionValidation env (rq_Metadata msg) (rq_ActionType msg) MsgTypeRequest of
        Inl _ \<Rightarrow> Inl ErrInvalidMetadata
      | Inr _ \<Rightarrow>
          if rq_FileSizeKbs msg \<noteq> [] \<and> \<not> snd (ParseInt (rq_FileSizeKbs msg)) then Inl ErrInvalidFileSize
          else if rq_FileSizeKbs msg \<noteq> [] \<and> fst (ParseInt (rq_FileSizeKbs msg)) < 0 then Inl ErrInvalidFileSize
          else Inr ()))"

definition MsgFinalizeAction_ValidateBasic :: "'w action_env \<Rightarrow> msg_finalize_action \<Rightarrow> action_error + unit" where
  "MsgFinalizeAction_ValidateBasic env msg =
     (if AccAddressFromBech32 (ae_codec env) (fz_Creator msg) = None then Inl ErrActionAddress
      else if fz_ActionId msg = [] then Inl ErrInvalidID
      else bindR (ParseActionType (fz_ActionType msg)) (\<lambda>_.
      if fz_Metadata msg = [] then Inl ErrInvalidMetadata
      else case DoActionValidation env (fz_Metadata msg) (fz_ActionType msg) MsgTypeFinalize of
        Inl _ \<Rightarrow> Inl ErrInvalidMetadata
      | Inr _ \<Rightarrow> Inr ()))"

definition MsgApproveAction_ValidateBasic :: "'w action_env \<Rightarrow> msg_approve_action \<Rightarrow> action_error + unit" where
  "MsgApproveAction_ValidateBasic env msg =
     (if AccAddressFromBech32 (ae_codec env) (pv_Creator msg) = None then Inl (ActSdk ErrInvalidAddress)
      else if pv_ActionId msg = [] then Inl ErrInvalidID
      else Inr ())"

end
