(* ===== verification/Action.thy ===== *)
theory Action
  imports Action_Types
begin

text \<open>
  The action keeper (x/action/v1/keeper): the store with its secondary indexes, the Cascade and
  Sense handlers, registration, finalization, approval, fee distribution, expiration, parameters
  and genesis. A state is the module's store together with the world of the SDK keepers. The world
  after a failed bank call is the world before it, and the iteration over a state index sees the
  keys present when it starts, as the store iterators of the SDK do.
\<close>

section \<open>Store\<close>

text \<open>\<open>as_Index\<close> holds the marker keys of the five secondary indexes.\<close>

record action_store =
  as_Actions :: "(string \<times> action) list"
  as_Index :: "(string \<times> unit) list"
  as_Count :: int
  as_Params :: "action_params option"

definition action_empty :: action_store where
  "action_empty = \<lparr>as_Actions = [], as_Index = [], as_Count = 0, as_Params = None\<rparr>"

definition ActionByStatePrefix :: string where "ActionByStatePrefix = ''Action/state/''"
definition ActionByCreatorPrefix :: string where "ActionByCreatorPrefix = ''Action/creator/''"
definition ActionByTypePrefix :: string where "ActionByTypePrefix = ''Action/type/''"
definition ActionByBlockHeightPrefix :: string where "ActionByBlockHeightPrefix = ''Action/block/''"
definition ActionBySuperNodePrefix :: string where "ActionBySuperNodePrefix = ''Action/supernode/''"

definition index_key :: "string \<Rightarrow> string \<Rightarrow> string \<Rightarrow> string" where
  "index_key pre v actionID = pre @ v @ ''/'' @ actionID"

definition GetActionByID :: "action_store \<Rightarrow> string \<Rightarrow> action option" where
  "GetActionByID s actionID = map_of (as_Actions s) actionID"

text \<open>One index: drop the key of the old value when it differs, then write the key of the new one.\<close>

definition reindex :: "string \<Rightarrow> (action \<Rightarrow> string) \<Rightarrow> action option \<Rightarrow> action \<Rightarrow> (string \<times> unit) list \<Rightarrow> (string \<times> unit) list" where
  "reindex pre f old a idx =
     (let idx1 = (case old of None \<Rightarrow> idx
                  | Some o' \<Rightarrow> if f o' \<noteq> f a then kv_del (index_key pre (f o') (act_ActionID a)) idx else idx)
      in kv_set (index_key pre (f a) (act_ActionID a)) () idx1)"

definition reindex_supernodes :: "action option \<Rightarrow> action \<Rightarrow> (string \<times> unit) list \<Rightarrow> (string \<times> unit) list" where
  "reindex_supernodes old a idx =
     (let stale = (case old of None \<Rightarrow> []
                   | Some o' \<Rightarrow> filter (\<lambda>sn. sn \<notin> set (act_SuperNodes a)) (remdups (act_SuperNodes o')));
          idx1 = fold (\<lambda>sn. kv_del (index_key ActionBySuperNodePrefix sn (act_ActionID a))) stale idx
      in fold (\<lambda>sn. kv_set (index_key ActionBySuperNodePrefix sn (act_ActionID a)) ())
           (remdups (act_SuperNodes a)) idx1)"

definition SetAction :: "action \<Rightarrow> action_store \<Rightarrow> action_store" where
  "SetAction a s =
     (let old = GetActionByID s (act_ActionID a) in
      s\<lparr>as_Actions := kv_set (act_ActionID a) a (as_Actions s),
        as_Index :=
          reindex_supernodes old a
            (reindex ActionByBlockHeightPrefix (\<lambda>x. dec_of_int (act_BlockHeight x)) old a
              (reindex ActionByTypePrefix (\<lambda>x. ActionType_String (act_ActionType x)) old a
                (reindex ActionByCreatorPrefix act_Creator old a
                  (reindex ActionByStatePrefix (\<lambda>x. ActionState_String (act_State x)) old a (as_Index s)))))\<rparr>)"

definition index_ids :: "action_store \<Rightarrow> string \<Rightarrow> string list" where
  "index_ids s indexPrefix = map (\<lambda>e. drop (length indexPrefix) (fst e)) (kv_prefix indexPrefix (as_Index s))"

definition getActionsByIndexPrefix :: "action_store \<Rightarrow> string \<Rightarrow> action list" where
  "getActionsByIndexPrefix s indexPrefix = List.map_filter (GetActionByID s) (index_ids s indexPrefix)"

definition GetActionsByCreator :: "action_store \<Rightarrow> string \<Rightarrow> action list" where
  "GetActionsByCreator s creator = getActionsByIndexPrefix s (ActionByCreatorPrefix @ creator @ ''/'')"

definition GetActionsBySuperNode :: "action_store \<Rightarrow> string \<Rightarrow> action list" where
  "GetActionsBySuperNode s supernode = getActionsByIndexPrefix s (ActionBySuperNodePrefix @ supernode @ ''/'')"

definition getLastActionID :: "action_store \<Rightarrow> int" where
  "getLastActionID s = as_Count s"

definition action_GetParams :: "action_store \<Rightarrow> action_params" where
  "action_GetParams s = (case as_Params s of None \<Rightarrow> action_DefaultParams | Some p \<Rightarrow> action_WithDefaults p)"

definition action_SetParams :: "action_params \<Rightarrow> action_store \<Rightarrow> action_store" where
  "action_SetParams p s = s\<lparr>as_Params := Some (action_WithDefaults p)\<rparr>"

definition validatePrice :: "action_store \<Rightarrow> coin \<Rightarrow> action_error + unit" where
  "validatePrice s price =
     (let params = action_GetParams s;
          minFeeAmount = snd (ap_FeePerKbyte params) + snd (ap_BaseActionFee params)
      in if snd price < minFeeAmount then Inl (ActSdk ErrInvalidRequest) else Inr ())"

definition GetActionFee :: "action_store \<Rightarrow> string \<Rightarrow> action_error + int" where
  "GetActionFee s dataSizeStr =
     (if \<not> snd (ParseInt dataSizeStr) then Inl (ActSdk ErrInvalidRequest)
      else let params = action_GetParams s; dataSize = fst (ParseInt dataSizeStr)
           in Inr (snd (ap_FeePerKbyte params) * dataSize + snd (ap_BaseActionFee params)))"

definition GetSVCParams :: "action_params \<Rightarrow> int \<times> int" where
  "GetSVCParams params =
     (if ap_SvcChallengeCount params = 0 then 8 else ap_SvcChallengeCount params,
      if ap_SvcMinChunksForChallenge params = 0 then 4 else ap_SvcMinChunksForChallenge params)"

section \<open>Creator accounts and signatures\<close>

record creator_info =
  ci_account :: account
  ci_isICA :: bool
  ci_owner :: string
  ci_appPubkey :: bytes

definition getCreatorAccountInfo :: "'w action_env \<Rightarrow> msg_request_action \<Rightarrow> 'w \<Rightarrow> action_error + creator_info" where
  "getCreatorAccountInfo env msg w =
     (case AccAddressFromBech32 (ae_codec env) (rq_Creator msg) of
        None \<Rightarrow> Inl ErrActionAddress
      | Some addr \<Rightarrow>
          (case GetAccount (ae_auth env) w addr of
             None \<Rightarrow> Inl ErrActionAddress
           | Some acct \<Rightarrow>
               Inr \<lparr>ci_account = acct,
                    ci_isICA = (case acct of InterchainAccount _ _ \<Rightarrow> True | _ \<Rightarrow> False),
                    ci_owner = (case acct of InterchainAccount _ ow \<Rightarrow> ow | _ \<Rightarrow> []),
                    ci_appPubkey = rq_AppPubkey msg\<rparr>))"

definition validateAppPubKey :: "creator_info \<Rightarrow> action_error + unit" where
  "validateAppPubKey info =
     (if ci_isICA info then (if ci_appPubkey info = [] then Inl ErrInvalidAppPubKey else Inr ())
      else if ci_appPubkey info \<noteq> [] then Inl ErrInvalidAppPubKey else Inr ())"

text \<open>The key from the cached creator when there is one, else the key of the signer's account.\<close>

definition cached_key :: "'w action_env \<Rightarrow> creator_info option \<Rightarrow> 'w \<Rightarrow> action_error + bytes option" where
  "cached_key env info w = (case info of
     None \<Rightarrow> Inr None
   | Some i \<Rightarrow>
       if ci_isICA i then (if ci_appPubkey i = [] then Inl ErrInvalidSignature else Inr (Some (ci_appPubkey i)))
       else Inr (ae_PubKey env w (account_addr (ci_account i))))"

definition VerifySignature ::
  "'w action_env \<Rightarrow> creator_info option \<Rightarrow> string \<Rightarrow> string \<Rightarrow> string \<Rightarrow> 'w \<Rightarrow> action_error + unit" where
  "VerifySignature env info dataB64 signature signerAddress w =
     bindR (cached_key env info w) (\<lambda>cached.
     bindR (case cached of
              Some pk \<Rightarrow> Inr pk
            | None \<Rightarrow>
                (case AccAddressFromBech32 (ae_codec env) signerAddress of
                   None \<Rightarrow> Inl ErrInvalidSignature
                 | Some accAddr \<Rightarrow>
                     (case GetAccount (ae_auth env) w accAddr of
                        None \<Rightarrow> Inl ErrInvalidSignature
                      | Some _ \<Rightarrow> (case ae_PubKey env w accAddr of None \<Rightarrow> Inl ErrInvalidSignature | Some pk \<Rightarrow> Inr pk))))
       (\<lambda>pk. if ae_VerifySig env pk dataB64 signature signerAddress then Inr () else Inl ErrInvalidSignature))"

section \<open>Evidence\<close>

definition create_evidence ::
  "'w action_env \<Rightarrow> string \<Rightarrow> string \<Rightarrow> action_evidence \<Rightarrow> string list \<Rightarrow> 'w \<Rightarrow> 'w" where
  "create_evidence env subject actionID ev top10 w =
     (case ae_audit env of None \<Rightarrow> w
      | Some ak \<Rightarrow>
          let reporter = AccAddress_String (ae_codec env) (ModuleAddr (ae_bank env) action_ModuleName) in
          (case ak_CreateEvidence ak reporter subject actionID ev top10 w of None \<Rightarrow> w | Some w' \<Rightarrow> w'))"

definition recordFinalizationRejection ::
  "'w action_env \<Rightarrow> action \<Rightarrow> string \<Rightarrow> string list \<Rightarrow> action_evidence \<Rightarrow> 'w \<Rightarrow> 'w" where
  "recordFinalizationRejection env a finalizer top10 ev w =
     (if act_ActionID a = [] then w else create_evidence env finalizer (act_ActionID a) ev top10 w)"

definition top10_query :: "'w action_env \<Rightarrow> action \<Rightarrow> sn_error + supernode list" where
  "top10_query env a = GetTopSuperNodesForBlock (ae_codec env) (kl_blake3 (ae_kad env))
     \<lparr>tr_BlockHeight = i32 (act_BlockHeight a), tr_Limit = 10, tr_State = ''SUPERNODE_STATE_ACTIVE''\<rparr> (ae_sn env)"

definition RecordActionExpired :: "'w action_env \<Rightarrow> action \<Rightarrow> 'w \<Rightarrow> 'w" where
  "RecordActionExpired env a w =
     (if ae_audit env = None \<or> act_ActionID a = [] then w
      else case top10_query env a of
        Inl _ \<Rightarrow> w
      | Inr sns \<Rightarrow>
          let top10 = map sn_ValidatorAddress sns in
          fold (\<lambda>sn w. if sn_SupernodeAccount sn = [] then w
                       else create_evidence env (sn_SupernodeAccount sn) (act_ActionID a) EvActionExpired top10 w) sns w)"

section \<open>Handlers\<close>

definition GetHandler :: "action_type \<Rightarrow> action_error + action_type" where
  "GetHandler t = (if t = ActionTypeUnspecified then Inl ErrInvalidActionType else Inr t)"

definition Cascade_Process ::
  "'w action_env \<Rightarrow> string \<Rightarrow> message_type \<Rightarrow> action_params option \<Rightarrow> string + bytes" where
  "Cascade_Process env metadataBytes msgType params =
     (case ae_cascade_json env metadataBytes of
        None \<Rightarrow> Inl ''failed to unmarshal cascade metadata from JSON''
      | Some m \<Rightarrow>
          (case msgType of
             MsgTypeRequest \<Rightarrow>
               if cm_DataHash m = [] then Inl ''data_hash''
               else if cm_FileName m = [] then Inl ''file_name''
               else if cm_RqIdsIc m = 0 then Inl ''rq_ids_ic''
               else if cm_Signatures m = [] then Inl ''signatures''
               else (case params of
                 None \<Rightarrow> Inl ''params''
               | Some p \<Rightarrow> Inr (ae_cascade_marshal env (m\<lparr>cm_RqIdsMax := ap_MaxRaptorQSymbols p\<rparr>)))
           | MsgTypeFinalize \<Rightarrow>
               if cm_RqIdsIds m = [] then Inl ''rq_ids_ids''
               else bindR (CascadeArtifactCountsWithFallbackStrict m) (\<lambda>(indexCount, symbolCount).
                 Inr (ae_cascade_marshal env (m\<lparr>cm_IndexArtifactCount := indexCount,
                                               cm_SymbolArtifactCount := symbolCount\<rparr>)))
           | MsgTypeApprove \<Rightarrow> Inl ''unsupported message type''))"

definition Sense_Process ::
  "'w action_env \<Rightarrow> string \<Rightarrow> message_type \<Rightarrow> action_params option \<Rightarrow> string + bytes" where
  "Sense_Process env metadataBytes msgType params =
     (case ae_sense_json env metadataBytes of
        None \<Rightarrow> Inl ''failed to unmarshal sense metadata from JSON''
      | Some m \<Rightarrow>
          (case msgType of
             MsgTypeRequest \<Rightarrow>
               if sm_DataHash m = [] then Inl ''data_hash''
               else if sm_DdAndFingerprintsIc m = 0 then Inl ''dd_and_fingerprints_ic''
               else (case params of
                 None \<Rightarrow> Inl ''params''
               | Some p \<Rightarrow> Inr (ae_sense_marshal env (m\<lparr>sm_DdAndFingerprintsMax := ap_MaxDdAndFingerprints p\<rparr>)))
           | MsgTypeFinalize \<Rightarrow>
               if sm_DdAndFingerprintsIds m = [] then Inl ''dd_and_fingerprints_ids''
               else if sm_Signatures m = [] then Inl ''signatures''
               else Inr (ae_sense_marshal env m)
           | MsgTypeApprove \<Rightarrow> Inl ''unsupported message type''))"

definition Cascade_RegisterAction ::
  "'w action_env \<Rightarrow> creator_info option \<Rightarrow> action_store \<Rightarrow> action \<Rightarrow> 'w \<Rightarrow> action_error + unit" where
  "Cascade_RegisterAction env info s a w =
     (case act_Metadata a of
        None \<Rightarrow> Inl ErrInvalidMetadata
      | Some md \<Rightarrow>
          (case ae_cascade_unmarshal env md of
             None \<Rightarrow> Inl ErrInvalidMetadata
           | Some m \<Rightarrow>
               let (challengeCount, minChunks) = GetSVCParams (action_GetParams s) in
               (case validateAvailabilityCommitment (cm_AvailabilityCommitment m) challengeCount minChunks of
                  Inl _ \<Rightarrow> Inl ErrInvalidMetadata
                | Inr _ \<Rightarrow>
                    (case split_on CHR ''.'' (cm_Signatures m) of
                       [dataToVerify, creatorSignature] \<Rightarrow>
                         (case VerifySignature env info dataToVerify creatorSignature (act_Creator a) w of
                            Inl _ \<Rightarrow> Inl ErrInvalidMetadata
                          | Inr _ \<Rightarrow> Inr ())
                     | _ \<Rightarrow> Inl ErrInvalidMetadata))))"

definition Sense_RegisterAction :: "action \<Rightarrow> action_error + unit" where
  "Sense_RegisterAction a = (if act_Metadata a = None then Inl ErrInvalidMetadata else Inr ())"

definition empty_cascade :: cascade_metadata where
  "empty_cascade = \<lparr>cm_DataHash = [], cm_FileName = [], cm_RqIdsIc = 0, cm_RqIdsMax = 0, cm_RqIdsIds = [],
     cm_Signatures = [], cm_Public = False, cm_AvailabilityCommitment = None, cm_ChunkProofs = [],
     cm_IndexArtifactCount = 0, cm_SymbolArtifactCount = 0\<rparr>"

definition empty_sense :: sense_metadata where
  "empty_sense = \<lparr>sm_DataHash = [], sm_DdAndFingerprintsIc = 0, sm_CollectionId = [], sm_GroupId = [],
     sm_DdAndFingerprintsMax = 0, sm_DdAndFingerprintsIds = [], sm_Signatures = []\<rparr>"

text \<open>The state the handler recommends, the action as the handler leaves it, and the world.\<close>

definition Cascade_FinalizeAction ::
  "'w action_env \<Rightarrow> string list \<Rightarrow> action \<Rightarrow> string \<Rightarrow> bytes \<Rightarrow> 'w \<Rightarrow> action_error + action_state \<times> action \<times> 'w" where
  "Cascade_FinalizeAction env top10 a superNodeAccount metadataBytes w =
     (case (if raw (act_Metadata a) \<noteq> [] then ae_cascade_unmarshal env (raw (act_Metadata a)) else Some empty_cascade) of
        None \<Rightarrow> Inl (ActSdk ErrInvalidRequest)
      | Some ex \<Rightarrow>
          if cm_DataHash ex = [] \<or> cm_FileName ex = [] \<or> cm_RqIdsIc ex = 0 \<or> cm_RqIdsMax ex = 0 \<or> cm_Signatures ex = []
          then Inl ErrInvalidMetadata
          else (case ae_cascade_unmarshal env metadataBytes of
            None \<Rightarrow> Inl ErrInvalidMetadata
          | Some new \<Rightarrow>
              (case VerifyKademliaIDs (ae_kad env) (ae_random env) (cm_RqIdsIds new) (cm_Signatures ex)
                      (cm_RqIdsIc ex) (cm_RqIdsMax ex) of
                 Inl KadPanic \<Rightarrow> Inl ActionPanic
               | Inl _ \<Rightarrow> Inr (ActionStateUnspecified, a,
                            recordFinalizationRejection env a superNodeAccount top10 EvSignatureFailure w)
               | Inr _ \<Rightarrow>
                   bindR (VerifyChunkProofs (kl_blake3 (ae_kad env)) (ae_cascade_unmarshal env) (raw (act_Metadata a))
                            (cm_ChunkProofs new)) (\<lambda>_. Inr (ActionStateDone, a, w)))))"

fun any_signature :: "'w action_env \<Rightarrow> string \<Rightarrow> string \<Rightarrow> 'w \<Rightarrow> string list \<Rightarrow> action_error + unit" where
  "any_signature env data signer w [] = Inr ()"
| "any_signature env data signer w [sig] = VerifySignature env None data sig signer w"
| "any_signature env data signer w (sig # sigs) =
     (case VerifySignature env None data sig signer w of Inr _ \<Rightarrow> Inr () | Inl _ \<Rightarrow> any_signature env data signer w sigs)"

definition Sense_FinalizeAction ::
  "'w action_env \<Rightarrow> action \<Rightarrow> string \<Rightarrow> bytes \<Rightarrow> 'w \<Rightarrow> action_error + action_state \<times> action \<times> 'w" where
  "Sense_FinalizeAction env a0 superNodeAccount metadataBytes w =
     (let a = (if act_State a0 = ActionStatePending then a0\<lparr>act_State := ActionStateProcessing\<rparr> else a0) in
      case (if raw (act_Metadata a) \<noteq> [] then ae_sense_unmarshal env (raw (act_Metadata a)) else Some empty_sense) of
        None \<Rightarrow> Inl (ActSdk ErrInvalidRequest)
      | Some ex \<Rightarrow>
          if sm_DataHash ex = [] \<or> sm_DdAndFingerprintsIc ex = 0 \<or> sm_DdAndFingerprintsMax ex = 0
          then Inl ErrInvalidMetadata
          else (case ae_sense_unmarshal env metadataBytes of
            None \<Rightarrow> Inl ErrInvalidMetadata
          | Some new \<Rightarrow>
              (case split_on CHR ''.'' (sm_Signatures new) of
                 [dataToVerify, s1, s2, s3] \<Rightarrow>
                   bindR (any_signature env dataToVerify superNodeAccount w [s1, s2, s3]) (\<lambda>_.
                     (case VerifyKademliaIDs (ae_kad env) (ae_random env) (sm_DdAndFingerprintsIds new) (sm_Signatures new)
                             (sm_DdAndFingerprintsIc ex) (sm_DdAndFingerprintsMax ex) of
                        Inl KadPanic \<Rightarrow> Inl ActionPanic
                      | Inl _ \<Rightarrow> Inl ErrInvalidMetadata
                      | Inr _ \<Rightarrow>
                          Inr (ActionStateDone,
                               a\<lparr>act_Metadata := Some (ae_sense_marshal env (ex\<lparr>sm_Signatures := sm_Signatures new\<rparr>))\<rparr>, w)))
               | _ \<Rightarrow> Inl ErrInvalidMetadata)))"

definition Cascade_GetUpdatedMetadata :: "'w action_env \<Rightarrow> bytes \<Rightarrow> bytes \<Rightarrow> action_error + bytes option" where
  "Cascade_GetUpdatedMetadata env existingBytes newBytes =
     (case (ae_cascade_unmarshal env existingBytes, ae_cascade_unmarshal env newBytes) of
        (Some ex, Some new) \<Rightarrow>
          let updated = ex\<lparr>cm_RqIdsIds := cm_RqIdsIds new, cm_ChunkProofs := cm_ChunkProofs new,
                           cm_IndexArtifactCount := cm_IndexArtifactCount new,
                           cm_SymbolArtifactCount := cm_SymbolArtifactCount new\<rparr> in
          (case CascadeArtifactCountsWithFallbackStrict updated of
             Inl _ \<Rightarrow> Inl ErrInvalidMetadata
           | Inr (indexCount, symbolCount) \<Rightarrow>
               Inr (Some (ae_cascade_marshal env (updated\<lparr>cm_IndexArtifactCount := indexCount,
                                                          cm_SymbolArtifactCount := symbolCount\<rparr>))))
      | _ \<Rightarrow> Inl ErrInternalError)"

definition Sense_GetUpdatedMetadata :: "bytes \<Rightarrow> bytes \<Rightarrow> action_error + bytes option" where
  "Sense_GetUpdatedMetadata existingBytes newBytes = Inr None"

definition handler_Process ::
  "'w action_env \<Rightarrow> action_type \<Rightarrow> string \<Rightarrow> message_type \<Rightarrow> action_params option \<Rightarrow> string + bytes" where
  "handler_Process env t = (if t = ActionTypeCascade then Cascade_Process env else Sense_Process env)"

definition handler_RegisterAction ::
  "'w action_env \<Rightarrow> creator_info option \<Rightarrow> action_store \<Rightarrow> action \<Rightarrow> 'w \<Rightarrow> action_error + unit" where
  "handler_RegisterAction env info s a w =
     (if act_ActionType a = ActionTypeCascade then Cascade_RegisterAction env info s a w else Sense_RegisterAction a)"

definition handler_FinalizeAction ::
  "'w action_env \<Rightarrow> string list \<Rightarrow> action \<Rightarrow> string \<Rightarrow> bytes \<Rightarrow> 'w \<Rightarrow> action_error + action_state \<times> action \<times> 'w" where
  "handler_FinalizeAction env top10 a sn md w =
     (if act_ActionType a = ActionTypeCascade then Cascade_FinalizeAction env top10 a sn md w
      else Sense_FinalizeAction env a sn md w)"

definition handler_GetUpdatedMetadata ::
  "'w action_env \<Rightarrow> action_type \<Rightarrow> bytes option \<Rightarrow> bytes \<Rightarrow> action_error + bytes option" where
  "handler_GetUpdatedMetadata env t ex new =
     (if t = ActionTypeCascade then Cascade_GetUpdatedMetadata env (raw ex) new
      else Sense_GetUpdatedMetadata (raw ex) new)"

section \<open>Registration\<close>

definition coins_IsZero :: "coins \<Rightarrow> bool" where
  "coins_IsZero cs = (\<forall>c \<in> set cs. snd c = 0)"

definition keeper_RegisterAction ::
  "'w action_env \<Rightarrow> creator_info option \<Rightarrow> action \<Rightarrow> action_store \<Rightarrow> 'w \<Rightarrow> action_error + string \<times> action_store \<times> 'w" where
  "keeper_RegisterAction env info action s w =
     (if act_ActionID action \<noteq> [] then Inl (ActSdk ErrInvalidRequest)
      else case ae_ParseCoin env (act_Price action) of
        None \<Rightarrow> Inl (ActSdk ErrInvalidRequest)
      | Some parsedPrice \<Rightarrow>
          bindR (validatePrice s parsedPrice) (\<lambda>_.
          case AccAddressFromBech32 (ae_codec env) (act_Creator action) of
            None \<Rightarrow> Inl ErrActionAddress
          | Some creator \<Rightarrow>
              let coins = SpendableCoins (ae_bank env) w creator in
              if coins_IsZero coins then Inl (ActSdk ErrInvalidRequest)
              else if AmountOf coins (fst parsedPrice) < snd parsedPrice then Inl (ActSdk ErrInsufficientFunds)
              else
                let newID = u64 (getLastActionID s + 1);
                    s1 = s\<lparr>as_Count := newID\<rparr>;
                    a1 = action\<lparr>act_ActionID := dec_of_int newID, act_BlockHeight := ae_BlockHeight env\<rparr>;
                    a2 = (if act_State a1 = ActionStateUnspecified then a1\<lparr>act_State := ActionStatePending\<rparr> else a1)
                in if act_State a2 \<noteq> ActionStatePending then Inl ErrInvalidActionState
                   else bindR (GetHandler (act_ActionType a2)) (\<lambda>_.
                     case handler_RegisterAction env info s1 a2 w of
                       Inl _ \<Rightarrow> Inl ErrInvalidMetadata
                     | Inr _ \<Rightarrow>
                         let s2 = SetAction a2 s1 in
                         (case SendCoinsFromAccountToModule (ae_bank env) creator action_ModuleName
                                 (NewCoins1 (fst parsedPrice) (snd parsedPrice)) w of
                            Inl _ \<Rightarrow> Inl ErrInternalError
                          | Inr w' \<Rightarrow> Inr (act_ActionID a2, s2, w')))))"

definition new_action :: "'w action_env \<Rightarrow> msg_request_action \<Rightarrow> bytes \<Rightarrow> coin \<Rightarrow> int \<Rightarrow> action" where
  "new_action env msg processedData price expTime =
     \<lparr>act_Creator = rq_Creator msg, act_ActionID = [], act_ActionType = parsed_type (rq_ActionType msg),
      act_Metadata = Some processedData, act_Price = ae_CoinString env price,
      act_ExpirationTime = expTime, act_State = ActionStatePending, act_BlockHeight = 0, act_SuperNodes = [],
      act_FileSizeKbs = (if rq_FileSizeKbs msg \<noteq> [] then fst (ParseInt (rq_FileSizeKbs msg)) else 0),
      act_AppPubkey = rq_AppPubkey msg\<rparr>"

text \<open>The message handler; the response is the identifier and the printed state.\<close>

definition msg_RequestAction ::
  "'w action_env \<Rightarrow> msg_request_action \<Rightarrow> action_store \<Rightarrow> 'w \<Rightarrow> action_error + (string \<times> string) \<times> action_store \<times> 'w" where
  "msg_RequestAction env msg s w =
     bindR (getCreatorAccountInfo env msg w) (\<lambda>creatorInfo.
     bindR (validateAppPubKey creatorInfo) (\<lambda>_.
     let params = action_GetParams s;
         currentTime = ae_BlockTime env;
         minExpTime = i64 (currentTime + duration_secs (ap_ExpirationDuration params));
         expTime = (if rq_ExpirationTime msg \<noteq> [] then fst (ParseInt (rq_ExpirationTime msg)) else minExpTime)
     in if rq_ExpirationTime msg \<noteq> [] \<and> (expTime \<le> currentTime \<or> expTime < minExpTime) then Inl ErrActionExpired
        else
          bindR (GetHandler (parsed_type (rq_ActionType msg))) (\<lambda>handler.
          case handler_Process env handler (rq_Metadata msg) MsgTypeRequest (Some params) of
            Inl _ \<Rightarrow> Inl ErrInvalidMetadata
          | Inr processedData \<Rightarrow>
              (case ae_ParseCoin env (rq_Price msg) of
                 None \<Rightarrow> Inl ErrInvalidPrice
               | Some price \<Rightarrow>
                   bindR (keeper_RegisterAction env (Some creatorInfo) (new_action env msg processedData price expTime) s w)
                     (\<lambda>(actionID, s', w').
                       case GetActionByID s' actionID of
                         None \<Rightarrow> Inl ErrActionNotFound
                       | Some actionNew \<Rightarrow> Inr ((actionID, ActionState_String (act_State actionNew)), s', w'))))))"

section \<open>Fees\<close>

fun str_contains :: "string \<Rightarrow> string \<Rightarrow> bool" where
  "str_contains sub [] = (sub = [])"
| "str_contains sub (c # s) = (prefix sub (c # s) \<or> str_contains sub s)"

definition unique_supernodes :: "string list \<Rightarrow> string list" where
  "unique_supernodes sns = remdups (filter (\<lambda>sn. \<not> str_contains ''bad'' sn) sns)"

fun pay_supernodes ::
  "'w action_env \<Rightarrow> coin \<Rightarrow> int \<Rightarrow> string list \<Rightarrow> 'w \<Rightarrow> action_error + 'w" where
  "pay_supernodes env fee numSupernodes [] w = Inr w"
| "pay_supernodes env fee numSupernodes (sn # rest) w =
     (if \<not> is_i64 (snd fee) then Inl ActionPanic
      else
        let part = snd fee sdiv numSupernodes;
            feeAmountInt = (if part = 0 \<and> snd fee > 0 then 1 else part)
        in case ae_ParseCoin env (dec_of_int feeAmountInt @ fst fee) of
             None \<Rightarrow> pay_supernodes env fee numSupernodes rest w
           | Some feePerSN \<Rightarrow>
               (case AccAddressFromBech32 (ae_codec env) sn of
                  None \<Rightarrow> Inl ErrInvalidSignature
                | Some snAddr \<Rightarrow>
                    (case SendCoinsFromModuleToAccount (ae_bank env) action_ModuleName snAddr
                            (NewCoins1 (fst feePerSN) (snd feePerSN)) w of
                       Inl _ \<Rightarrow> pay_supernodes env fee numSupernodes rest w
                     | Inr w' \<Rightarrow> pay_supernodes env fee numSupernodes rest w')))"

text \<open>The share of the supernode pool and the share of the foundation; both return what is left of the fee.\<close>

definition send_reward_share :: "'w action_env \<Rightarrow> coin \<Rightarrow> 'w \<Rightarrow> action_error + coin \<times> 'w" where
  "send_reward_share env fee w =
     (if \<not> ae_reward env then Inr (fee, w)
      else let bps = GetRegistrationFeeShareBps (ss_params (ae_sn env)) in
        if bps > 0 \<and> snd fee > 0 then
          let amount = (snd fee * i64 bps) sdiv 10000 in
          if amount > 0 then
            (case SendCoinsFromModuleToModule (ae_bank env) action_ModuleName ''supernode''
                    (NewCoins1 (fst fee) amount) w of
               Inl e \<Rightarrow> Inl (ActSdk e)
             | Inr w' \<Rightarrow> Inr ((fst fee, snd fee - amount), w'))
          else Inr (fee, w)
        else Inr (fee, w))"

definition send_foundation_share :: "'w action_env \<Rightarrow> action_params \<Rightarrow> coin \<Rightarrow> 'w \<Rightarrow> action_error + coin \<times> 'w" where
  "send_foundation_share env params fee w =
     (if ap_FoundationFeeShare params = [] then Inr (fee, w)
      else case ae_DecFromStr env (ap_FoundationFeeShare params) of
        None \<Rightarrow> Inl (ActSdk ErrInvalidRequest)
      | Some share \<Rightarrow>
          if share = 0 then Inr (fee, w)
          else
            let foundation = TruncateInt (ae_DecMul env (snd fee * 10 ^ 18) share) in
            if foundation < 0 then Inl ActionPanic
            else (case ae_FundCommunityPool env (NewCoins1 (fst fee) foundation)
                         (ModuleAddr (ae_bank env) action_ModuleName) w of
                    None \<Rightarrow> Inl (ActSdk ErrInsufficientFunds)
                  | Some w' \<Rightarrow> Inr ((fst fee, snd fee - foundation), w')))"

definition DistributeFees :: "'w action_env \<Rightarrow> string \<Rightarrow> action_store \<Rightarrow> 'w \<Rightarrow> action_error + 'w" where
  "DistributeFees env actionID s w =
     (case GetActionByID s actionID of
        None \<Rightarrow> Inl (ActSdk ErrNotFound)
      | Some a \<Rightarrow>
          if act_State a \<noteq> ActionStateDone then Inl ErrInvalidActionState
          else (case ae_ParseCoin env (act_Price a) of
            None \<Rightarrow> Inr w
          | Some fee \<Rightarrow>
              if snd fee = 0 \<or> act_SuperNodes a = [] then Inr w
              else
                let uniq = unique_supernodes (act_SuperNodes a); numSupernodes = int (length uniq) in
                if numSupernodes = 0 then Inr w
                else
                  bindR (send_reward_share env fee w) (\<lambda>(fee1, w1).
                  bindR (send_foundation_share env (action_GetParams s) fee1 w1) (\<lambda>(fee2, w2).
                  pay_supernodes env fee2 numSupernodes (ae_map_order env uniq) w2))))"

section \<open>Finalization and approval\<close>

datatype eligibility = Eligible "string list" | Rejected "string list"

definition checkFinalizerEligibility :: "'w action_env \<Rightarrow> action \<Rightarrow> string \<Rightarrow> action_error + eligibility" where
  "checkFinalizerEligibility env a superNodeAccount =
     (if superNodeAccount \<in> set (act_SuperNodes a) then Inl ErrUnauthorizedSN
      else case top10_query env a of
        Inl _ \<Rightarrow> Inl (ActSdk ErrInvalidRequest)
      | Inr sns \<Rightarrow>
          let top10 = map sn_ValidatorAddress sns in
          if superNodeAccount \<in> sn_SupernodeAccount ` set sns then Inr (Eligible top10) else Inr (Rejected top10))"

text \<open>What follows the handler: apply the recommended state and save; then, for a done action, commit the
  artifact counts and distribute the fees.\<close>

definition apply_new_state ::
  "'w action_env \<Rightarrow> string \<Rightarrow> bytes \<Rightarrow> action_state \<Rightarrow> action \<Rightarrow> action_error + action" where
  "apply_new_state env superNodeAccount newMetadata newState a =
     (if newState \<noteq> ActionStateUnspecified then
        bindR (handler_GetUpdatedMetadata env (act_ActionType a) (act_Metadata a) newMetadata) (\<lambda>md.
          Inr (a\<lparr>act_State := newState, act_Metadata := md,
                 act_SuperNodes := act_SuperNodes a @ [superNodeAccount]\<rparr>))
      else Inr a)"

definition commit_artifact_counts :: "'w action_env \<Rightarrow> action \<Rightarrow> 'w \<Rightarrow> action_error + 'w" where
  "commit_artifact_counts env a w =
     (case ae_audit env of
        None \<Rightarrow> Inr w
      | Some ak \<Rightarrow>
          if act_ActionType a \<noteq> ActionTypeCascade then Inr w
          else (case ae_cascade_unmarshal env (raw (act_Metadata a)) of
            None \<Rightarrow> Inl ErrInvalidMetadata
          | Some m \<Rightarrow>
              (case CascadeArtifactCountsWithFallbackStrict m of
                 Inl _ \<Rightarrow> Inl ErrInvalidMetadata
               | Inr (indexCount, symbolCount) \<Rightarrow>
                   (case ak_SetTicketArtifactCounts ak (act_ActionID a) indexCount symbolCount w of
                      None \<Rightarrow> Inl ErrInvalidMetadata
                    | Some w' \<Rightarrow> Inr w'))))"

definition keeper_FinalizeAction ::
  "'w action_env \<Rightarrow> string \<Rightarrow> string \<Rightarrow> bytes \<Rightarrow> action_store \<Rightarrow> 'w \<Rightarrow> action_error + action_store \<times> 'w" where
  "keeper_FinalizeAction env actionID superNodeAccount newMetadata s w =
     (case GetActionByID s actionID of
        None \<Rightarrow> Inl (ActSdk ErrNotFound)
      | Some existing \<Rightarrow>
          if act_State existing \<noteq> ActionStatePending \<and> act_State existing \<noteq> ActionStateProcessing
          then Inl ErrInvalidActionState
          else bindR (checkFinalizerEligibility env existing superNodeAccount) (\<lambda>el.
            case el of
              Rejected top10 \<Rightarrow>
                if act_ActionType existing = ActionTypeCascade
                then Inr (s, recordFinalizationRejection env existing superNodeAccount top10 EvNotInTop10 w)
                else Inl ErrUnauthorizedSN
            | Eligible top10 \<Rightarrow>
                bindR (GetHandler (act_ActionType existing)) (\<lambda>_.
                bindR (handler_FinalizeAction env top10 existing superNodeAccount newMetadata w) (\<lambda>(newState, a1, w1).
                bindR (apply_new_state env superNodeAccount newMetadata newState a1) (\<lambda>a2.
                let s1 = SetAction a2 s in
                if act_State a2 = ActionStateFailed then Inl ErrFinalizationError
                else if act_State a2 = ActionStateDone then
                  bindR (commit_artifact_counts env a2 w1) (\<lambda>w2.
                  bindR (DistributeFees env actionID s1 w2) (\<lambda>w3. Inr (s1, w3)))
                else Inr (s1, w1))))))"

definition finalize_error :: "action_error \<Rightarrow> action_error" where
  "finalize_error e =
     (if e \<in> {ErrInvalidMetadata, ErrInvalidActionState, ErrUnauthorizedSN, ErrInvalidID, ErrInvalidActionType, ActionPanic}
      then e else ErrInvalidActionState)"

definition msg_FinalizeAction ::
  "'w action_env \<Rightarrow> msg_finalize_action \<Rightarrow> action_store \<Rightarrow> 'w \<Rightarrow> action_error + action_store \<times> 'w" where
  "msg_FinalizeAction env msg s w =
     bindR (GetHandler (parsed_type (fz_ActionType msg))) (\<lambda>handler.
     case handler_Process env handler (fz_Metadata msg) MsgTypeFinalize None of
       Inl _ \<Rightarrow> Inl ErrInvalidMetadata
     | Inr processedData \<Rightarrow>
         (case keeper_FinalizeAction env (fz_ActionId msg) (fz_Creator msg) processedData s w of
            Inl e \<Rightarrow> Inl (finalize_error e)
          | Inr r \<Rightarrow> Inr r))"

definition keeper_ApproveAction :: "string \<Rightarrow> string \<Rightarrow> action_store \<Rightarrow> action_error + action_store" where
  "keeper_ApproveAction actionID creator s =
     (case GetActionByID s actionID of
        None \<Rightarrow> Inl (ActSdk ErrNotFound)
      | Some existing \<Rightarrow>
          if act_State existing \<noteq> ActionStateDone then Inl ErrInvalidActionState
          else if act_Creator existing \<noteq> creator then Inl ErrUnauthorizedSN
          else bindR (GetHandler (act_ActionType existing)) (\<lambda>_.
            Inr (SetAction (existing\<lparr>act_State := ActionStateApproved\<rparr>) s)))"

definition msg_ApproveAction :: "msg_approve_action \<Rightarrow> action_store \<Rightarrow> action_error + (string \<times> string) \<times> action_store" where
  "msg_ApproveAction msg s =
     (case keeper_ApproveAction (pv_ActionId msg) (pv_Creator msg) s of
        Inl e \<Rightarrow> Inl (if e \<in> {ErrInvalidID, ErrInvalidActionState, ErrInvalidSignature} then e else ErrInvalidActionState)
      | Inr s' \<Rightarrow> Inr ((pv_ActionId msg, ActionState_String ActionStateApproved), s'))"

section \<open>Expiration\<close>

definition expire_one :: "'w action_env \<Rightarrow> int \<Rightarrow> string \<Rightarrow> action_store \<times> 'w \<Rightarrow> action_store \<times> 'w" where
  "expire_one env now actionID sw =
     (case GetActionByID (fst sw) actionID of
        None \<Rightarrow> sw
      | Some a \<Rightarrow>
          if act_ExpirationTime a \<noteq> 0 \<and> act_ExpirationTime a \<le> now then
            (let expire = (\<lambda>w. let a' = a\<lparr>act_State := ActionStateExpired\<rparr>
                               in (SetAction a' (fst sw), RecordActionExpired env a' w))
             in case ae_ParseCoin env (act_Price a) of
                  None \<Rightarrow> expire (snd sw)
                | Some fee \<Rightarrow>
                    if snd fee = 0 then expire (snd sw)
                    else (case AccAddressFromBech32 (ae_codec env) (act_Creator a) of
                      None \<Rightarrow> sw
                    | Some creatorAddr \<Rightarrow>
                        (case SendCoinsFromModuleToAccount (ae_bank env) action_ModuleName creatorAddr
                                (NewCoins1 (fst fee) (snd fee)) (snd sw) of
                           Inl _ \<Rightarrow> sw
                         | Inr w' \<Rightarrow> expire w')))
          else sw)"

definition processExpiredActionsInState ::
  "'w action_env \<Rightarrow> action_state \<Rightarrow> int \<Rightarrow> action_store \<times> 'w \<Rightarrow> action_store \<times> 'w" where
  "processExpiredActionsInState env st now sw =
     fold (expire_one env now) (index_ids (fst sw) (ActionByStatePrefix @ ActionState_String st @ ''/'')) sw"

definition CheckExpiration :: "'w action_env \<Rightarrow> action_store \<times> 'w \<Rightarrow> action_store \<times> 'w" where
  "CheckExpiration env sw =
     processExpiredActionsInState env ActionStateProcessing (ae_BlockTime env)
       (processExpiredActionsInState env ActionStatePending (ae_BlockTime env) sw)"

definition action_EndBlocker :: "'w action_env \<Rightarrow> action_store \<times> 'w \<Rightarrow> action_store \<times> 'w" where
  "action_EndBlocker env sw = CheckExpiration env sw"

section \<open>Parameters, genesis and the transition function\<close>

definition action_UpdateParams ::
  "'w action_env \<Rightarrow> string \<Rightarrow> action_params \<Rightarrow> action_store \<Rightarrow> action_error + action_store" where
  "action_UpdateParams env authority params s =
     (case AccAddressFromBech32 (ae_codec env) authority of
        None \<Rightarrow> Inl ErrInvalidSigner
      | Some b \<Rightarrow> if b \<noteq> ae_authority env then Inl ErrInvalidSigner else Inr (action_SetParams params s))"

definition action_InitGenesis ::
  "'w action_env \<Rightarrow> action_params \<Rightarrow> action_store \<Rightarrow> 'w \<Rightarrow> action_error + action_store \<times> 'w" where
  "action_InitGenesis env params s w =
     (case action_Params_Validate env params of
        Inl _ \<Rightarrow> Inl ActionPanic
      | Inr _ \<Rightarrow>
          let s' = action_SetParams params s; (present, w1) = GetModuleAccount (ae_auth env) action_ModuleName w
          in Inr (s', if present then w1 else SetModuleAccount (ae_auth env) action_ModuleName w1))"

definition action_ExportGenesis :: "action_store \<Rightarrow> action_params" where
  "action_ExportGenesis s = action_GetParams s"

datatype action_op =
    OpRequestAction msg_request_action
  | OpFinalizeAction msg_finalize_action
  | OpApproveAction msg_approve_action
  | OpActionParams string action_params
  | OpActionEndBlock

text \<open>A message is delivered after its stateless checks.\<close>

definition action_exec ::
  "'w action_env \<Rightarrow> action_op \<Rightarrow> action_store \<times> 'w \<Rightarrow> action_error + action_store \<times> 'w" where
  "action_exec env op sw = (case op of
     OpRequestAction msg \<Rightarrow>
       bindR (MsgRequestAction_ValidateBasic env msg) (\<lambda>_.
       bindR (msg_RequestAction env msg (fst sw) (snd sw)) (\<lambda>(_, s', w'). Inr (s', w')))
   | OpFinalizeAction msg \<Rightarrow>
       bindR (MsgFinalizeAction_ValidateBasic env msg) (\<lambda>_. msg_FinalizeAction env msg (fst sw) (snd sw))
   | OpApproveAction msg \<Rightarrow>
       bindR (MsgApproveAction_ValidateBasic env msg) (\<lambda>_.
       bindR (msg_ApproveAction msg (fst sw)) (\<lambda>(_, s'). Inr (s', snd sw)))
   | OpActionParams authority params \<Rightarrow>
       bindR (action_UpdateParams env authority params (fst sw)) (\<lambda>s'. Inr (s', snd sw))
   | OpActionEndBlock \<Rightarrow> Inr (action_EndBlocker env sw))"

end
