(* ===== verification/Action_Index.thy ===== *)
theory Action_Index
  imports Action
begin

text \<open>
  The store of the action module: the shape of stored actions, the exactness of the five secondary
  indexes and how \<open>SetAction\<close> keeps both. The index is a refinement: every lookup through it returns
  the actions that the primary store holds with the looked-up value.
\<close>

section \<open>Keys\<close>

definition no_slash :: "string \<Rightarrow> bool" where
  "no_slash s \<longleftrightarrow> CHR ''/'' \<notin> set s"

lemma dec_of_int_no_slash: "0 \<le> n \<Longrightarrow> no_slash (dec_of_int n)"
  by (simp add: no_slash_def dec_of_int_def dec_of_nat_no_slash)

lemma split_last_unique:
  assumes "c \<notin> set y" "c \<notin> set y'" "x @ c # y = x' @ c # y'"
  shows "x = x' \<and> y = y'"
proof -
  have "takeWhile (\<lambda>d. d \<noteq> c) (rev (x @ c # y)) = rev y" using assms(1) by (simp add: takeWhile_append)
  moreover have "takeWhile (\<lambda>d. d \<noteq> c) (rev (x' @ c # y')) = rev y'" using assms(2) by (simp add: takeWhile_append)
  ultimately have "y = y'" using assms(3) by simp
  with assms(3) show ?thesis by simp
qed

lemma index_key_inject:
  assumes "no_slash i" "no_slash j"
  shows "index_key pre v i = index_key pre u j \<longleftrightarrow> v = u \<and> i = j"
  using assms split_last_unique [of "CHR ''/''" i j "pre @ v" "pre @ u"]
  by (auto simp: index_key_def no_slash_def)

lemma index_prefix_iff:
  assumes "no_slash u" "no_slash i"
  shows "prefix (pre @ v @ ''/'') (index_key pre u i) \<longleftrightarrow> v = u"
proof
  assume "prefix (pre @ v @ ''/'') (index_key pre u i)"
  then obtain r where r: "u @ CHR ''/'' # i = v @ CHR ''/'' # r"
    by (auto simp: prefix_def index_key_def)
  have "takeWhile (\<lambda>d. d \<noteq> CHR ''/'') (u @ CHR ''/'' # i) = u"
    using assms(1) by (simp add: no_slash_def takeWhile_append)
  moreover have "CHR ''/'' \<notin> set v"
  proof
    assume "CHR ''/'' \<in> set v"
    then have "count_list v CHR ''/'' \<noteq> 0" by (simp add: count_list_0_iff)
    then have "2 \<le> count_list (v @ CHR ''/'' # r) CHR ''/''" by simp
    moreover have "count_list (u @ CHR ''/'' # i) CHR ''/'' = 1"
      using assms by (simp add: no_slash_def count_list_0_iff)
    ultimately show False using r by simp
  qed
  then have "takeWhile (\<lambda>d. d \<noteq> CHR ''/'') (v @ CHR ''/'' # r) = v" by (simp add: takeWhile_append)
  ultimately show "v = u" using r by simp
qed (auto simp: index_key_def prefix_def)

definition index_prefixes :: "string list" where
  "index_prefixes = [ActionByStatePrefix, ActionByCreatorPrefix, ActionByTypePrefix, ActionByBlockHeightPrefix,
     ActionBySuperNodePrefix]"

lemmas prefix_defs = ActionByStatePrefix_def ActionByCreatorPrefix_def ActionByTypePrefix_def
  ActionByBlockHeightPrefix_def ActionBySuperNodePrefix_def

lemma prefixes_disjoint [simp]:
  "pre \<in> set index_prefixes \<Longrightarrow> pre' \<in> set index_prefixes \<Longrightarrow> pre \<noteq> pre' \<Longrightarrow> pre @ x \<noteq> pre' @ y"
  by (auto simp: index_prefixes_def prefix_defs)

lemma index_keys_differ:
  "pre \<in> set index_prefixes \<Longrightarrow> pre' \<in> set index_prefixes \<Longrightarrow> pre \<noteq> pre' \<Longrightarrow> index_key pre v i \<noteq> index_key pre' u j"
  by (simp add: index_key_def)

section \<open>Index contents\<close>

text \<open>The values an action is indexed under, per index.\<close>

definition index_values :: "string \<Rightarrow> action \<Rightarrow> string set" where
  "index_values pre a =
     (if pre = ActionByStatePrefix then {ActionState_String (act_State a)}
      else if pre = ActionByCreatorPrefix then {act_Creator a}
      else if pre = ActionByTypePrefix then {ActionType_String (act_ActionType a)}
      else if pre = ActionByBlockHeightPrefix then {dec_of_int (act_BlockHeight a)}
      else if pre = ActionBySuperNodePrefix then set (act_SuperNodes a)
      else {})"

definition index_keys :: "string \<Rightarrow> action \<Rightarrow> string set" where
  "index_keys i a = (\<Union>pre \<in> set index_prefixes. (\<lambda>v. index_key pre v i) ` index_values pre a)"

lemma index_values_simps [simp]:
  "index_values ActionByStatePrefix a = {ActionState_String (act_State a)}"
  "index_values ActionByCreatorPrefix a = {act_Creator a}"
  "index_values ActionByTypePrefix a = {ActionType_String (act_ActionType a)}"
  "index_values ActionByBlockHeightPrefix a = {dec_of_int (act_BlockHeight a)}"
  "index_values ActionBySuperNodePrefix a = set (act_SuperNodes a)"
  by (simp_all add: index_values_def prefix_defs)

lemma index_keys_alt:
  "index_keys i a = insert (index_key ActionByStatePrefix (ActionState_String (act_State a)) i)
     (insert (index_key ActionByCreatorPrefix (act_Creator a) i)
     (insert (index_key ActionByTypePrefix (ActionType_String (act_ActionType a)) i)
     (insert (index_key ActionByBlockHeightPrefix (dec_of_int (act_BlockHeight a)) i)
     ((\<lambda>sn. index_key ActionBySuperNodePrefix sn i) ` set (act_SuperNodes a)))))"
  by (simp add: index_keys_def index_prefixes_def insert_commute)

lemma keys_reindex:
  "fst ` set (reindex pre f old a idx) =
     fst ` set idx - (case old of None \<Rightarrow> {} | Some o' \<Rightarrow> {index_key pre (f o') (act_ActionID a)})
     \<union> {index_key pre (f a) (act_ActionID a)}"
  by (auto simp: reindex_def Let_def split: option.splits simp del: image_iff)

lemma sorted_reindex: "kv_sorted idx \<Longrightarrow> kv_sorted (reindex pre f old a idx)"
  by (auto simp: reindex_def Let_def split: option.splits)

lemma keys_fold_del: "fst ` set (fold (\<lambda>x. kv_del (g x)) xs idx) = fst ` set idx - g ` set xs"
  by (induction xs arbitrary: idx) (auto simp del: image_iff)

lemma keys_fold_set: "fst ` set (fold (\<lambda>x. kv_set (g x) ()) xs idx) = fst ` set idx \<union> g ` set xs"
  by (induction xs arbitrary: idx) (auto simp del: image_iff)

lemma sorted_fold_del: "kv_sorted idx \<Longrightarrow> kv_sorted (fold (\<lambda>x. kv_del (g x)) xs idx)"
  by (induction xs arbitrary: idx) auto

lemma sorted_fold_set: "kv_sorted idx \<Longrightarrow> kv_sorted (fold (\<lambda>x. kv_set (g x) ()) xs idx)"
  by (induction xs arbitrary: idx) auto

lemma keys_reindex_supernodes:
  "fst ` set (reindex_supernodes old a idx) =
     fst ` set idx
     - (case old of None \<Rightarrow> {}
        | Some o' \<Rightarrow> (\<lambda>sn. index_key ActionBySuperNodePrefix sn (act_ActionID a)) ` set (act_SuperNodes o'))
     \<union> (\<lambda>sn. index_key ActionBySuperNodePrefix sn (act_ActionID a)) ` set (act_SuperNodes a)"
  by (auto simp: reindex_supernodes_def Let_def keys_fold_del keys_fold_set split: option.splits simp del: image_iff)

lemma keys_SetAction:
  assumes "old = GetActionByID s (act_ActionID a)"
  shows "fst ` set (as_Index (SetAction a s)) =
    fst ` set (as_Index s) - (case old of None \<Rightarrow> {} | Some o' \<Rightarrow> index_keys (act_ActionID a) o')
    \<union> index_keys (act_ActionID a) a"
proof -
  note d = index_keys_differ [simplified index_prefixes_def list.set insert_iff]
  have ne: "ActionByStatePrefix \<noteq> ActionByCreatorPrefix" "ActionByStatePrefix \<noteq> ActionByTypePrefix"
    "ActionByStatePrefix \<noteq> ActionByBlockHeightPrefix" "ActionByStatePrefix \<noteq> ActionBySuperNodePrefix"
    "ActionByCreatorPrefix \<noteq> ActionByTypePrefix" "ActionByCreatorPrefix \<noteq> ActionByBlockHeightPrefix"
    "ActionByCreatorPrefix \<noteq> ActionBySuperNodePrefix" "ActionByTypePrefix \<noteq> ActionByBlockHeightPrefix"
    "ActionByTypePrefix \<noteq> ActionBySuperNodePrefix" "ActionByBlockHeightPrefix \<noteq> ActionBySuperNodePrefix"
    by (simp_all add: prefix_defs)
  note ne' = ne ne [symmetric]
  show ?thesis
  proof (cases old)
    case None
    then show ?thesis
      using assms by (auto simp: SetAction_def Let_def keys_reindex keys_reindex_supernodes index_keys_alt simp del: image_iff)
  next
    case (Some o')
    show ?thesis
      unfolding SetAction_def Let_def assms [symmetric] Some
      by (auto simp: keys_reindex keys_reindex_supernodes index_keys_alt d ne' simp del: image_iff)
  qed
qed

lemma sorted_SetAction:
  "kv_sorted (as_Index s) \<Longrightarrow> kv_sorted (as_Index (SetAction a s))"
  "kv_sorted (as_Actions s) \<Longrightarrow> kv_sorted (as_Actions (SetAction a s))"
  by (auto simp: SetAction_def Let_def reindex_supernodes_def intro!: sorted_fold_set sorted_fold_del sorted_reindex)

section \<open>Well-formed stores\<close>

text \<open>
  An open action has no supernode; a finished one has exactly the supernode that finalized it. The
  states Unspecified, Processing, Rejected and Failed are never stored.
\<close>

definition lifecycle_ok :: "action \<Rightarrow> bool" where
  "lifecycle_ok a \<longleftrightarrow>
     (act_State a \<in> {ActionStatePending, ActionStateExpired} \<and> act_SuperNodes a = [] \<or>
      act_State a \<in> {ActionStateDone, ActionStateApproved} \<and> length (act_SuperNodes a) = 1)"

definition act_ok :: "int \<Rightarrow> string \<Rightarrow> action \<Rightarrow> bool" where
  "act_ok cnt i a \<longleftrightarrow>
     act_ActionID a = i \<and> (\<exists>n. 1 \<le> n \<and> n \<le> cnt \<and> i = dec_of_int n) \<and> no_slash (act_Creator a) \<and>
     (\<forall>sn \<in> set (act_SuperNodes a). no_slash sn) \<and> act_ActionType a \<noteq> ActionTypeUnspecified \<and> lifecycle_ok a"

definition action_wf :: "action_store \<Rightarrow> bool" where
  "action_wf s \<longleftrightarrow> kv_sorted (as_Actions s) \<and> kv_sorted (as_Index s) \<and> 0 \<le> as_Count s \<and> as_Count s < 2 ^ 64 \<and>
     (\<forall>i a. GetActionByID s i = Some a \<longrightarrow> act_ok (as_Count s) i a) \<and>
     fst ` set (as_Index s) = {k. \<exists>i a. GetActionByID s i = Some a \<and> k \<in> index_keys i a}"

lemma action_wfD:
  assumes "action_wf s"
  shows "kv_sorted (as_Actions s)" "kv_sorted (as_Index s)" "0 \<le> as_Count s" "as_Count s < 2 ^ 64"
    "GetActionByID s i = Some a \<Longrightarrow> act_ok (as_Count s) i a"
    "fst ` set (as_Index s) = {k. \<exists>i a. GetActionByID s i = Some a \<and> k \<in> index_keys i a}"
  using assms by (auto simp: action_wf_def)

lemma act_ok_no_slash: "act_ok cnt i a \<Longrightarrow> no_slash i"
  by (auto simp: act_ok_def dec_of_int_no_slash)

lemma act_ok_mono: "act_ok cnt i a \<Longrightarrow> cnt \<le> cnt' \<Longrightarrow> act_ok cnt' i a"
  by (auto simp: act_ok_def)

lemma act_ok_id: "act_ok cnt i a \<Longrightarrow> act_ActionID a = i"
  by (simp add: act_ok_def)

lemma index_keys_disjoint:
  assumes "no_slash i" "no_slash j" "i \<noteq> j"
  shows "index_keys i a \<inter> index_keys j b = {}"
proof -
  have "index_key pre v i \<noteq> index_key pre' u j" if "pre \<in> set index_prefixes" "pre' \<in> set index_prefixes" for pre pre' v u
    using that assms index_key_inject [OF assms(1,2)] index_keys_differ by (cases "pre = pre'") auto
  then show ?thesis by (auto simp: index_keys_def)
qed

lemma GetActionByID_SetAction [simp]:
  "GetActionByID (SetAction a s) i = (if i = act_ActionID a then Some a else GetActionByID s i)"
  by (simp add: GetActionByID_def SetAction_def Let_def)

lemma SetAction_frame [simp]:
  "as_Count (SetAction a s) = as_Count s" "as_Params (SetAction a s) = as_Params s"
  "action_GetParams (SetAction a s) = action_GetParams s"
  by (simp_all add: SetAction_def Let_def action_GetParams_def)

lemma SetAction_wf:
  assumes "action_wf s" "act_ok (as_Count s) (act_ActionID a) a"
  shows "action_wf (SetAction a s)"
proof -
  let ?i = "act_ActionID a" and ?old = "GetActionByID s (act_ActionID a)"
  note wf = action_wfD [OF assms(1)]
  have dis: "index_keys ?i x \<inter> index_keys j b = {}" if "GetActionByID s j = Some b" "j \<noteq> ?i" for x j b
    using index_keys_disjoint act_ok_no_slash [OF assms(2)] act_ok_no_slash [OF wf(5) [OF that(1)]] that(2) by metis
  have "fst ` set (as_Index (SetAction a s)) =
      {k. \<exists>j b. GetActionByID (SetAction a s) j = Some b \<and> k \<in> index_keys j b}" (is "?L = ?R")
  proof
    show "?L \<subseteq> ?R"
    proof
      fix k assume k: "k \<in> ?L"
      show "k \<in> ?R"
      proof (cases "k \<in> index_keys ?i a")
        case True
        then show ?thesis by (auto intro: exI [of _ ?i])
      next
        case False
        with k obtain j b where jb: "GetActionByID s j = Some b" "k \<in> index_keys j b"
          and old: "k \<notin> (case ?old of None \<Rightarrow> {} | Some o' \<Rightarrow> index_keys ?i o')"
          unfolding keys_SetAction [OF refl] wf(6) by blast
        moreover have "j \<noteq> ?i" using jb old by auto
        ultimately show ?thesis by (auto intro: exI [of _ j])
      qed
    qed
    show "?R \<subseteq> ?L"
    proof
      fix k assume "k \<in> ?R"
      then obtain j b where jb: "GetActionByID (SetAction a s) j = Some b" "k \<in> index_keys j b" by blast
      show "k \<in> ?L"
      proof (cases "j = ?i")
        case True
        with jb show ?thesis unfolding keys_SetAction [OF refl] by simp
      next
        case False
        with jb have "GetActionByID s j = Some b" by simp
        with jb(2) dis [OF this False] show ?thesis
          unfolding keys_SetAction [OF refl] wf(6) by (auto split: option.splits)
      qed
    qed
  qed
  then show ?thesis
    using assms wf by (auto simp: action_wf_def sorted_SetAction)
qed

lemma action_wf_params [simp]: "action_wf (s\<lparr>as_Params := p\<rparr>) \<longleftrightarrow> action_wf s"
  by (simp add: action_wf_def GetActionByID_def)

lemma action_wf_count: "action_wf s \<Longrightarrow> as_Count s \<le> c \<Longrightarrow> c < 2 ^ 64 \<Longrightarrow> action_wf (s\<lparr>as_Count := c\<rparr>)"
  by (auto simp: action_wf_def GetActionByID_def intro: act_ok_mono)

lemma action_wf_empty [simp]: "action_wf action_empty"
  by (simp add: action_wf_def action_empty_def GetActionByID_def)

text \<open>A number above the counter is the identifier of no action.\<close>

lemma fresh_id:
  assumes "action_wf s" "as_Count s < n"
  shows "GetActionByID s (dec_of_int n) = None"
proof (rule ccontr)
  assume "GetActionByID s (dec_of_int n) \<noteq> None"
  then obtain m where "1 \<le> m" "m \<le> as_Count s" "dec_of_int n = dec_of_int m"
    using action_wfD(5) [OF assms(1)] by (fastforce simp: act_ok_def)
  then show False using assms(2) by (simp add: dec_of_int_def)
qed

section \<open>Lookups through the index\<close>

lemma index_values_no_slash:
  assumes "act_ok cnt i a" "v \<in> index_values pre a"
  shows "no_slash v \<or> pre = ActionByBlockHeightPrefix"
proof -
  have "no_slash (ActionState_String st)" "no_slash (ActionType_String t)" for st t
    by (cases st; simp add: ActionState_String_def no_slash_def) (cases t; simp add: ActionType_String_def no_slash_def)
  with assms show ?thesis by (auto simp: act_ok_def index_values_def split: if_splits)
qed

lemma dec_of_int_no_slash': "no_slash (dec_of_int n)"
  by (simp add: no_slash_def dec_of_int_def dec_of_nat_no_slash)

lemma prefix_family:
  assumes "pre \<in> set index_prefixes" "pre' \<in> set index_prefixes" "no_slash u" "no_slash i"
  shows "prefix (pre @ v @ ''/'') (index_key pre' u i) \<longleftrightarrow> pre = pre' \<and> v = u"
proof (cases "pre = pre'")
  case True
  with index_prefix_iff [OF assms(3,4)] show ?thesis by simp
next
  case False
  have "\<not> prefix (pre @ v @ ''/'') (index_key pre' u i)"
  proof
    assume "prefix (pre @ v @ ''/'') (index_key pre' u i)"
    then obtain r where "pre @ (v @ ''/'' @ r) = pre' @ (u @ ''/'' @ i)"
      by (auto simp: prefix_def index_key_def)
    then show False using prefixes_disjoint [OF assms(1,2) False] by blast
  qed
  with False show ?thesis by simp
qed

lemma index_ids_iff:
  assumes "action_wf s" "pre \<in> set index_prefixes"
  shows "i \<in> set (index_ids s (pre @ v @ ''/'')) \<longleftrightarrow> (\<exists>a. GetActionByID s i = Some a \<and> v \<in> index_values pre a)"
proof -
  note wf = action_wfD [OF assms(1)]
  let ?p = "pre @ v @ ''/''"
  have ns: "no_slash j" "no_slash u" if "GetActionByID s j = Some b" "u \<in> index_values pre' b" for j b u pre'
    using act_ok_no_slash [OF wf(5) [OF that(1)]] index_values_no_slash [OF wf(5) [OF that(1)] that(2)] that(2)
    by (auto simp: dec_of_int_no_slash')
  have "i \<in> set (index_ids s ?p) \<longleftrightarrow> (\<exists>k \<in> fst ` set (as_Index s). prefix ?p k \<and> i = drop (length ?p) k)"
    by (auto simp: index_ids_def kv_prefix_def)
  also have "\<dots> \<longleftrightarrow> (\<exists>j b pre' u. GetActionByID s j = Some b \<and> pre' \<in> set index_prefixes \<and> u \<in> index_values pre' b
      \<and> prefix ?p (index_key pre' u j) \<and> i = drop (length ?p) (index_key pre' u j))"
    unfolding wf(6) index_keys_def by blast
  also have "\<dots> \<longleftrightarrow> (\<exists>j b. GetActionByID s j = Some b \<and> v \<in> index_values pre b \<and> i = drop (length ?p) (index_key pre v j))"
    using prefix_family [OF assms(2)] ns assms(2) by metis
  also have "\<dots> \<longleftrightarrow> (\<exists>a. GetActionByID s i = Some a \<and> v \<in> index_values pre a)"
    by (auto simp: index_key_def)
  finally show ?thesis .
qed

lemma distinct_index_ids:
  assumes "action_wf s"
  shows "distinct (index_ids s p)"
proof -
  have "distinct (map fst (as_Index s))" using kv_sorted_distinct action_wfD(2) [OF assms] by blast
  then have d: "distinct (map fst (kv_prefix p (as_Index s)))" by (simp add: kv_prefix_def distinct_map_filter)
  have "inj_on (drop (length p)) (set (map fst (kv_prefix p (as_Index s))))"
    by (rule inj_onI) (auto simp: kv_prefix_def prefix_def)
  with d show ?thesis unfolding index_ids_def by (simp add: distinct_map comp_inj_on_iff [symmetric] comp_def inj_on_def)
qed

lemma getActionsByIndexPrefix_exact:
  assumes "action_wf s" "pre \<in> set index_prefixes"
  shows "set (getActionsByIndexPrefix s (pre @ v @ ''/'')) = {a. \<exists>i. GetActionByID s i = Some a \<and> v \<in> index_values pre a}"
    and "distinct (getActionsByIndexPrefix s (pre @ v @ ''/''))"
proof -
  let ?ids = "index_ids s (pre @ v @ ''/'')"
  show "set (getActionsByIndexPrefix s (pre @ v @ ''/'')) = {a. \<exists>i. GetActionByID s i = Some a \<and> v \<in> index_values pre a}"
    using index_ids_iff [OF assms] by (force simp: getActionsByIndexPrefix_def set_map_filter)
  have inj: "GetActionByID s i = Some a \<Longrightarrow> act_ActionID a = i" for i a
    using action_wfD(5) [OF assms(1)] act_ok_id by blast
  have "distinct (List.map_filter (GetActionByID s) ids)" if "distinct ids" for ids
    using that
  proof (induction ids)
    case (Cons i ids)
    then show ?case
      using inj by (auto simp: map_filter_simps set_map_filter split: option.splits)
  qed (simp add: map_filter_simps)
  with distinct_index_ids [OF assms(1)] show "distinct (getActionsByIndexPrefix s (pre @ v @ ''/''))"
    by (simp add: getActionsByIndexPrefix_def)
qed

end
