(* ===== verification/Action_Escrow.thy ===== *)
theory Action_Escrow
  imports Action_Index
begin

text \<open>
  Histories of the action module. What the code relies on outside the repository is \<open>action_laws\<close>;
  \<open>action_reachable\<close> are the states that genesis, messages, block ends and the other modules lead to.
  The invariant says that the store is well formed and that the module account holds the price of
  every open action. \<open>evolves\<close> is the abstract life cycle that every operation refines.
\<close>

section \<open>Laws and histories\<close>

abbreviation (input) escrow_addr :: "'w action_env \<Rightarrow> bytes" where
  "escrow_addr env \<equiv> ModuleAddr (ae_bank env) action_ModuleName"

text \<open>
  What is relied on of coins and decimals: amounts up to one that was parsed print and parse back, and
  a share of at most one of such an amount is computed exactly. (The SDK bounds integers to 256 bits.)
\<close>

definition coin_laws :: "'w action_env \<Rightarrow> bool" where
  "coin_laws env \<longleftrightarrow>
     (\<forall>s c. ae_ParseCoin env s = Some c \<longrightarrow> 0 \<le> snd c \<and> ae_ParseCoin env (ae_CoinString env c) = Some c \<and>
        (\<forall>n. 0 \<le> n \<longrightarrow> n \<le> snd c \<longrightarrow> ae_ParseCoin env (dec_of_int n @ fst c) = Some (fst c, n)) \<and>
        (\<forall>n b. 0 \<le> n \<longrightarrow> n \<le> snd c \<longrightarrow> 0 \<le> b \<longrightarrow> b \<le> 10 ^ 18 \<longrightarrow> ae_DecMul env (n * 10 ^ 18) b = n * b))"

definition audit_laws :: "'w action_env \<Rightarrow> ('w \<Rightarrow> bytes \<Rightarrow> string \<Rightarrow> int) \<Rightarrow> bool" where
  "audit_laws env bal \<longleftrightarrow>
     (\<forall>ak r su i ev top w w'. ae_audit env = Some ak \<longrightarrow> ak_CreateEvidence ak r su i ev top w = Some w' \<longrightarrow> bal w' = bal w) \<and>
     (\<forall>ak i x y w w'. ae_audit env = Some ak \<longrightarrow> ak_SetTicketArtifactCounts ak i x y w = Some w' \<longrightarrow> bal w' = bal w)"

definition action_laws :: "'w action_env \<Rightarrow> ('w \<Rightarrow> bytes \<Rightarrow> string \<Rightarrow> int) \<Rightarrow> bool" where
  "action_laws env bal \<longleftrightarrow>
     bank_laws (ae_bank env) bal \<and> account_laws (ae_auth env) bal \<and> coin_laws env \<and> audit_laws env bal \<and>
     (\<forall>s a. AccAddressFromBech32 (ae_codec env) s = Some a \<longrightarrow> no_slash s) \<and>
     (\<forall>cs a w w'. ae_FundCommunityPool env cs a w = Some w' \<longrightarrow> (\<exists>pool. bal w' = moved a pool cs (bal w))) \<and>
     (\<forall>xs. set (ae_map_order env xs) = set xs \<and> (distinct xs \<longrightarrow> distinct (ae_map_order env xs)))"

text \<open>The environment of one block: the parts that change are the supernode store, height, time and the draw.\<close>

definition block_env :: "'w action_env \<Rightarrow> sn_store \<Rightarrow> int \<Rightarrow> int \<Rightarrow> int \<Rightarrow> 'w action_env" where
  "block_env E sn h t r = E\<lparr>ae_sn := sn, ae_BlockHeight := h, ae_BlockTime := t, ae_random := r\<rparr>"

text \<open>
  What histories assume of a step: fewer than \<open>2^64\<close> actions, no request signed by the module account,
  parameters of governance that pass \<open>Validate\<close> (the handler itself does not call it), and a pool
  share of at most 10000 basis points, which the supernode parameters guarantee.
\<close>

definition step_ok :: "'w action_env \<Rightarrow> action_op \<Rightarrow> action_store \<Rightarrow> bool" where
  "step_ok env op s \<longleftrightarrow>
     (case op of
        OpRequestAction msg \<Rightarrow> as_Count s < 2 ^ 64 - 1
          \<and> AccAddressFromBech32 (ae_codec env) (rq_Creator msg) \<noteq> Some (escrow_addr env)
      | OpActionParams _ p \<Rightarrow> action_Params_Validate env p = Inr ()
      | _ \<Rightarrow> True)
     \<and> 0 \<le> GetRegistrationFeeShareBps (ss_params (ae_sn env)) \<and> GetRegistrationFeeShareBps (ss_params (ae_sn env)) \<le> 10000"

inductive action_reachable ::
    "'w action_env \<Rightarrow> ('w \<Rightarrow> bytes \<Rightarrow> string \<Rightarrow> int) \<Rightarrow> action_store \<times> 'w \<Rightarrow> bool"
  for E :: "'w action_env" and bal :: "'w \<Rightarrow> bytes \<Rightarrow> string \<Rightarrow> int" where
  init: "action_InitGenesis E p action_empty w = Inr sw \<Longrightarrow> (\<And>d. 0 \<le> bal w (escrow_addr E) d)
    \<Longrightarrow> action_reachable E bal sw"
| exec: "action_reachable E bal sw \<Longrightarrow> env = block_env E sn h t r \<Longrightarrow> step_ok env op (fst sw)
    \<Longrightarrow> action_exec env op sw = Inr sw' \<Longrightarrow> action_reachable E bal sw'"
| other: "action_reachable E bal (s, w) \<Longrightarrow> (\<And>d. bal w (escrow_addr E) d \<le> bal w' (escrow_addr E) d)
    \<Longrightarrow> action_reachable E bal (s, w')"

section \<open>Invariant\<close>

definition open_amount :: "'w action_env \<Rightarrow> string \<Rightarrow> action \<Rightarrow> int" where
  "open_amount env d a =
     (if act_State a \<in> {ActionStatePending, ActionStateProcessing}
      then case ae_ParseCoin env (act_Price a) of None \<Rightarrow> 0 | Some c \<Rightarrow> if fst c = d then snd c else 0
      else 0)"

definition escrow_total :: "'w action_env \<Rightarrow> string \<Rightarrow> action_store \<Rightarrow> int" where
  "escrow_total env d s = kv_sum (open_amount env d) (as_Actions s)"

definition money_ok :: "'w action_env \<Rightarrow> action \<Rightarrow> bool" where
  "money_ok env a \<longleftrightarrow> AccAddressFromBech32 (ae_codec env) (act_Creator a) \<noteq> None \<and> ae_ParseCoin env (act_Price a) \<noteq> None"

definition shares_ok :: "'w action_env \<Rightarrow> action_params \<Rightarrow> bool" where
  "shares_ok env p \<longleftrightarrow> (\<exists>x. ae_DecFromStr env (ap_FoundationFeeShare p) = Some x \<and> 0 \<le> x \<and> x \<le> 10 ^ 18)"

definition action_inv ::
  "'w action_env \<Rightarrow> ('w \<Rightarrow> bytes \<Rightarrow> string \<Rightarrow> int) \<Rightarrow> action_store \<times> 'w \<Rightarrow> bool" where
  "action_inv env bal sw \<longleftrightarrow>
     action_wf (fst sw) \<and> (\<forall>i a. GetActionByID (fst sw) i = Some a \<longrightarrow> money_ok env a)
   \<and> (\<forall>d. escrow_total env d (fst sw) \<le> bal (snd sw) (escrow_addr env) d)
   \<and> shares_ok env (action_GetParams (fst sw))"

lemma action_invD:
  assumes "action_inv env bal (s, w)"
  shows "action_wf s" "GetActionByID s i = Some a \<Longrightarrow> money_ok env a"
    "escrow_total env d s \<le> bal w (escrow_addr env) d" "shares_ok env (action_GetParams s)"
  using assms by (auto simp: action_inv_def)

lemma money_okE:
  assumes "money_ok env a"
  obtains creator price where "AccAddressFromBech32 (ae_codec env) (act_Creator a) = Some creator"
    "ae_ParseCoin env (act_Price a) = Some price"
  using assms by (cases "ae_ParseCoin env (act_Price a)") (auto simp: money_ok_def)

text \<open>The life cycle of one action: every field but the state, the metadata and the supernodes is constant.\<close>

definition evolve :: "action \<Rightarrow> action \<Rightarrow> bool" where
  "evolve a a' \<longleftrightarrow>
     a' = a
   \<or> act_State a = ActionStatePending \<and> a' = a\<lparr>act_State := ActionStateExpired\<rparr>
   \<or> act_State a = ActionStatePending \<and>
       (\<exists>md sn. a' = a\<lparr>act_State := ActionStateDone, act_Metadata := md, act_SuperNodes := [sn]\<rparr>)
   \<or> act_State a = ActionStateDone \<and> a' = a\<lparr>act_State := ActionStateApproved\<rparr>"

definition evolves :: "action_store \<Rightarrow> action_store \<Rightarrow> bool" where
  "evolves s s' \<longleftrightarrow> as_Count s \<le> as_Count s' \<and>
     (\<forall>i a. GetActionByID s i = Some a \<longrightarrow> (\<exists>a'. GetActionByID s' i = Some a' \<and> evolve a a')) \<and>
     (\<forall>i a'. GetActionByID s i = None \<longrightarrow> GetActionByID s' i = Some a' \<longrightarrow>
        act_State a' = ActionStatePending \<and> i = dec_of_int (as_Count s + 1) \<and> as_Count s' = as_Count s + 1)"

lemma evolve_refl [simp]: "evolve a a"
  by (simp add: evolve_def)

lemma evolves_refl [simp]: "evolves s s"
  by (simp add: evolves_def)

lemma open_amount_nonneg: "coin_laws env \<Longrightarrow> 0 \<le> open_amount env d a"
  by (auto simp: open_amount_def coin_laws_def split: option.splits)

lemma escrow_total_SetAction:
  assumes "action_wf s"
  shows "escrow_total env d (SetAction a s) = escrow_total env d s + open_amount env d a
    - (case GetActionByID s (act_ActionID a) of None \<Rightarrow> 0 | Some o' \<Rightarrow> open_amount env d o')"
  using kv_sum_set [OF action_wfD(1) [OF assms]]
  by (simp add: escrow_total_def SetAction_def Let_def GetActionByID_def)

lemma escrow_total_ge:
  assumes "action_wf s" "coin_laws env" "GetActionByID s i = Some a"
  shows "open_amount env d a \<le> escrow_total env d s"
proof -
  have "act_ActionID a = i" using action_wfD(5) [OF assms(1,3)] by (rule act_ok_id)
  let ?b = "a\<lparr>act_State := ActionStateExpired\<rparr>"
  have "0 \<le> escrow_total env d (SetAction ?b s)"
    unfolding escrow_total_def using open_amount_nonneg [OF assms(2)] by (intro kv_sum_nonneg)
  then show ?thesis
    using escrow_total_SetAction [OF assms(1), of env d ?b] assms(3) \<open>act_ActionID a = i\<close>
    by (simp add: open_amount_def)
qed

text \<open>How an update of one stored action keeps the invariant.\<close>

lemma update_inv:
  assumes "action_inv env bal (s, w)" "GetActionByID s i = Some a" "evolve a a'" "act_ok (as_Count s) i a'"
    and "\<And>d. bal w (escrow_addr env) d - open_amount env d a + open_amount env d a' \<le> bal w' (escrow_addr env) d"
  shows "action_inv env bal (SetAction a' s, w') \<and> evolves s (SetAction a' s)"
proof -
  have wf: "action_wf s" using assms(1) by (simp add: action_inv_def)
  have i: "act_ActionID a' = i" using assms(4) by (rule act_ok_id)
  have "escrow_total env d (SetAction a' s) \<le> bal w' (escrow_addr env) d" for d
  proof -
    have "escrow_total env d s \<le> bal w (escrow_addr env) d" using assms(1) by (simp add: action_inv_def)
    then show ?thesis using assms(5) [of d] assms(2) i by (simp add: escrow_total_SetAction [OF wf])
  qed
  moreover have "money_ok env a'"
    using assms(1,2,3) by (auto simp: action_inv_def evolve_def money_ok_def)
  moreover have "action_wf (SetAction a' s)" using SetAction_wf [OF wf] assms(4) i by simp
  ultimately show ?thesis
    using assms(1,2,3) i by (auto simp: action_inv_def evolves_def)
qed

section \<open>Fees\<close>

lemma action_lawsD:
  assumes "action_laws env bal"
  shows "bank_laws (ae_bank env) bal" "account_laws (ae_auth env) bal" "coin_laws env" "audit_laws env bal"
    "AccAddressFromBech32 (ae_codec env) s = Some a \<Longrightarrow> no_slash s"
    "ae_FundCommunityPool env cs b w = Some w' \<Longrightarrow> \<exists>pool. bal w' = moved b pool cs (bal w)"
    "set (ae_map_order env xs) = set xs" "distinct xs \<Longrightarrow> distinct (ae_map_order env xs)"
  using assms by (auto simp: action_laws_def)

lemma coin_lawsD:
  assumes "coin_laws env"
  shows "ae_ParseCoin env s = Some c \<Longrightarrow> 0 \<le> snd c"
    "ae_ParseCoin env s = Some c \<Longrightarrow> ae_ParseCoin env (ae_CoinString env c) = Some c"
    "ae_ParseCoin env s = Some c \<Longrightarrow> 0 \<le> n \<Longrightarrow> n \<le> snd c \<Longrightarrow> ae_ParseCoin env (dec_of_int n @ fst c) = Some (fst c, n)"
    "ae_ParseCoin env s = Some c \<Longrightarrow> 0 \<le> n \<Longrightarrow> n \<le> snd c \<Longrightarrow> 0 \<le> b \<Longrightarrow> b \<le> 10 ^ 18 \<Longrightarrow> ae_DecMul env (n * 10 ^ 18) b = n * b"
  using assms unfolding coin_laws_def by (blast, blast, blast, blast)

text \<open>A send takes at most the amount from the module account, and exactly it when the receiver differs.\<close>

lemma moved_ge: "coins_nonneg cs \<Longrightarrow> b src d - AmountOf cs d \<le> moved src dst cs b src d"
  using AmountOf_nonneg [of cs d] by (simp add: moved_def)

definition coin_at :: "coin \<Rightarrow> string \<Rightarrow> int" where
  "coin_at c d = (if d = fst c then snd c else 0)"

lemma coin_at_simps [simp]: "coin_at (x, n) d = (if d = x then n else 0)"
  by (simp add: coin_at_def)

lemma sdiv_share:
  assumes "0 \<le> (n::int)" "0 \<le> b" "b \<le> 10000"
  shows "0 \<le> (n * b) sdiv 10000" "(n * b) sdiv 10000 \<le> n"
proof -
  have nb: "0 \<le> n * b" "n * b \<le> n * 10000" using assms by (simp_all add: mult_left_mono)
  have e: "(n * b) sdiv 10000 = n * b div 10000" using nb by (simp add: sdiv_nonneg)
  show "0 \<le> (n * b) sdiv 10000" using nb by (simp add: e)
  have "n * b div 10000 \<le> n * 10000 div 10000" using nb by (intro zdiv_mono1) simp_all
  then show "(n * b) sdiv 10000 \<le> n" by (simp add: e)
qed

lemma reward_share:
  assumes "send_reward_share env fee w = Inr (fee', w')" "action_laws env bal" "0 \<le> snd fee"
    and "0 \<le> GetRegistrationFeeShareBps (ss_params (ae_sn env))" "GetRegistrationFeeShareBps (ss_params (ae_sn env)) \<le> 10000"
  shows "fst fee' = fst fee \<and> 0 \<le> snd fee' \<and> snd fee' \<le> snd fee
    \<and> bal w (escrow_addr env) d - coin_at fee d + coin_at fee' d \<le> bal w' (escrow_addr env) d"
proof -
  let ?b = "GetRegistrationFeeShareBps (ss_params (ae_sn env))"
  have b: "i64 ?b = ?b" using assms(4,5) by (simp add: i64_id)
  note sh = sdiv_share [OF assms(3-5)]
  show ?thesis
  proof (cases "fee' = fee \<and> w' = w")
    case False
    let ?amt = "(snd fee * ?b) sdiv 10000"
    have f: "fee' = (fst fee, snd fee - ?amt)" "0 < ?amt"
      "SendCoinsFromModuleToModule (ae_bank env) action_ModuleName ''supernode'' (NewCoins1 (fst fee) ?amt) w = Inr w'"
      using assms(1) False by (auto simp: send_reward_share_def Let_def b split: if_splits sum.splits)
    note bal = bank_lawsD(3) [OF action_lawsD(1) [OF assms(2)] f(3)]
    show ?thesis
      using f(1,2) sh moved_ge [of "NewCoins1 (fst fee) ?amt" "bal w" "escrow_addr env" d]
      by (auto simp: bal coin_at_def)
  qed (use assms(3) in auto)
qed

lemma foundation_share:
  assumes "send_foundation_share env p fee w = Inr (fee', w')" "action_laws env bal" "0 \<le> snd fee" "shares_ok env p"
    and "ae_ParseCoin env str = Some c" "snd fee \<le> snd c"
  shows "fst fee' = fst fee \<and> 0 \<le> snd fee' \<and> snd fee' \<le> snd fee
    \<and> bal w (escrow_addr env) d - coin_at fee d + coin_at fee' d \<le> bal w' (escrow_addr env) d"
proof -
  obtain x where x: "ae_DecFromStr env (ap_FoundationFeeShare p) = Some x" "0 \<le> x" "x \<le> 10 ^ 18"
    using assms(4) by (auto simp: shares_ok_def)
  let ?f = "TruncateInt (snd fee * x)"
  have "0 \<le> snd fee * x" "snd fee * x \<le> snd fee * 10 ^ 18" using assms(3) x by (simp_all add: mult_left_mono)
  moreover have "?f = snd fee * x div 10 ^ 18"
    using calculation(1) by (simp add: TruncateInt_def sdiv_nonneg)
  moreover have "snd fee * x div 10 ^ 18 \<le> snd fee * 10 ^ 18 div 10 ^ 18"
    using calculation(2) by (intro zdiv_mono1) simp_all
  ultimately have f: "0 \<le> ?f" "?f \<le> snd fee" by simp_all
  show ?thesis
  proof (cases "fee' = fee \<and> w' = w")
    case False
    have m: "ae_DecMul env (snd fee * 1000000000000000000) x = snd fee * x"
      using coin_lawsD(4) [OF action_lawsD(3) [OF assms(2)], of str c "snd fee" x] assms(3,5,6) x by simp
    have g: "fee' = (fst fee, snd fee - ?f)"
      "ae_FundCommunityPool env (NewCoins1 (fst fee) ?f) (escrow_addr env) w = Some w'"
      using assms(1) False
      by (auto simp: send_foundation_share_def Let_def x(1) m split: if_splits option.splits)
    obtain pool where bal: "bal w' = moved (escrow_addr env) pool (NewCoins1 (fst fee) ?f) (bal w)"
      using action_lawsD(6) [OF assms(2) g(2)] by blast
    show ?thesis
      using g(1) f moved_ge [of "NewCoins1 (fst fee) ?f" "bal w" "escrow_addr env" d]
      by (auto simp: bal coin_at_def)
  qed (use assms(3) in auto)
qed

lemma sdiv_1 [simp]: "(x::int) sdiv 1 = x"
  by (simp add: signed_divide_int_def sgn_if)

lemma pay_one:
  assumes "pay_supernodes env fee 1 [sn] w = Inr w'" "action_laws env bal" "0 \<le> snd fee"
    and "ae_ParseCoin env str = Some (fst fee, n)" "snd fee \<le> n"
  shows "bal w (escrow_addr env) d - coin_at fee d \<le> bal w' (escrow_addr env) d"
proof (cases "w' = w")
  case True
  then show ?thesis using assms(3) by (simp add: coin_at_def)
next
  case False
  have p: "ae_ParseCoin env (dec_of_int (snd fee) @ fst fee) = Some fee"
    using coin_lawsD(3) [OF action_lawsD(3) [OF assms(2)] assms(4,3)] assms(5) by simp
  obtain addr where "SendCoinsFromModuleToAccount (ae_bank env) action_ModuleName addr (NewCoins1 (fst fee) (snd fee)) w = Inr w'"
    using assms(1) False p by (auto simp: Let_def split: if_splits option.splits sum.splits)
  note bal = bank_lawsD(1) [OF action_lawsD(1) [OF assms(2)] this]
  show ?thesis
    using moved_ge [of "NewCoins1 (fst fee) (snd fee)" "bal w" "escrow_addr env" d addr] assms(3)
    by (simp add: bal coin_at_def split: if_splits)
qed

lemma map_order_single:
  assumes "action_laws env bal" "length xs = 1"
  shows "ae_map_order env xs = xs"
proof -
  obtain x where x: "xs = [x]" using assms(2) by (cases xs) auto
  have "set (ae_map_order env xs) = {x}" "distinct (ae_map_order env xs)"
    using action_lawsD(7,8) [OF assms(1)] x by auto
  then have "length (ae_map_order env xs) = 1" by (metis distinct_card card.empty card.insert empty_iff finite.emptyI One_nat_def)
  with \<open>set (ae_map_order env xs) = {x}\<close> x show ?thesis by (cases "ae_map_order env xs") auto
qed

lemma distribute_bound:
  assumes "DistributeFees env i s w = Inr w'" "action_laws env bal" "GetActionByID s i = Some a"
    and "length (act_SuperNodes a) = 1" "ae_ParseCoin env (act_Price a) = Some price"
    and "shares_ok env (action_GetParams s)"
    and "0 \<le> GetRegistrationFeeShareBps (ss_params (ae_sn env))" "GetRegistrationFeeShareBps (ss_params (ae_sn env)) \<le> 10000"
  shows "bal w (escrow_addr env) d - coin_at price d \<le> bal w' (escrow_addr env) d"
proof (cases "w' = w")
  case True
  then show ?thesis using coin_lawsD(1) [OF action_lawsD(3) [OF assms(2)] assms(5)] by (simp add: coin_at_def)
next
  case False
  have pos: "0 \<le> snd price" using coin_lawsD(1) [OF action_lawsD(3) [OF assms(2)] assms(5)] .
  let ?u = "unique_supernodes (act_SuperNodes a)"
  obtain sn where sn: "act_SuperNodes a = [sn]" using assms(4) by (cases "act_SuperNodes a") auto
  from assms(1) False obtain fee1 w1 fee2 w2 where st: "send_reward_share env price w = Inr (fee1, w1)"
    "send_foundation_share env (action_GetParams s) fee1 w1 = Inr (fee2, w2)"
    "pay_supernodes env fee2 (int (length ?u)) (ae_map_order env ?u) w2 = Inr w'" "?u \<noteq> []"
    by (auto simp: DistributeFees_def assms(3,5) Let_def split: if_splits)
  have u: "?u = [sn]" using st(4) sn by (simp add: unique_supernodes_def split: if_splits)
  have pay: "pay_supernodes env fee2 1 [sn] w2 = Inr w'"
    using st(3) map_order_single [OF assms(2), of ?u] u by simp
  note r1 = reward_share [OF st(1) assms(2) pos assms(7,8), of d]
  from r1 have f1: "0 \<le> snd fee1" "snd fee1 \<le> snd price" by simp_all
  note r2 = foundation_share [OF st(2) assms(2) f1(1) assms(6,5) f1(2), of d]
  have "ae_ParseCoin env (act_Price a) = Some (fst fee2, snd price)"
    using r1 r2 assms(5) by (cases price) auto
  with r2 pay have "bal w2 (escrow_addr env) d - coin_at fee2 d \<le> bal w' (escrow_addr env) d"
    using f1(2) by (intro pay_one [OF _ assms(2)]) auto
  with r1 r2 show ?thesis by linarith
qed

section \<open>Requests\<close>

lemma block_env_simps [simp]:
  "ae_codec (block_env E sn h t r) = ae_codec E" "ae_bank (block_env E sn h t r) = ae_bank E"
  "ae_auth (block_env E sn h t r) = ae_auth E" "ae_audit (block_env E sn h t r) = ae_audit E"
  "ae_ParseCoin (block_env E sn h t r) = ae_ParseCoin E" "ae_CoinString (block_env E sn h t r) = ae_CoinString E"
  "ae_DecFromStr (block_env E sn h t r) = ae_DecFromStr E" "ae_DecMul (block_env E sn h t r) = ae_DecMul E"
  "ae_FundCommunityPool (block_env E sn h t r) = ae_FundCommunityPool E"
  "ae_map_order (block_env E sn h t r) = ae_map_order E" "ae_CoinValid (block_env E sn h t r) = ae_CoinValid E"
  "ae_sn (block_env E sn h t r) = sn" "ae_BlockHeight (block_env E sn h t r) = h"
  "ae_BlockTime (block_env E sn h t r) = t"
  "ae_kad (block_env E sn h t r) = ae_kad E" "ae_authority (block_env E sn h t r) = ae_authority E"
  by (simp_all add: block_env_def)

lemma action_laws_block [simp]: "action_laws (block_env E sn h t r) bal \<longleftrightarrow> action_laws E bal"
  by (simp add: action_laws_def coin_laws_def audit_laws_def)

lemma open_amount_block [simp]: "open_amount (block_env E sn h t r) = open_amount E"
  by (intro ext) (simp add: open_amount_def)

lemma action_inv_block [simp]: "action_inv (block_env E sn h t r) bal sw \<longleftrightarrow> action_inv E bal sw"
  by (simp add: action_inv_def money_ok_def escrow_total_def shares_ok_def)

lemma register_cases:
  assumes "keeper_RegisterAction env info action s w = Inr (i, s', w')"
  obtains creator c where "AccAddressFromBech32 (ae_codec env) (act_Creator action) = Some creator"
    "ae_ParseCoin env (act_Price action) = Some c" "validatePrice s c = Inr ()"
    "act_ActionType action \<noteq> ActionTypeUnspecified" "i = dec_of_int (u64 (as_Count s + 1))"
    "s' = SetAction (action\<lparr>act_ActionID := i, act_BlockHeight := ae_BlockHeight env, act_State := ActionStatePending\<rparr>)
            (s\<lparr>as_Count := u64 (as_Count s + 1)\<rparr>)"
    "SendCoinsFromAccountToModule (ae_bank env) creator action_ModuleName (NewCoins1 (fst c) (snd c)) w = Inr w'"
proof -
  obtain c where c: "ae_ParseCoin env (act_Price action) = Some c"
    using assms by (auto simp: keeper_RegisterAction_def split: if_splits option.splits)
  obtain creator where cr: "AccAddressFromBech32 (ae_codec env) (act_Creator action) = Some creator"
    using assms c by (auto simp: keeper_RegisterAction_def split: if_splits option.splits)
  have v: "validatePrice s c = Inr ()"
    using assms c cr by (auto simp: keeper_RegisterAction_def split: if_splits)
  let ?a = "action\<lparr>act_ActionID := dec_of_int (u64 (as_Count s + 1)), act_BlockHeight := ae_BlockHeight env\<rparr>"
  let ?b = "if act_State ?a = ActionStateUnspecified then ?a\<lparr>act_State := ActionStatePending\<rparr> else ?a"
  have r: "act_State ?b = ActionStatePending" "act_ActionType action \<noteq> ActionTypeUnspecified"
    "i = dec_of_int (u64 (as_Count s + 1))" "s' = SetAction ?b (s\<lparr>as_Count := u64 (as_Count s + 1)\<rparr>)"
    "SendCoinsFromAccountToModule (ae_bank env) creator action_ModuleName (NewCoins1 (fst c) (snd c)) w = Inr w'"
    using assms c cr v
    by (auto simp: keeper_RegisterAction_def Let_def GetHandler_def getLastActionID_def split: if_splits sum.splits)
  have b: "?b = ?a\<lparr>act_State := ActionStatePending\<rparr>" using r(1) by (cases action) (auto split: if_splits)
  have "s' = SetAction (action\<lparr>act_ActionID := i, act_BlockHeight := ae_BlockHeight env, act_State := ActionStatePending\<rparr>)
          (s\<lparr>as_Count := u64 (as_Count s + 1)\<rparr>)" using r(4) unfolding b r(3) by simp
  with that [OF cr c v r(2,3) _ r(5)] show thesis by blast
qed

lemma insert_inv:
  assumes "action_inv env bal (s, w)" "as_Count s < 2 ^ 64 - 1" "act_ActionID a = dec_of_int (as_Count s + 1)"
    and "no_slash (act_Creator a)" "act_SuperNodes a = []" "act_ActionType a \<noteq> ActionTypeUnspecified"
    and "act_State a = ActionStatePending" "money_ok env a"
    and "\<And>d. bal w (escrow_addr env) d + open_amount env d a \<le> bal w' (escrow_addr env) d"
  shows "action_inv env bal (SetAction a (s\<lparr>as_Count := as_Count s + 1\<rparr>), w')
    \<and> evolves s (SetAction a (s\<lparr>as_Count := as_Count s + 1\<rparr>))"
proof -
  let ?s = "s\<lparr>as_Count := as_Count s + 1\<rparr>"
  have wf: "action_wf s" using assms(1) by (simp add: action_inv_def)
  have wf1: "action_wf ?s" using assms(2) by (intro action_wf_count [OF wf]) simp_all
  have get: "GetActionByID ?s i = GetActionByID s i" for i by (simp add: GetActionByID_def)
  have fresh: "GetActionByID s (act_ActionID a) = None" using fresh_id [OF wf] assms(3) by simp
  have ok: "act_ok (as_Count ?s) (act_ActionID a) a"
    using assms action_wfD(3) [OF wf] by (auto simp: act_ok_def lifecycle_ok_def intro!: exI [of _ "as_Count s + 1"])
  have "escrow_total env d (SetAction a ?s) \<le> bal w' (escrow_addr env) d" for d
  proof -
    have "escrow_total env d ?s = escrow_total env d s" by (simp add: escrow_total_def)
    moreover have "escrow_total env d s \<le> bal w (escrow_addr env) d" using assms(1) by (simp add: action_inv_def)
    ultimately show ?thesis
      using assms(9) [of d] by (simp add: escrow_total_SetAction [OF wf1] get fresh)
  qed
  moreover have "action_GetParams ?s = action_GetParams s" by (simp add: action_GetParams_def)
  ultimately show ?thesis
    using assms SetAction_wf [OF wf1 ok] fresh by (auto simp: action_inv_def evolves_def get)
qed

lemma request_cases:
  assumes "msg_RequestAction env msg s w = Inr (resp, s', w')"
  obtains info pd price exp i where "getCreatorAccountInfo env msg w = Inr info" "validateAppPubKey info = Inr ()"
    "handler_Process env (parsed_type (rq_ActionType msg)) (rq_Metadata msg) MsgTypeRequest (Some (action_GetParams s)) = Inr pd"
    "ae_ParseCoin env (rq_Price msg) = Some price"
    "keeper_RegisterAction env (Some info) (new_action env msg pd price exp) s w = Inr (i, s', w')"
    "fst resp = i"
  using assms
  by (auto simp: msg_RequestAction_def Let_def GetHandler_def split: if_splits option.splits sum.splits prod.splits)

lemma request_step:
  assumes "msg_RequestAction env msg s w = Inr (resp, s', w')" "action_inv env bal (s, w)" "action_laws env bal"
    and "as_Count s < 2 ^ 64 - 1" "AccAddressFromBech32 (ae_codec env) (rq_Creator msg) \<noteq> Some (escrow_addr env)"
  shows "action_inv env bal (s', w') \<and> evolves s s'"
proof -
  have wf: "action_wf s" using assms(2) by (simp add: action_inv_def)
  obtain info pd price exp i where
    req: "keeper_RegisterAction env (Some info) (new_action env msg pd price exp) s w = Inr (i, s', w')"
    using assms(1) by (rule request_cases)
  define action where "action = new_action env msg pd price exp"
  have a: "act_Creator action = rq_Creator msg" "act_SuperNodes action = []"
    "keeper_RegisterAction env (Some info) action s w = Inr (i, s', w')"
    using req by (simp_all add: action_def new_action_def)
  from a(3) obtain creator c where r: "AccAddressFromBech32 (ae_codec env) (act_Creator action) = Some creator"
    "ae_ParseCoin env (act_Price action) = Some c" "act_ActionType action \<noteq> ActionTypeUnspecified"
    "i = dec_of_int (u64 (as_Count s + 1))"
    "s' = SetAction (action\<lparr>act_ActionID := i, act_BlockHeight := ae_BlockHeight env, act_State := ActionStatePending\<rparr>)
            (s\<lparr>as_Count := u64 (as_Count s + 1)\<rparr>)"
    "SendCoinsFromAccountToModule (ae_bank env) creator action_ModuleName (NewCoins1 (fst c) (snd c)) w = Inr w'"
    by (rule register_cases)
  let ?a = "action\<lparr>act_ActionID := i, act_BlockHeight := ae_BlockHeight env, act_State := ActionStatePending\<rparr>"
  have u: "u64 (as_Count s + 1) = as_Count s + 1" using assms(4) action_wfD(3) [OF wf] by (simp add: u64_id)
  have "creator \<noteq> escrow_addr env" using assms(5) r(1) a(1) by auto
  then have "bal w (escrow_addr env) d + open_amount env d ?a \<le> bal w' (escrow_addr env) d" for d
    using bank_lawsD(2) [OF action_lawsD(1) [OF assms(3)] r(6)] r(2)
    by (simp add: open_amount_def moved_def)
  moreover have "no_slash (act_Creator action)" using action_lawsD(5) [OF assms(3) r(1)] .
  ultimately show ?thesis
    using insert_inv [OF assms(2,4), of ?a w'] r a(2) u by (simp add: money_ok_def)
qed

section \<open>Finalization and approval\<close>

lemma create_evidence_bal: "action_laws env bal \<Longrightarrow> bal (create_evidence env su i ev tp w) = bal w"
  by (auto simp: create_evidence_def Let_def action_laws_def audit_laws_def split: option.splits)

lemma rejection_bal: "action_laws env bal \<Longrightarrow> bal (recordFinalizationRejection env a f tp ev w) = bal w"
  by (simp add: recordFinalizationRejection_def create_evidence_bal)

lemma expired_bal: "action_laws env bal \<Longrightarrow> bal (RecordActionExpired env a w) = bal w"
proof -
  assume l: "action_laws env bal"
  have "bal (fold (\<lambda>sn w. if sn_SupernodeAccount sn = [] then w
           else create_evidence env (sn_SupernodeAccount sn) (act_ActionID a) EvActionExpired tp w) sns w) = bal w" for sns tp w
    by (induction sns arbitrary: w) (simp_all add: create_evidence_bal [OF l])
  then show ?thesis by (auto simp: RecordActionExpired_def Let_def split: sum.splits)
qed

text \<open>
  What the handler and the save make of the action: rejected without change, or done with the
  finalizer as the added supernode.
\<close>

lemma finalize_handler_cases:
  assumes "handler_FinalizeAction env top10 a sn md w = Inr (newState, a1, w1)"
    and "apply_new_state env sn md newState a1 = Inr a2"
    and "act_ActionType a \<noteq> ActionTypeUnspecified" "action_laws env bal"
  shows "bal w1 = bal w \<and>
    (newState = ActionStateUnspecified \<and> a2 = a
     \<or> newState = ActionStateDone \<and> w1 = w \<and> (\<exists>m. a2 = a\<lparr>act_State := ActionStateDone, act_Metadata := m,
            act_SuperNodes := act_SuperNodes a @ [sn]\<rparr> \<and> (act_ActionType a = ActionTypeSense \<longrightarrow> m = None)))"
proof (cases "act_ActionType a = ActionTypeCascade")
  case True
  then have "newState = ActionStateUnspecified \<and> a1 = a \<and> bal w1 = bal w \<or> newState = ActionStateDone \<and> a1 = a \<and> w1 = w"
    using assms(1) rejection_bal [OF assms(4)]
    by (auto simp: handler_FinalizeAction_def Cascade_FinalizeAction_def
        split: if_splits option.splits sum.splits kad_error.splits)
  with assms(2) True show ?thesis by (auto simp: apply_new_state_def)
next
  case False
  with assms(3) have t: "act_ActionType a = ActionTypeSense" by (cases "act_ActionType a") auto
  from False assms(1) have "newState = ActionStateDone \<and> w1 = w \<and> (\<exists>st m. a1 = a\<lparr>act_State := st, act_Metadata := m\<rparr>)"
    by (cases a) (auto simp: handler_FinalizeAction_def Sense_FinalizeAction_def Let_def
        split: if_splits option.splits sum.splits kad_error.splits list.splits)
  with assms(2) t show ?thesis
    by (auto simp: apply_new_state_def handler_GetUpdatedMetadata_def Sense_GetUpdatedMetadata_def)
qed

lemma commit_bal: "commit_artifact_counts env a w = Inr w' \<Longrightarrow> action_laws env bal \<Longrightarrow> bal w' = bal w"
  by (auto simp: commit_artifact_counts_def action_laws_def audit_laws_def
      split: option.splits if_splits sum.splits prod.splits)

lemma finalize_cases:
  assumes "keeper_FinalizeAction env i sn md s w = Inr (s', w')" "action_wf s" "action_laws env bal"
  obtains (rejected) a where "GetActionByID s i = Some a" "s' = s \<or> s' = SetAction a s" "bal w' = bal w"
  | (finalized) a m w2 top10 where "GetActionByID s i = Some a" "act_State a = ActionStatePending"
      "checkFinalizerEligibility env a sn = Inr (Eligible top10)"
      "s' = SetAction (a\<lparr>act_State := ActionStateDone, act_Metadata := m, act_SuperNodes := [sn]\<rparr>) s"
      "bal w2 = bal w" "DistributeFees env i s' w2 = Inr w'"
      "act_ActionType a = ActionTypeSense \<longrightarrow> m = None"
proof -
  obtain a where a: "GetActionByID s i = Some a" "act_State a = ActionStatePending \<or> act_State a = ActionStateProcessing"
    using assms(1) by (auto simp: keeper_FinalizeAction_def split: option.splits if_splits)
  note ok = action_wfD(5) [OF assms(2) a(1)]
  have p: "act_State a = ActionStatePending" "act_SuperNodes a = []" "act_ActionType a \<noteq> ActionTypeUnspecified"
    using ok a(2) by (auto simp: act_ok_def lifecycle_ok_def)
  obtain el where el: "checkFinalizerEligibility env a sn = Inr el"
    using assms(1) a p(1) by (auto simp: keeper_FinalizeAction_def)
  show thesis
  proof (cases el)
    case (Rejected top10)
    then have "s' = s \<and> bal w' = bal w"
      using assms(1) a p(1) el rejection_bal [OF assms(3)] by (auto simp: keeper_FinalizeAction_def split: if_splits)
    with rejected a(1) show thesis by blast
  next
    case (Eligible top10)
    then obtain newState a1 w1 a2 where h: "handler_FinalizeAction env top10 a sn md w = Inr (newState, a1, w1)"
      "apply_new_state env sn md newState a1 = Inr a2" "s' = SetAction a2 s"
      "if act_State a2 = ActionStateDone then \<exists>w2. commit_artifact_counts env a2 w1 = Inr w2 \<and> DistributeFees env i s' w2 = Inr w'
       else w' = w1"
      using assms(1) a p(1) el by (auto simp: keeper_FinalizeAction_def Let_def split: if_splits)
    note hc = finalize_handler_cases [OF h(1,2) p(3) assms(3)]
    show thesis
    proof (cases "newState = ActionStateUnspecified")
      case True
      with hc h(3,4) p(1) have "s' = SetAction a s \<and> bal w' = bal w" by auto
      with rejected a(1) show thesis by blast
    next
      case False
      with hc obtain m where m: "a2 = a\<lparr>act_State := ActionStateDone, act_Metadata := m, act_SuperNodes := [sn]\<rparr>"
        "act_ActionType a = ActionTypeSense \<longrightarrow> m = None" "w1 = w" using p(2) by auto
      then obtain w2 where "commit_artifact_counts env a2 w1 = Inr w2" "DistributeFees env i s' w2 = Inr w'"
        using h(4) by auto
      with finalized [OF a(1) p(1) el [unfolded Eligible]] h(3) m commit_bal [OF _ assms(3)] show thesis by blast
    qed
  qed
qed

lemma SetAction_same_inv:
  assumes "action_inv env bal (s, w)" "GetActionByID s i = Some a" "bal w' = bal w"
  shows "action_inv env bal (SetAction a s, w') \<and> evolves s (SetAction a s)"
  using assms action_wfD(5) [of s i a] by (intro update_inv [OF assms(1,2)]) (auto simp: action_inv_def)

lemma finalize_step:
  assumes "keeper_FinalizeAction env i sn md s w = Inr (s', w')" "action_inv env bal (s, w)" "action_laws env bal"
    and "no_slash sn"
    and "0 \<le> GetRegistrationFeeShareBps (ss_params (ae_sn env))" "GetRegistrationFeeShareBps (ss_params (ae_sn env)) \<le> 10000"
  shows "action_inv env bal (s', w') \<and> evolves s s'"
proof -
  have wf: "action_wf s" using assms(2) by (simp add: action_inv_def)
  show ?thesis
    using assms(1) wf assms(3)
  proof (cases rule: finalize_cases)
    case (rejected a)
    then show ?thesis using SetAction_same_inv [OF assms(2) rejected(1,3)] assms(2) by (auto simp: action_inv_def)
  next
    case (finalized a m w2 top10)
    let ?a = "a\<lparr>act_State := ActionStateDone, act_Metadata := m, act_SuperNodes := [sn]\<rparr>"
    have ok: "act_ok (as_Count s) i a" using action_wfD(5) [OF wf finalized(1)] .
    then have id: "act_ActionID a = i" by (rule act_ok_id)
    have ok': "act_ok (as_Count s) i ?a" using ok assms(4) by (auto simp: act_ok_def lifecycle_ok_def)
    obtain price where price: "ae_ParseCoin env (act_Price a) = Some price"
      using action_invD(2) [OF assms(2) finalized(1)] by (rule money_okE)
    have "bal w2 (escrow_addr env) d - coin_at price d \<le> bal w' (escrow_addr env) d" for d
      using distribute_bound [OF finalized(6) assms(3), of ?a price d] finalized(4) id price assms(2,5,6)
      by (simp add: action_inv_def)
    moreover have "open_amount env d a = coin_at price d" "open_amount env d ?a = 0" for d
      using finalized(2) price by (auto simp: open_amount_def coin_at_def)
    ultimately show ?thesis
      using update_inv [OF assms(2) finalized(1) _ ok', of w'] finalized(2,4,5) by (auto simp: evolve_def)
  qed
qed

lemma approve_step:
  assumes "keeper_ApproveAction i creator s = Inr s'" "action_inv env bal (s, w)"
  shows "action_inv env bal (s', w) \<and> evolves s s'
    \<and> (\<exists>a. GetActionByID s i = Some a \<and> act_State a = ActionStateDone \<and> act_Creator a = creator)"
proof -
  have wf: "action_wf s" using assms(2) by (simp add: action_inv_def)
  obtain a where a: "GetActionByID s i = Some a" "act_State a = ActionStateDone" "act_Creator a = creator"
    "s' = SetAction (a\<lparr>act_State := ActionStateApproved\<rparr>) s"
    using assms(1) by (auto simp: keeper_ApproveAction_def split: option.splits if_splits)
  have "act_ok (as_Count s) i (a\<lparr>act_State := ActionStateApproved\<rparr>)"
    using action_wfD(5) [OF wf a(1)] a(2) by (auto simp: act_ok_def lifecycle_ok_def)
  with update_inv [OF assms(2) a(1) _ this, of w] a show ?thesis
    by (auto simp: evolve_def open_amount_def)
qed

section \<open>Expiration\<close>

definition due :: "int \<Rightarrow> action \<Rightarrow> bool" where
  "due now a \<longleftrightarrow> act_ExpirationTime a \<noteq> 0 \<and> act_ExpirationTime a \<le> now"

text \<open>
  The bank pays an amount the module account covers to every recipient it does not block, and to no
  other: \<open>blocked\<close> stands for the block list of the bank (app/app\_config.go) and its send restrictions
  (app/app.go). An action is refundable when its creator is not blocked or nothing is to be paid.
\<close>

definition refund_live :: "'w action_env \<Rightarrow> ('w \<Rightarrow> bytes \<Rightarrow> string \<Rightarrow> int) \<Rightarrow> (bytes \<Rightarrow> bool) \<Rightarrow> bool" where
  "refund_live env bal blocked \<longleftrightarrow>
     (\<forall>addr x n w. 0 < n \<longrightarrow> n \<le> bal w (escrow_addr env) x \<longrightarrow>
        (is_ok (SendCoinsFromModuleToAccount (ae_bank env) action_ModuleName addr (NewCoins1 x n) w) \<longleftrightarrow> \<not> blocked addr))"

definition refundable :: "'w action_env \<Rightarrow> (bytes \<Rightarrow> bool) \<Rightarrow> action \<Rightarrow> bool" where
  "refundable env blocked a \<longleftrightarrow> (\<exists>c p. AccAddressFromBech32 (ae_codec env) (act_Creator a) = Some c
     \<and> ae_ParseCoin env (act_Price a) = Some p \<and> (snd p = 0 \<or> \<not> blocked c))"

text \<open>What the module holds for the open actions of one creator, and how refunds settle it.\<close>

definition owed :: "'w action_env \<Rightarrow> bytes \<Rightarrow> string \<Rightarrow> action_store \<Rightarrow> int" where
  "owed env x d s =
     kv_sum (\<lambda>a. if AccAddressFromBech32 (ae_codec env) (act_Creator a) = Some x then open_amount env d a else 0) (as_Actions s)"

definition settled ::
    "'w action_env \<Rightarrow> ('w \<Rightarrow> bytes \<Rightarrow> string \<Rightarrow> int) \<Rightarrow> action_store \<times> 'w \<Rightarrow> action_store \<times> 'w \<Rightarrow> bool" where
  "settled env bal sw sw' \<longleftrightarrow> (\<forall>x d. bal (snd sw') x d = bal (snd sw) x d + (owed env x d (fst sw) - owed env x d (fst sw'))
     - (if x = escrow_addr env then escrow_total env d (fst sw) - escrow_total env d (fst sw') else 0))"

lemma settled_refl [simp]: "settled env bal sw sw"
  by (simp add: settled_def)

lemma settled_trans: "settled env bal sw sw1 \<Longrightarrow> settled env bal sw1 sw' \<Longrightarrow> settled env bal sw sw'"
  by (simp add: settled_def)

lemma owed_SetAction:
  assumes "action_wf s" "GetActionByID s (act_ActionID a) = Some b" "act_Creator b = act_Creator a"
  shows "owed env x d (SetAction a s) = owed env x d s
    + (if AccAddressFromBech32 (ae_codec env) (act_Creator a) = Some x then open_amount env d a - open_amount env d b else 0)"
  using kv_sum_set [OF action_wfD(1) [OF assms(1)]] assms(2,3)
  by (simp add: owed_def SetAction_def Let_def GetActionByID_def)

lemma expire_one_cases:
  assumes "expire_one env now i (s, w) = (s', w')" "action_inv env bal (s, w)" "action_laws env bal"
    and "GetActionByID s i = Some a" "act_State a = ActionStatePending"
  shows "action_inv env bal (s', w') \<and> evolves s s' \<and> settled env bal (s, w) (s', w')
    \<and> (s' = s \<or> due now a \<and> s' = SetAction (a\<lparr>act_State := ActionStateExpired\<rparr>) s)
    \<and> (refund_live env bal blocked \<longrightarrow>
        s' = (if due now a \<and> refundable env blocked a then SetAction (a\<lparr>act_State := ActionStateExpired\<rparr>) s else s))"
proof -
  let ?a = "a\<lparr>act_State := ActionStateExpired\<rparr>"
  note wf = action_invD(1) [OF assms(2)]
  obtain creator price where m: "AccAddressFromBech32 (ae_codec env) (act_Creator a) = Some creator"
    "ae_ParseCoin env (act_Price a) = Some price" using action_invD(2) [OF assms(2,4)] by (rule money_okE)
  have pos: "0 \<le> snd price" using coin_lawsD(1) [OF action_lawsD(3) [OF assms(3)] m(2)] .
  have oa: "open_amount env d a = coin_at price d" "open_amount env d ?a = 0" for d
    using assms(5) m(2) by (auto simp: open_amount_def coin_at_def)
  have ok: "act_ok (as_Count s) i ?a"
    using action_wfD(5) [OF wf assms(4)] assms(5) by (auto simp: act_ok_def lifecycle_ok_def)
  have upd: "action_inv env bal (SetAction ?a s, RecordActionExpired env ?a w1) \<and> evolves s (SetAction ?a s)"
    if "\<And>d. bal w (escrow_addr env) d - coin_at price d \<le> bal w1 (escrow_addr env) d" for w1
    using that assms(5) expired_bal [OF assms(3)] oa
    by (intro update_inv [OF assms(2,4) _ ok]) (auto simp: evolve_def)
  have id: "act_ActionID a = i" using action_wfD(5) [OF wf assms(4)] by (rule act_ok_id)
  have settle: "settled env bal (s, w) (SetAction ?a s, RecordActionExpired env ?a w1)"
    if "bal w1 = moved (escrow_addr env) creator (NewCoins1 (fst price) (snd price)) (bal w)" for w1
    using owed_SetAction [OF wf, of ?a a env] escrow_total_SetAction [OF wf, of env _ ?a] assms(4) id oa m(1)
    by (auto simp: settled_def expired_bal [OF assms(3)] that moved_def coin_at_def)
  have covered: "snd price \<le> bal w (escrow_addr env) (fst price)"
    using escrow_total_ge [OF wf action_lawsD(3) [OF assms(3)] assms(4), of "fst price"] oa(1)
      action_invD(3) [OF assms(2), of "fst price"] by (simp add: coin_at_def)
  have rf: "refundable env blocked a \<longleftrightarrow> snd price = 0 \<or> \<not> blocked creator" using m by (simp add: refundable_def)
  let ?send = "SendCoinsFromModuleToAccount (ae_bank env) action_ModuleName creator (NewCoins1 (fst price) (snd price)) w"
  consider (skip) "\<not> due now a" | (free) "due now a" "snd price = 0" | (failed) e where "due now a" "snd price \<noteq> 0" "?send = Inl e"
    | (refund) w1 where "due now a" "snd price \<noteq> 0" "?send = Inr w1" by (cases ?send) auto
  then show ?thesis
  proof cases
    case skip
    then show ?thesis using assms(1,2,4) by (auto simp: expire_one_def due_def)
  next
    case free
    then have "(s', w') = (SetAction ?a s, RecordActionExpired env ?a w)"
      using assms(1,4) m by (auto simp: expire_one_def due_def Let_def)
    moreover have "settled env bal (s, w) (SetAction ?a s, RecordActionExpired env ?a w)"
      using free by (intro settle) (simp add: fun_eq_iff moved_def NewCoins1_def AmountOf_def)
    ultimately show ?thesis using upd [of w] free rf by (auto simp: coin_at_def)
  next
    case failed
    have "blocked creator" if "refund_live env bal blocked"
      using that failed(2,3) pos covered unfolding refund_live_def by (metis is_ok_simps(1) order_le_less)
    with failed rf show ?thesis using assms(1,2,4) m by (auto simp: expire_one_def due_def Let_def)
  next
    case refund
    have "bal w (escrow_addr env) d - coin_at price d \<le> bal w1 (escrow_addr env) d" for d
      using moved_ge [of "NewCoins1 (fst price) (snd price)" "bal w" "escrow_addr env" d creator] pos
        bank_lawsD(1) [OF action_lawsD(1) [OF assms(3)] refund(3)] by (simp add: coin_at_def split: if_splits)
    note u = upd [OF this]
    have "(s', w') = (SetAction ?a s, RecordActionExpired env ?a w1)"
      using assms(1,4) m refund by (auto simp: expire_one_def due_def Let_def)
    moreover have "\<not> blocked creator" if "refund_live env bal blocked"
      using that refund(2,3) pos covered unfolding refund_live_def by (metis is_ok_simps(2) order_le_less)
    ultimately show ?thesis
      using u refund rf settle [OF bank_lawsD(1) [OF action_lawsD(1) [OF assms(3)] refund(3)]] by auto
  qed
qed

text \<open>The outcome of a pass over identifiers of pending actions.\<close>

definition expire_outcome ::
    "'w action_env \<Rightarrow> ('w \<Rightarrow> bytes \<Rightarrow> string \<Rightarrow> int) \<Rightarrow> (bytes \<Rightarrow> bool) \<Rightarrow> int \<Rightarrow> action \<Rightarrow> action option \<Rightarrow> bool" where
  "expire_outcome env bal blocked now a x \<longleftrightarrow>
     (x = Some a \<or> due now a \<and> x = Some (a\<lparr>act_State := ActionStateExpired\<rparr>))
   \<and> (refund_live env bal blocked \<longrightarrow> x = Some (if due now a \<and> refundable env blocked a then a\<lparr>act_State := ActionStateExpired\<rparr> else a))"

lemma expire_fold:
  assumes "fold (expire_one env now) ids (s, w) = (s', w')" "distinct ids" "action_inv env bal (s, w)" "action_laws env bal"
    and "\<And>i. i \<in> set ids \<Longrightarrow> \<exists>a. GetActionByID s i = Some a \<and> act_State a = ActionStatePending"
  shows "action_inv env bal (s', w') \<and> as_Count s' = as_Count s \<and> settled env bal (s, w) (s', w')
    \<and> (\<forall>i. i \<notin> set ids \<longrightarrow> GetActionByID s' i = GetActionByID s i)
    \<and> (\<forall>i a. i \<in> set ids \<longrightarrow> GetActionByID s i = Some a \<longrightarrow> expire_outcome env bal blocked now a (GetActionByID s' i))"
  using assms
proof (induction ids arbitrary: s w)
  case Nil
  then show ?case by simp
next
  case (Cons j ids)
  obtain b where b: "GetActionByID s j = Some b" "act_State b = ActionStatePending" using Cons.prems(5) by force
  obtain s1 w1 where e: "expire_one env now j (s, w) = (s1, w1)" by (cases "expire_one env now j (s, w)")
  note c = expire_one_cases [OF e Cons.prems(3,4) b, where blocked = blocked]
  have id: "act_ActionID b = j"
    using action_wfD(5) [OF action_invD(1) [OF Cons.prems(3)] b(1)] by (rule act_ok_id)
  have get1: "GetActionByID s1 i = GetActionByID s i" if "i \<noteq> j" for i using c that id by auto
  have cnt: "as_Count s1 = as_Count s" using c by auto
  have j: "j \<notin> set ids" using Cons.prems(2) by simp
  have pend: "\<exists>a. GetActionByID s1 i = Some a \<and> act_State a = ActionStatePending" if "i \<in> set ids" for i
    using Cons.prems(5) get1 that j by (metis list.set_intros(2))
  have f: "fold (expire_one env now) ids (s1, w1) = (s', w')" using Cons.prems(1) e by simp
  have "distinct ids" "action_inv env bal (s1, w1)" using Cons.prems(2) c by simp_all
  note ih = Cons.IH [OF f this Cons.prems(4) pend]
  have "expire_outcome env bal blocked now b (GetActionByID s1 j)" using c b(1) id by (auto simp: expire_outcome_def)
  moreover have "GetActionByID s' j = GetActionByID s1 j" using ih j by blast
  ultimately have out: "expire_outcome env bal blocked now a (GetActionByID s' i)"
    if "i \<in> set (j # ids)" "GetActionByID s i = Some a" for i a
    using ih that b(1) get1 by (cases "i = j") auto
  have "GetActionByID s' i = GetActionByID s i" if "i \<notin> set (j # ids)" for i using ih that get1 by simp
  moreover have "settled env bal (s, w) (s', w')" using c ih settled_trans by blast
  ultimately show ?case using out ih cnt by simp
qed

lemma pending_ids:
  assumes "action_wf s"
  shows "i \<in> set (index_ids s (ActionByStatePrefix @ ActionState_String st @ ''/'')) \<longleftrightarrow>
    (\<exists>a. GetActionByID s i = Some a \<and> act_State a = st)"
proof -
  have "ActionState_String st = ActionState_String st' \<longleftrightarrow> st = st'" for st'
    by (cases st; cases st') (simp_all add: ActionState_String_def)
  then show ?thesis
    using index_ids_iff [OF assms, of ActionByStatePrefix i "ActionState_String st"]
    by (auto simp: index_prefixes_def)
qed

lemma processing_empty:
  assumes "action_wf s"
  shows "index_ids s (ActionByStatePrefix @ ActionState_String ActionStateProcessing @ ''/'') = []"
proof -
  have "act_State a \<noteq> ActionStateProcessing" if "GetActionByID s i = Some a" for i a
    using action_wfD(5) [OF assms that] by (auto simp: act_ok_def lifecycle_ok_def)
  then have "set (index_ids s (ActionByStatePrefix @ ActionState_String ActionStateProcessing @ ''/'')) = {}"
    using pending_ids [OF assms, of _ ActionStateProcessing] by (metis equals0I)
  then show ?thesis by simp
qed

lemma end_block_step:
  assumes "action_EndBlocker env (s, w) = (s', w')" "action_inv env bal (s, w)" "action_laws env bal"
  shows "action_inv env bal (s', w') \<and> as_Count s' = as_Count s \<and> settled env bal (s, w) (s', w')
    \<and> (\<forall>i. (\<nexists>a. GetActionByID s i = Some a \<and> act_State a = ActionStatePending) \<longrightarrow> GetActionByID s' i = GetActionByID s i)
    \<and> (\<forall>i a. GetActionByID s i = Some a \<longrightarrow> act_State a = ActionStatePending \<longrightarrow>
         expire_outcome env bal blocked (ae_BlockTime env) a (GetActionByID s' i))"
proof -
  let ?ids = "index_ids s (ActionByStatePrefix @ ActionState_String ActionStatePending @ ''/'')"
  note wf = action_invD(1) [OF assms(2)]
  obtain s1 w1 where f: "fold (expire_one env (ae_BlockTime env)) ?ids (s, w) = (s1, w1)"
    by (cases "fold (expire_one env (ae_BlockTime env)) ?ids (s, w)")
  note ids = pending_ids [OF wf, of _ ActionStatePending]
  have pend: "\<exists>a. GetActionByID s i = Some a \<and> act_State a = ActionStatePending" if "i \<in> set ?ids" for i
    using that by (simp only: ids)
  note ef = expire_fold [OF f distinct_index_ids [OF wf] assms(2,3) pend, where blocked = blocked]
  have e: "action_inv env bal (s1, w1)" "as_Count s1 = as_Count s" "settled env bal (s, w) (s1, w1)"
    "\<forall>i. i \<notin> set ?ids \<longrightarrow> GetActionByID s1 i = GetActionByID s i"
    "\<forall>i a. i \<in> set ?ids \<longrightarrow> GetActionByID s i = Some a \<longrightarrow> expire_outcome env bal blocked (ae_BlockTime env) a (GetActionByID s1 i)"
    using ef by blast+
  have "action_wf s1" using e(1) by (rule action_invD)
  then have "(s', w') = (s1, w1)"
    using assms(1) f processing_empty
    by (simp add: action_EndBlocker_def CheckExpiration_def processExpiredActionsInState_def)
  with e show ?thesis unfolding ids by simp
qed

lemma end_block_evolves:
  assumes "action_EndBlocker env (s, w) = (s', w')" "action_inv env bal (s, w)" "action_laws env bal"
  shows "evolves s s'"
proof -
  note e = end_block_step [OF assms]
  have "\<exists>a'. GetActionByID s' i = Some a' \<and> evolve a a'" if a: "GetActionByID s i = Some a" for i a
  proof (cases "act_State a = ActionStatePending")
    case True
    with e a show ?thesis by (fastforce simp: expire_outcome_def evolve_def)
  next
    case False
    with e a show ?thesis by (metis evolve_refl option.inject)
  qed
  moreover have "GetActionByID s' i = None" if "GetActionByID s i = None" for i using e that by force
  ultimately show ?thesis using e by (simp add: evolves_def)
qed

section \<open>Every step\<close>

lemma validate_shares:
  assumes "action_Params_Validate env p = Inr ()"
  shows "shares_ok env p"
  using assms
  by (auto simp: action_Params_Validate_def shares_ok_def validateDecString_def split: option.splits if_splits)

lemma shares_SetParams:
  "shares_ok env p \<Longrightarrow> shares_ok env (action_GetParams (action_SetParams p s))"
  by (simp add: shares_ok_def action_GetParams_def action_SetParams_def action_WithDefaults_def Let_def)

lemma SetParams_frame [simp]:
  "GetActionByID (action_SetParams p s) i = GetActionByID s i" "as_Count (action_SetParams p s) = as_Count s"
  "escrow_total env d (action_SetParams p s) = escrow_total env d s" "action_wf (action_SetParams p s) \<longleftrightarrow> action_wf s"
  by (simp_all add: action_SetParams_def GetActionByID_def escrow_total_def)

lemma exec_step:
  assumes "action_exec env op sw = Inr sw'" "action_inv env bal sw" "action_laws env bal" "step_ok env op (fst sw)"
  shows "action_inv env bal sw' \<and> evolves (fst sw) (fst sw')"
proof -
  obtain s w s' w' where sw: "sw = (s, w)" "sw' = (s', w')" by (cases sw; cases sw')
  note inv = assms(2) [unfolded sw]
  have bps: "0 \<le> GetRegistrationFeeShareBps (ss_params (ae_sn env))" "GetRegistrationFeeShareBps (ss_params (ae_sn env)) \<le> 10000"
    using assms(4) by (auto simp: step_ok_def)
  show ?thesis
  proof (cases op)
    case (OpRequestAction msg)
    with assms(1,4) show ?thesis
      using request_step [OF _ inv assms(3)] by (auto simp: sw action_exec_def step_ok_def)
  next
    case (OpFinalizeAction msg)
    from assms(1) have v: "MsgFinalizeAction_ValidateBasic env msg = Inr ()" and f: "msg_FinalizeAction env msg s w = Inr (s', w')"
      by (auto simp: sw OpFinalizeAction action_exec_def)
    obtain md where k: "keeper_FinalizeAction env (fz_ActionId msg) (fz_Creator msg) md s w = Inr (s', w')"
      using f by (auto simp: msg_FinalizeAction_def split: sum.splits)
    obtain a where "AccAddressFromBech32 (ae_codec env) (fz_Creator msg) = Some a"
      using v by (auto simp: MsgFinalizeAction_ValidateBasic_def split: if_splits)
    from finalize_step [OF k inv assms(3) action_lawsD(5) [OF assms(3) this] bps] show ?thesis by (simp add: sw)
  next
    case (OpApproveAction msg)
    with assms(1) have "keeper_ApproveAction (pv_ActionId msg) (pv_Creator msg) s = Inr s'" "w' = w"
      by (auto simp: sw action_exec_def msg_ApproveAction_def split: sum.splits)
    with approve_step [OF _ inv] show ?thesis by (auto simp: sw)
  next
    case (OpActionParams authority p)
    with assms(1) have s': "s' = action_SetParams p s" "w' = w"
      by (auto simp: sw action_exec_def action_UpdateParams_def split: option.splits if_splits)
    have "shares_ok env p" using assms(4) by (intro validate_shares) (simp add: OpActionParams step_ok_def)
    with inv s' shares_SetParams show ?thesis by (auto simp: sw action_inv_def evolves_def)
  next
    case OpActionEndBlock
    with assms(1) have e: "action_EndBlocker env (s, w) = (s', w')" by (simp add: sw action_exec_def)
    from end_block_step [OF e inv assms(3)] end_block_evolves [OF e inv assms(3)] show ?thesis by (simp add: sw)
  qed
qed

lemma genesis_inv:
  assumes "action_InitGenesis E p action_empty w = Inr sw" "\<And>d. 0 \<le> bal w (escrow_addr E) d" "account_laws (ae_auth E) bal"
  shows "action_inv E bal sw"
proof -
  obtain w' where v: "action_Params_Validate E p = Inr ()" "sw = (action_SetParams p action_empty, w')" "bal w' = bal w"
    using assms(1,3)
    by (auto simp: action_InitGenesis_def Let_def account_laws_def split: sum.splits prod.splits if_splits)
      (metis snd_conv)+
  have "escrow_total E d action_empty = 0" "GetActionByID action_empty i = None" for d i
    by (simp_all add: escrow_total_def action_empty_def GetActionByID_def)
  with v assms(2) shares_SetParams [OF validate_shares [OF v(1)]] show ?thesis by (simp add: action_inv_def)
qed

lemma reachable_inv:
  assumes "action_reachable E bal sw" "action_laws E bal"
  shows "action_inv E bal sw"
  using assms
proof (induction rule: action_reachable.induct)
  case (init p w sw)
  from genesis_inv [OF init.hyps action_lawsD(2) [OF init.prems]] show ?case .
next
  case (exec sw env sn h t r op sw')
  then have "action_inv env bal sw" "action_laws env bal" by simp_all
  with exec_step [OF exec.hyps(4) this exec.hyps(3)] exec.hyps(2) show ?case by simp
next
  case (other s w w')
  then show ?case by (auto simp: action_inv_def) (meson order_trans)
qed

end
