(* ===== verification/Action_Example.thy ===== *)
theory Action_Example
  imports Action_Escrow
begin

text \<open>
  A concrete environment of the action module: a ledger, a registered supernode, a Cascade request and
  its finalization. The laws of the histories hold of it, so that their properties apply.
\<close>

section \<open>Environment, messages and states\<close>

definition slash_codec :: addr_codec where
  "slash_codec = plain_codec\<lparr>AccAddressFromBech32 :=
     (\<lambda>a. if a = [] \<or> CHR ''/'' \<in> set a then None else Some (bytes_of_string a))\<rparr>"

definition ex_ParseCoin :: "string \<Rightarrow> coin option" where
  "ex_ParseCoin s =
     (let ds = takeWhile is_digit s; x = dropWhile is_digit s
      in if ds = [] \<or> x = [] then None else Some (x, int_of_dec ds))"

definition ex_DecFromStr :: "string \<Rightarrow> int option" where
  "ex_DecFromStr s =
     (if s = ''1.000000000000000000'' then Some (10 ^ 18)
      else if s = ''0.000000000000000000'' then Some 0 else None)"

definition ex_request_meta :: cascade_metadata where
  "ex_request_meta = empty_cascade\<lparr>cm_DataHash := ''h'', cm_FileName := ''f'', cm_RqIdsIc := 1, cm_RqIdsMax := 1,
     cm_Signatures := ''d.s''\<rparr>"

definition ex_final_meta :: cascade_metadata where
  "ex_final_meta = empty_cascade\<lparr>cm_RqIdsIds := [projr (CreateKademliaID ex_kad ''d.s'' 1)],
     cm_IndexArtifactCount := 1, cm_SymbolArtifactCount := 1\<rparr>"

definition ex_cascade_decode :: "bytes \<Rightarrow> cascade_metadata option" where
  "ex_cascade_decode b = (if b = [1] then Some ex_request_meta else if b = [2] then Some ex_final_meta else None)"

definition ex_sense_meta :: sense_metadata where
  "ex_sense_meta = empty_sense\<lparr>sm_DataHash := ''h'', sm_DdAndFingerprintsIc := 1, sm_DdAndFingerprintsMax := 1,
     sm_DdAndFingerprintsIds := [projr (CreateKademliaID ex_kad ''d.a.b.c'' 1)], sm_Signatures := ''d.a.b.c''\<rparr>"

definition ex_act_sn :: sn_store where
  "ex_act_sn = sn_empty\<lparr>ss_supernodes := [(ex_val, (new_supernode ex_sn_env ex_register)\<lparr>sn_Note := DefaultVersion, sn_P2PPort := DefaultP2PPort\<rparr>)], ss_accounts := [(''acc'', ex_val)]\<rparr>"

definition ex_env :: "ledger action_env" where
  "ex_env = \<lparr>
     ae_codec = slash_codec, ae_bank = ledger_bank, ae_auth = ledger_accounts,
     ae_audit = Some \<lparr>ak_CreateEvidence = (\<lambda>_ _ _ _ _ w. Some w), ak_SetTicketArtifactCounts = (\<lambda>_ _ _ w. Some w)\<rparr>,
     ae_FundCommunityPool = (\<lambda>cs a w. case lg_move a (module_address ''distribution'') cs w of Inl _ \<Rightarrow> None | Inr w' \<Rightarrow> Some w'),
     ae_PubKey = (\<lambda>_ a. Some a), ae_VerifySig = (\<lambda>_ _ _ _. True),
     ae_ParseCoin = ex_ParseCoin, ae_CoinString = (\<lambda>c. dec_of_int (snd c) @ fst c), ae_CoinValid = (\<lambda>c. 0 \<le> snd c),
     ae_DecFromStr = ex_DecFromStr, ae_DecMul = (\<lambda>a b. a * b div 10 ^ 18),
     ae_cascade_std_json = (\<lambda>s. Some (if s = ''r'' then ex_request_meta else ex_final_meta)),
     ae_cascade_json = (\<lambda>s. Some (if s = ''r'' then ex_request_meta else ex_final_meta)),
     ae_cascade_unmarshal = ex_cascade_decode,
     ae_cascade_marshal = (\<lambda>m. if cm_RqIdsIds m = [] then [1] else [2]),
     ae_sense_std_json = (\<lambda>_. Some ex_sense_meta), ae_sense_json = (\<lambda>_. Some ex_sense_meta),
     ae_sense_unmarshal = (\<lambda>_. Some ex_sense_meta), ae_sense_marshal = (\<lambda>_. [3]),
     ae_kad = ex_kad, ae_authority = [], ae_reward = True, ae_sn = ex_act_sn,
     ae_BlockHeight = 0, ae_BlockTime = 0, ae_random = 0, ae_map_order = (\<lambda>xs. xs)\<rparr>"

definition ex_alice :: bytes where
  "ex_alice = bytes_of_string ''alice''"

definition ex_ledger :: ledger where
  "ex_ledger = \<lparr>lg_bal = [((ex_alice, ''ulume''), 50000)], lg_acc = [(ex_alice, BaseAccount ex_alice)]\<rparr>"

definition ex_genesis :: action_params where
  "ex_genesis = action_DefaultParams\<lparr>ap_MaxRaptorQSymbols := 1, ap_MaxDdAndFingerprints := 1\<rparr>"

definition ex_block :: "int \<Rightarrow> ledger action_env" where
  "ex_block t = block_env ex_env ex_act_sn 7 t 0"

definition ex_request :: msg_request_action where
  "ex_request = \<lparr>rq_Creator = ''alice'', rq_ActionType = ''cascade'', rq_Metadata = ''r'', rq_Price = ''20000ulume'',
     rq_ExpirationTime = ''100000'', rq_FileSizeKbs = ''12'', rq_AppPubkey = []\<rparr>"

definition ex_finalize :: msg_finalize_action where
  "ex_finalize = \<lparr>fz_Creator = ''acc'', fz_ActionId = ''1'', fz_ActionType = ''CASCADE'', fz_Metadata = ''f''\<rparr>"

definition ex_state0 :: "action_store \<times> ledger" where
  "ex_state0 = (action_empty\<lparr>as_Params := Some ex_genesis\<rparr>, ex_ledger)"

definition ex_action :: action where
  "ex_action = \<lparr>act_Creator = ''alice'', act_ActionID = ''1'', act_ActionType = ActionTypeCascade, act_Metadata = Some [1],
     act_Price = ''20000ulume'', act_ExpirationTime = 100000, act_State = ActionStatePending, act_BlockHeight = 7,
     act_SuperNodes = [], act_FileSizeKbs = 12, act_AppPubkey = []\<rparr>"

definition ex_done :: action where
  "ex_done = ex_action\<lparr>act_State := ActionStateDone, act_Metadata := Some [2], act_SuperNodes := [''acc'']\<rparr>"

definition ex_store1 :: action_store where
  "ex_store1 = SetAction ex_action (action_empty\<lparr>as_Params := Some ex_genesis, as_Count := 1\<rparr>)"

definition ex_ledger1 :: ledger where
  "ex_ledger1 = projr (lg_move ex_alice (module_address ''action'') [(''ulume'', 20000)] ex_ledger)"

lemma ex_state0: "action_InitGenesis ex_env ex_genesis action_empty ex_ledger = Inr ex_state0"
  by code_simp

lemma ex_state1: "action_exec (ex_block 1000) (OpRequestAction ex_request) ex_state0 = Inr (ex_store1, ex_ledger1)"
  by code_simp

definition ex_ledger2 :: ledger where
  "ex_ledger2 = projr (bindR (lg_move (module_address ''action'') (module_address ''supernode'') [(''ulume'', 400)] ex_ledger1)
     (lg_move (module_address ''action'') (bytes_of_string ''acc'') [(''ulume'', 19600)]))"

lemma ex_action_sel [simp]: "act_State ex_action = ActionStatePending" "act_ActionType ex_action = ActionTypeCascade"
  "act_State ex_done = ActionStateDone" "act_ActionID ex_action = ''1''" "act_ActionID ex_done = ''1''"
  by (simp_all add: ex_action_def ex_done_def)

lemma ex_get1: "GetActionByID ex_store1 ''1'' = Some ex_action"
  by (simp add: ex_store1_def ex_action_def)

lemma ex_eligible: "checkFinalizerEligibility (ex_block 2000) ex_action ''acc'' = Inr (Eligible [''val''])"
  by code_simp

lemma ex_kademlia: "VerifyKademliaIDs ex_kad 0 [projr (CreateKademliaID ex_kad ''d.s'' 1)] ''d.s'' 1 1 = Inr ()"
  by code_simp

lemma ex_block_sel [simp]:
  "ae_cascade_unmarshal (ex_block t) = ex_cascade_decode" "ae_kad (ex_block t) = ex_kad" "ae_random (ex_block t) = 0"
  "ae_cascade_marshal (ex_block t) = (\<lambda>m. if cm_RqIdsIds m = [] then [1] else [2])"
  "ae_audit (ex_block t) =
     Some \<lparr>ak_CreateEvidence = (\<lambda>_ _ _ _ _ w. Some w), ak_SetTicketArtifactCounts = (\<lambda>_ _ _ w. Some w)\<rparr>"
  by (simp_all add: ex_block_def block_env_def ex_env_def)

lemma ex_handler:
  "handler_FinalizeAction (ex_block 2000) tp ex_action ''acc'' [2] w = Inr (ActionStateDone, ex_action, w)"
  using ex_kademlia
  by (simp add: handler_FinalizeAction_def Cascade_FinalizeAction_def ex_action_def raw_def ex_cascade_decode_def
      ex_request_meta_def ex_final_meta_def empty_cascade_def VerifyChunkProofs_def)

lemma ex_apply: "apply_new_state (ex_block 2000) ''acc'' [2] ActionStateDone ex_action = Inr ex_done"
  by (simp add: apply_new_state_def handler_GetUpdatedMetadata_def Cascade_GetUpdatedMetadata_def ex_action_def ex_done_def
      raw_def ex_cascade_decode_def ex_request_meta_def ex_final_meta_def empty_cascade_def
      CascadeArtifactCountsWithFallbackStrict_def)

lemma ex_commit: "commit_artifact_counts (ex_block 2000) ex_done w = Inr w"
  by (simp add: commit_artifact_counts_def ex_done_def ex_action_def raw_def ex_cascade_decode_def ex_final_meta_def
      empty_cascade_def CascadeArtifactCountsWithFallbackStrict_def u32_def)

lemma ex_distribute: "DistributeFees (ex_block 2000) ''1'' (SetAction ex_done ex_store1) ex_ledger1 = Inr ex_ledger2"
  by code_simp

lemma ex_finalized: "keeper_FinalizeAction (ex_block 2000) ''1'' ''acc'' [2] ex_store1 ex_ledger1
    = Inr (SetAction ex_done ex_store1, ex_ledger2)"
  by (simp add: keeper_FinalizeAction_def ex_get1 ex_eligible ex_handler ex_apply ex_commit ex_distribute GetHandler_def Let_def)

lemma ex_validate_finalize: "MsgFinalizeAction_ValidateBasic (ex_block 2000) ex_finalize = Inr ()"
  by code_simp

lemma ex_process_finalize: "handler_Process (ex_block 2000) ActionTypeCascade ''f'' MsgTypeFinalize None = Inr [2]"
  by code_simp

lemma ex_state2: "action_exec (ex_block 2000) (OpFinalizeAction ex_finalize) (ex_store1, ex_ledger1)
    = Inr (SetAction ex_done ex_store1, ex_ledger2)"
proof -
  have "parsed_type ''CASCADE'' = ActionTypeCascade" by code_simp
  then have "msg_FinalizeAction (ex_block 2000) ex_finalize ex_store1 ex_ledger1 = Inr (SetAction ex_done ex_store1, ex_ledger2)"
    by (simp add: msg_FinalizeAction_def ex_finalize_def GetHandler_def ex_process_finalize ex_finalized)
  then show ?thesis by (simp add: action_exec_def ex_validate_finalize)
qed

section \<open>The laws hold of the concrete environment\<close>

lemma is_digit_hd_split:
  assumes "x \<noteq> []" "\<not> is_digit (hd x)" "\<forall>c \<in> set ds. is_digit c"
  shows "takeWhile is_digit (ds @ x) = ds" "dropWhile is_digit (ds @ x) = x"
  using assms by (cases x; simp add: takeWhile_append dropWhile_append)+

lemma ex_parse_print:
  assumes "ex_ParseCoin s = Some c" "0 \<le> n"
  shows "ex_ParseCoin (dec_of_int n @ fst c) = Some (fst c, n)"
proof -
  have x: "fst c \<noteq> []" "\<not> is_digit (hd (fst c))"
    using assms(1) hd_dropWhile [of is_digit s] by (auto simp: ex_ParseCoin_def Let_def split: if_splits)
  have d: "\<forall>c \<in> set (dec_of_int n). is_digit c" "dec_of_int n \<noteq> []"
    using assms(2) dec_of_nat_digits by (auto simp: dec_of_int_def)
  have "int_of_dec (dec_of_int n) = n" using assms(2) by (simp add: int_of_dec_nat dec_of_int_def)
  with is_digit_hd_split [OF x d(1)] d(2) x(1) show ?thesis by (simp add: ex_ParseCoin_def)
qed

lemma ex_laws: "action_laws ex_env lg_balance"
proof -
  have "0 \<le> snd c" if "ex_ParseCoin s = Some c" for s c
    using that by (auto simp: ex_ParseCoin_def Let_def int_of_dec_nat split: if_splits)
  then have "coin_laws ex_env"
    using ex_parse_print by (auto simp: coin_laws_def ex_env_def)
  moreover have "\<exists>pool. lg_balance w' = moved a pool cs (lg_balance w)"
    if "(case lg_move a (module_address ''distribution'') cs w of Inl _ \<Rightarrow> None | Inr w' \<Rightarrow> Some w') = Some w'" for cs a w w'
    using that by (intro exI [of _ "module_address ''distribution''"])
      (auto simp: lg_move_def moved_def lg_balance_add_all fun_eq_iff split: if_splits)
  ultimately show ?thesis
    by (auto simp: action_laws_def audit_laws_def ex_env_def slash_codec_def no_slash_def ledger_bank_laws
        ledger_account_laws split: if_splits)
qed

lemma ex_bps: "GetRegistrationFeeShareBps (ss_params ex_act_sn) = 200"
  by code_simp

lemma ex_reachable0: "action_reachable ex_env lg_balance ex_state0"
proof -
  have "0 \<le> lg_balance ex_ledger (escrow_addr ex_env) d" for d by (simp add: lg_balance_def ex_ledger_def split: option.splits)
  then show ?thesis by (intro action_reachable.init [OF ex_state0])
qed

lemma ex_step1_ok: "step_ok (ex_block 1000) (OpRequestAction ex_request) (fst ex_state0)"
proof -
  have "bytes_of_string ''alice'' \<noteq> module_address ''action''" by code_simp
  then show ?thesis
    by (simp add: step_ok_def ex_block_def ex_bps ex_env_def ledger_bank_def slash_codec_def ex_request_def
        action_ModuleName_def ex_state0_def action_empty_def)
qed

lemma ex_reachable1: "action_reachable ex_env lg_balance (ex_store1, ex_ledger1)"
  by (rule action_reachable.exec [OF ex_reachable0 ex_block_def ex_step1_ok ex_state1])

lemma ex_reachable2: "action_reachable ex_env lg_balance (SetAction ex_done ex_store1, ex_ledger2)"
proof -
  have "step_ok (ex_block 2000) (OpFinalizeAction ex_finalize) (fst (ex_store1, ex_ledger1))"
    by (simp add: step_ok_def ex_block_def ex_bps)
  from action_reachable.exec [OF ex_reachable1 ex_block_def this ex_state2] show ?thesis .
qed

end
