(* ===== verification/Action_Props.thy ===== *)
theory Action_Props
  imports Action_Example
begin

text \<open>
  The properties of the action module over its histories: escrow, indexes, life cycle, registration,
  finalization by an active supernode, fee split and expiration.
\<close>

section \<open>Properties\<close>

text \<open>C1: The module account covers every open action: in every history, for every denomination, the prices
  of the actions that still wait for a supernode add up to at most the balance of the module account.\<close>

theorem action_escrow_solvent:
  assumes "action_reachable E bal (s, w)" "action_laws E bal"
  shows "0 \<le> escrow_total E d s \<and> escrow_total E d s \<le> bal w (ModuleAddr (ae_bank E) action_ModuleName) d"
proof -
  have "0 \<le> escrow_total E d s"
    unfolding escrow_total_def using open_amount_nonneg [OF action_lawsD(3) [OF assms(2)]] by (intro kv_sum_nonneg)
  with action_invD(3) [OF reachable_inv [OF assms]] show ?thesis by simp
qed

theorem action_escrow_solvent_witness:
  "escrow_total ex_env ''ulume'' ex_store1 = 20000 \<and>
   escrow_total ex_env ''ulume'' ex_store1 \<le> lg_balance ex_ledger1 (ModuleAddr (ae_bank ex_env) action_ModuleName) ''ulume''"
proof
  show "escrow_total ex_env ''ulume'' ex_store1 = 20000" by code_simp
  show "escrow_total ex_env ''ulume'' ex_store1 \<le> lg_balance ex_ledger1 (ModuleAddr (ae_bank ex_env) action_ModuleName) ''ulume''"
    using action_escrow_solvent [OF ex_reachable1 ex_laws] by blast
qed

text \<open>C12: The secondary indexes are exact: looking up a creator, a supernode or a state returns the stored
  actions with this value, all of them, each once, whatever string is asked for.\<close>

theorem action_index_exact:
  assumes "action_reachable E bal (s, w)" "action_laws E bal"
  shows "set (GetActionsByCreator s c) = {a. \<exists>i. GetActionByID s i = Some a \<and> act_Creator a = c}
    \<and> set (GetActionsBySuperNode s n) = {a. \<exists>i. GetActionByID s i = Some a \<and> n \<in> set (act_SuperNodes a)}
    \<and> set (index_ids s (ActionByStatePrefix @ ActionState_String st @ ''/'')) = {i. \<exists>a. GetActionByID s i = Some a \<and> act_State a = st}
    \<and> distinct (GetActionsByCreator s c) \<and> distinct (GetActionsBySuperNode s n)"
proof -
  note wf = action_invD(1) [OF reachable_inv [OF assms]]
  have p: "ActionByCreatorPrefix \<in> set index_prefixes" "ActionBySuperNodePrefix \<in> set index_prefixes"
    by (simp_all add: index_prefixes_def)
  note e = getActionsByIndexPrefix_exact [OF wf p(1), of c] getActionsByIndexPrefix_exact [OF wf p(2), of n]
  have "set (GetActionsByCreator s c) = {a. \<exists>i. GetActionByID s i = Some a \<and> act_Creator a = c}"
    using e(1) by (auto simp: GetActionsByCreator_def)
  moreover have "set (GetActionsBySuperNode s n) = {a. \<exists>i. GetActionByID s i = Some a \<and> n \<in> set (act_SuperNodes a)}"
    using e(3) by (simp add: GetActionsBySuperNode_def)
  moreover have "set (index_ids s (ActionByStatePrefix @ ActionState_String st @ ''/'')) =
      {i. \<exists>a. GetActionByID s i = Some a \<and> act_State a = st}"
    using pending_ids [OF wf] by blast
  ultimately show ?thesis using e(2,4) by (simp add: GetActionsByCreator_def GetActionsBySuperNode_def)
qed

theorem action_index_exact_witness: "set (GetActionsByCreator ex_store1 ''alice'') = {ex_action}"
proof -
  have get: "GetActionByID ex_store1 i = (if i = ''1'' then Some ex_action else None)" for i
    by (simp add: ex_store1_def) (simp add: GetActionByID_def action_empty_def)
  have "act_Creator ex_action = ''alice''" by (simp add: ex_action_def)
  with action_index_exact [OF ex_reachable1 ex_laws, of "''alice''"] get show ?thesis by auto
qed

text \<open>C6: The life cycle of actions. A step leaves every stored action as it is, or moves it from pending to
  expired, from pending to done with exactly one supernode, or from done to approved, and changes
  nothing else of it; a new action is pending and takes the next identifier. Stored actions are in
  no other state.\<close>

theorem action_lifecycle:
  assumes "action_reachable E bal (s, w)" "action_laws E bal" "env = block_env E sn h t r" "step_ok env op s"
    and "action_exec env op (s, w) = Inr (s', w')"
  shows "(\<forall>i a. GetActionByID s i = Some a \<longrightarrow> lifecycle_ok a \<and> (\<exists>a'. GetActionByID s' i = Some a' \<and> evolve a a'))
    \<and> (\<forall>i a'. GetActionByID s i = None \<and> GetActionByID s' i = Some a' \<longrightarrow>
         act_State a' = ActionStatePending \<and> i = dec_of_int (as_Count s + 1) \<and> as_Count s' = as_Count s + 1)"
proof -
  note inv = reachable_inv [OF assms(1,2)]
  have "evolves s s'"
    using exec_step [OF assms(5), of bal] inv assms(2,3,4) by simp
  moreover have "lifecycle_ok a" if "GetActionByID s i = Some a" for i a
    using action_wfD(5) [OF action_invD(1) [OF inv] that] by (simp add: act_ok_def)
  ultimately show ?thesis by (auto simp: evolves_def)
qed

lemma ex_step2_ok: "step_ok (ex_block 2000) (OpFinalizeAction ex_finalize) ex_store1"
  by (simp add: step_ok_def ex_block_def ex_bps)

theorem action_lifecycle_witness:
  "\<exists>a'. GetActionByID (SetAction ex_done ex_store1) ''1'' = Some a' \<and> evolve ex_action a'"
  using action_lifecycle [OF ex_reachable1 ex_laws ex_block_def ex_step2_ok ex_state2] ex_get1 by blast

text \<open>C7: A request that succeeds stores a new pending action under an identifier that no action had, for a
  price of at least the base fee plus the fee per kilobyte, and moves exactly this price from the
  creator to the module account.\<close>

theorem request_escrows_price:
  assumes "action_reachable E bal (s, w)" "action_laws E bal" "env = block_env E sn h t r"
    and "step_ok env (OpRequestAction msg) s" "msg_RequestAction env msg s w = Inr ((i, st), s', w')"
  shows "GetActionByID s i = None \<and> st = ''ACTION_STATE_PENDING''
    \<and> (\<exists>a creator price. GetActionByID s' i = Some a \<and> act_Creator a = rq_Creator msg \<and> act_State a = ActionStatePending
        \<and> act_BlockHeight a = h \<and> AccAddressFromBech32 (ae_codec E) (rq_Creator msg) = Some creator
        \<and> ae_ParseCoin E (act_Price a) = Some price \<and> ae_ParseCoin E (rq_Price msg) = Some price
        \<and> snd (ap_BaseActionFee (action_GetParams s)) + snd (ap_FeePerKbyte (action_GetParams s)) \<le> snd price
        \<and> bal w' = moved creator (ModuleAddr (ae_bank E) action_ModuleName) (NewCoins1 (fst price) (snd price)) (bal w))"
proof -
  note wf = action_invD(1) [OF reachable_inv [OF assms(1,2)]]
  obtain info pd price ex j where req: "ae_ParseCoin env (rq_Price msg) = Some price"
    "keeper_RegisterAction env (Some info) (new_action env msg pd price ex) s w = Inr (j, s', w')" "fst (i, st) = j"
    using assms(5) by (rule request_cases)
  let ?n = "new_action env msg pd price ex"
  from req(2) obtain creator c where r: "AccAddressFromBech32 (ae_codec env) (act_Creator ?n) = Some creator"
    "ae_ParseCoin env (act_Price ?n) = Some c" "validatePrice s c = Inr ()" "j = dec_of_int (u64 (as_Count s + 1))"
    "s' = SetAction (?n\<lparr>act_ActionID := j, act_BlockHeight := ae_BlockHeight env, act_State := ActionStatePending\<rparr>)
            (s\<lparr>as_Count := u64 (as_Count s + 1)\<rparr>)"
    "SendCoinsFromAccountToModule (ae_bank env) creator action_ModuleName (NewCoins1 (fst c) (snd c)) w = Inr w'"
    by (rule register_cases)
  have u: "u64 (as_Count s + 1) = as_Count s + 1"
    using assms(4) action_wfD(3) [OF wf] by (simp add: step_ok_def u64_id)
  have c: "c = price"
    using r(2) coin_lawsD(2) [OF action_lawsD(3) [OF assms(2)]] req(1) assms(3) by (simp add: new_action_def)
  have "st = ''ACTION_STATE_PENDING''"
    using assms(5) r(5) req(3)
    by (auto simp: msg_RequestAction_def Let_def ActionState_String_def split: if_splits option.splits sum.splits prod.splits)
  moreover have "snd (ap_BaseActionFee (action_GetParams s)) + snd (ap_FeePerKbyte (action_GetParams s)) \<le> snd price"
    using r(3) c by (simp add: validatePrice_def Let_def split: if_splits)
  moreover have "bal w' = moved creator (ModuleAddr (ae_bank E) action_ModuleName) (NewCoins1 (fst price) (snd price)) (bal w)"
    using bank_lawsD(2) [OF action_lawsD(1) [OF assms(2)]] r(6) c assms(3) by simp
  moreover have "GetActionByID s i = None" using fresh_id [OF wf] r(4) req(3) u by simp
  ultimately show ?thesis using r(1,2,5) req c assms(3) by (cases price) (simp add: new_action_def)
qed

theorem request_escrows_price_witness:
  "\<exists>i. GetActionByID (fst ex_state0) i = None \<and> (\<exists>a. GetActionByID ex_store1 i = Some a \<and> act_State a = ActionStatePending)"
proof -
  obtain i st where m: "msg_RequestAction (ex_block 1000) ex_request (fst ex_state0) (snd ex_state0) = Inr ((i, st), ex_store1, ex_ledger1)"
    using ex_state1 by (auto simp: action_exec_def)
  have "action_reachable ex_env lg_balance (fst ex_state0, snd ex_state0)" using ex_reachable0 by simp
  from request_escrows_price [OF this ex_laws ex_block_def ex_step1_ok m] show ?thesis by blast
qed

text \<open>C3: Only a registered supernode that was active at the block of the action finalizes it. When a
  finalization message turns a pending action into a done one, it is the action the message names,
  its only supernode is the signer of the message, and the signer is the account of a supernode
  whose state at the height of the action was active.\<close>

theorem finalize_authorised:
  assumes "action_reachable E bal (s, w)" "action_laws E bal" "env = block_env E sn h t r"
    and "action_exec env (OpFinalizeAction msg) (s, w) = Inr (s', w')"
    and "GetActionByID s i = Some a" "act_State a = ActionStatePending" "GetActionByID s' i = Some a'" "act_State a' = ActionStateDone"
    and "sn_reachable (ae_codec E) h' sn" "0 < act_BlockHeight a" "act_BlockHeight a < 2 ^ 31"
  shows "i = fz_ActionId msg \<and> act_SuperNodes a' = [fz_Creator msg]
    \<and> (\<exists>v x. QuerySuperNode sn v = Some x \<and> sn_SupernodeAccount x = fz_Creator msg
         \<and> state_at (sn_States x) (act_BlockHeight a) = Some SuperNodeStateActive)"
proof -
  note wf = action_invD(1) [OF reachable_inv [OF assms(1,2)]]
  obtain md where k: "keeper_FinalizeAction env (fz_ActionId msg) (fz_Creator msg) md s w = Inr (s', w')"
    using assms(4) by (auto simp: action_exec_def msg_FinalizeAction_def split: sum.splits)
  have laws: "action_laws env bal" using assms(2,3) by simp
  have id: "act_ActionID b = j" if "GetActionByID s j = Some b" for j b using action_wfD(5) [OF wf that] by (rule act_ok_id)
  show ?thesis
    using k wf laws
  proof (cases rule: finalize_cases)
    case (rejected b)
    with assms(5-8) id [OF rejected(1)] show ?thesis by (auto split: if_splits)
  next
    case (finalized b m w2 top10)
    then have i: "i = fz_ActionId msg" using assms(5-8) id [OF finalized(1)] by (auto split: if_splits)
    with finalized(1,4) id [OF finalized(1)] assms(5,7) have ab: "b = a" "act_SuperNodes a' = [fz_Creator msg]" by auto
    from finalized(3) ab(1) obtain R x where R: "top10_query env a = Inr R" "x \<in> set R" "sn_SupernodeAccount x = fz_Creator msg"
      by (auto simp: checkFinalizerEligibility_def Let_def split: if_splits sum.splits)
    have "parse_state ''SUPERNODE_STATE_ACTIVE'' = SuperNodeStateActive" by code_simp
    moreover have "i32 (act_BlockHeight a) = act_BlockHeight a" using assms(10,11) by (simp add: i32_id)
    ultimately have "\<exists>v. QuerySuperNode sn v = Some x \<and> state_at (sn_States x) (act_BlockHeight a) = Some SuperNodeStateActive"
      using top_members [of "ae_codec E" _ _ sn R h' SuperNodeStateActive x] R(1,2) assms(3,9)
      by (fastforce simp: top10_query_def)
    with i ab(2) R(3) show ?thesis by blast
  qed
qed

lemma ex_sn_exec: "sn_exec (ex_sn_env\<lparr>se_codec := slash_codec\<rparr>) (OpRegister ex_register) sn_empty = Inr ex_act_sn"
  by code_simp

theorem finalize_authorised_witness:
  "\<exists>v x. QuerySuperNode ex_act_sn v = Some x \<and> sn_SupernodeAccount x = ''acc''
     \<and> state_at (sn_States x) 7 = Some SuperNodeStateActive"
proof -
  have r: "sn_reachable (ae_codec ex_env) 5 ex_act_sn"
    by (rule sn_reachable.exec [OF sn_reachable.init _ _ ex_sn_exec]) (simp_all add: ex_env_def ex_sn_env_def)
  have b: "0 < act_BlockHeight ex_action" "act_BlockHeight ex_action < 2 ^ 31" by (simp_all add: ex_action_def)
  have d: "GetActionByID (SetAction ex_done ex_store1) ''1'' = Some ex_done" by simp
  from finalize_authorised [OF ex_reachable1 ex_laws ex_block_def ex_state2 ex_get1 _ d _ r b] show ?thesis
    by (simp add: ex_finalize_def ex_action_def)
qed

text \<open>C11: Expiration refunds. At the end of a block the pending actions whose expiration time has come and
  whose creator the bank does not block become expired, and all other actions stay as they are. Every
  account is paid exactly the prices of its actions that expired, the module account pays exactly their
  sum, no other balance changes, and the module account still covers the actions that are open.\<close>

theorem expired_actions_refunded:
  assumes "action_reachable E bal (s, w)" "action_laws E bal" "env = block_env E sn h t r" "refund_live E bal blocked"
    and "action_EndBlocker env (s, w) = (s', w')"
  shows "(\<forall>i a. GetActionByID s i = Some a \<longrightarrow>
      GetActionByID s' i = Some (if act_State a = ActionStatePending \<and> act_ExpirationTime a \<noteq> 0 \<and> act_ExpirationTime a \<le> t
                                    \<and> refundable E blocked a
                                 then a\<lparr>act_State := ActionStateExpired\<rparr> else a))
    \<and> (\<forall>x d. bal w' x d = bal w x d + (owed E x d s - owed E x d s')
        - (if x = ModuleAddr (ae_bank E) action_ModuleName then escrow_total E d s - escrow_total E d s' else 0))
    \<and> escrow_total E d s' \<le> bal w' (ModuleAddr (ae_bank E) action_ModuleName) d"
proof -
  have inv: "action_inv env bal (s, w)" and laws: "action_laws env bal"
    using reachable_inv [OF assms(1,2)] assms(2,3) by simp_all
  have live: "refund_live env bal blocked" using assms(3,4) by (simp add: refund_live_def)
  have same: "refundable env blocked = refundable E blocked" "owed env = owed E" "escrow_total env = escrow_total E"
  proof -
    have "open_amount env = open_amount E" "ae_codec env = ae_codec E" "ae_ParseCoin env = ae_ParseCoin E"
      using assms(3) by (simp_all add: fun_eq_iff open_amount_def)
    then show "refundable env blocked = refundable E blocked" "owed env = owed E" "escrow_total env = escrow_total E"
      by (intro ext; simp add: refundable_def owed_def escrow_total_def cong: if_cong)+
  qed
  note e = end_block_step [OF assms(5) inv laws, where blocked = blocked]
  have "GetActionByID s' i = Some (if act_State a = ActionStatePending \<and> due t a \<and> refundable E blocked a
      then a\<lparr>act_State := ActionStateExpired\<rparr> else a)"
    if a: "GetActionByID s i = Some a" for i a
  proof (cases "act_State a = ActionStatePending")
    case True
    with e a have "expire_outcome env bal blocked t a (GetActionByID s' i)" using assms(3) by auto
    with True live same show ?thesis by (auto simp: expire_outcome_def)
  next
    case False
    with e a show ?thesis by (metis option.inject)
  qed
  moreover have "escrow_total E d s' \<le> bal w' (ModuleAddr (ae_bank E) action_ModuleName) d"
    using e action_invD(3) [of env bal s' w' d] assms(3) same by simp
  moreover have "settled env bal (s, w) (s', w')" using e by blast
  ultimately show ?thesis using assms(3) same by (simp add: due_def settled_def)
qed

lemma ex_live: "refund_live ex_env lg_balance (\<lambda>_. False)"
  by (auto simp: refund_live_def ex_env_def ledger_bank_def lg_move_def lg_covers_def NewCoins1_def action_ModuleName_def)

theorem expired_actions_refunded_witness:
  "\<exists>s' w'. action_EndBlocker (ex_block 100000) (ex_store1, ex_ledger1) = (s', w')
     \<and> GetActionByID s' ''1'' = Some (ex_action\<lparr>act_State := ActionStateExpired\<rparr>)
     \<and> lg_balance w' (bytes_of_string ''alice'') ''ulume'' = lg_balance ex_ledger1 (bytes_of_string ''alice'') ''ulume'' + 20000"
proof -
  obtain s' w' where e: "action_EndBlocker (ex_block 100000) (ex_store1, ex_ledger1) = (s', w')"
    by (cases "action_EndBlocker (ex_block 100000) (ex_store1, ex_ledger1)")
  have "money_ok ex_env ex_action" by (rule action_invD(2) [OF reachable_inv [OF ex_reachable1 ex_laws] ex_get1])
  then have x: "refundable ex_env (\<lambda>_. False) ex_action" by (auto simp: refundable_def elim!: money_okE)
  note t = expired_actions_refunded [OF ex_reachable1 ex_laws ex_block_def ex_live e]
  have "owed ex_env (bytes_of_string ''alice'') ''ulume'' ex_store1 = 20000"
    "owed ex_env (bytes_of_string ''alice'') ''ulume'' (fst (action_EndBlocker (ex_block 100000) (ex_store1, ex_ledger1))) = 0"
    "bytes_of_string ''alice'' \<noteq> ModuleAddr (ae_bank ex_env) action_ModuleName" by code_simp+
  then have "lg_balance w' (bytes_of_string ''alice'') ''ulume'' = lg_balance ex_ledger1 (bytes_of_string ''alice'') ''ulume'' + 20000"
    using t e by simp
  moreover have "GetActionByID s' ''1'' = Some (ex_action\<lparr>act_State := ActionStateExpired\<rparr>)"
    using t ex_get1 x by (auto simp: ex_action_def)
  ultimately show ?thesis using e by blast
qed

end
