(* ===== verification/Audit_Keys.thy ===== *)
theory Audit_Keys
  imports Encoding
begin

text \<open>
  The keys of the audit store (types/keys.go) and the scans over them. A key is a character string:
  an ASCII prefix, accounts and identifiers as they are, and epochs and counters as fixed-width
  big-endian numbers. The lemmas show that numbers are read back, that the byte order is the numeric
  order, that the families are separated by their prefixes and that the fields of a key are
  determined by it when account names have no slash.
\<close>

named_theorems key_simps

section \<open>Fixed-width big-endian numbers\<close>

definition byte_char :: "int \<Rightarrow> char" where
  "byte_char n = char_of (n mod 256)"

definition be64s :: "int \<Rightarrow> string" where
  "be64s n = map (\<lambda>k. byte_char (n div 256 ^ k)) [7, 6, 5, 4, 3, 2, 1, 0]"

definition be32s :: "int \<Rightarrow> string" where
  "be32s n = map (\<lambda>k. byte_char (n div 256 ^ k)) [3, 2, 1, 0]"

definition be_val :: "string \<Rightarrow> int" where
  "be_val s = foldl (\<lambda>a c. a * 256 + of_char c) 0 s"

section \<open>Keys\<close>

definition EpochAnchorPrefix :: string where "EpochAnchorPrefix = ''ea/''"
definition EpochParamsSnapshotPrefix :: string where "EpochParamsSnapshotPrefix = ''eps/''"
definition ReportPrefix :: string where "ReportPrefix = ''r/''"
definition ReportIndexRootPrefix :: string where "ReportIndexRootPrefix = ''ri/''"
definition StorageChallengeReportIndexRootPrefix :: string where "StorageChallengeReportIndexRootPrefix = ''sc/''"
definition HostReportIndexRootPrefix :: string where "HostReportIndexRootPrefix = ''hr/''"
definition NextEvidenceIDKey :: string where "NextEvidenceIDKey = ''ev/next_id''"
definition EvidenceRecordPrefix :: string where "EvidenceRecordPrefix = ''ev/r/''"
definition evidenceBySubjectPrefix :: string where "evidenceBySubjectPrefix = ''ev/s/''"
definition evidenceByActionIDPrefix :: string where "evidenceByActionIDPrefix = ''ev/a/''"
definition EvidenceEpochCountPrefix :: string where "EvidenceEpochCountPrefix = ''eve/''"
definition ActionFinalizationPostponementPrefix :: string where "ActionFinalizationPostponementPrefix = ''ap/af/''"
definition StorageTruthPostponementPrefix :: string where "StorageTruthPostponementPrefix = ''ap/st/''"
definition storageTruthPostponementStrongPrefix :: string where "storageTruthPostponementStrongPrefix = ''ap/sts/''"
definition NodeSuspicionStatePrefix :: string where "NodeSuspicionStatePrefix = ''st/ns/''"
definition ReporterReliabilityStatePrefix :: string where "ReporterReliabilityStatePrefix = ''st/rr/''"
definition TicketDeteriorationStatePrefix :: string where "TicketDeteriorationStatePrefix = ''st/td/''"
definition TicketArtifactCountStatePrefix :: string where "TicketArtifactCountStatePrefix = ''st/tac/''"
definition HealOpPrefix :: string where "HealOpPrefix = ''st/ho/''"
definition healOpByTicketIndexPrefix :: string where "healOpByTicketIndexPrefix = ''st/hot/''"
definition healOpByStatusIndexPrefix :: string where "healOpByStatusIndexPrefix = ''st/hos/''"
definition HealOpVerificationRootPrefix :: string where "HealOpVerificationRootPrefix = ''st/hov/''"
definition NextHealOpIDKey :: string where "NextHealOpIDKey = ''st/next_ho_id''"
definition RecheckEvidencePrefix :: string where "RecheckEvidencePrefix = ''st/rce/''"
definition StorageProofTranscriptPrefix :: string where "StorageProofTranscriptPrefix = ''st/spt/''"
definition NodeStorageTruthFailureRootPrefix :: string where "NodeStorageTruthFailureRootPrefix = ''st/nf/''"
definition ReporterStorageTruthResultRootPrefix :: string where "ReporterStorageTruthResultRootPrefix = ''st/rrs/''"
definition StorageTruthFailedHealRootPrefix :: string where "StorageTruthFailedHealRootPrefix = ''st/fh/''"
definition reporterResultByTargetPrefix :: string where "reporterResultByTargetPrefix = ''st/rrs-tt/''"
definition ReporterStorageTruthResultByEpochRootPrefix :: string where
  "ReporterStorageTruthResultByEpochRootPrefix = ''st/rrs-e/''"
definition transcriptByTargetBucketEpochPrefix :: string where "transcriptByTargetBucketEpochPrefix = ''st/spt-tbe/''"
definition audit_ParamsKey :: string where "audit_ParamsKey = ''p_audit''"

lemmas prefix_defs =
  EpochAnchorPrefix_def EpochParamsSnapshotPrefix_def ReportPrefix_def ReportIndexRootPrefix_def
  StorageChallengeReportIndexRootPrefix_def HostReportIndexRootPrefix_def NextEvidenceIDKey_def
  EvidenceRecordPrefix_def evidenceBySubjectPrefix_def evidenceByActionIDPrefix_def EvidenceEpochCountPrefix_def
  ActionFinalizationPostponementPrefix_def StorageTruthPostponementPrefix_def
  storageTruthPostponementStrongPrefix_def NodeSuspicionStatePrefix_def ReporterReliabilityStatePrefix_def
  TicketDeteriorationStatePrefix_def TicketArtifactCountStatePrefix_def HealOpPrefix_def
  healOpByTicketIndexPrefix_def healOpByStatusIndexPrefix_def HealOpVerificationRootPrefix_def NextHealOpIDKey_def
  RecheckEvidencePrefix_def StorageProofTranscriptPrefix_def NodeStorageTruthFailureRootPrefix_def
  ReporterStorageTruthResultRootPrefix_def StorageTruthFailedHealRootPrefix_def reporterResultByTargetPrefix_def
  ReporterStorageTruthResultByEpochRootPrefix_def transcriptByTargetBucketEpochPrefix_def audit_ParamsKey_def

definition nul :: char where "nul = char_of (0::int)"

definition EpochAnchorKey :: "int \<Rightarrow> string" where
  "EpochAnchorKey epochID = EpochAnchorPrefix @ be64s epochID"

definition EpochParamsSnapshotKey :: "int \<Rightarrow> string" where
  "EpochParamsSnapshotKey epochID = EpochParamsSnapshotPrefix @ be64s epochID"

definition ReportKey :: "int \<Rightarrow> string \<Rightarrow> string" where
  "ReportKey epochID reporter = ReportPrefix @ be64s epochID @ reporter"

definition ReportIndexKey :: "string \<Rightarrow> int \<Rightarrow> string" where
  "ReportIndexKey reporter epochID = ReportIndexRootPrefix @ reporter @ ''/'' @ be64s epochID"

definition StorageChallengeReportIndexEpochPrefix :: "string \<Rightarrow> int \<Rightarrow> string" where
  "StorageChallengeReportIndexEpochPrefix supernode epochID =
     StorageChallengeReportIndexRootPrefix @ supernode @ ''/'' @ be64s epochID @ ''/''"

definition StorageChallengeReportIndexKey :: "string \<Rightarrow> int \<Rightarrow> string \<Rightarrow> string" where
  "StorageChallengeReportIndexKey supernode epochID reporter =
     StorageChallengeReportIndexRootPrefix @ supernode @ ''/'' @ be64s epochID @ ''/'' @ reporter"

definition HostReportIndexKey :: "string \<Rightarrow> int \<Rightarrow> string" where
  "HostReportIndexKey reporter epochID = HostReportIndexRootPrefix @ reporter @ ''/'' @ be64s epochID"

definition EvidenceKey :: "int \<Rightarrow> string" where
  "EvidenceKey evidenceID = EvidenceRecordPrefix @ be64s evidenceID"

definition EvidenceBySubjectIndexKey :: "string \<Rightarrow> int \<Rightarrow> string" where
  "EvidenceBySubjectIndexKey subject evidenceID = evidenceBySubjectPrefix @ subject @ ''/'' @ be64s evidenceID"

definition EvidenceByActionIndexKey :: "string \<Rightarrow> int \<Rightarrow> string" where
  "EvidenceByActionIndexKey actionID evidenceID = evidenceByActionIDPrefix @ actionID @ [nul] @ be64s evidenceID"

definition EvidenceEpochCountKey :: "int \<Rightarrow> string \<Rightarrow> int \<Rightarrow> string" where
  "EvidenceEpochCountKey epochID subject evidenceType =
     EvidenceEpochCountPrefix @ be64s epochID @ ''/'' @ subject @ ''/'' @ be32s evidenceType"

definition ActionFinalizationPostponementKey :: "string \<Rightarrow> string" where
  "ActionFinalizationPostponementKey supernode = ActionFinalizationPostponementPrefix @ supernode"

definition StorageTruthPostponementKey :: "string \<Rightarrow> string" where
  "StorageTruthPostponementKey supernode = StorageTruthPostponementPrefix @ supernode"

definition StorageTruthPostponementStrongKey :: "string \<Rightarrow> string" where
  "StorageTruthPostponementStrongKey supernode = storageTruthPostponementStrongPrefix @ supernode"

definition NodeSuspicionStateKey :: "string \<Rightarrow> string" where
  "NodeSuspicionStateKey supernode = NodeSuspicionStatePrefix @ supernode"

definition ReporterReliabilityStateKey :: "string \<Rightarrow> string" where
  "ReporterReliabilityStateKey reporter = ReporterReliabilityStatePrefix @ reporter"

definition TicketDeteriorationStateKey :: "string \<Rightarrow> string" where
  "TicketDeteriorationStateKey ticketID = TicketDeteriorationStatePrefix @ ticketID"

definition TicketArtifactCountStateKey :: "string \<Rightarrow> string" where
  "TicketArtifactCountStateKey ticketID = TicketArtifactCountStatePrefix @ ticketID"

definition HealOpKey :: "int \<Rightarrow> string" where
  "HealOpKey healOpID = HealOpPrefix @ be64s healOpID"

definition HealOpByTicketIndexKey :: "string \<Rightarrow> int \<Rightarrow> string" where
  "HealOpByTicketIndexKey ticketID healOpID = healOpByTicketIndexPrefix @ ticketID @ [nul] @ be64s healOpID"

definition HealOpByStatusIndexKey :: "int \<Rightarrow> int \<Rightarrow> string" where
  "HealOpByStatusIndexKey status healOpID = healOpByStatusIndexPrefix @ be32s status @ be64s healOpID"

definition HealOpVerificationPrefix :: "int \<Rightarrow> string" where
  "HealOpVerificationPrefix healOpID = HealOpVerificationRootPrefix @ be64s healOpID @ ''/''"

definition HealOpVerificationKey :: "int \<Rightarrow> string \<Rightarrow> string" where
  "HealOpVerificationKey healOpID verifier = HealOpVerificationPrefix healOpID @ verifier"

definition RecheckEvidenceKey :: "int \<Rightarrow> string \<Rightarrow> string \<Rightarrow> string" where
  "RecheckEvidenceKey epochID ticketID creator =
     RecheckEvidencePrefix @ be64s epochID @ ''/'' @ ticketID @ [nul] @ creator"

definition StorageProofTranscriptKey :: "string \<Rightarrow> string" where
  "StorageProofTranscriptKey transcriptHash = StorageProofTranscriptPrefix @ transcriptHash"

definition NodeStorageTruthFailurePrefix :: "string \<Rightarrow> string" where
  "NodeStorageTruthFailurePrefix supernode = NodeStorageTruthFailureRootPrefix @ supernode @ ''/''"

definition NodeStorageTruthFailureKey :: "string \<Rightarrow> int \<Rightarrow> string \<Rightarrow> string \<Rightarrow> string" where
  "NodeStorageTruthFailureKey supernode epochID ticketID reporter =
     NodeStorageTruthFailurePrefix supernode @ be64s epochID @ ''/'' @ ticketID @ [nul] @ reporter"

definition ReporterStorageTruthResultPrefix :: "string \<Rightarrow> string" where
  "ReporterStorageTruthResultPrefix reporter = ReporterStorageTruthResultRootPrefix @ reporter @ ''/''"

definition ReporterStorageTruthResultKey :: "string \<Rightarrow> int \<Rightarrow> string \<Rightarrow> string \<Rightarrow> string" where
  "ReporterStorageTruthResultKey reporter epochID ticketID target =
     ReporterStorageTruthResultPrefix reporter @ be64s epochID @ ''/'' @ ticketID @ [nul] @ target"

definition StorageTruthFailedHealPrefix :: "string \<Rightarrow> string" where
  "StorageTruthFailedHealPrefix supernode = StorageTruthFailedHealRootPrefix @ supernode @ ''/''"

definition StorageTruthFailedHealKey :: "string \<Rightarrow> int \<Rightarrow> string \<Rightarrow> string" where
  "StorageTruthFailedHealKey supernode epochID ticketID =
     StorageTruthFailedHealPrefix supernode @ be64s epochID @ ''/'' @ ticketID"

definition ReporterStorageTruthResultByTargetKey :: "string \<Rightarrow> int \<Rightarrow> string \<Rightarrow> string \<Rightarrow> string" where
  "ReporterStorageTruthResultByTargetKey target epochID ticketID reporter =
     reporterResultByTargetPrefix @ target @ ''/'' @ be64s epochID @ ''/'' @ ticketID @ [nul] @ reporter"

definition ReporterStorageTruthResultByEpochPrefix :: "int \<Rightarrow> string" where
  "ReporterStorageTruthResultByEpochPrefix epochID = ReporterStorageTruthResultByEpochRootPrefix @ be64s epochID @ ''/''"

definition ReporterStorageTruthResultByEpochReporterKey :: "int \<Rightarrow> string \<Rightarrow> string" where
  "ReporterStorageTruthResultByEpochReporterKey epochID reporter =
     ReporterStorageTruthResultByEpochPrefix epochID @ reporter"

definition TranscriptByTargetBucketEpochScanPrefix :: "string \<Rightarrow> int \<Rightarrow> string" where
  "TranscriptByTargetBucketEpochScanPrefix target bucket =
     transcriptByTargetBucketEpochPrefix @ target @ ''/'' @ be32s bucket @ ''/''"

definition TranscriptByTargetBucketEpochKey :: "string \<Rightarrow> int \<Rightarrow> int \<Rightarrow> string \<Rightarrow> string" where
  "TranscriptByTargetBucketEpochKey target bucket epochID transcriptHash =
     TranscriptByTargetBucketEpochScanPrefix target bucket @ be64s epochID @ ''/'' @ transcriptHash"

section \<open>Scans\<close>

text \<open>The smallest string above every string with the prefix; none when all bytes are 255.\<close>

fun prefixEnd_rev :: "string \<Rightarrow> string option" where
  "prefixEnd_rev [] = None"
| "prefixEnd_rev (c # s) = (if of_char c = (255::int) then prefixEnd_rev s else Some (byte_char (of_char c + 1) # s))"

definition prefixEnd :: "string \<Rightarrow> string option" where
  "prefixEnd pre = map_option rev (prefixEnd_rev (rev pre))"

text \<open>The bounds of a scan over the epochs \<open>startEpoch..endEpoch\<close> below a base prefix; the end bound is exclusive.\<close>

definition EpochScanRange :: "string \<Rightarrow> int \<Rightarrow> int \<Rightarrow> string \<times> string option" where
  "EpochScanRange base startEpoch endEpoch =
     (base @ be64s startEpoch, if endEpoch = 2 ^ 64 - 1 then prefixEnd base else Some (base @ be64s (endEpoch + 1)))"

definition NodeStorageTruthFailureEpochScanRange :: "string \<Rightarrow> int \<Rightarrow> int \<Rightarrow> string \<times> string option" where
  "NodeStorageTruthFailureEpochScanRange supernode startEpoch endEpoch =
     EpochScanRange (NodeStorageTruthFailurePrefix supernode) startEpoch endEpoch"

definition ReporterStorageTruthResultEpochScanRange :: "string \<Rightarrow> int \<Rightarrow> int \<Rightarrow> string \<times> string option" where
  "ReporterStorageTruthResultEpochScanRange reporter startEpoch endEpoch =
     EpochScanRange (ReporterStorageTruthResultPrefix reporter) startEpoch endEpoch"

definition ReporterStorageTruthResultByTargetEpochScanRange :: "string \<Rightarrow> int \<Rightarrow> int \<Rightarrow> string \<times> string option" where
  "ReporterStorageTruthResultByTargetEpochScanRange target startEpoch endEpoch =
     EpochScanRange (reporterResultByTargetPrefix @ target @ ''/'') startEpoch endEpoch"

definition TranscriptByTargetBucketEpochScanRange :: "string \<Rightarrow> int \<Rightarrow> int \<Rightarrow> int \<Rightarrow> string \<times> string option" where
  "TranscriptByTargetBucketEpochScanRange target bucket startEpoch endEpoch =
     EpochScanRange (TranscriptByTargetBucketEpochScanPrefix target bucket) startEpoch endEpoch"

definition kv_range :: "'k::linorder \<times> 'k option \<Rightarrow> ('k \<times> 'v) list \<Rightarrow> ('k \<times> 'v) list" where
  "kv_range r m = filter (\<lambda>e. fst r \<le> fst e \<and> (case snd r of None \<Rightarrow> True | Some b \<Rightarrow> fst e < b)) m"

section \<open>Numbers in keys\<close>

lemma of_char_byte_char [simp]: "of_char (byte_char n) = n mod (256::int)"
  by (simp add: byte_char_def)

lemma be_val_Nil [simp]: "be_val [] = 0"
  by (simp add: be_val_def)

lemma be_val_snoc: "be_val (s @ [c]) = be_val s * 256 + of_char c"
  by (simp add: be_val_def)

lemma be_val_Cons: "be_val (c # s) = of_char c * 256 ^ length s + be_val s"
proof (induction s rule: rev_induct)
  case Nil
  then show ?case by (simp add: be_val_def)
next
  case (snoc d s)
  then show ?case using be_val_snoc [of "c # s" d] by (simp add: be_val_snoc algebra_simps)
qed

lemma of_char_bounds: "0 \<le> (of_char c :: int)" "(of_char c :: int) < 256"
proof -
  have "(of_char c :: int) = of_char c mod 256" by (metis char_of_char of_char_of)
  then show "0 \<le> (of_char c :: int)" "(of_char c :: int) < 256"
    by (metis pos_mod_bound pos_mod_sign zero_less_numeral)+
qed

lemma be_val_bounds: "0 \<le> be_val s" "be_val s < 256 ^ length s"
proof -
  have "0 \<le> be_val s \<and> be_val s < 256 ^ length s"
  proof (induction s)
    case (Cons c s)
    define b where "b = (256::int) ^ length s"
    have "(of_char c + 1) * b \<le> 256 * b" using of_char_bounds [of c] by (intro mult_right_mono) (auto simp: b_def)
    then have "of_char c * b + b \<le> 256 * b" by (simp add: algebra_simps)
    moreover have "0 \<le> of_char c * b" using of_char_bounds(1) [of c] by (simp add: b_def)
    moreover have "0 \<le> be_val s" "be_val s < b" using Cons by (simp_all add: b_def)
    ultimately have "0 \<le> of_char c * b + be_val s \<and> of_char c * b + be_val s < 256 * b" by linarith
    then show ?case by (simp add: be_val_Cons b_def)
  qed simp
  then show "0 \<le> be_val s" "be_val s < 256 ^ length s" by simp_all
qed

lemma be_val_digits: "be_val (map (\<lambda>k. byte_char (n div 256 ^ k)) (rev [0..<m])) = n mod 256 ^ m"
proof (induction m)
  case (Suc m)
  have "n mod 256 ^ Suc m = 256 ^ m * (n div 256 ^ m mod 256) + n mod 256 ^ m"
    using zmod_zmult2_eq [of 256 n "256 ^ m"] by (simp add: mult.commute)
  then show ?case using Suc by (simp add: be_val_Cons mult.commute)
qed simp

lemma be64s_digits: "be64s n = map (\<lambda>k. byte_char (n div 256 ^ k)) (rev [0..<8])"
  by (simp add: be64s_def upt_rec numeral_eq_Suc)

lemma be32s_digits: "be32s n = map (\<lambda>k. byte_char (n div 256 ^ k)) (rev [0..<4])"
  by (simp add: be32s_def upt_rec numeral_eq_Suc)

lemma length_be64s [simp]: "length (be64s n) = 8"
  by (simp add: be64s_def)

lemma length_be32s [simp]: "length (be32s n) = 4"
  by (simp add: be32s_def)

lemma be_val_be64s [simp]: "be_val (be64s n) = n mod 2 ^ 64"
  using be_val_digits [of n 8] by (simp add: be64s_digits)

lemma be_val_be32s [simp]: "be_val (be32s n) = n mod 2 ^ 32"
  using be_val_digits [of n 4] by (simp add: be32s_digits)

lemma be_val_less: "length s = length t \<Longrightarrow> s < t \<longleftrightarrow> be_val s < be_val t"
proof (induction s t rule: list_induct2)
  case (Cons c s d t)
  have c: "(of_char c :: int) < of_char d \<longleftrightarrow> c < d" "(of_char c :: int) = of_char d \<longleftrightarrow> c = d"
    by (metis less_char_def of_nat_less_iff of_nat_of_char) simp
  have lt: "x * 256 ^ length s + be_val a < y * 256 ^ length s + be_val b"
    if "x < y" "length a = length s" for x y :: int and a b
  proof -
    have "x * 256 ^ length s + 256 ^ length s \<le> y * 256 ^ length s"
      using mult_right_mono [of "x + 1" y "256 ^ length s"] that(1) by (simp add: algebra_simps)
    then show ?thesis using be_val_bounds [of a] be_val_bounds [of b] that(2) by simp
  qed
  show ?case
    using Cons c lt [of "of_char c" "of_char d" s t] lt [of "of_char d" "of_char c" t s]
    by (cases "c = d"; cases "(of_char c :: int) < of_char d") (auto simp: be_val_Cons not_less order.order_iff_strict)
qed simp

lemma be64s_less [key_simps]: "is_u64 m \<Longrightarrow> is_u64 n \<Longrightarrow> be64s m < be64s n \<longleftrightarrow> m < n"
  by (simp add: be_val_less)

lemma be64s_eq [key_simps]: "is_u64 m \<Longrightarrow> is_u64 n \<Longrightarrow> be64s m = be64s n \<longleftrightarrow> m = n"
  by (metis be_val_be64s mod_pos_pos_trivial)

lemma be64s_u64 [simp]: "be64s (u64 n) = be64s n"
proof -
  have "be_val (be64s (u64 n)) = be_val (be64s n)" by (simp add: u64_def)
  then show ?thesis using be_val_less [of "be64s (u64 n)" "be64s n"] be_val_less [of "be64s n" "be64s (u64 n)"]
    by (metis length_be64s less_irrefl linorder_neqE)
qed

section \<open>Composite keys and scans\<close>

lemma append_less_same [simp]: "(p @ x :: 'a::linorder list) < p @ y \<longleftrightarrow> x < y"
  by (induction p) auto

lemma append_le_same [simp]: "(p @ x :: 'a::linorder list) \<le> p @ y \<longleftrightarrow> x \<le> y"
  by (simp add: not_less [symmetric])

lemma append_less_len: "length x = length y \<Longrightarrow> (x @ u :: 'a::linorder list) < y @ v \<longleftrightarrow> x < y \<or> x = y \<and> u < v"
  by (induction x y rule: list_induct2) auto

text \<open>Two names without the separator that differ are ordered by the names alone.\<close>

lemma sep_less: "c \<notin> set a \<Longrightarrow> c \<notin> set b \<Longrightarrow> a \<noteq> b \<Longrightarrow> (a @ c # u < b @ c # v) = (a @ c # u' < b @ c # (v' :: 'a::linorder list))"
proof (induction a arbitrary: b)
  case Nil
  then show ?case by (cases b) auto
next
  case (Cons x a)
  then show ?case by (cases b) auto
qed

lemma sep_inject: "c \<notin> set a \<Longrightarrow> c \<notin> set b \<Longrightarrow> a @ c # u = b @ c # v \<longleftrightarrow> a = b \<and> u = v"
proof (induction a arbitrary: b)
  case Nil
  then show ?case by (cases b) auto
next
  case (Cons x a)
  then show ?case by (cases b) auto
qed

lemma be64s_append_inject: "is_u64 m \<Longrightarrow> is_u64 n \<Longrightarrow> be64s m @ u = be64s n @ v \<longleftrightarrow> m = n \<and> u = v"
  by (simp add: be64s_eq)

text \<open>A scan over the epochs below an account sees exactly the keys of that account in the window.\<close>

lemma epoch_scan_mem:
  assumes "CHR ''/'' \<notin> set a" "CHR ''/'' \<notin> set b" "is_u64 e" "is_u64 st" "0 \<le> en" "en < 2 ^ 64 - 1"
  shows "(pre @ a @ ''/'' @ be64s st \<le> pre @ b @ ''/'' @ be64s e @ rest \<and>
          pre @ b @ ''/'' @ be64s e @ rest < pre @ a @ ''/'' @ be64s (en + 1)) \<longleftrightarrow> b = a \<and> st \<le> e \<and> e \<le> en"
proof (cases "b = a")
  case True
  have lo: "\<not> be64s e @ rest < be64s st @ [] \<longleftrightarrow> st \<le> e"
    using assms append_less_len [of "be64s e" "be64s st" rest "[]"] by (simp add: be64s_less be64s_eq not_less order.order_iff_strict)
  have hi: "be64s e @ rest < be64s (en + 1) @ [] \<longleftrightarrow> e \<le> en"
    using assms append_less_len [of "be64s e" "be64s (en + 1)" rest "[]"] by (auto simp: be64s_less be64s_eq)
  show ?thesis using True lo hi by (simp add: not_less)
next
  case False
  then show ?thesis
    using sep_less [OF assms(2,1) False, of "be64s e @ rest" "be64s st" "be64s e @ rest" "be64s (en + 1)"]
    by (simp add: not_less [symmetric])
qed

end
