(* ===== verification/Audit_Params.thy ===== *)
theory Audit_Params
  imports Supernode_Params
begin

text \<open>
  The parameters of the audit module (types/params.go, types/params.pb.go): defaults, validation and
  the governance update, with the height-to-epoch map that is derived from them (keeper/epoch\_math.go).
  Enumerations carry a constructor for the values a message can hold outside the named ones.
\<close>

datatype enforcement_mode = MODE_UNSPECIFIED | MODE_SHADOW | MODE_SOFT | MODE_FULL | MODE_OTHER int

record audit_params =
  up_EpochLengthBlocks :: int
  up_EpochZeroHeight :: int
  up_PeerQuorumReports :: int
  up_MinProbeTargetsPerEpoch :: int
  up_MaxProbeTargetsPerEpoch :: int
  up_RequiredOpenPorts :: "int list"
  up_MinCpuFreePercent :: int
  up_MinMemFreePercent :: int
  up_MinDiskFreePercent :: int
  up_ConsecutiveEpochsToPostpone :: int
  up_KeepLastEpochEntries :: int
  up_PeerPortPostponeThresholdPercent :: int
  up_ActionFinalizationSignatureFailureEvidencesPerEpoch :: int
  up_ActionFinalizationSignatureFailureConsecutiveEpochs :: int
  up_ActionFinalizationNotInTop10EvidencesPerEpoch :: int
  up_ActionFinalizationNotInTop10ConsecutiveEpochs :: int
  up_ActionFinalizationRecoveryEpochs :: int
  up_ActionFinalizationRecoveryMaxTotalBadEvidences :: int
  up_ScEnabled :: bool
  up_ScChallengersPerEpoch :: int
  up_StorageTruthRecentBucketMaxBlocks :: int
  up_StorageTruthOldBucketMinBlocks :: int
  up_StorageTruthChallengeTargetDivisor :: int
  up_StorageTruthCompoundRangesPerArtifact :: int
  up_StorageTruthCompoundRangeLenBytes :: int
  up_StorageTruthMaxSelfHealOpsPerEpoch :: int
  up_StorageTruthProbationEpochs :: int
  up_StorageTruthNodeSuspicionDecayPerEpoch :: int
  up_StorageTruthReporterReliabilityDecayPerEpoch :: int
  up_StorageTruthTicketDeteriorationDecayPerEpoch :: int
  up_StorageTruthNodeSuspicionThresholdWatch :: int
  up_StorageTruthNodeSuspicionThresholdProbation :: int
  up_StorageTruthNodeSuspicionThresholdPostpone :: int
  up_StorageTruthReporterReliabilityLowTrustThreshold :: int
  up_StorageTruthReporterReliabilityIneligibleThreshold :: int
  up_StorageTruthTicketDeteriorationHealThreshold :: int
  up_StorageTruthEnforcementMode :: enforcement_mode
  up_StorageTruthReporterReliabilityDegradedThreshold :: int
  up_StorageTruthPatternEscalationWindow :: int
  up_StorageTruthDivergenceWindowEpochs :: int
  up_StorageTruthReporterMinReportsForDivergence :: int
  up_StorageTruthNodeSuspicionThresholdStrongPostpone :: int
  up_StorageTruthRecoveryCleanPassCount :: int
  up_StorageTruthClassAFaultWindow :: int
  up_StorageTruthClassBFaultWindow :: int
  up_StorageTruthHealDeadlineEpochs :: int
  up_StorageTruthOldClassAFaultWindow :: int
  up_StorageTruthContradictionWindowEpochs :: int
  up_StorageTruthReporterIneligibleDurationEpochs :: int
  up_StorageTruthStrongRecoveryCleanPassCount :: int
  up_StorageTruthHealVerifierCount :: int

definition storageTruthRecentBucketMaxBlocksForEpochSpan :: "int \<Rightarrow> int" where
  "storageTruthRecentBucketMaxBlocksForEpochSpan epochLengthBlocks =
     (if epochLengthBlocks = 0 then 0
      else if epochLengthBlocks > (2 ^ 64 - 1) div 3 then 2 ^ 64 - 1 else u64 (epochLengthBlocks * 3))"

definition storageTruthOldBucketMinBlocksForEpochSpan :: "int \<Rightarrow> int" where
  "storageTruthOldBucketMinBlocksForEpochSpan epochLengthBlocks =
     (if epochLengthBlocks = 0 then 0
      else if epochLengthBlocks > (2 ^ 64 - 1) div 30 then 2 ^ 64 - 1 else u64 (epochLengthBlocks * 30))"

definition audit_DefaultParams :: audit_params where
  "audit_DefaultParams =
   \<lparr>up_EpochLengthBlocks = 400,
    up_EpochZeroHeight = 1,
    up_PeerQuorumReports = 3,
    up_MinProbeTargetsPerEpoch = 3,
    up_MaxProbeTargetsPerEpoch = 5,
    up_RequiredOpenPorts = [4444, 4445, 8002],
    up_MinCpuFreePercent = 0,
    up_MinMemFreePercent = 0,
    up_MinDiskFreePercent = 0,
    up_ConsecutiveEpochsToPostpone = 1,
    up_KeepLastEpochEntries = 200,
    up_PeerPortPostponeThresholdPercent = 100,
    up_ActionFinalizationSignatureFailureEvidencesPerEpoch = 1,
    up_ActionFinalizationSignatureFailureConsecutiveEpochs = 1,
    up_ActionFinalizationNotInTop10EvidencesPerEpoch = 1,
    up_ActionFinalizationNotInTop10ConsecutiveEpochs = 1,
    up_ActionFinalizationRecoveryEpochs = 1,
    up_ActionFinalizationRecoveryMaxTotalBadEvidences = 1,
    up_ScEnabled = True,
    up_ScChallengersPerEpoch = 0,
    up_StorageTruthRecentBucketMaxBlocks = storageTruthRecentBucketMaxBlocksForEpochSpan 400,
    up_StorageTruthOldBucketMinBlocks = storageTruthOldBucketMinBlocksForEpochSpan 400,
    up_StorageTruthChallengeTargetDivisor = 3,
    up_StorageTruthCompoundRangesPerArtifact = 4,
    up_StorageTruthCompoundRangeLenBytes = 256,
    up_StorageTruthMaxSelfHealOpsPerEpoch = 5,
    up_StorageTruthProbationEpochs = 3,
    up_StorageTruthNodeSuspicionDecayPerEpoch = 920,
    up_StorageTruthReporterReliabilityDecayPerEpoch = 900,
    up_StorageTruthTicketDeteriorationDecayPerEpoch = 900,
    up_StorageTruthNodeSuspicionThresholdWatch = 20,
    up_StorageTruthNodeSuspicionThresholdProbation = 50,
    up_StorageTruthNodeSuspicionThresholdPostpone = 90,
    up_StorageTruthReporterReliabilityLowTrustThreshold = 20,
    up_StorageTruthReporterReliabilityIneligibleThreshold = 90,
    up_StorageTruthTicketDeteriorationHealThreshold = 50,
    up_StorageTruthEnforcementMode = MODE_SHADOW,
    up_StorageTruthReporterReliabilityDegradedThreshold = 50,
    up_StorageTruthPatternEscalationWindow = 14,
    up_StorageTruthDivergenceWindowEpochs = 14,
    up_StorageTruthReporterMinReportsForDivergence = 5,
    up_StorageTruthNodeSuspicionThresholdStrongPostpone = 140,
    up_StorageTruthRecoveryCleanPassCount = 3,
    up_StorageTruthClassAFaultWindow = 14,
    up_StorageTruthClassBFaultWindow = 7,
    up_StorageTruthHealDeadlineEpochs = 3,
    up_StorageTruthOldClassAFaultWindow = 21,
    up_StorageTruthContradictionWindowEpochs = 7,
    up_StorageTruthReporterIneligibleDurationEpochs = 7,
    up_StorageTruthStrongRecoveryCleanPassCount = 5,
    up_StorageTruthHealVerifierCount = 2\<rparr>"

text \<open>The minimum free percentages, the storage challenge switch and count and the enforcement mode keep
  their zero values. The bucket spans follow the epoch length that the defaults leave.\<close>

definition audit_WithDefaults :: "audit_params \<Rightarrow> audit_params" where
  "audit_WithDefaults p =
     (let len = dflt 400 (up_EpochLengthBlocks p) in
      p\<lparr>up_EpochLengthBlocks := len,
        up_EpochZeroHeight := dflt 1 (up_EpochZeroHeight p),
        up_PeerQuorumReports := dflt 3 (up_PeerQuorumReports p),
        up_MinProbeTargetsPerEpoch := dflt 3 (up_MinProbeTargetsPerEpoch p),
        up_MaxProbeTargetsPerEpoch := dflt 5 (up_MaxProbeTargetsPerEpoch p),
        up_RequiredOpenPorts := dflts [4444, 4445, 8002] (up_RequiredOpenPorts p),
        up_ConsecutiveEpochsToPostpone := dflt 1 (up_ConsecutiveEpochsToPostpone p),
        up_KeepLastEpochEntries := dflt 200 (up_KeepLastEpochEntries p),
        up_PeerPortPostponeThresholdPercent := dflt 100 (up_PeerPortPostponeThresholdPercent p),
        up_ActionFinalizationSignatureFailureEvidencesPerEpoch := dflt 1 (up_ActionFinalizationSignatureFailureEvidencesPerEpoch p),
        up_ActionFinalizationSignatureFailureConsecutiveEpochs := dflt 1 (up_ActionFinalizationSignatureFailureConsecutiveEpochs p),
        up_ActionFinalizationNotInTop10EvidencesPerEpoch := dflt 1 (up_ActionFinalizationNotInTop10EvidencesPerEpoch p),
        up_ActionFinalizationNotInTop10ConsecutiveEpochs := dflt 1 (up_ActionFinalizationNotInTop10ConsecutiveEpochs p),
        up_ActionFinalizationRecoveryEpochs := dflt 1 (up_ActionFinalizationRecoveryEpochs p),
        up_ActionFinalizationRecoveryMaxTotalBadEvidences := dflt 1 (up_ActionFinalizationRecoveryMaxTotalBadEvidences p),
        up_StorageTruthRecentBucketMaxBlocks := dflt (storageTruthRecentBucketMaxBlocksForEpochSpan len) (up_StorageTruthRecentBucketMaxBlocks p),
        up_StorageTruthOldBucketMinBlocks := dflt (storageTruthOldBucketMinBlocksForEpochSpan len) (up_StorageTruthOldBucketMinBlocks p),
        up_StorageTruthChallengeTargetDivisor := dflt 3 (up_StorageTruthChallengeTargetDivisor p),
        up_StorageTruthCompoundRangesPerArtifact := dflt 4 (up_StorageTruthCompoundRangesPerArtifact p),
        up_StorageTruthCompoundRangeLenBytes := dflt 256 (up_StorageTruthCompoundRangeLenBytes p),
        up_StorageTruthMaxSelfHealOpsPerEpoch := dflt 5 (up_StorageTruthMaxSelfHealOpsPerEpoch p),
        up_StorageTruthProbationEpochs := dflt 3 (up_StorageTruthProbationEpochs p),
        up_StorageTruthNodeSuspicionDecayPerEpoch := dflt 920 (up_StorageTruthNodeSuspicionDecayPerEpoch p),
        up_StorageTruthReporterReliabilityDecayPerEpoch := dflt 900 (up_StorageTruthReporterReliabilityDecayPerEpoch p),
        up_StorageTruthTicketDeteriorationDecayPerEpoch := dflt 900 (up_StorageTruthTicketDeteriorationDecayPerEpoch p),
        up_StorageTruthNodeSuspicionThresholdWatch := dflt 20 (up_StorageTruthNodeSuspicionThresholdWatch p),
        up_StorageTruthNodeSuspicionThresholdProbation := dflt 50 (up_StorageTruthNodeSuspicionThresholdProbation p),
        up_StorageTruthNodeSuspicionThresholdPostpone := dflt 90 (up_StorageTruthNodeSuspicionThresholdPostpone p),
        up_StorageTruthReporterReliabilityLowTrustThreshold := dflt 20 (up_StorageTruthReporterReliabilityLowTrustThreshold p),
        up_StorageTruthReporterReliabilityIneligibleThreshold := dflt 90 (up_StorageTruthReporterReliabilityIneligibleThreshold p),
        up_StorageTruthTicketDeteriorationHealThreshold := dflt 50 (up_StorageTruthTicketDeteriorationHealThreshold p),
        up_StorageTruthReporterReliabilityDegradedThreshold := dflt 50 (up_StorageTruthReporterReliabilityDegradedThreshold p),
        up_StorageTruthPatternEscalationWindow := dflt 14 (up_StorageTruthPatternEscalationWindow p),
        up_StorageTruthDivergenceWindowEpochs := dflt 14 (up_StorageTruthDivergenceWindowEpochs p),
        up_StorageTruthReporterMinReportsForDivergence := dflt 5 (up_StorageTruthReporterMinReportsForDivergence p),
        up_StorageTruthNodeSuspicionThresholdStrongPostpone := dflt 140 (up_StorageTruthNodeSuspicionThresholdStrongPostpone p),
        up_StorageTruthRecoveryCleanPassCount := dflt 3 (up_StorageTruthRecoveryCleanPassCount p),
        up_StorageTruthClassAFaultWindow := dflt 14 (up_StorageTruthClassAFaultWindow p),
        up_StorageTruthClassBFaultWindow := dflt 7 (up_StorageTruthClassBFaultWindow p),
        up_StorageTruthHealDeadlineEpochs := dflt 3 (up_StorageTruthHealDeadlineEpochs p),
        up_StorageTruthOldClassAFaultWindow := dflt 21 (up_StorageTruthOldClassAFaultWindow p),
        up_StorageTruthContradictionWindowEpochs := dflt 7 (up_StorageTruthContradictionWindowEpochs p),
        up_StorageTruthReporterIneligibleDurationEpochs := dflt 7 (up_StorageTruthReporterIneligibleDurationEpochs p),
        up_StorageTruthStrongRecoveryCleanPassCount := dflt 5 (up_StorageTruthStrongRecoveryCleanPassCount p),
        up_StorageTruthHealVerifierCount := dflt 2 (up_StorageTruthHealVerifierCount p)\<rparr>)"

section \<open>Validation\<close>

definition requiredHistory :: "audit_params \<Rightarrow> int" where
  "requiredHistory p = Max (set
     [up_ConsecutiveEpochsToPostpone p, up_ActionFinalizationSignatureFailureConsecutiveEpochs p,
      up_ActionFinalizationNotInTop10ConsecutiveEpochs p, up_ActionFinalizationRecoveryEpochs p,
      up_StorageTruthClassAFaultWindow p, up_StorageTruthClassBFaultWindow p,
      up_StorageTruthOldClassAFaultWindow p, up_StorageTruthPatternEscalationWindow p,
      up_StorageTruthContradictionWindowEpochs p, up_StorageTruthDivergenceWindowEpochs p,
      up_StorageTruthHealDeadlineEpochs p])"

definition epoch_windows :: "audit_params \<Rightarrow> int list" where
  "epoch_windows p =
     [up_StorageTruthClassAFaultWindow p, up_StorageTruthClassBFaultWindow p, up_StorageTruthOldClassAFaultWindow p,
      up_StorageTruthPatternEscalationWindow p, up_StorageTruthDivergenceWindowEpochs p,
      up_StorageTruthContradictionWindowEpochs p, up_StorageTruthHealDeadlineEpochs p,
      up_StorageTruthReporterIneligibleDurationEpochs p]"

text \<open>The second check of the epoch windows repeats the first and is left out; ports are unique when the
  sorted list has no two equal neighbours.\<close>

definition audit_Params_Validate :: "audit_params \<Rightarrow> param_error + unit" where
  "audit_Params_Validate p = checks
     [check ''epoch_length_blocks must be > 0'' (up_EpochLengthBlocks p \<noteq> 0),
      check ''epoch_zero_height must be > 0'' (up_EpochZeroHeight p \<noteq> 0),
      check ''epoch_length_blocks max'' (up_EpochLengthBlocks p \<le> 2 ^ 63 - 1),
      check ''epoch_zero_height max'' (up_EpochZeroHeight p \<le> 2 ^ 63 - 1),
      check ''peer_quorum_reports'' (up_PeerQuorumReports p \<noteq> 0),
      check ''max_probe_targets_per_epoch'' (up_MaxProbeTargetsPerEpoch p \<noteq> 0 \<and> up_MaxProbeTargetsPerEpoch p \<le> 1024),
      check ''min_probe_targets_per_epoch'' (up_MinProbeTargetsPerEpoch p \<le> up_MaxProbeTargetsPerEpoch p),
      check ''required_open_ports'' (up_RequiredOpenPorts p \<noteq> []),
      check ''min_cpu_free_percent'' (up_MinCpuFreePercent p \<le> 100),
      check ''min_mem_free_percent'' (up_MinMemFreePercent p \<le> 100),
      check ''min_disk_free_percent'' (up_MinDiskFreePercent p \<le> 100),
      check ''consecutive_epochs_to_postpone'' (up_ConsecutiveEpochsToPostpone p \<noteq> 0),
      check ''keep_last_epoch_entries'' (up_KeepLastEpochEntries p \<noteq> 0),
      check ''keep_last_epoch_entries max'' (up_KeepLastEpochEntries p \<le> 10000),
      check ''storage-truth epoch windows'' (list_all (\<lambda>v. v \<le> 10000) (epoch_windows p)),
      check ''keep_last_epoch_entries lookback'' (\<not> (requiredHistory p > 0 \<and> up_KeepLastEpochEntries p < requiredHistory p)),
      check ''peer_port_postpone_threshold_percent''
        (up_PeerPortPostponeThresholdPercent p \<noteq> 0 \<and> up_PeerPortPostponeThresholdPercent p \<le> 100),
      check ''signature_failure_evidences_per_epoch'' (up_ActionFinalizationSignatureFailureEvidencesPerEpoch p \<noteq> 0),
      check ''signature_failure_consecutive_epochs'' (up_ActionFinalizationSignatureFailureConsecutiveEpochs p \<noteq> 0),
      check ''not_in_top_10_evidences_per_epoch'' (up_ActionFinalizationNotInTop10EvidencesPerEpoch p \<noteq> 0),
      check ''not_in_top_10_consecutive_epochs'' (up_ActionFinalizationNotInTop10ConsecutiveEpochs p \<noteq> 0),
      check ''action_finalization_recovery_epochs'' (up_ActionFinalizationRecoveryEpochs p \<noteq> 0),
      check ''action_finalization_recovery_max_total_bad_evidences''
        (up_ActionFinalizationRecoveryMaxTotalBadEvidences p \<noteq> 0),
      check ''sc_challengers_per_epoch'' (up_ScChallengersPerEpoch p \<le> 1024),
      check ''recent_bucket_max_blocks'' (up_StorageTruthRecentBucketMaxBlocks p \<noteq> 0),
      check ''old_bucket_min_blocks'' (up_StorageTruthOldBucketMinBlocks p \<noteq> 0),
      check ''bucket order'' (up_StorageTruthRecentBucketMaxBlocks p < up_StorageTruthOldBucketMinBlocks p),
      check ''challenge_target_divisor'' (up_StorageTruthChallengeTargetDivisor p \<noteq> 0),
      check ''compound_ranges_per_artifact'' (up_StorageTruthCompoundRangesPerArtifact p \<noteq> 0),
      check ''compound_range_len_bytes'' (up_StorageTruthCompoundRangeLenBytes p \<noteq> 0),
      check ''max_self_heal_ops_per_epoch'' (up_StorageTruthMaxSelfHealOpsPerEpoch p \<noteq> 0),
      check ''probation_epochs'' (up_StorageTruthProbationEpochs p \<noteq> 0),
      check ''watch <= probation'' (up_StorageTruthNodeSuspicionThresholdWatch p \<le> up_StorageTruthNodeSuspicionThresholdProbation p),
      check ''probation <= postpone'' (up_StorageTruthNodeSuspicionThresholdProbation p \<le> up_StorageTruthNodeSuspicionThresholdPostpone p),
      check ''low_trust_threshold'' (0 \<le> up_StorageTruthReporterReliabilityLowTrustThreshold p),
      check ''degraded_threshold'' (0 \<le> up_StorageTruthReporterReliabilityDegradedThreshold p),
      check ''ineligible_threshold'' (0 \<le> up_StorageTruthReporterReliabilityIneligibleThreshold p),
      check ''low_trust <= degraded''
        (up_StorageTruthReporterReliabilityLowTrustThreshold p \<le> up_StorageTruthReporterReliabilityDegradedThreshold p),
      check ''degraded <= ineligible''
        (up_StorageTruthReporterReliabilityDegradedThreshold p \<le> up_StorageTruthReporterReliabilityIneligibleThreshold p),
      check ''node_suspicion_decay'' (1 \<le> up_StorageTruthNodeSuspicionDecayPerEpoch p \<and> up_StorageTruthNodeSuspicionDecayPerEpoch p \<le> 1000),
      check ''reporter_reliability_decay''
        (1 \<le> up_StorageTruthReporterReliabilityDecayPerEpoch p \<and> up_StorageTruthReporterReliabilityDecayPerEpoch p \<le> 1000),
      check ''ticket_deterioration_decay''
        (1 \<le> up_StorageTruthTicketDeteriorationDecayPerEpoch p \<and> up_StorageTruthTicketDeteriorationDecayPerEpoch p \<le> 1000),
      check ''heal_threshold'' (0 < up_StorageTruthTicketDeteriorationHealThreshold p),
      check ''postpone < strong_postpone''
        (up_StorageTruthNodeSuspicionThresholdPostpone p < up_StorageTruthNodeSuspicionThresholdStrongPostpone p),
      check ''old_class_a_fault_window'' (up_StorageTruthOldClassAFaultWindow p \<noteq> 0),
      check ''old_class_a >= class_a'' (up_StorageTruthClassAFaultWindow p \<le> up_StorageTruthOldClassAFaultWindow p),
      check ''pattern_escalation_window'' (up_StorageTruthPatternEscalationWindow p \<noteq> 0),
      check ''divergence_window_epochs'' (up_StorageTruthDivergenceWindowEpochs p \<noteq> 0),
      check ''min_reports_for_divergence'' (up_StorageTruthReporterMinReportsForDivergence p \<noteq> 0),
      check ''strong_postpone > 0'' (0 < up_StorageTruthNodeSuspicionThresholdStrongPostpone p),
      check ''recovery_clean_pass_count'' (up_StorageTruthRecoveryCleanPassCount p \<noteq> 0),
      check ''strong_recovery_clean_pass_count'' (up_StorageTruthStrongRecoveryCleanPassCount p \<noteq> 0),
      check ''strong >= recovery'' (up_StorageTruthRecoveryCleanPassCount p \<le> up_StorageTruthStrongRecoveryCleanPassCount p),
      check ''heal_verifier_count'' (up_StorageTruthHealVerifierCount p \<noteq> 0 \<and> up_StorageTruthHealVerifierCount p \<le> 32),
      check ''class_b_fault_window'' (up_StorageTruthClassBFaultWindow p \<noteq> 0),
      check ''heal_deadline_epochs'' (up_StorageTruthHealDeadlineEpochs p \<noteq> 0),
      check ''contradiction_window_epochs'' (up_StorageTruthContradictionWindowEpochs p \<noteq> 0),
      check ''reporter_ineligible_duration_epochs'' (up_StorageTruthReporterIneligibleDurationEpochs p \<noteq> 0),
      check ''enforcement_mode'' (up_StorageTruthEnforcementMode p \<in> {MODE_UNSPECIFIED, MODE_SHADOW, MODE_SOFT, MODE_FULL}),
      check ''required_open_ports must be unique'' (let ports = sort (up_RequiredOpenPorts p)
         in list_all (\<lambda>i. ports ! i \<noteq> ports ! (i - 1)) [1..<length ports])]"

section \<open>Reading, storing and updating (keeper/params.go, msg\_update\_params.go)\<close>

text \<open>The stored parameters are absent before genesis.\<close>

definition audit_GetParams :: "audit_params option \<Rightarrow> audit_params" where
  "audit_GetParams stored = (case stored of None \<Rightarrow> audit_DefaultParams | Some p \<Rightarrow> audit_WithDefaults p)"

definition audit_SetParams :: "audit_params \<Rightarrow> param_error + audit_params option" where
  "audit_SetParams p =
     (let params = audit_WithDefaults p in bindR (audit_Params_Validate params) (\<lambda>_. Inr (Some params)))"

definition audit_UpdateParams ::
    "string \<Rightarrow> string \<Rightarrow> audit_params \<Rightarrow> audit_params option \<Rightarrow> param_error + audit_params option" where
  "audit_UpdateParams authority signer incoming stored =
     (if signer \<noteq> authority then Inl ''invalid authority''
      else let params = audit_WithDefaults incoming;
               current = audit_WithDefaults (audit_GetParams stored)
           in bindR (audit_Params_Validate params) (\<lambda>_.
              if up_EpochLengthBlocks params \<noteq> up_EpochLengthBlocks current
              then Inl ''epoch_length_blocks is immutable after genesis''
              else if up_EpochZeroHeight params \<noteq> up_EpochZeroHeight current
              then Inl ''epoch_zero_height is immutable after genesis''
              else audit_SetParams params))"

section \<open>Epochs (epoch\_math.go)\<close>

record epoch_info =
  ei_EpochID :: int
  ei_StartHeight :: int
  ei_EndHeight :: int

text \<open>Heights are \<open>int64\<close>; the division truncates.\<close>

definition deriveEpochAtHeight :: "int \<Rightarrow> audit_params \<Rightarrow> string + epoch_info" where
  "deriveEpochAtHeight height p =
     (let params = audit_WithDefaults p in
      if up_EpochLengthBlocks params = 0 then Inl ''epoch_length_blocks must be > 0''
      else if up_EpochZeroHeight params = 0 then Inl ''epoch_zero_height must be > 0''
      else
        let epochZero = i64 (up_EpochZeroHeight params); epochLen = i64 (up_EpochLengthBlocks params);
            (epochID, start) = (if height < epochZero then (0, epochZero)
              else let rel = i64 (height - epochZero); eid = u64 (i64 (rel sdiv epochLen))
                   in (eid, i64 (epochZero + i64 (i64 eid * epochLen))))
        in Inr \<lparr>ei_EpochID = epochID, ei_StartHeight = start, ei_EndHeight = i64 (i64 (start + epochLen) - 1)\<rparr>)"

definition deriveEpochByID :: "int \<Rightarrow> audit_params \<Rightarrow> string + epoch_info" where
  "deriveEpochByID epochID p =
     (let params = audit_WithDefaults p in
      if up_EpochLengthBlocks params = 0 then Inl ''epoch_length_blocks must be > 0''
      else if up_EpochZeroHeight params = 0 then Inl ''epoch_zero_height must be > 0''
      else
        let epochZero = i64 (up_EpochZeroHeight params); epochLen = i64 (up_EpochLengthBlocks params);
            start = i64 (epochZero + i64 (i64 epochID * epochLen))
        in Inr \<lparr>ei_EpochID = epochID, ei_StartHeight = start, ei_EndHeight = i64 (i64 (start + epochLen) - 1)\<rparr>)"

section \<open>Epochs\<close>

lemma WithDefaults_epoch [simp]:
  "up_EpochLengthBlocks (audit_WithDefaults p) = dflt 400 (up_EpochLengthBlocks p)"
  "up_EpochZeroHeight (audit_WithDefaults p) = dflt 1 (up_EpochZeroHeight p)"
  by (simp_all add: audit_WithDefaults_def Let_def)

lemma dflt_idem [simp]: "d \<noteq> 0 \<Longrightarrow> dflt d (dflt d x) = dflt d x"
  by (simp add: dflt_def)

lemma deriveEpoch_cadence:
  assumes "dflt 400 (up_EpochLengthBlocks p) = dflt 400 (up_EpochLengthBlocks q)" "dflt 1 (up_EpochZeroHeight p) = dflt 1 (up_EpochZeroHeight q)"
  shows "deriveEpochAtHeight h p = deriveEpochAtHeight h q" "deriveEpochByID e p = deriveEpochByID e q"
  using assms by (simp_all add: deriveEpochAtHeight_def deriveEpochByID_def Let_def)

text \<open>C36: The epoch of a height. With a positive epoch length and zero height, and heights that do not come
  within one epoch of the end of \<open>int64\<close>, every height lies in exactly the epoch that
  \<open>deriveEpochAtHeight\<close> returns, heights before the zero height count to epoch 0, the epochs are
  consecutive ranges of equal length, and looking the epoch up by its identifier gives the same one.\<close>

theorem epoch_of_height:
  assumes "0 < dflt 400 (up_EpochLengthBlocks p)" "0 < dflt 1 (up_EpochZeroHeight p)" "0 \<le> h"
    "h + dflt 400 (up_EpochLengthBlocks p) < 2 ^ 63" "dflt 1 (up_EpochZeroHeight p) + dflt 400 (up_EpochLengthBlocks p) < 2 ^ 63"
  shows "\<exists>i. deriveEpochAtHeight h p = Inr i \<and> deriveEpochByID (ei_EpochID i) p = Inr i
    \<and> 0 \<le> ei_EpochID i
    \<and> ei_StartHeight i = dflt 1 (up_EpochZeroHeight p) + ei_EpochID i * dflt 400 (up_EpochLengthBlocks p)
    \<and> ei_EndHeight i = ei_StartHeight i + dflt 400 (up_EpochLengthBlocks p) - 1
    \<and> (if h < dflt 1 (up_EpochZeroHeight p) then ei_EpochID i = 0 else ei_StartHeight i \<le> h \<and> h \<le> ei_EndHeight i)"
proof -
  define len z where "len = dflt 400 (up_EpochLengthBlocks p)" and "z = dflt 1 (up_EpochZeroHeight p)"
  note b = assms [folded len_def z_def]
  define q where "q = (if h < z then 0 else (h - z) div len)"
  have q0: "0 \<le> q" using b by (auto simp: q_def pos_imp_zdiv_nonneg_iff)
  have dm: "h - z = (h - z) div len * len + (h - z) mod len" by simp
  have "0 \<le> (h - z) mod len" "(h - z) mod len < len" using b by simp_all
  then have "q * len \<le> h - z \<and> h - z < q * len + len" if "z \<le> h"
    using dm that unfolding q_def by (simp only: not_less if_False if_not_P) linarith
  then have q: "z \<le> h \<longrightarrow> z + q * len \<le> h \<and> h < z + q * len + len" by auto
  have ql: "0 \<le> q * len" "q \<le> q * len" using b q0 by (auto simp: mult_le_cancel_left1)
  have qb: "q * len + z + len < 2 ^ 63" using b q by (cases "h < z") (auto simp: q_def)
  have w: "i64 len = len" "i64 z = z" "i64 q = q" "u64 q = q" "i64 (q * len) = q * len" "i64 (z + q * len) = z + q * len"
    "i64 (z + q * len + len) = z + q * len + len" "i64 (z + q * len + len - 1) = z + q * len + len - 1"
    using b q0 ql qb by (auto intro!: i64_id u64_id)
  have rel: "z \<le> h \<Longrightarrow> i64 (h - z) = h - z \<and> (h - z) sdiv len = q"
    using b by (auto simp: q_def sdiv_nonneg intro!: i64_id)
  have at: "deriveEpochAtHeight h p = Inr \<lparr>ei_EpochID = q, ei_StartHeight = z + q * len, ei_EndHeight = z + q * len + len - 1\<rparr>"
  proof (cases "h < z")
    case True
    then have "q = 0" by (simp add: q_def)
    then show ?thesis using True w b by (simp add: deriveEpochAtHeight_def Let_def flip: len_def z_def)
  next
    case False
    then show ?thesis using rel w b by (simp add: deriveEpochAtHeight_def Let_def flip: len_def z_def)
  qed
  have by_id: "deriveEpochByID q p = Inr \<lparr>ei_EpochID = q, ei_StartHeight = z + q * len, ei_EndHeight = z + q * len + len - 1\<rparr>"
    using w b by (simp add: deriveEpochByID_def Let_def flip: len_def z_def)
  show ?thesis using at by_id q0 q by (auto simp: q_def simp flip: len_def z_def)
qed

theorem epoch_of_height_witness:
  "\<exists>i. deriveEpochAtHeight 1000 audit_DefaultParams = Inr i \<and> deriveEpochByID (ei_EpochID i) audit_DefaultParams = Inr i
     \<and> ei_StartHeight i \<le> 1000 \<and> 1000 \<le> ei_EndHeight i"
  using epoch_of_height [of audit_DefaultParams 1000] by (auto simp: audit_DefaultParams_def dflt_def)

text \<open>C37: A parameter update comes from the authority and can never change the map from heights to
  epochs or the boundaries of an epoch.\<close>

theorem epoch_map_fixed:
  assumes "audit_UpdateParams authority signer p stored = Inr stored'"
  shows "signer = authority \<and> deriveEpochAtHeight h (audit_GetParams stored') = deriveEpochAtHeight h (audit_GetParams stored)
    \<and> deriveEpochByID e (audit_GetParams stored') = deriveEpochByID e (audit_GetParams stored)"
proof -
  have s: "signer = authority" "stored' = Some (audit_WithDefaults (audit_WithDefaults p))"
    "dflt 400 (up_EpochLengthBlocks p) = dflt 400 (up_EpochLengthBlocks (audit_GetParams stored))"
    "dflt 1 (up_EpochZeroHeight p) = dflt 1 (up_EpochZeroHeight (audit_GetParams stored))"
    using assms by (auto simp: audit_UpdateParams_def audit_SetParams_def Let_def split: if_splits)
  then show ?thesis
    using deriveEpoch_cadence [of "audit_GetParams stored'" "audit_GetParams stored"] by (simp add: audit_GetParams_def)
qed

theorem epoch_map_fixed_witness:
  "audit_UpdateParams ''gov'' ''gov'' audit_DefaultParams None = Inr (Some audit_DefaultParams)
   \<and> deriveEpochAtHeight 7 (audit_GetParams (Some audit_DefaultParams)) = deriveEpochAtHeight 7 (audit_GetParams None)"
proof -
  have u: "audit_UpdateParams ''gov'' ''gov'' audit_DefaultParams None = Inr (Some audit_DefaultParams)" by code_simp
  show ?thesis using u epoch_map_fixed [OF u, of 7 0] by simp
qed

end
