(* ===== verification/Audit_Score.thy ===== *)
theory Audit_Score
  imports Audit_Params
begin

text \<open>
  The arithmetic of the storage-truth scores (keeper/storage\_truth\_scoring.go): saturating addition,
  scaling and exponential decay on \<open>int64\<close>, the score deltas of a proof result, the bands of a score
  and the window and escalation helpers.
\<close>

named_theorems score_simps

section \<open>Enumerations (types/audit.pb.go)\<close>

datatype bucket_type = BUCKET_UNSPECIFIED | BUCKET_RECENT | BUCKET_OLD | BUCKET_PROBATION | BUCKET_RECHECK | BUCKET_OTHER int

fun bucket_num :: "bucket_type \<Rightarrow> int" where
  "bucket_num BUCKET_UNSPECIFIED = 0"
| "bucket_num BUCKET_RECENT = 1"
| "bucket_num BUCKET_OLD = 2"
| "bucket_num BUCKET_PROBATION = 3"
| "bucket_num BUCKET_RECHECK = 4"
| "bucket_num (BUCKET_OTHER n) = u32 n"

datatype artifact_class = ARTIFACT_UNSPECIFIED | ARTIFACT_INDEX | ARTIFACT_SYMBOL | ARTIFACT_OTHER int

datatype result_class =
    RESULT_UNSPECIFIED | RESULT_PASS | RESULT_HASH_MISMATCH | RESULT_TIMEOUT_OR_NO_RESPONSE
  | RESULT_OBSERVER_QUORUM_FAIL | RESULT_NO_ELIGIBLE_TICKET | RESULT_INVALID_TRANSCRIPT
  | RESULT_RECHECK_CONFIRMED_FAIL | RESULT_OTHER int

datatype trust_band = BAND_UNSPECIFIED | BAND_NORMAL | BAND_LOW_TRUST | BAND_CHALLENGER_INELIGIBLE | BAND_DEGRADED

record proof_result =
  pr_TargetSupernodeAccount :: string
  pr_ChallengerSupernodeAccount :: string
  pr_TicketId :: string
  pr_BucketType :: bucket_type
  pr_ArtifactClass :: artifact_class
  pr_ArtifactOrdinal :: int
  pr_ArtifactKey :: string
  pr_ResultClass :: result_class
  pr_TranscriptHash :: string
  pr_Details :: string
  pr_ArtifactCount :: int
  pr_DerivationInputHash :: string
  pr_ChallengerSignature :: string
  pr_ObserverAttestationSignatures :: "string list"

section \<open>Saturating and scaled arithmetic\<close>

definition addInt64Saturated :: "int \<Rightarrow> int \<Rightarrow> int" where
  "addInt64Saturated a b =
     (if 0 < b \<and> a > 2 ^ 63 - 1 - b then 2 ^ 63 - 1
      else if b < 0 \<and> a < - (2 ^ 63) - b then - (2 ^ 63)
      else i64 (a + b))"

text \<open>\<open>big.Int\<close> arithmetic: exact product, truncated quotient, then the low 64 bits.\<close>

definition scaleInt64TowardZero :: "int \<Rightarrow> int \<Rightarrow> int \<Rightarrow> int" where
  "scaleInt64TowardZero v numerator denominator =
     (if denominator \<le> 0 \<or> numerator \<le> 0 \<or> v = 0 then 0
      else if numerator \<ge> denominator then v
      else i64 ((v * numerator) sdiv denominator))"

text \<open>The loop stops at zero, which scaling keeps.\<close>

fun decay_loop :: "nat \<Rightarrow> int \<Rightarrow> int \<Rightarrow> int" where
  "decay_loop 0 factor r = r"
| "decay_loop (Suc n) factor r =
     (let r' = scaleInt64TowardZero r factor 1000 in if r' = 0 then 0 else decay_loop n factor r')"

definition decayTowardZero :: "int \<Rightarrow> int \<Rightarrow> int \<Rightarrow> int" where
  "decayTowardZero score factorNumerator elapsedEpochs =
     (if score = 0 \<or> elapsedEpochs = 0 then score
      else if factorNumerator \<le> 0 then score
      else if factorNumerator > 1000 then score
      else if factorNumerator = 1000 then score
      else
        let iterations = (if elapsedEpochs > 50 then 50 else elapsedEpochs);
            result = decay_loop (nat iterations) factorNumerator score
        in if result = 0 then 0
           else if score > 0 then (if result < 0 then 0 else result)
           else if result > 0 then 0 else result)"

definition epochDelta :: "int \<Rightarrow> int \<Rightarrow> int" where
  "epochDelta currentEpoch lastUpdatedEpoch = (if currentEpoch \<le> lastUpdatedEpoch then 0 else currentEpoch - lastUpdatedEpoch)"

definition storageTruthWindowStart :: "int \<Rightarrow> int \<Rightarrow> int" where
  "storageTruthWindowStart epochID window =
     (if window = 0 \<or> u64 (epochID + 1) \<le> window then 0 else u64 (epochID - window + 1))"

section \<open>Deltas and bands\<close>

definition isStorageTruthFailureClass :: "result_class \<Rightarrow> bool" where
  "isStorageTruthFailureClass c \<longleftrightarrow> c \<in> {RESULT_HASH_MISMATCH, RESULT_TIMEOUT_OR_NO_RESPONSE,
     RESULT_OBSERVER_QUORUM_FAIL, RESULT_INVALID_TRANSCRIPT, RESULT_RECHECK_CONFIRMED_FAIL}"

definition storageTruthResultsContradict :: "result_class \<Rightarrow> result_class \<Rightarrow> bool" where
  "storageTruthResultsContradict prev current \<longleftrightarrow>
     (prev = RESULT_PASS \<and> isStorageTruthFailureClass current) \<or> (current = RESULT_PASS \<and> isStorageTruthFailureClass prev)"

definition isStorageTruthRecheckEligible :: "result_class \<Rightarrow> bool" where
  "isStorageTruthRecheckEligible c \<longleftrightarrow> c \<in> {RESULT_HASH_MISMATCH, RESULT_TIMEOUT_OR_NO_RESPONSE,
     RESULT_OBSERVER_QUORUM_FAIL, RESULT_INVALID_TRANSCRIPT}"

record score_deltas =
  sd_node :: int
  sd_reporter :: int
  sd_ticket :: int

definition deltas :: "int \<Rightarrow> int \<Rightarrow> int \<Rightarrow> score_deltas" where
  "deltas n r t = \<lparr>sd_node = n, sd_reporter = r, sd_ticket = t\<rparr>"

definition storageTruthScoreDeltasForResult :: "proof_result \<Rightarrow> score_deltas" where
  "storageTruthScoreDeltasForResult r =
     (case pr_ResultClass r of
        RESULT_PASS \<Rightarrow>
          (case pr_BucketType r of
             BUCKET_RECENT \<Rightarrow> deltas (-3) 0 (-2)
           | BUCKET_OLD \<Rightarrow> deltas (-2) 0 (-3)
           | _ \<Rightarrow> deltas (-2) 0 (-2))
      | RESULT_HASH_MISMATCH \<Rightarrow>
          (case pr_ArtifactClass r of ARTIFACT_INDEX \<Rightarrow> deltas 26 1 12 | _ \<Rightarrow> deltas 18 1 5)
      | RESULT_TIMEOUT_OR_NO_RESPONSE \<Rightarrow> deltas 7 0 3
      | RESULT_OBSERVER_QUORUM_FAIL \<Rightarrow> deltas 4 0 0
      | RESULT_RECHECK_CONFIRMED_FAIL \<Rightarrow> deltas 15 3 8
      | _ \<Rightarrow> deltas 0 0 0)"

definition reporterTrustBandForScore :: "int \<Rightarrow> audit_params \<Rightarrow> trust_band" where
  "reporterTrustBandForScore score params =
     (let ineligible = (if up_StorageTruthReporterReliabilityIneligibleThreshold params \<le> 0 then 90
                        else up_StorageTruthReporterReliabilityIneligibleThreshold params);
          degraded = (if up_StorageTruthReporterReliabilityDegradedThreshold params \<le> 0 then 50
                      else up_StorageTruthReporterReliabilityDegradedThreshold params);
          lowTrust = (if up_StorageTruthReporterReliabilityLowTrustThreshold params \<le> 0 then 20
                      else up_StorageTruthReporterReliabilityLowTrustThreshold params)
      in if score \<ge> ineligible then BAND_CHALLENGER_INELIGIBLE
         else if score \<ge> degraded then BAND_DEGRADED
         else if score \<ge> lowTrust then BAND_LOW_TRUST else BAND_NORMAL)"

definition reporterTrustMultiplierNumerator :: "int \<Rightarrow> int" where
  "reporterTrustMultiplierNumerator score =
     (if score \<le> 0 then 100 else if i64 (100 - score) < 50 then 50 else i64 (100 - score))"

definition repeatedFailureEscalationBonus :: "int \<Rightarrow> int" where
  "repeatedFailureEscalationBonus count = (if count \<le> 1 then 0 else if count = 2 then 10 else 15)"

datatype suspicion_band = SB_None | SB_Watch | SB_Probation | SB_Postpone | SB_StrongPostpone

definition storageTruthBandForScore :: "int \<Rightarrow> audit_params \<Rightarrow> suspicion_band" where
  "storageTruthBandForScore score params =
     (if up_StorageTruthNodeSuspicionThresholdStrongPostpone params > 0
         \<and> score \<ge> up_StorageTruthNodeSuspicionThresholdStrongPostpone params then SB_StrongPostpone
      else if up_StorageTruthNodeSuspicionThresholdPostpone params > 0
         \<and> score \<ge> up_StorageTruthNodeSuspicionThresholdPostpone params then SB_Postpone
      else if up_StorageTruthNodeSuspicionThresholdProbation params > 0
         \<and> score \<ge> up_StorageTruthNodeSuspicionThresholdProbation params then SB_Probation
      else if up_StorageTruthNodeSuspicionThresholdWatch params > 0
         \<and> score \<ge> up_StorageTruthNodeSuspicionThresholdWatch params then SB_Watch
      else SB_None)"

section \<open>Scaling, decay and addition\<close>

lemma scaleInt64_div:
  assumes "0 \<le> v" "v < 2 ^ 63" "0 < n" "n < d"
  shows "scaleInt64TowardZero v n d = v * n div d" "0 \<le> v * n div d" "v * n div d \<le> v"
proof -
  have "v * n \<le> v * d" using assms by (intro mult_left_mono) auto
  then have "v * n div d \<le> v * d div d" using assms by (intro zdiv_mono1) auto
  then show le: "v * n div d \<le> v" using assms by simp
  show ge: "0 \<le> v * n div d" using assms by (simp add: pos_imp_zdiv_nonneg_iff)
  show "scaleInt64TowardZero v n d = v * n div d"
    using assms le ge by (auto simp: scaleInt64TowardZero_def sdiv_nonneg i64_id)
qed

lemma scaleInt64_cases:
  "0 < n \<and> n < d \<or> scaleInt64TowardZero v n d = 0 \<or> scaleInt64TowardZero v n d = v"
  by (auto simp: scaleInt64TowardZero_def)

lemma scaleInt64_bounds:
  assumes "0 \<le> v" "v < 2 ^ 63"
  shows "0 \<le> scaleInt64TowardZero v n d" "scaleInt64TowardZero v n d \<le> v"
  using assms scaleInt64_div [of v n d] scaleInt64_cases [of n d v] by auto

lemma scaleInt64_mono:
  assumes "0 \<le> v" "v \<le> w" "w < 2 ^ 63"
  shows "scaleInt64TowardZero v n d \<le> scaleInt64TowardZero w n d"
proof (cases "0 < n \<and> n < d")
  case True
  have "v * n \<le> w * n" using True assms by (intro mult_right_mono) auto
  then have "v * n div d \<le> w * n div d" using True by (intro zdiv_mono1) auto
  then show ?thesis using True assms scaleInt64_div(1) [of v n d] scaleInt64_div(1) [of w n d] by simp
next
  case False
  then show ?thesis using assms by (auto simp: scaleInt64TowardZero_def)
qed

lemma decay_loop_bounds:
  assumes "0 \<le> r" "r < 2 ^ 63"
  shows "0 \<le> decay_loop n f r \<and> decay_loop n f r \<le> r"
  using assms
proof (induction n arbitrary: r)
  case (Suc n)
  show ?case
    using Suc.IH [of "scaleInt64TowardZero r f 1000"] Suc.prems scaleInt64_bounds [of r f 1000] by (auto simp: Let_def)
qed simp

lemma decay_loop_mono:
  assumes "0 \<le> a" "a \<le> b" "b < 2 ^ 63"
  shows "decay_loop n f a \<le> decay_loop n f b"
  using assms
proof (induction n arbitrary: a b)
  case (Suc n)
  have "0 \<le> decay_loop n f (scaleInt64TowardZero b f 1000)"
    using decay_loop_bounds scaleInt64_bounds [of b f 1000] Suc.prems by force
  then show ?case
    using Suc.IH [of "scaleInt64TowardZero a f 1000" "scaleInt64TowardZero b f 1000"] Suc.prems
      scaleInt64_bounds [of a f 1000] scaleInt64_bounds [of b f 1000] scaleInt64_mono [of a b f 1000]
    by (auto simp: Let_def)
qed simp

lemma decay_loop_0 [simp]: "decay_loop n f 0 = 0"
  by (cases n) (simp_all add: Let_def scaleInt64TowardZero_def)

text \<open>Splitting the epochs in two and decaying twice gives the same score.\<close>

lemma decay_loop_add: "decay_loop (m + n) f r = decay_loop n f (decay_loop m f r)"
  by (induction m arbitrary: r) (simp_all add: Let_def)

lemma decayTowardZero_loop:
  assumes "0 \<le> v" "v < 2 ^ 63" "0 < f" "f < 1000"
  shows "decayTowardZero v f k = decay_loop (nat (min k 50)) f v"
  using assms decay_loop_bounds [of v "nat (min k 50)" f]
  by (auto simp: decayTowardZero_def Let_def min_def)

lemma addInt64Saturated_clamp:
  assumes "is_i64 a" "is_i64 b"
  shows "addInt64Saturated a b = max (- (2 ^ 63)) (min (2 ^ 63 - 1) (a + b))"
  using assms i64_id [of "a + b"] by (auto simp: addInt64Saturated_def)

lemma decayTowardZero_bounds:
  assumes "0 \<le> v" "v < 2 ^ 63"
  shows "0 \<le> decayTowardZero v f k \<and> decayTowardZero v f k \<le> v"
proof (cases "0 < f \<and> f < 1000")
  case True
  then show ?thesis using decayTowardZero_loop [of v f k] decay_loop_bounds [of v] assms by simp
next
  case False
  then show ?thesis using assms by (auto simp: decayTowardZero_def)
qed

lemma decayTowardZero_mono:
  assumes "0 \<le> v" "v \<le> w" "w < 2 ^ 63"
  shows "decayTowardZero v f k \<le> decayTowardZero w f k"
proof (cases "0 < f \<and> f < 1000")
  case True
  then show ?thesis using decayTowardZero_loop [of v f k] decayTowardZero_loop [of w f k] decay_loop_mono [of v w] assms by simp
next
  case False
  then show ?thesis using assms by (auto simp: decayTowardZero_def)
qed

lemma decayTowardZero_add:
  assumes "0 \<le> v" "v < 2 ^ 63" "0 \<le> a" "0 \<le> b" "a + b \<le> 50"
  shows "decayTowardZero v f (a + b) = decayTowardZero (decayTowardZero v f a) f b"
proof (cases "0 < f \<and> f < 1000")
  case True
  have n: "nat (min (a + b) 50) = nat (min a 50) + nat (min b 50)" using assms by auto
  have "decayTowardZero v f (a + b) = decay_loop (nat (min b 50)) f (decayTowardZero v f a)"
    using True assms by (simp only: decayTowardZero_loop n decay_loop_add)
  moreover have "0 \<le> decayTowardZero v f a" "decayTowardZero v f a < 2 ^ 63"
    using decayTowardZero_bounds [of v f a] assms by simp_all
  ultimately show ?thesis using True by (simp add: decayTowardZero_loop)
next
  case False
  then show ?thesis by (auto simp: decayTowardZero_def)
qed

text \<open>C39: Decay and saturating addition of a score. A non-negative score decays to a non-negative score that
  is no larger, larger scores stay larger, and decaying twice, for \<open>a\<close> and then for \<open>b\<close> epochs,
  is decaying once for \<open>a + b\<close> epochs while the cap of 50 is not reached, so the lazy decay of the
  keeper does not depend on when a score is touched. Adding a delta is the exact sum clamped to \<open>int64\<close>.\<close>

theorem score_decay_bounds:
  assumes "0 \<le> v" "v \<le> w" "w < 2 ^ 63" "0 \<le> a" "0 \<le> b" "a + b \<le> 50" "is_i64 d"
  shows "0 \<le> decayTowardZero v f k \<and> decayTowardZero v f k \<le> v
    \<and> decayTowardZero v f k \<le> decayTowardZero w f k
    \<and> decayTowardZero v f (a + b) = decayTowardZero (decayTowardZero v f a) f b
    \<and> addInt64Saturated v d = max (- (2 ^ 63)) (min (2 ^ 63 - 1) (v + d))"
  using assms decayTowardZero_bounds [of v f k] decayTowardZero_mono [of v w f k] decayTowardZero_add [of v a b f]
    addInt64Saturated_clamp [of v d] by simp

theorem score_decay_bounds_witness:
  "decayTowardZero 1000 920 (3 + 4) = decayTowardZero (decayTowardZero 1000 920 3) 920 4
   \<and> decayTowardZero 1000 920 7 \<le> 1000 \<and> addInt64Saturated 1000 26 = 1026"
  using score_decay_bounds [of 1000 1000 3 4 26 920 7] by simp



end
