(* ===== verification/Audit_Assign.thy ===== *)
theory Audit_Assign
  imports Audit_Params Go_Sort
begin

text \<open>
  The deterministic choices of the audit module: the peers a reporter probes
  (keeper/audit\_peer\_assignment.go), the healer and verifiers of a heal operation
  (keeper/storage\_truth\_heal\_ops.go) and the challengers of an epoch
  (keeper/storage\_challenge\_deterministic.go). The hash functions are arguments. Where the code
  ranges over a Go map, the order of the iteration is an argument \<open>ord\<close>. Lengths and indexes are far
  below \<open>2^63\<close> and are natural numbers.
\<close>

unbundle bit_operations_syntax

section \<open>Probing targets of a reporter\<close>

definition be_bytes :: "bytes \<Rightarrow> int" where
  "be_bytes bs = foldl (\<lambda>a b. a * 256 + uint b) 0 bs"

definition computeKFromParams :: "audit_params \<Rightarrow> nat \<Rightarrow> nat \<Rightarrow> int" where
  "computeKFromParams params sendersCount receiversCount =
     (if sendersCount = 0 \<or> receiversCount \<le> 1 then 0
      else
        let a = int sendersCount; n = int receiversCount; q = up_PeerQuorumReports params;
            kNeeded = u64 (q * n + a - 1) div a;
            k1 = (if kNeeded < up_MinProbeTargetsPerEpoch params then up_MinProbeTargetsPerEpoch params else kNeeded);
            k2 = (if k1 > up_MaxProbeTargetsPerEpoch params then up_MaxProbeTargetsPerEpoch params else k1);
            k3 = (if k2 > n - 1 then n - 1 else k2)
        in u32 k3)"

text \<open>The first free candidate from \<open>c\<close> on, cyclically, within the given number of tries.\<close>

fun find_candidate :: "string list \<Rightarrow> string \<Rightarrow> nat list \<Rightarrow> nat \<Rightarrow> nat \<Rightarrow> nat option" where
  "find_candidate targets reporter seen 0 c = None"
| "find_candidate targets reporter seen (Suc tries) c =
     (if targets ! c \<noteq> reporter \<and> c \<notin> set seen then Some c
      else find_candidate targets reporter seen tries (Suc c mod length targets))"

fun assign_loop :: "string list \<Rightarrow> string \<Rightarrow> nat \<Rightarrow> nat list \<Rightarrow> nat list \<Rightarrow> nat list" where
  "assign_loop targets reporter first [] seen = []"
| "assign_loop targets reporter first (j # js) seen =
     (case find_candidate targets reporter seen (length targets) ((first + j) mod length targets) of
        None \<Rightarrow> []
      | Some c \<Rightarrow> c # assign_loop targets reporter first js (c # seen))"

fun index_of :: "'a \<Rightarrow> 'a list \<Rightarrow> nat option" where
  "index_of x [] = None"
| "index_of x (y # ys) = (if y = x then Some 0 else map_option Suc (index_of x ys))"

section \<open>Storage-truth targets\<close>

definition sortedUniqueStrings :: "string list \<Rightarrow> string list" where
  "sortedUniqueStrings xs = sort (remdups (filter (\<lambda>v. v \<noteq> []) xs))"

definition storageTruthAssignmentHash :: "(bytes \<Rightarrow> bytes) \<Rightarrow> bytes \<Rightarrow> string list \<Rightarrow> bytes" where
  "storageTruthAssignmentHash sha256 seed parts = sha256 (seed @ concat (map (\<lambda>p. 0 # bytes_of_string p) parts))"

definition storageTruthChallengeTargetCount :: "audit_params \<Rightarrow> nat \<Rightarrow> nat" where
  "storageTruthChallengeTargetCount params activeCount =
     (if activeCount = 0 then 0
      else
        let divisor = (if up_StorageTruthChallengeTargetDivisor params \<le> 0 then 3
                       else nat (up_StorageTruthChallengeTargetDivisor params));
            count = (activeCount + divisor - 1) div divisor;
            c1 = (if count < 1 then 1 else count)
        in if c1 > activeCount then activeCount else c1)"

text \<open>The order of accounts by hash, then by name.\<close>

definition better :: "(string \<Rightarrow> bytes) \<Rightarrow> string \<Rightarrow> string \<Rightarrow> bool" where
  "better rank t u \<longleftrightarrow> rank t < rank u \<or> (rank t = rank u \<and> t < u)"

definition rankStorageTruthAccounts :: "(bytes \<Rightarrow> bytes) \<Rightarrow> bytes \<Rightarrow> string list \<Rightarrow> string \<Rightarrow> string list" where
  "rankStorageTruthAccounts sha256 seed accounts lab =
     slice_stable (better (\<lambda>x. storageTruthAssignmentHash sha256 seed [x, lab])) accounts"

text \<open>The best target of a challenger in one pass: the smallest hash, then the smallest name.\<close>

fun pick_best :: "(string \<Rightarrow> bytes) \<Rightarrow> string \<Rightarrow> string list \<Rightarrow> string option \<Rightarrow> string option" where
  "pick_best rank challenger [] best = best"
| "pick_best rank challenger (t # ts) best =
     pick_best rank challenger ts
       (if t = challenger then best
        else case best of None \<Rightarrow> Some t | Some b \<Rightarrow> if better rank t b then Some t else best)"

definition pair_rank :: "(bytes \<Rightarrow> bytes) \<Rightarrow> bytes \<Rightarrow> string \<Rightarrow> string \<Rightarrow> bytes" where
  "pair_rank sha256 seed challenger t = storageTruthAssignmentHash sha256 seed [challenger, t, ''pair'']"

definition choose_target ::
    "(string list \<Rightarrow> string list) \<Rightarrow> (string \<Rightarrow> bytes) \<Rightarrow> string list \<Rightarrow> string list \<Rightarrow> string list \<Rightarrow> string \<Rightarrow> string option" where
  "choose_target ord rank ranked unassigned assigned challenger =
     (case pick_best rank challenger (ord unassigned) None of
        Some t \<Rightarrow> Some t
      | None \<Rightarrow> pick_best rank challenger (filter (\<lambda>t. t \<notin> set assigned) ranked) None)"

fun st_loop ::
    "(string list \<Rightarrow> string list) \<Rightarrow> (string \<Rightarrow> string \<Rightarrow> bytes) \<Rightarrow> string list \<Rightarrow> nat \<Rightarrow> string \<Rightarrow> string list
       \<Rightarrow> string list \<Rightarrow> string list \<Rightarrow> string list" where
  "st_loop ord rank ranked targetCount reporter [] unassigned assigned = []"
| "st_loop ord rank ranked targetCount reporter (challenger # cs) unassigned assigned =
     (if length assigned \<ge> targetCount then []
      else case choose_target ord (rank challenger) ranked unassigned assigned challenger of
        None \<Rightarrow> st_loop ord rank ranked targetCount reporter cs unassigned assigned
      | Some t \<Rightarrow>
          if challenger = reporter then [t]
          else st_loop ord rank ranked targetCount reporter cs (remove1 t unassigned) (t # assigned))"

definition computeStorageTruthTargetsForReporter ::
    "(string list \<Rightarrow> string list) \<Rightarrow> (bytes \<Rightarrow> bytes) \<Rightarrow> audit_params \<Rightarrow> string list \<Rightarrow> string list \<Rightarrow> bytes \<Rightarrow> string
       \<Rightarrow> string list" where
  "computeStorageTruthTargetsForReporter ord sha256 params activeSorted targetsSorted seed reporter =
     (if reporter \<notin> set activeSorted then []
      else
        let active = sortedUniqueStrings activeSorted;
            candidates = (if sortedUniqueStrings targetsSorted = [] then active else sortedUniqueStrings targetsSorted)
        in if length active \<le> 1 \<or> candidates = [] then []
           else
             let targetCount = min (storageTruthChallengeTargetCount params (length active)) (length candidates);
                 ranked = rankStorageTruthAccounts sha256 seed candidates ''challenge_target''
             in st_loop ord (pair_rank sha256 seed) ranked targetCount reporter active (take targetCount ranked) [])"

definition computeAuditPeerTargetsForReporter ::
    "(string list \<Rightarrow> string list) \<Rightarrow> (bytes \<Rightarrow> bytes) \<Rightarrow> audit_params \<Rightarrow> string list \<Rightarrow> string list \<Rightarrow> bytes \<Rightarrow> string
       \<Rightarrow> string + string list \<times> bool" where
  "computeAuditPeerTargetsForReporter ord sha256 params activeSorted targetsSorted seed reporter =
     (if reporter = [] then Inl ''empty reporter''
      else if length seed < 8 then Inl ''seed must be at least 8 bytes''
      else if up_StorageTruthEnforcementMode params \<noteq> MODE_UNSPECIFIED then
        Inr (computeStorageTruthTargetsForReporter ord sha256 params activeSorted targetsSorted seed reporter,
             reporter \<in> set activeSorted)
      else case index_of reporter activeSorted of
        None \<Rightarrow> Inr ([], False)
      | Some reporterIndex \<Rightarrow>
          let n = length targetsSorted; kEpoch = computeKFromParams params (length activeSorted) n in
          if kEpoch = 0 \<or> n = 0 then Inr ([], True)
          else
            let offset = nat (be_bytes (take 8 seed) mod int n); k = nat kEpoch
            in Inr (map ((!) targetsSorted)
                      (assign_loop targetsSorted reporter (offset + reporterIndex * k) [0..<k] []), True))"

section \<open>Healers and verifiers\<close>

definition fnv64a :: "bytes \<Rightarrow> 64 word" where
  "fnv64a bs = foldl (\<lambda>h b. (h XOR ucast b) * 1099511628211) 14695981039346656037 bs"

definition deterministicStorageTruthIndex :: "string \<Rightarrow> int \<Rightarrow> nat \<Rightarrow> nat" where
  "deterministicStorageTruthIndex ticketID epochID n =
     (if n \<le> 1 then 0
      else nat (uint (fnv64a (bytes_of_string ticketID @ [0] @ bytes_of_string (dec_of_int epochID))) mod int n))"

definition assignStorageTruthHealParticipants :: "string list \<Rightarrow> string \<Rightarrow> int \<Rightarrow> audit_params \<Rightarrow> string \<times> string list" where
  "assignStorageTruthHealParticipants activeAccounts ticketID epochID params =
     (if activeAccounts = [] then ([], [])
      else
        let n = length activeAccounts;
            idx = deterministicStorageTruthIndex ticketID epochID n;
            healer = activeAccounts ! idx
        in if n = 1 then (healer, [])
           else
             let vc = (if up_StorageTruthHealVerifierCount params \<le> 0 then 2 else nat (up_StorageTruthHealVerifierCount params));
                 verifierCount = (if vc > n - 1 then n - 1 else vc)
             in (healer, map (\<lambda>i. activeAccounts ! ((idx + i) mod n)) [1..<Suc verifierCount]))"

section \<open>Challengers of an epoch\<close>

definition storageChallengeChallengerCount :: "nat \<Rightarrow> int \<Rightarrow> nat" where
  "storageChallengeChallengerCount nActive requested =
     (if nActive = 0 then 0
      else if requested = 0 then max 1 ((nActive + 2) div 3)
      else if int nActive < requested then nActive else nat requested)"

definition storageChallengeComparisonTarget :: "bytes \<Rightarrow> int \<Rightarrow> string" where
  "storageChallengeComparisonTarget seed epochID = ''sc:challengers:'' @ hex_encode seed @ '':'' @ dec_of_int epochID"

definition ensureHashedTargetBytes :: "(bytes \<Rightarrow> bytes) \<Rightarrow> bytes \<Rightarrow> bytes" where
  "ensureHashedTargetBytes blake3 t = (if length t = 32 then t else blake3 t)"

definition selectTopByXORDistance :: "(bytes \<Rightarrow> bytes) \<Rightarrow> string list \<Rightarrow> string \<Rightarrow> nat \<Rightarrow> string list" where
  "selectTopByXORDistance blake3 ids t k =
     (if k = 0 \<or> ids = [] then []
      else
        let th = ensureHashedTargetBytes blake3 (bytes_of_string t);
            dist = (\<lambda>i. map2 (XOR) (blake3 (bytes_of_string i)) th)
        in take k (slice_stable (better dist) ids))"

section \<open>Vocabulary of the lemmas\<close>

definition best_of :: "(string \<Rightarrow> bytes) \<Rightarrow> string set \<Rightarrow> string \<Rightarrow> bool" where
  "best_of rank A t \<longleftrightarrow> t \<in> A \<and> (\<forall>u \<in> A. u \<noteq> t \<longrightarrow> better rank t u)"

definition map_order :: "(string list \<Rightarrow> string list) \<Rightarrow> bool" where
  "map_order ord \<longleftrightarrow> (\<forall>xs. set (ord xs) = set xs)"

definition st_candidates :: "string list \<Rightarrow> string list \<Rightarrow> string list" where
  "st_candidates active targets =
     (if sortedUniqueStrings targets = [] then sortedUniqueStrings active else sortedUniqueStrings targets)"

definition ex_probe_params :: audit_params where
  "ex_probe_params = audit_DefaultParams\<lparr>up_StorageTruthEnforcementMode := MODE_UNSPECIFIED\<rparr>"

section \<open>The assignment is well defined\<close>

lemma better_order: "t \<noteq> u \<Longrightarrow> better rank t u \<longleftrightarrow> \<not> better rank u t"
  by (auto simp: better_def)

lemma better_trans: "better rank t u \<Longrightarrow> better rank u v \<Longrightarrow> better rank t v"
  by (auto simp: better_def)

lemma best_of_unique: "best_of rank A t \<Longrightarrow> best_of rank A u \<Longrightarrow> t = u"
  unfolding best_of_def by (metis better_order)

lemma best_of_insert:
  assumes "best_of rank A b"
  shows "best_of rank (insert t A) (if better rank t b then t else b)"
proof (cases "t = b")
  case True
  then show ?thesis using assms by (auto simp: best_of_def)
next
  case False
  show ?thesis
  proof (cases "better rank t b")
    case True
    then have "better rank t u" if "u \<in> A" "u \<noteq> t" for u
      using assms that better_trans [OF True, of u] by (cases "u = b") (auto simp: best_of_def)
    then show ?thesis using True by (simp add: best_of_def)
  next
    case no: False
    then have "better rank b t" using better_order [OF False, of rank] by simp
    then show ?thesis using assms no by (simp add: best_of_def)
  qed
qed

lemma pick_best_spec:
  assumes "case best of None \<Rightarrow> A = {} | Some b \<Rightarrow> best_of rank A b"
  shows "case pick_best rank c ts best of None \<Rightarrow> A \<union> (set ts - {c}) = {} | Some b \<Rightarrow> best_of rank (A \<union> (set ts - {c})) b"
  using assms
proof (induction ts arbitrary: best A)
  case (Cons t ts)
  show ?case
  proof (cases "t = c")
    case True
    have eq: "set (t # ts) - {c} = set ts - {c}" using True by auto
    show ?thesis using Cons.IH [of A best] Cons.prems True unfolding eq by simp
  next
    case False
    let ?b = "case best of None \<Rightarrow> Some t | Some b \<Rightarrow> if better rank t b then Some t else best"
    have eq: "insert t A \<union> (set ts - {c}) = A \<union> (set (t # ts) - {c})" using False by auto
    have "case ?b of None \<Rightarrow> insert t A = {} | Some b \<Rightarrow> best_of rank (insert t A) b"
    proof (cases best)
      case None
      then show ?thesis using Cons.prems by (simp add: best_of_def)
    next
      case (Some b)
      then show ?thesis using best_of_insert [of rank A b t] Cons.prems by (simp split: if_splits)
    qed
    then show ?thesis using Cons.IH [of "insert t A" ?b] False unfolding eq by simp
  qed
qed (simp split: option.splits)

lemma pick_best_iff:
  shows pick_best_None: "pick_best rank c ts None = None \<longleftrightarrow> set ts \<subseteq> {c}"
    and pick_best_Some: "pick_best rank c ts None = Some t \<longleftrightarrow> best_of rank (set ts - {c}) t"
proof -
  have sp: "case pick_best rank c ts None of None \<Rightarrow> set ts - {c} = {} | Some b \<Rightarrow> best_of rank (set ts - {c}) b"
    using pick_best_spec [where A = "{}" and best = None and rank = rank and c = c and ts = ts] by (simp split: option.splits)
  show "pick_best rank c ts None = None \<longleftrightarrow> set ts \<subseteq> {c}"
    using sp by (cases "pick_best rank c ts None") (auto simp: best_of_def)
  show "pick_best rank c ts None = Some t \<longleftrightarrow> best_of rank (set ts - {c}) t"
  proof (cases "pick_best rank c ts None")
    case None
    then show ?thesis using sp by (auto simp: best_of_def)
  next
    case (Some b)
    then have "best_of rank (set ts - {c}) b" using sp by simp
    then show ?thesis using Some best_of_unique [of rank "set ts - {c}" b t] by auto
  qed
qed

lemma pick_best_cong: "set ts = set us \<Longrightarrow> pick_best rank c ts None = pick_best rank c us None"
  by (metis not_Some_eq pick_best_None pick_best_Some)

text \<open>The order of a range over a map does not matter when it visits exactly the keys.\<close>

lemma choose_target_order:
  "map_order ord \<Longrightarrow> choose_target ord rank ranked un as c = choose_target (\<lambda>xs. xs) rank ranked un as c"
  using pick_best_cong [of "ord un" un rank c] by (simp add: choose_target_def map_order_def)

lemma st_loop_order:
  "map_order ord \<Longrightarrow> st_loop ord rank ranked n r cs un as = st_loop (\<lambda>xs. xs) rank ranked n r cs un as"
proof (induction cs arbitrary: un as)
  case (Cons c cs)
  then show ?case by (simp add: choose_target_order split: option.splits)
qed simp

lemma choose_target_props:
  assumes "choose_target (\<lambda>xs. xs) rank ranked un as c = Some t" "set un \<inter> set as = {}" "set un \<subseteq> set ranked"
  shows "t \<noteq> c" "t \<notin> set as" "t \<in> set ranked"
  using assms by (auto simp: choose_target_def pick_best_Some best_of_def split: option.splits)

lemma st_loop_target:
  assumes "st_loop (\<lambda>xs. xs) rank ranked n r cs un as = t # ts" "distinct un" "set un \<inter> set as = {}" "set un \<subseteq> set ranked"
  shows "ts = [] \<and> t \<noteq> r \<and> t \<notin> set as \<and> t \<in> set ranked \<and> r \<in> set cs"
  using assms
proof (induction cs arbitrary: un as)
  case (Cons c cs)
  show ?case
  proof (cases "choose_target (\<lambda>xs. xs) (rank c) ranked un as c")
    case None
    then show ?thesis using Cons by (auto split: if_splits)
  next
    case (Some u)
    note p = choose_target_props [OF Some Cons.prems(3,4)]
    have "distinct (remove1 u un)" "set (remove1 u un) \<inter> set (u # as) = {}" "set (remove1 u un) \<subseteq> set ranked"
      using Cons.prems by (auto simp: set_remove1_eq)
    from Cons.IH [OF _ this] show ?thesis using Cons.prems(1) Some p by (auto split: if_splits)
  qed
qed simp

text \<open>Two reporters get different targets: what the first takes is assigned when the second chooses.\<close>

lemma st_loop_disjoint:
  assumes "st_loop (\<lambda>xs. xs) rank ranked n r cs un as = [t]" "st_loop (\<lambda>xs. xs) rank ranked n r' cs un as = [t']" "r \<noteq> r'"
    "distinct un" "set un \<inter> set as = {}" "set un \<subseteq> set ranked"
  shows "t \<noteq> t'"
  using assms
proof (induction cs arbitrary: un as)
  case (Cons c cs)
  show ?case
  proof (cases "choose_target (\<lambda>xs. xs) (rank c) ranked un as c")
    case None
    then show ?thesis using Cons by (auto split: if_splits)
  next
    case (Some u)
    have inv: "distinct (remove1 u un)" "set (remove1 u un) \<inter> set (u # as) = {}" "set (remove1 u un) \<subseteq> set ranked"
      using Cons.prems by (auto simp: set_remove1_eq)
    show ?thesis
      using Cons.IH [OF _ _ \<open>r \<noteq> r'\<close> inv] st_loop_target [OF _ inv, of rank n r cs t "[]"]
        st_loop_target [OF _ inv, of rank n r' cs t' "[]"] Cons.prems(1-3) Some
      by (cases "c = r"; cases "c = r'") (auto split: if_splits)
  qed
qed simp

lemma distinct_ranked [simp]: "distinct (rankStorageTruthAccounts h seed xs l) = distinct xs"
  by (metis distinct_count_atmost_1 mset_slice_stable rankStorageTruthAccounts_def set_slice_stable mset_eq_imp_distinct_iff)

lemma set_ranked [simp]: "set (rankStorageTruthAccounts h seed xs l) = set xs"
  by (simp add: rankStorageTruthAccounts_def)

lemma sortedUnique [simp]: "distinct (sortedUniqueStrings xs)" "set (sortedUniqueStrings xs) = set xs - {[]}"
  by (auto simp: sortedUniqueStrings_def)

lemma storageTruth_loop:
  obtains n un where "distinct un" "set un \<subseteq> set (rankStorageTruthAccounts h seed (st_candidates active targets) ''challenge_target'')"
    "\<And>ord r. map_order ord \<Longrightarrow> r \<in> set active \<Longrightarrow> computeStorageTruthTargetsForReporter ord h params active targets seed r =
       (if length (sortedUniqueStrings active) \<le> 1 \<or> st_candidates active targets = [] then []
        else st_loop (\<lambda>xs. xs) (pair_rank h seed) (rankStorageTruthAccounts h seed (st_candidates active targets) ''challenge_target'') n r
               (sortedUniqueStrings active) un [])"
proof -
  let ?n = "min (storageTruthChallengeTargetCount params (length (sortedUniqueStrings active))) (length (st_candidates active targets))"
  let ?rk = "rankStorageTruthAccounts h seed (st_candidates active targets) ''challenge_target''"
  show ?thesis
  proof (rule that)
    show "distinct (take ?n ?rk)" by (auto simp: st_candidates_def)
    show "set (take ?n ?rk) \<subseteq> set ?rk" by (rule set_take_subset)
    show "computeStorageTruthTargetsForReporter ord h params active targets seed r =
       (if length (sortedUniqueStrings active) \<le> 1 \<or> st_candidates active targets = [] then []
        else st_loop (\<lambda>xs. xs) (pair_rank h seed) ?rk ?n r (sortedUniqueStrings active) (take ?n ?rk) [])"
      if "map_order ord" "r \<in> set active" for ord r
      using that by (simp add: computeStorageTruthTargetsForReporter_def Let_def st_loop_order flip: st_candidates_def)
  qed
qed

text \<open>C35: The storage-truth assignment is a function of the anchor and the reporter: it does not depend on
  the order in which the map of unassigned targets is iterated. A reporter gets at most one target, a
  candidate of the epoch that is not the reporter, and two reporters never get the same target.\<close>

theorem storage_truth_assignment:
  assumes "map_order ord" "map_order ord'" "r \<noteq> r'"
  shows "computeStorageTruthTargetsForReporter ord h params active targets seed r
       = computeStorageTruthTargetsForReporter ord' h params active targets seed r
    \<and> length (computeStorageTruthTargetsForReporter ord h params active targets seed r) \<le> 1
    \<and> set (computeStorageTruthTargetsForReporter ord h params active targets seed r) \<subseteq> set (st_candidates active targets) - {r}
    \<and> set (computeStorageTruthTargetsForReporter ord h params active targets seed r)
      \<inter> set (computeStorageTruthTargetsForReporter ord' h params active targets seed r') = {}"
proof -
  let ?C = "\<lambda>ord. computeStorageTruthTargetsForReporter ord h params active targets seed"
  let ?rk = "rankStorageTruthAccounts h seed (st_candidates active targets) ''challenge_target''"
  obtain n un where un: "distinct un" "set un \<subseteq> set ?rk"
    and eq: "\<And>ord r. map_order ord \<Longrightarrow> r \<in> set active \<Longrightarrow> ?C ord r =
       (if length (sortedUniqueStrings active) \<le> 1 \<or> st_candidates active targets = [] then []
        else st_loop (\<lambda>xs. xs) (pair_rank h seed) ?rk n r (sortedUniqueStrings active) un [])"
    using storageTruth_loop [where h = h and seed = seed and active = active and targets = targets and params = params] by metis
  have out: "?C ord r = []" if "r \<notin> set active" for ord r using that by (simp add: computeStorageTruthTargetsForReporter_def)
  have one: "?C ord r = [] \<or> (\<exists>t. ?C ord r = [t] \<and> t \<noteq> r \<and> t \<in> set (st_candidates active targets))" if "map_order ord" for ord r
  proof (cases "?C ord r")
    case (Cons t ts)
    then have "r \<in> set active" using out by fastforce
    then show ?thesis using Cons eq [OF that] st_loop_target [OF _ un(1) _ un(2), of "pair_rank h seed" n r "sortedUniqueStrings active" "[]" t ts]
      by (auto split: if_splits)
  qed simp
  have same: "?C ord r = ?C ord' r" using eq assms out by (cases "r \<in> set active") auto
  have "t \<noteq> t'" if "?C ord r = [t]" "?C ord' r' = [t']" for t t'
  proof -
    have "r \<in> set active" "r' \<in> set active" using that out by (metis list.distinct(1))+
    then show ?thesis using that eq assms
        st_loop_disjoint [OF _ _ assms(3) un(1) _ un(2), of "pair_rank h seed" n "sortedUniqueStrings active" "[]" t t']
      by (auto split: if_splits)
  qed
  then show ?thesis using same one [OF assms(1), of r] one [OF assms(2), of r'] by auto
qed

theorem storage_truth_assignment_witness:
  "computeStorageTruthTargetsForReporter (\<lambda>xs. xs) (\<lambda>x. x) audit_DefaultParams [''a'', ''b'', ''c'', ''d''] [''c'', ''d''] [7] ''a'' = [''c'']
   \<and> computeStorageTruthTargetsForReporter rev (\<lambda>x. x) audit_DefaultParams [''a'', ''b'', ''c'', ''d''] [''c'', ''d''] [7] ''b'' = [''d'']
   \<and> set (computeStorageTruthTargetsForReporter (\<lambda>xs. xs) (\<lambda>x. x) audit_DefaultParams [''a'', ''b'', ''c'', ''d''] [''c'', ''d''] [7] ''a'')
     \<inter> set (computeStorageTruthTargetsForReporter rev (\<lambda>x. x) audit_DefaultParams [''a'', ''b'', ''c'', ''d''] [''c'', ''d''] [7] ''b'') = {}"
proof (intro conjI)
  show "computeStorageTruthTargetsForReporter (\<lambda>xs. xs) (\<lambda>x. x) audit_DefaultParams [''a'', ''b'', ''c'', ''d''] [''c'', ''d''] [7] ''a'' = [''c'']"
    by code_simp
  show "computeStorageTruthTargetsForReporter rev (\<lambda>x. x) audit_DefaultParams [''a'', ''b'', ''c'', ''d''] [''c'', ''d''] [7] ''b'' = [''d'']"
    by code_simp
  show "set (computeStorageTruthTargetsForReporter (\<lambda>xs. xs) (\<lambda>x. x) audit_DefaultParams [''a'', ''b'', ''c'', ''d''] [''c'', ''d''] [7] ''a'')
     \<inter> set (computeStorageTruthTargetsForReporter rev (\<lambda>x. x) audit_DefaultParams [''a'', ''b'', ''c'', ''d''] [''c'', ''d''] [7] ''b'') = {}"
    by (rule storage_truth_assignment [of "\<lambda>xs. xs" rev "''a''" "''b''" "\<lambda>x. x" audit_DefaultParams
        "[''a'', ''b'', ''c'', ''d'']" "[''c'', ''d'']" "[7]", THEN conjunct2, THEN conjunct2, THEN conjunct2])
      (simp_all add: map_order_def)
qed

lemma find_candidate_Some:
  "find_candidate targets r seen k c = Some d \<Longrightarrow> c < length targets \<Longrightarrow>
     d < length targets \<and> targets ! d \<noteq> r \<and> d \<notin> set seen"
proof (induction targets r seen k c rule: find_candidate.induct)
  case (2 targets r seen k c)
  have "Suc c mod length targets < length targets" using 2 by (intro mod_less_divisor) auto
  with 2 show ?case by (auto split: if_splits)
qed simp

lemma find_candidate_None:
  assumes "find_candidate targets r seen k c = None" "c < length targets" "i < k"
  shows "targets ! ((c + i) mod length targets) = r \<or> (c + i) mod length targets \<in> set seen"
  using assms
proof (induction targets r seen k c arbitrary: i rule: find_candidate.induct)
  case (2 targets r seen k c)
  have m: "Suc c mod length targets < length targets" using "2.prems" by (intro mod_less_divisor) auto
  show ?case
  proof (cases i)
    case 0
    then show ?thesis using "2.prems" by (auto split: if_splits)
  next
    case (Suc j)
    have "(Suc c mod length targets + j) mod length targets = (c + i) mod length targets" using Suc by (simp add: mod_simps)
    moreover have "targets ! c = r \<or> c \<in> set seen" "find_candidate targets r seen k (Suc c mod length targets) = None"
      using "2.prems"(1) by (auto split: if_splits)
    ultimately show ?thesis using "2.IH" [of j] m Suc "2.prems"(3) by auto
  qed
qed simp

text \<open>With fewer than \<open>n - 1\<close> positions taken there is a free one that is not the reporter.\<close>

lemma find_candidate_exists:
  assumes "distinct targets" "distinct seen" "length seen + 1 < length targets" "c < length targets"
  shows "find_candidate targets r seen (length targets) c \<noteq> None"
proof
  let ?n = "length targets"
  assume none: "find_candidate targets r seen ?n c = None"
  have "targets ! d = r \<or> d \<in> set seen" if "d < ?n" for d
  proof -
    have "(c + (d + ?n - c) mod ?n) mod ?n = d" using that assms(4) by (simp add: mod_simps)
    moreover have "(d + ?n - c) mod ?n < ?n" using that by (intro mod_less_divisor) auto
    ultimately show ?thesis using find_candidate_None [OF none assms(4), of "(d + ?n - c) mod ?n"] by auto
  qed
  then have "{..<?n} \<subseteq> {d. d < ?n \<and> targets ! d = r} \<union> set seen" by auto
  then have "?n \<le> card ({d. d < ?n \<and> targets ! d = r} \<union> set seen)" using card_mono [of _ "{..<?n}"] by fastforce
  also have "\<dots> \<le> card {d. d < ?n \<and> targets ! d = r} + length seen"
    using card_Un_le [of "{d. d < ?n \<and> targets ! d = r}" "set seen"] card_length [of seen] by linarith
  also have "card {d. d < ?n \<and> targets ! d = r} \<le> 1"
    using assms(1) by (auto simp: card_le_Suc0_iff_eq nth_eq_iff_index_eq)
  finally show False using assms(3) by linarith
qed

lemma assign_loop_props:
  assumes "distinct targets" "distinct seen" "length seen + length js < length targets"
  shows "distinct (assign_loop targets r first js seen) \<and> set (assign_loop targets r first js seen) \<inter> set seen = {}
    \<and> (\<forall>d \<in> set (assign_loop targets r first js seen). d < length targets \<and> targets ! d \<noteq> r)
    \<and> length (assign_loop targets r first js seen) = length js"
  using assms
proof (induction js arbitrary: seen)
  case (Cons j js)
  let ?c = "(first + j) mod length targets"
  have c: "?c < length targets" using Cons.prems by (intro mod_less_divisor) auto
  obtain d where d: "find_candidate targets r seen (length targets) ?c = Some d"
    using find_candidate_exists [OF Cons.prems(1,2) _ c] Cons.prems(3) by fastforce
  show ?case using Cons.IH [of "d # seen"] Cons.prems d find_candidate_Some [OF d c] by auto
qed simp

lemma computeK_bound:
  assumes "0 \<le> up_MinProbeTargetsPerEpoch p" "0 \<le> up_MaxProbeTargetsPerEpoch p" "0 < n" "int n < 2 ^ 32"
  shows "0 \<le> computeKFromParams p a n \<and> computeKFromParams p a n < int n"
proof -
  define k where "k = (let kNeeded = u64 (up_PeerQuorumReports p * int n + int a - 1) div int a;
            k1 = (if kNeeded < up_MinProbeTargetsPerEpoch p then up_MinProbeTargetsPerEpoch p else kNeeded);
            k2 = (if k1 > up_MaxProbeTargetsPerEpoch p then up_MaxProbeTargetsPerEpoch p else k1)
        in if k2 > int n - 1 then int n - 1 else k2)"
  have "0 \<le> u64 x div int a" for x by (simp add: div_int_pos_iff)
  then have k: "0 \<le> k" "k < int n" using assms by (auto simp: k_def Let_def)
  have "computeKFromParams p a n = (if a = 0 \<or> n \<le> 1 then 0 else u32 k)"
    by (simp add: computeKFromParams_def k_def Let_def)
  then show ?thesis using k assms by (auto simp: u32_id)
qed



lemma heal_participants:
  assumes "distinct active" "active \<noteq> []" "assignStorageTruthHealParticipants active t e p = (healer, verifiers)"
  shows "healer \<in> set active \<and> set verifiers \<subseteq> set active - {healer} \<and> distinct verifiers
    \<and> length verifiers = min (if up_StorageTruthHealVerifierCount p \<le> 0 then 2 else nat (up_StorageTruthHealVerifierCount p)) (length active - 1)"
proof -
  let ?n = "length active"
  define idx vc where "idx = deterministicStorageTruthIndex t e ?n"
    and "vc = min (if up_StorageTruthHealVerifierCount p \<le> 0 then 2 else nat (up_StorageTruthHealVerifierCount p)) (?n - 1)"
  have n: "0 < ?n" using assms by simp
  have idx: "idx < ?n" using n nat_less_iff [of "uint x mod int ?n" ?n for x :: "64 word"]
    by (auto simp: idx_def deterministicStorageTruthIndex_def pos_mod_bound)
  have eq: "healer = active ! idx" "verifiers = map (\<lambda>i. active ! ((idx + i) mod ?n)) [1..<Suc vc]"
    using assms(3) n by (auto simp: assignStorageTruthHealParticipants_def Let_def idx_def vc_def min_def split: if_splits)
  have inj: "inj_on (\<lambda>i. active ! ((idx + i) mod ?n)) {..<?n}"
  proof (rule linorder_inj_onI)
    fix i j assume ij: "i < j" "j \<in> {..<?n}"
    have "\<not> ?n dvd (idx + j) - (idx + i)" using ij by (intro nat_dvd_not_less) auto
    then have "(idx + j) mod ?n \<noteq> (idx + i) mod ?n" using ij mod_eq_dvd_iff_nat [of "idx + i" "idx + j" ?n] by auto
    then show "active ! ((idx + i) mod ?n) \<noteq> active ! ((idx + j) mod ?n)" using assms(1) n by (auto simp: nth_eq_iff_index_eq)
  qed auto
  have "vc \<le> ?n - 1" unfolding vc_def by (rule min.cobounded2)
  then have vc: "vc < ?n" using n by linarith
  have h: "healer = active ! ((idx + 0) mod ?n)" using eq(1) idx by simp
  have sub: "set [1..<Suc vc] \<subseteq> {..<?n}" "0 \<in> {..<?n}" using vc n by auto
  have "distinct verifiers" unfolding eq(2) distinct_map using inj_on_subset [OF inj sub(1)] by simp
  moreover have "healer \<notin> set verifiers"
  proof
    assume "healer \<in> set verifiers"
    then obtain i where "i \<in> set [1..<Suc vc]" "active ! ((idx + 0) mod ?n) = active ! ((idx + i) mod ?n)"
      unfolding h eq(2) by auto
    then show False using inj_onD [OF inj, of 0 i] sub by auto
  qed
  moreover have "set verifiers \<subseteq> set active" "healer \<in> set active" using n idx by (auto simp: eq)
  moreover have "length verifiers = vc" by (simp add: eq(2))
  ultimately show ?thesis by (auto simp: vc_def)
qed

end
