(* ===== verification/Audit_State.thy ===== *)
theory Audit_State
  imports Audit_Keys Audit_Score Audit_Assign Supernode
begin

text \<open>
  The state of the audit module and its accessors (keeper/state.go, storage\_truth\_state.go,
  storage\_truth\_fact\_indexes.go, storage\_truth\_recheck\_state.go, storage\_truth\_postponement\_state.go,
  action\_finalization\_postponement\_state.go, evidence\_state.go, evidence\_epoch\_count.go, epoch\_anchor.go,
  epoch\_params\_snapshot.go, storage\_truth\_ticket\_artifact\_counts.go). Each key family of the store is a
  table of its own, sorted by its full key, and holds decoded values; marker families hold units.
  Protobuf and JSON codecs round-trip, so storing a value never fails; unmarshalling never yields nil
  elements of repeated fields. Events and logs are not modelled. The supernode keeper is the model of
  the supernode module.
\<close>

section \<open>Data (types/*.pb.go)\<close>

datatype audit_error =
    AuErrInvalidSigner | AuErrInvalidEpochID | AuErrDuplicateReport | AuErrInvalidPeerObservations
  | AuErrInvalidPortStatesLength | AuErrReporterNotFound | AuErrInvalidReporterState | AuErrInvalidStorageProofs
  | AuErrInvalidRecheckEvidence | AuErrHealOpNotFound | AuErrHealOpUnauthorized | AuErrHealOpInvalidState
  | AuErrHealOpTicketMismatch | AuErrHealVerificationExists | AuErrTicketArtifactMismatch
  | AuErrInvalidHealVerification | AuErrInvalidHostMetric | AuErrInvalidEvidenceType | AuErrInvalidMetadata
  | AuErrInvalidSubject | AuErrInvalidReporter | AuErrInvalidActionID
  | AuText string | AuParams param_error | AuSn sn_error

datatype audit_port = AUDIT_PORT_UNKNOWN | AUDIT_PORT_OPEN | AUDIT_PORT_CLOSED | AUDIT_PORT_OTHER int

record host_report =
  hr_CpuUsagePercent :: float64
  hr_MemUsagePercent :: float64
  hr_DiskUsagePercent :: float64
  hr_InboundPortStates :: "audit_port list"
  hr_FailedActionsCount :: int
  hr_CascadeKademliaDbBytes :: float64

record observation =
  ob_TargetSupernodeAccount :: string
  ob_PortStates :: "audit_port list"

record epoch_report =
  er_SupernodeAccount :: string
  er_EpochId :: int
  er_ReportHeight :: int
  er_HostReport :: host_report
  er_StorageChallengeObservations :: "observation list"
  er_StorageProofResults :: "proof_result list"

record epoch_anchor =
  ea_EpochId :: int
  ea_EpochStartHeight :: int
  ea_EpochEndHeight :: int
  ea_EpochLengthBlocks :: int
  ea_Seed :: bytes
  ea_ActiveSupernodeAccounts :: "string list"
  ea_TargetSupernodeAccounts :: "string list"
  ea_ParamsCommitment :: bytes
  ea_ActiveSetCommitment :: bytes
  ea_TargetsSetCommitment :: bytes

datatype evidence_type =
    EVIDENCE_UNSPECIFIED | EVIDENCE_ACTION_FINALIZATION_SIGNATURE_FAILURE
  | EVIDENCE_ACTION_FINALIZATION_NOT_IN_TOP_10 | EVIDENCE_ACTION_EXPIRED | EVIDENCE_STORAGE_CHALLENGE_FAILURE
  | EVIDENCE_CASCADE_CLIENT_FAILURE | EVIDENCE_OTHER int

fun evidence_num :: "evidence_type \<Rightarrow> int" where
  "evidence_num EVIDENCE_UNSPECIFIED = 0"
| "evidence_num EVIDENCE_ACTION_FINALIZATION_SIGNATURE_FAILURE = 1"
| "evidence_num EVIDENCE_ACTION_FINALIZATION_NOT_IN_TOP_10 = 2"
| "evidence_num EVIDENCE_ACTION_EXPIRED = 3"
| "evidence_num EVIDENCE_STORAGE_CHALLENGE_FAILURE = 4"
| "evidence_num EVIDENCE_CASCADE_CLIENT_FAILURE = 5"
| "evidence_num (EVIDENCE_OTHER n) = u32 n"

record evidence =
  evd_EvidenceId :: int
  evd_SubjectAddress :: string
  evd_ReporterAddress :: string
  evd_ActionId :: string
  evd_EvidenceType :: evidence_type
  evd_Metadata :: bytes
  evd_ReportedHeight :: int

record node_suspicion =
  ns_SupernodeAccount :: string
  ns_SuspicionScore :: int
  ns_LastUpdatedEpoch :: int
  ns_LastRecentFailEpoch :: int
  ns_LastOldFailEpoch :: int
  ns_DistinctTicketFailWindow :: int
  ns_WindowStartEpoch :: int
  ns_ClassACountWindow :: int
  ns_LastClassAEpoch :: int
  ns_ClassBCountWindow :: int
  ns_LastClassBEpoch :: int
  ns_CleanPassCount :: int
  ns_LastCleanPassEpoch :: int
  ns_LastIndexFailEpoch :: int
  ns_CleanPassCountAtPostpone :: int

record reporter_reliability =
  rr_ReporterSupernodeAccount :: string
  rr_ReliabilityScore :: int
  rr_LastUpdatedEpoch :: int
  rr_TrustBand :: trust_band
  rr_ContradictionCount :: int
  rr_IneligibleUntilEpoch :: int
  rr_WindowPositiveCount :: int
  rr_WindowNegativeCount :: int
  rr_WindowStartEpoch :: int

record ticket_deterioration =
  td_TicketId :: string
  td_DeteriorationScore :: int
  td_LastUpdatedEpoch :: int
  td_ActiveHealOpId :: int
  td_ProbationUntilEpoch :: int
  td_LastHealEpoch :: int
  td_LastFailureEpoch :: int
  td_RecentFailureEpochCount :: int
  td_ContradictionCount :: int
  td_LastTargetSupernodeAccount :: string
  td_LastReporterSupernodeAccount :: string
  td_LastResultClass :: result_class
  td_LastResultEpoch :: int
  td_DistinctHolderFailureCount :: int
  td_LastIndexFailureEpoch :: int
  td_RecentBucketFailureEpoch :: int
  td_OldBucketFailureEpoch :: int

record artifact_counts =
  tac_TicketId :: string
  tac_IndexArtifactCount :: int
  tac_SymbolArtifactCount :: int

datatype heal_status =
    HEAL_UNSPECIFIED | HEAL_SCHEDULED | HEAL_IN_PROGRESS | HEAL_HEALER_REPORTED | HEAL_VERIFIED | HEAL_FAILED | HEAL_EXPIRED

fun heal_num :: "heal_status \<Rightarrow> int" where
  "heal_num HEAL_UNSPECIFIED = 0"
| "heal_num HEAL_SCHEDULED = 1"
| "heal_num HEAL_IN_PROGRESS = 2"
| "heal_num HEAL_HEALER_REPORTED = 3"
| "heal_num HEAL_VERIFIED = 4"
| "heal_num HEAL_FAILED = 5"
| "heal_num HEAL_EXPIRED = 6"

record heal_op =
  ho_HealOpId :: int
  ho_TicketId :: string
  ho_ScheduledEpochId :: int
  ho_HealerSupernodeAccount :: string
  ho_VerifierSupernodeAccounts :: "string list"
  ho_Status :: heal_status
  ho_CreatedHeight :: int
  ho_UpdatedHeight :: int
  ho_DeadlineEpochId :: int
  ho_ResultHash :: string
  ho_Notes :: string

record transcript =
  spt_EpochID :: int
  spt_ReporterAccount :: string
  spt_TargetAccount :: string
  spt_TicketID :: string
  spt_ResultClass :: result_class
  spt_BucketType :: bucket_type
  spt_ArtifactClass :: artifact_class
  spt_ArtifactKey :: string
  spt_ArtifactOrdinal :: int
  spt_ArtifactCount :: int
  spt_DerivationInputHash :: string
  spt_ChallengerSignature :: string
  spt_ObserverAttestations :: "string list"
  spt_RecheckEligible :: bool
  spt_ConfirmedByRecheck :: bool
  spt_ContradictedByRecheck :: bool
  spt_RecheckTranscriptHash :: string
  spt_ChallengedTranscriptHash :: string

record node_failure =
  nf_EpochID :: int
  nf_Reporter :: string
  nf_Target :: string
  nf_TicketID :: string
  nf_ResultClass :: result_class
  nf_BucketType :: bucket_type
  nf_ArtifactClass :: artifact_class

record reporter_result =
  rrs_EpochID :: int
  rrs_Reporter :: string
  rrs_Target :: string
  rrs_TicketID :: string
  rrs_ResultClass :: result_class
  rrs_ConfirmedByRecheck :: bool
  rrs_OverturnedByRecheck :: bool

record sc_metadata =
  scm_EpochId :: int
  scm_ChallengerSupernodeAccount :: string
  scm_ChallengedSupernodeAccount :: string

section \<open>State and environment\<close>

record audit_store =
  us_params :: "audit_params option"
  us_anchors :: "(string \<times> epoch_anchor) list"
  us_snapshots :: "(string \<times> audit_params) list"
  us_reports :: "(string \<times> epoch_report) list"
  us_reportIndex :: "(string \<times> unit) list"
  us_hostIndex :: "(string \<times> unit) list"
  us_scIndex :: "(string \<times> unit) list"
  us_nextEvidence :: "int option"
  us_evidence :: "(string \<times> evidence) list"
  us_evidenceBySubject :: "(string \<times> unit) list"
  us_evidenceByAction :: "(string \<times> unit) list"
  us_evidenceCounts :: "(string \<times> int) list"
  us_afPostponed :: "(string \<times> int) list"
  us_stPostponed :: "(string \<times> int) list"
  us_stStrong :: "(string \<times> unit) list"
  us_nodes :: "(string \<times> node_suspicion) list"
  us_reporters :: "(string \<times> reporter_reliability) list"
  us_tickets :: "(string \<times> ticket_deterioration) list"
  us_artifacts :: "(string \<times> artifact_counts) list"
  us_nextHeal :: "int option"
  us_heals :: "(string \<times> heal_op) list"
  us_healsByTicket :: "(string \<times> unit) list"
  us_healsByStatus :: "(string \<times> unit) list"
  us_healVotes :: "(string \<times> bool) list"
  us_recheck :: "(string \<times> unit) list"
  us_transcripts :: "(string \<times> transcript) list"
  us_transcriptIndex :: "(string \<times> transcript) list"
  us_failures :: "(string \<times> node_failure) list"
  us_results :: "(string \<times> reporter_result) list"
  us_resultsByTarget :: "(string \<times> reporter_result) list"
  us_resultsByEpoch :: "(string \<times> unit) list"
  us_failedHeals :: "(string \<times> unit) list"

text \<open>
  What the keeper reads outside the store: the supernode keeper's environment (with the block height
  and the address codec), the header hash, the hash functions, the protobuf and JSON codecs, the
  module addresses and the order in which a range over a Go map visits its keys.
\<close>

record audit_env =
  ue_sn :: sn_env
  ue_HeaderHash :: bytes
  ue_blake3 :: "bytes \<Rightarrow> bytes"
  ue_sha256 :: "bytes \<Rightarrow> bytes"
  ue_marshalParams :: "audit_params \<Rightarrow> bytes"
  ue_authority :: string
  ue_StringToBytes :: "string \<Rightarrow> bytes option"
  ue_actionModule :: "string option"
  ue_evidenceBytes :: "evidence_type \<Rightarrow> string \<Rightarrow> bytes option"
  ue_scMetadata :: "bytes \<Rightarrow> sc_metadata option"
  ue_ord :: "string list \<Rightarrow> string list"

abbreviation ue_Height :: "audit_env \<Rightarrow> int" where
  "ue_Height env \<equiv> se_Height (ue_sn env)"

type_synonym audit_state = "audit_store \<times> sn_store"

abbreviation up :: "audit_store \<Rightarrow> audit_params" where
  "up s \<equiv> audit_WithDefaults (audit_GetParams (us_params s))"

definition liftT :: "string + 'a \<Rightarrow> audit_error + 'a" where
  "liftT r = (case r of Inl e \<Rightarrow> Inl (AuText e) | Inr x \<Rightarrow> Inr x)"

definition liftSn :: "sn_error + 'a \<Rightarrow> audit_error + 'a" where
  "liftSn r = (case r of Inl e \<Rightarrow> Inl (AuSn e) | Inr x \<Rightarrow> Inr x)"

section \<open>Anchors and snapshots (epoch\_anchor.go, epoch\_params\_snapshot.go)\<close>

definition GetEpochAnchor :: "audit_store \<Rightarrow> int \<Rightarrow> epoch_anchor option" where
  "GetEpochAnchor s epochID = map_of (us_anchors s) (EpochAnchorKey epochID)"

definition SetEpochAnchor :: "epoch_anchor \<Rightarrow> audit_store \<Rightarrow> audit_store" where
  "SetEpochAnchor a s = s\<lparr>us_anchors := kv_set (EpochAnchorKey (ea_EpochId a)) a (us_anchors s)\<rparr>"

definition GetEpochParamsSnapshot :: "audit_store \<Rightarrow> int \<Rightarrow> audit_params option" where
  "GetEpochParamsSnapshot s epochID = map_of (us_snapshots s) (EpochParamsSnapshotKey epochID)"

definition SetEpochParamsSnapshot :: "int \<Rightarrow> audit_params \<Rightarrow> audit_store \<Rightarrow> audit_store" where
  "SetEpochParamsSnapshot epochID p s = s\<lparr>us_snapshots := kv_set (EpochParamsSnapshotKey epochID) p (us_snapshots s)\<rparr>"

definition CreateEpochParamsSnapshotIfNeeded :: "int \<Rightarrow> audit_params \<Rightarrow> audit_store \<Rightarrow> audit_store" where
  "CreateEpochParamsSnapshotIfNeeded epochID p s =
     (if GetEpochParamsSnapshot s epochID \<noteq> None then s
      else SetEpochParamsSnapshot epochID (audit_WithDefaults p) s)"

definition deriveEpochSeed :: "audit_env \<Rightarrow> int \<Rightarrow> int \<Rightarrow> bytes" where
  "deriveEpochSeed env epochID epochStartHeight =
     (let raw = (if ue_HeaderHash env = [] then bytes_of_string (be64s (u64 epochStartHeight)) else ue_HeaderHash env)
      in ue_blake3 env (bytes_of_string ''lumera:epoch-seed'' @ raw @ bytes_of_string (be64s epochID)))"

fun supernodeAccountsFromSet :: "supernode list \<Rightarrow> string list \<Rightarrow> string + string list" where
  "supernodeAccountsFromSet [] seen = Inr []"
| "supernodeAccountsFromSet (sn # sns) seen =
     (if sn_SupernodeAccount sn = [] then Inl ''empty supernode_account''
      else if sn_SupernodeAccount sn \<in> set seen then supernodeAccountsFromSet sns seen
      else bindR (supernodeAccountsFromSet sns (sn_SupernodeAccount sn # seen))
             (\<lambda>out. Inr (sn_SupernodeAccount sn # out)))"

definition commitStringList :: "audit_env \<Rightarrow> string list \<Rightarrow> bytes" where
  "commitStringList env xs = ue_blake3 env (concat (map (\<lambda>x. bytes_of_string x @ [0]) xs))"

definition CreateEpochAnchorIfNeeded ::
    "audit_env \<Rightarrow> int \<Rightarrow> int \<Rightarrow> int \<Rightarrow> audit_params \<Rightarrow> sn_store \<Rightarrow> audit_store \<Rightarrow> audit_error + audit_store" where
  "CreateEpochAnchorIfNeeded env epochID startHeight endHeight p0 sns s =
     (if GetEpochAnchor s epochID \<noteq> None then Inr s
      else if ue_Height env \<noteq> startHeight then Inl (AuText ''epoch anchor must be created at epoch start height'')
      else
        bindR (liftT (supernodeAccountsFromSet
                 (GetAllSuperNodes [SuperNodeStateActive, SuperNodeStateStorageFull] sns) [])) (\<lambda>active.
        bindR (liftT (supernodeAccountsFromSet
                 (GetAllSuperNodes [SuperNodeStateActive, SuperNodeStateStorageFull, SuperNodeStatePostponed] sns) [])) (\<lambda>targets.
          let activeAccounts = sort active; targetAccounts = sort targets; params = audit_WithDefaults p0;
              anchor = \<lparr>ea_EpochId = epochID, ea_EpochStartHeight = startHeight, ea_EpochEndHeight = endHeight,
                ea_EpochLengthBlocks = up_EpochLengthBlocks params, ea_Seed = deriveEpochSeed env epochID startHeight,
                ea_ActiveSupernodeAccounts = activeAccounts, ea_TargetSupernodeAccounts = targetAccounts,
                ea_ParamsCommitment = ue_blake3 env (ue_marshalParams env params),
                ea_ActiveSetCommitment = commitStringList env activeAccounts,
                ea_TargetsSetCommitment = commitStringList env targetAccounts\<rparr>
          in Inr (CreateEpochParamsSnapshotIfNeeded epochID params (SetEpochAnchor anchor s)))))"

section \<open>Reports (state.go)\<close>

definition HasReport :: "audit_store \<Rightarrow> int \<Rightarrow> string \<Rightarrow> bool" where
  "HasReport s epochID reporter \<longleftrightarrow> map_of (us_reports s) (ReportKey epochID reporter) \<noteq> None"

definition GetReport :: "audit_store \<Rightarrow> int \<Rightarrow> string \<Rightarrow> epoch_report option" where
  "GetReport s epochID reporter = map_of (us_reports s) (ReportKey epochID reporter)"

definition SetReportRaw :: "epoch_report \<Rightarrow> audit_store \<Rightarrow> audit_store" where
  "SetReportRaw r s = s\<lparr>us_reports := kv_set (ReportKey (er_EpochId r) (er_SupernodeAccount r)) r (us_reports s)\<rparr>"

definition isValidHostUsagePercent :: "float64 \<Rightarrow> bool" where
  "isValidHostUsagePercent v \<longleftrightarrow> flt_finite v \<and> flt_le (FFin 0) v \<and> flt_le v (FFin 100)"

definition sn_val_addr :: "audit_env \<Rightarrow> supernode \<Rightarrow> audit_error + bytes" where
  "sn_val_addr env sn =
     (if sn_ValidatorAddress sn = [] then Inl (AuText ''missing validator address'')
      else case ValAddressFromBech32 (se_codec (ue_sn env)) (sn_ValidatorAddress sn) of
        None \<Rightarrow> Inl (AuText ''invalid validator address'')
      | Some v \<Rightarrow> Inr v)"

definition setSupernodePostponed :: "audit_env \<Rightarrow> supernode \<Rightarrow> string \<Rightarrow> sn_store \<Rightarrow> audit_error + sn_store" where
  "setSupernodePostponed env sn reason sns =
     bindR (sn_val_addr env sn) (\<lambda>v. liftSn (SetSuperNodePostponed (ue_sn env) v reason sns))"

definition recoverSupernodeActive :: "audit_env \<Rightarrow> supernode \<Rightarrow> sn_store \<Rightarrow> audit_error + sn_store" where
  "recoverSupernodeActive env sn sns =
     bindR (sn_val_addr env sn) (\<lambda>v. liftSn (RecoverSuperNodeFromPostponed (ue_sn env) v sns))"

definition markSupernodeStorageFull :: "audit_env \<Rightarrow> supernode \<Rightarrow> sn_store \<Rightarrow> audit_error + sn_store" where
  "markSupernodeStorageFull env sn sns =
     bindR (sn_val_addr env sn) (\<lambda>v. liftSn (MarkSuperNodeStorageFull (ue_sn env) v sns))"

definition maxStorage :: "sn_store \<Rightarrow> float64" where
  "maxStorage sns = float_of_u64 (sp_MaxStorageUsagePercent (sn_GetParams (ss_params sns)))"

text \<open>Storing a report also moves the reporter between ACTIVE and STORAGE\_FULL by its disk usage.\<close>

definition SetReport :: "audit_env \<Rightarrow> epoch_report \<Rightarrow> audit_state \<Rightarrow> audit_error + audit_state" where
  "SetReport env r st =
     (case st of (s0, sns) \<Rightarrow>
        let s = SetReportRaw r s0; disk = hr_DiskUsagePercent (er_HostReport r) in
        if disk = FFin 0 then Inr (s, sns)
        else if \<not> isValidHostUsagePercent disk then Inr (s, sns)
        else case GetSuperNodeByAccount sns (er_SupernodeAccount r) of
          None \<Rightarrow> Inr (s, sns)
        | Some sn \<Rightarrow>
            if sn_States sn = [] then Inr (s, sns)
            else
              let latest = last_state sn; isStorageFull = flt_less (maxStorage sns) disk in
              if latest \<in> {SuperNodeStateDisabled, SuperNodeStateStopped, SuperNodeStatePenalized, SuperNodeStatePostponed}
              then Inr (s, sns)
              else if isStorageFull \<and> latest \<noteq> SuperNodeStateStorageFull
              then bindR (markSupernodeStorageFull env sn sns) (\<lambda>sns'. Inr (s, sns'))
              else if \<not> isStorageFull \<and> latest = SuperNodeStateStorageFull
              then bindR (liftSn (SetSuperNode (se_codec (ue_sn env)) (append_state (ue_sn env) SuperNodeStateActive [] sn) sns))
                     (\<lambda>sns'. Inr (s, sns'))
              else Inr (s, sns))"

definition SetReportIndex :: "int \<Rightarrow> string \<Rightarrow> audit_store \<Rightarrow> audit_store" where
  "SetReportIndex epochID reporter s = s\<lparr>us_reportIndex := kv_set (ReportIndexKey reporter epochID) () (us_reportIndex s)\<rparr>"

definition SetHostReportIndex :: "int \<Rightarrow> string \<Rightarrow> audit_store \<Rightarrow> audit_store" where
  "SetHostReportIndex epochID reporter s = s\<lparr>us_hostIndex := kv_set (HostReportIndexKey reporter epochID) () (us_hostIndex s)\<rparr>"

definition SetStorageChallengeReportIndex :: "string \<Rightarrow> int \<Rightarrow> string \<Rightarrow> audit_store \<Rightarrow> audit_store" where
  "SetStorageChallengeReportIndex supernode epochID reporter s =
     s\<lparr>us_scIndex := kv_set (StorageChallengeReportIndexKey supernode epochID reporter) () (us_scIndex s)\<rparr>"

definition peerReportersForTargetEpoch :: "audit_store \<Rightarrow> string \<Rightarrow> int \<Rightarrow> string + string list" where
  "peerReportersForTargetEpoch s target epochID =
     (let pre = StorageChallengeReportIndexEpochPrefix target epochID;
          reporters = map (\<lambda>e. drop (length pre) (fst e)) (kv_prefix pre (us_scIndex s))
      in if [] \<in> set reporters then Inl ''empty reporter in supernode report index'' else Inr reporters)"

section \<open>Evidence (evidence\_state.go, evidence\_epoch\_count.go)\<close>

definition getEvidenceEpochCount :: "audit_store \<Rightarrow> int \<Rightarrow> string \<Rightarrow> evidence_type \<Rightarrow> int" where
  "getEvidenceEpochCount s epochID subject et =
     (case map_of (us_evidenceCounts s) (EvidenceEpochCountKey epochID subject (evidence_num et)) of None \<Rightarrow> 0 | Some c \<Rightarrow> c)"

definition setEvidenceEpochCount :: "int \<Rightarrow> string \<Rightarrow> evidence_type \<Rightarrow> int \<Rightarrow> audit_store \<Rightarrow> audit_store" where
  "setEvidenceEpochCount epochID subject et n s =
     s\<lparr>us_evidenceCounts := kv_set (EvidenceEpochCountKey epochID subject (evidence_num et)) n (us_evidenceCounts s)\<rparr>"

definition incrementEvidenceEpochCount :: "int \<Rightarrow> string \<Rightarrow> evidence_type \<Rightarrow> audit_store \<Rightarrow> audit_store" where
  "incrementEvidenceEpochCount epochID subject et s =
     setEvidenceEpochCount epochID subject et (u64 (getEvidenceEpochCount s epochID subject et + 1)) s"

text \<open>The largest identifier among the keys of the right length, and the next one.\<close>

definition max_key_id :: "string \<Rightarrow> (string \<times> 'v) list \<Rightarrow> int" where
  "max_key_id pre m = fold max (map (\<lambda>e. be_val (drop (length pre) (fst e)))
     (filter (\<lambda>e. length (fst e) = length pre + 8) m)) 0"

definition deriveNextEvidenceID :: "audit_store \<Rightarrow> int" where
  "deriveNextEvidenceID s = u64 (max_key_id EvidenceRecordPrefix (us_evidence s) + 1)"

definition GetNextEvidenceID :: "audit_store \<Rightarrow> int" where
  "GetNextEvidenceID s =
     (case us_nextEvidence s of
        None \<Rightarrow> deriveNextEvidenceID s
      | Some n \<Rightarrow> if n = 0 then deriveNextEvidenceID s else n)"

definition SetNextEvidenceID :: "int \<Rightarrow> audit_store \<Rightarrow> audit_store" where
  "SetNextEvidenceID n s = s\<lparr>us_nextEvidence := Some (u64 n)\<rparr>"

definition GetEvidence :: "audit_store \<Rightarrow> int \<Rightarrow> evidence option" where
  "GetEvidence s evidenceID = map_of (us_evidence s) (EvidenceKey evidenceID)"

definition SetEvidence :: "evidence \<Rightarrow> audit_store \<Rightarrow> audit_store" where
  "SetEvidence ev s = s\<lparr>us_evidence := kv_set (EvidenceKey (evd_EvidenceId ev)) ev (us_evidence s)\<rparr>"

definition SetEvidenceBySubjectIndex :: "string \<Rightarrow> int \<Rightarrow> audit_store \<Rightarrow> audit_store" where
  "SetEvidenceBySubjectIndex subject evidenceID s =
     s\<lparr>us_evidenceBySubject := kv_set (EvidenceBySubjectIndexKey subject evidenceID) () (us_evidenceBySubject s)\<rparr>"

definition SetEvidenceByActionIndex :: "string \<Rightarrow> int \<Rightarrow> audit_store \<Rightarrow> audit_store" where
  "SetEvidenceByActionIndex actionID evidenceID s =
     s\<lparr>us_evidenceByAction := kv_set (EvidenceByActionIndexKey actionID evidenceID) () (us_evidenceByAction s)\<rparr>"

definition GetAllEvidence :: "audit_store \<Rightarrow> evidence list" where
  "GetAllEvidence s = slice_stable (\<lambda>x y. evd_EvidenceId x < evd_EvidenceId y) (map snd (us_evidence s))"

section \<open>Postponement markers\<close>

definition getActionFinalizationPostponedAtEpochID :: "audit_store \<Rightarrow> string \<Rightarrow> int option" where
  "getActionFinalizationPostponedAtEpochID s acct = map_of (us_afPostponed s) (ActionFinalizationPostponementKey acct)"

definition setActionFinalizationPostponedAtEpochID :: "string \<Rightarrow> int \<Rightarrow> audit_store \<Rightarrow> audit_store" where
  "setActionFinalizationPostponedAtEpochID acct epochID s =
     s\<lparr>us_afPostponed := kv_set (ActionFinalizationPostponementKey acct) epochID (us_afPostponed s)\<rparr>"

definition clearActionFinalizationPostponedAtEpochID :: "string \<Rightarrow> audit_store \<Rightarrow> audit_store" where
  "clearActionFinalizationPostponedAtEpochID acct s =
     s\<lparr>us_afPostponed := kv_del (ActionFinalizationPostponementKey acct) (us_afPostponed s)\<rparr>"

definition getStorageTruthPostponedAtEpochID :: "audit_store \<Rightarrow> string \<Rightarrow> int option" where
  "getStorageTruthPostponedAtEpochID s acct = map_of (us_stPostponed s) (StorageTruthPostponementKey acct)"

definition setStorageTruthPostponedAtEpochID :: "string \<Rightarrow> int \<Rightarrow> audit_store \<Rightarrow> audit_store" where
  "setStorageTruthPostponedAtEpochID acct epochID s =
     s\<lparr>us_stPostponed := kv_set (StorageTruthPostponementKey acct) epochID (us_stPostponed s)\<rparr>"

definition clearStorageTruthPostponedAtEpochID :: "string \<Rightarrow> audit_store \<Rightarrow> audit_store" where
  "clearStorageTruthPostponedAtEpochID acct s =
     s\<lparr>us_stPostponed := kv_del (StorageTruthPostponementKey acct) (us_stPostponed s),
       us_stStrong := kv_del (StorageTruthPostponementStrongKey acct) (us_stStrong s)\<rparr>"

definition hasStorageTruthStrongPostponeMarker :: "audit_store \<Rightarrow> string \<Rightarrow> bool" where
  "hasStorageTruthStrongPostponeMarker s acct \<longleftrightarrow> map_of (us_stStrong s) (StorageTruthPostponementStrongKey acct) \<noteq> None"

definition setStorageTruthStrongPostponeMarker :: "string \<Rightarrow> audit_store \<Rightarrow> audit_store" where
  "setStorageTruthStrongPostponeMarker acct s =
     s\<lparr>us_stStrong := kv_set (StorageTruthPostponementStrongKey acct) () (us_stStrong s)\<rparr>"

definition GetAllStorageTruthPostponements :: "audit_store \<Rightarrow> (string \<times> int \<times> bool) list" where
  "GetAllStorageTruthPostponements s =
     map (\<lambda>e. let acct = drop (length StorageTruthPostponementPrefix) (fst e)
              in (acct, snd e, hasStorageTruthStrongPostponeMarker s acct)) (us_stPostponed s)"

section \<open>Score states (storage\_truth\_state.go)\<close>

definition GetNodeSuspicionState :: "audit_store \<Rightarrow> string \<Rightarrow> node_suspicion option" where
  "GetNodeSuspicionState s acct = map_of (us_nodes s) (NodeSuspicionStateKey acct)"

definition SetNodeSuspicionState :: "node_suspicion \<Rightarrow> audit_store \<Rightarrow> audit_store" where
  "SetNodeSuspicionState st s = s\<lparr>us_nodes := kv_set (NodeSuspicionStateKey (ns_SupernodeAccount st)) st (us_nodes s)\<rparr>"

definition GetAllNodeSuspicionStates :: "audit_store \<Rightarrow> node_suspicion list" where
  "GetAllNodeSuspicionStates s = map snd (us_nodes s)"

definition GetReporterReliabilityState :: "audit_store \<Rightarrow> string \<Rightarrow> reporter_reliability option" where
  "GetReporterReliabilityState s acct = map_of (us_reporters s) (ReporterReliabilityStateKey acct)"

definition SetReporterReliabilityState :: "reporter_reliability \<Rightarrow> audit_store \<Rightarrow> audit_store" where
  "SetReporterReliabilityState st s =
     s\<lparr>us_reporters := kv_set (ReporterReliabilityStateKey (rr_ReporterSupernodeAccount st)) st (us_reporters s)\<rparr>"

definition GetAllReporterReliabilityStates :: "audit_store \<Rightarrow> reporter_reliability list" where
  "GetAllReporterReliabilityStates s = map snd (us_reporters s)"

definition GetTicketDeteriorationState :: "audit_store \<Rightarrow> string \<Rightarrow> ticket_deterioration option" where
  "GetTicketDeteriorationState s t = map_of (us_tickets s) (TicketDeteriorationStateKey t)"

definition SetTicketDeteriorationState :: "ticket_deterioration \<Rightarrow> audit_store \<Rightarrow> audit_store" where
  "SetTicketDeteriorationState st s =
     s\<lparr>us_tickets := kv_set (TicketDeteriorationStateKey (td_TicketId st)) st (us_tickets s)\<rparr>"

definition GetAllTicketDeteriorationStates :: "audit_store \<Rightarrow> ticket_deterioration list" where
  "GetAllTicketDeteriorationStates s = map snd (us_tickets s)"

definition GetTicketArtifactCountState :: "audit_store \<Rightarrow> string \<Rightarrow> artifact_counts option" where
  "GetTicketArtifactCountState s t = map_of (us_artifacts s) (TicketArtifactCountStateKey t)"

definition SetTicketArtifactCountState :: "artifact_counts \<Rightarrow> audit_store \<Rightarrow> audit_store" where
  "SetTicketArtifactCountState st s =
     s\<lparr>us_artifacts := kv_set (TicketArtifactCountStateKey (tac_TicketId st)) st (us_artifacts s)\<rparr>"

definition GetAllTicketArtifactCountStates :: "audit_store \<Rightarrow> artifact_counts list" where
  "GetAllTicketArtifactCountStates s = map snd (us_artifacts s)"

text \<open>Anchoring the artifact counts of a ticket (storage\_truth\_ticket\_artifact\_counts.go).\<close>

definition SetStorageTruthTicketArtifactCounts :: "string \<Rightarrow> int \<Rightarrow> int \<Rightarrow> audit_store \<Rightarrow> audit_error + audit_store" where
  "SetStorageTruthTicketArtifactCounts ticketID idx symb s =
     (if ticketID = [] then Inl AuErrInvalidStorageProofs
      else if idx = 0 \<or> symb = 0 then Inl AuErrInvalidStorageProofs
      else case GetTicketArtifactCountState s ticketID of
        Some old \<Rightarrow>
          if tac_IndexArtifactCount old \<noteq> 0 \<and> tac_IndexArtifactCount old \<noteq> idx then Inl AuErrInvalidStorageProofs
          else if tac_SymbolArtifactCount old \<noteq> 0 \<and> tac_SymbolArtifactCount old \<noteq> symb then Inl AuErrInvalidStorageProofs
          else if tac_IndexArtifactCount old = idx \<and> tac_SymbolArtifactCount old = symb then Inr s
          else Inr (SetTicketArtifactCountState
                 (old\<lparr>tac_IndexArtifactCount := dflt idx (tac_IndexArtifactCount old),
                      tac_SymbolArtifactCount := dflt symb (tac_SymbolArtifactCount old)\<rparr>) s)
      | None \<Rightarrow> Inr (SetTicketArtifactCountState
                 \<lparr>tac_TicketId = ticketID, tac_IndexArtifactCount = idx, tac_SymbolArtifactCount = symb\<rparr> s))"

section \<open>Heal operations (storage\_truth\_state.go)\<close>

definition deriveNextHealOpID :: "audit_store \<Rightarrow> int" where
  "deriveNextHealOpID s = u64 (max_key_id HealOpPrefix (us_heals s) + 1)"

definition GetNextHealOpID :: "audit_store \<Rightarrow> int" where
  "GetNextHealOpID s =
     (case us_nextHeal s of
        None \<Rightarrow> deriveNextHealOpID s
      | Some n \<Rightarrow> if n = 0 then deriveNextHealOpID s else n)"

definition SetNextHealOpID :: "int \<Rightarrow> audit_store \<Rightarrow> audit_store" where
  "SetNextHealOpID n s = s\<lparr>us_nextHeal := Some (u64 n)\<rparr>"

definition GetHealOp :: "audit_store \<Rightarrow> int \<Rightarrow> heal_op option" where
  "GetHealOp s healOpID = map_of (us_heals s) (HealOpKey healOpID)"

definition SetHealOp :: "heal_op \<Rightarrow> audit_store \<Rightarrow> audit_store" where
  "SetHealOp op s =
     (let s1 = (case GetHealOp s (ho_HealOpId op) of
                  None \<Rightarrow> s
                | Some old \<Rightarrow>
                    s\<lparr>us_healsByTicket := kv_del (HealOpByTicketIndexKey (ho_TicketId old) (ho_HealOpId old)) (us_healsByTicket s),
                      us_healsByStatus := kv_del (HealOpByStatusIndexKey (heal_num (ho_Status old)) (ho_HealOpId old)) (us_healsByStatus s)\<rparr>)
      in s1\<lparr>us_heals := kv_set (HealOpKey (ho_HealOpId op)) op (us_heals s1),
            us_healsByTicket := kv_set (HealOpByTicketIndexKey (ho_TicketId op) (ho_HealOpId op)) () (us_healsByTicket s1),
            us_healsByStatus := kv_set (HealOpByStatusIndexKey (heal_num (ho_Status op)) (ho_HealOpId op)) () (us_healsByStatus s1)\<rparr>)"

definition GetAllHealOps :: "audit_store \<Rightarrow> heal_op list" where
  "GetAllHealOps s = map snd (us_heals s)"

definition HasHealOpVerification :: "audit_store \<Rightarrow> int \<Rightarrow> string \<Rightarrow> bool" where
  "HasHealOpVerification s healOpID verifier \<longleftrightarrow> map_of (us_healVotes s) (HealOpVerificationKey healOpID verifier) \<noteq> None"

definition SetHealOpVerification :: "int \<Rightarrow> string \<Rightarrow> bool \<Rightarrow> audit_store \<Rightarrow> audit_store" where
  "SetHealOpVerification healOpID verifier verified s =
     s\<lparr>us_healVotes := kv_set (HealOpVerificationKey healOpID verifier) verified (us_healVotes s)\<rparr>"

definition GetAllHealOpVerifications :: "audit_store \<Rightarrow> int \<Rightarrow> string \<rightharpoonup> bool" where
  "GetAllHealOpVerifications s healOpID =
     (let pre = HealOpVerificationPrefix healOpID
      in map_of (map (\<lambda>e. (drop (length pre) (fst e), snd e))
           (filter (\<lambda>e. length pre < length (fst e)) (kv_prefix pre (us_healVotes s)))))"

section \<open>Recheck markers, transcripts and facts\<close>

definition HasRecheckEvidence :: "audit_store \<Rightarrow> int \<Rightarrow> string \<Rightarrow> string \<Rightarrow> bool" where
  "HasRecheckEvidence s epochID ticketID creator \<longleftrightarrow> map_of (us_recheck s) (RecheckEvidenceKey epochID ticketID creator) \<noteq> None"

definition SetRecheckEvidence :: "int \<Rightarrow> string \<Rightarrow> string \<Rightarrow> audit_store \<Rightarrow> audit_store" where
  "SetRecheckEvidence epochID ticketID creator s =
     s\<lparr>us_recheck := kv_set (RecheckEvidenceKey epochID ticketID creator) () (us_recheck s)\<rparr>"

definition setStorageProofTranscriptRecord :: "string \<Rightarrow> transcript \<Rightarrow> audit_store \<Rightarrow> audit_store" where
  "setStorageProofTranscriptRecord hash r s =
     (let s1 = s\<lparr>us_transcripts := kv_set (StorageProofTranscriptKey hash) r (us_transcripts s)\<rparr>
      in if spt_TargetAccount r \<noteq> []
         then s1\<lparr>us_transcriptIndex :=
                kv_set (TranscriptByTargetBucketEpochKey (spt_TargetAccount r) (bucket_num (spt_BucketType r)) (spt_EpochID r) hash)
                  r (us_transcriptIndex s1)\<rparr>
         else s1)"

definition getStorageProofTranscriptRecord :: "audit_store \<Rightarrow> string \<Rightarrow> transcript option" where
  "getStorageProofTranscriptRecord s hash = map_of (us_transcripts s) (StorageProofTranscriptKey hash)"

definition transcript_of :: "int \<Rightarrow> string \<Rightarrow> proof_result \<Rightarrow> transcript" where
  "transcript_of epochID reporter r =
     \<lparr>spt_EpochID = epochID, spt_ReporterAccount = reporter, spt_TargetAccount = pr_TargetSupernodeAccount r,
      spt_TicketID = pr_TicketId r, spt_ResultClass = pr_ResultClass r, spt_BucketType = pr_BucketType r,
      spt_ArtifactClass = pr_ArtifactClass r, spt_ArtifactKey = pr_ArtifactKey r,
      spt_ArtifactOrdinal = pr_ArtifactOrdinal r, spt_ArtifactCount = pr_ArtifactCount r,
      spt_DerivationInputHash = pr_DerivationInputHash r, spt_ChallengerSignature = pr_ChallengerSignature r,
      spt_ObserverAttestations = pr_ObserverAttestationSignatures r,
      spt_RecheckEligible = isStorageTruthRecheckEligible (pr_ResultClass r), spt_ConfirmedByRecheck = False,
      spt_ContradictedByRecheck = False, spt_RecheckTranscriptHash = [], spt_ChallengedTranscriptHash = []\<rparr>"

definition indexStorageProofTranscripts :: "int \<Rightarrow> string \<Rightarrow> proof_result list \<Rightarrow> audit_store \<Rightarrow> audit_store" where
  "indexStorageProofTranscripts epochID reporter results s =
     fold (\<lambda>r s. if pr_TranscriptHash r = [] then s
                 else setStorageProofTranscriptRecord (pr_TranscriptHash r) (transcript_of epochID reporter r) s) results s"

definition setStorageTruthNodeFailure :: "int \<Rightarrow> string \<Rightarrow> proof_result \<Rightarrow> audit_store \<Rightarrow> audit_store" where
  "setStorageTruthNodeFailure epochID reporter r s =
     (if pr_TargetSupernodeAccount r = [] \<or> pr_TicketId r = [] \<or> \<not> isStorageTruthFailureClass (pr_ResultClass r) then s
      else s\<lparr>us_failures := kv_set (NodeStorageTruthFailureKey (pr_TargetSupernodeAccount r) epochID (pr_TicketId r) reporter)
               \<lparr>nf_EpochID = epochID, nf_Reporter = reporter, nf_Target = pr_TargetSupernodeAccount r, nf_TicketID = pr_TicketId r,
                nf_ResultClass = pr_ResultClass r, nf_BucketType = pr_BucketType r, nf_ArtifactClass = pr_ArtifactClass r\<rparr>
               (us_failures s)\<rparr>)"

definition setStorageTruthReporterResult :: "int \<Rightarrow> string \<Rightarrow> proof_result \<Rightarrow> audit_store \<Rightarrow> audit_store" where
  "setStorageTruthReporterResult epochID reporter r s =
     (if reporter = [] \<or> pr_TicketId r = [] \<or> pr_TargetSupernodeAccount r = [] then s
      else
        let rec = \<lparr>rrs_EpochID = epochID, rrs_Reporter = reporter, rrs_Target = pr_TargetSupernodeAccount r,
              rrs_TicketID = pr_TicketId r, rrs_ResultClass = pr_ResultClass r, rrs_ConfirmedByRecheck = False,
              rrs_OverturnedByRecheck = False\<rparr>
        in s\<lparr>us_results := kv_set (ReporterStorageTruthResultKey reporter epochID (pr_TicketId r) (pr_TargetSupernodeAccount r)) rec (us_results s),
             us_resultsByTarget := kv_set (ReporterStorageTruthResultByTargetKey (pr_TargetSupernodeAccount r) epochID (pr_TicketId r) reporter) rec (us_resultsByTarget s),
             us_resultsByEpoch := kv_set (ReporterStorageTruthResultByEpochReporterKey epochID reporter) () (us_resultsByEpoch s)\<rparr>)"

definition markStorageTruthReporterResultRecheck :: "string \<Rightarrow> string \<Rightarrow> bool \<Rightarrow> audit_store \<Rightarrow> audit_store" where
  "markStorageTruthReporterResultRecheck reporter hash confirmed s =
     (case getStorageProofTranscriptRecord s hash of
        None \<Rightarrow> s
      | Some rec \<Rightarrow>
          let key = ReporterStorageTruthResultKey reporter (spt_EpochID rec) (spt_TicketID rec) (spt_TargetAccount rec);
              s1 = (case map_of (us_results s) key of
                      None \<Rightarrow> s
                    | Some res \<Rightarrow>
                        let res' = res\<lparr>rrs_ConfirmedByRecheck := confirmed, rrs_OverturnedByRecheck := \<not> confirmed\<rparr>
                        in s\<lparr>us_results := kv_set key res' (us_results s),
                             us_resultsByTarget := kv_set (ReporterStorageTruthResultByTargetKey (spt_TargetAccount rec)
                               (spt_EpochID rec) (spt_TicketID rec) reporter) res' (us_resultsByTarget s)\<rparr>)
          in setStorageProofTranscriptRecord hash (rec\<lparr>spt_ConfirmedByRecheck := confirmed, spt_ContradictedByRecheck := \<not> confirmed\<rparr>) s1)"

definition linkStorageTruthRecheckTranscript ::
    "string \<Rightarrow> string \<Rightarrow> string \<Rightarrow> result_class \<Rightarrow> audit_store \<Rightarrow> audit_error + audit_store" where
  "linkStorageTruthRecheckTranscript challengedHash recheckHash rechecker rclass s =
     (case getStorageProofTranscriptRecord s challengedHash of
        None \<Rightarrow> Inr s
      | Some challenged0 \<Rightarrow>
          if spt_RecheckTranscriptHash challenged0 \<noteq> [] \<and> spt_RecheckTranscriptHash challenged0 \<noteq> recheckHash
          then Inl AuErrInvalidRecheckEvidence
          else
            let challenged = challenged0\<lparr>spt_RecheckTranscriptHash := recheckHash\<rparr>;
                s1 = setStorageProofTranscriptRecord challengedHash challenged s
            in case getStorageProofTranscriptRecord s1 recheckHash of
                 Some existing \<Rightarrow>
                   if spt_ChallengedTranscriptHash existing \<noteq> challengedHash \<or> spt_ReporterAccount existing \<noteq> rechecker
                   then Inl AuErrInvalidRecheckEvidence else Inr s1
               | None \<Rightarrow>
                   Inr (setStorageProofTranscriptRecord recheckHash
                     \<lparr>spt_EpochID = spt_EpochID challenged, spt_ReporterAccount = rechecker,
                      spt_TargetAccount = spt_TargetAccount challenged, spt_TicketID = spt_TicketID challenged,
                      spt_ResultClass = rclass, spt_BucketType = BUCKET_RECHECK, spt_ArtifactClass = spt_ArtifactClass challenged,
                      spt_ArtifactKey = spt_ArtifactKey challenged, spt_ArtifactOrdinal = spt_ArtifactOrdinal challenged,
                      spt_ArtifactCount = spt_ArtifactCount challenged, spt_DerivationInputHash = [],
                      spt_ChallengerSignature = [], spt_ObserverAttestations = [], spt_RecheckEligible = False,
                      spt_ConfirmedByRecheck = False, spt_ContradictedByRecheck = False, spt_RecheckTranscriptHash = [],
                      spt_ChallengedTranscriptHash = challengedHash\<rparr> s1))"

text \<open>The distinct tickets and the number of failures of a node in a window.\<close>

definition failures_in :: "audit_store \<Rightarrow> string \<Rightarrow> int \<Rightarrow> int \<Rightarrow> (node_failure \<Rightarrow> bool) \<Rightarrow> node_failure list" where
  "failures_in s acct startEpoch endEpoch incl =
     filter incl (map snd (kv_range (NodeStorageTruthFailureEpochScanRange acct startEpoch endEpoch) (us_failures s)))"

definition distinctNodeFailedTickets ::
    "audit_store \<Rightarrow> string \<Rightarrow> int \<Rightarrow> int \<Rightarrow> (node_failure \<Rightarrow> bool) \<Rightarrow> string list \<times> int" where
  "distinctNodeFailedTickets s acct startEpoch endEpoch incl =
     (let fs = failures_in s acct startEpoch endEpoch incl
      in (remdups (filter (\<lambda>t. t \<noteq> []) (map nf_TicketID fs)), min (int (length fs)) (2 ^ 32 - 1)))"

definition hasNodeFailure :: "audit_store \<Rightarrow> string \<Rightarrow> int \<Rightarrow> int \<Rightarrow> (node_failure \<Rightarrow> bool) \<Rightarrow> bool" where
  "hasNodeFailure s acct startEpoch endEpoch incl \<longleftrightarrow> 0 < snd (distinctNodeFailedTickets s acct startEpoch endEpoch incl)"

definition hasIndependentReporterPassInWindow :: "audit_store \<Rightarrow> string \<Rightarrow> string \<Rightarrow> string \<Rightarrow> int \<Rightarrow> int \<Rightarrow> bool" where
  "hasIndependentReporterPassInWindow s ticketID target excludeReporter startEpoch endEpoch =
     list_ex (\<lambda>e. rrs_TicketID (snd e) = ticketID \<and> rrs_ResultClass (snd e) = RESULT_PASS
                \<and> rrs_Reporter (snd e) \<noteq> [] \<and> rrs_Reporter (snd e) \<noteq> excludeReporter)
       (kv_range (ReporterStorageTruthResultByTargetEpochScanRange target startEpoch endEpoch) (us_resultsByTarget s))"

definition hasCleanRecheckInWindow :: "audit_store \<Rightarrow> string \<Rightarrow> string \<Rightarrow> int \<Rightarrow> int \<Rightarrow> bool" where
  "hasCleanRecheckInWindow s ticketID target startEpoch endEpoch =
     list_ex (\<lambda>e. spt_TicketID (snd e) = ticketID \<and> spt_ResultClass (snd e) = RESULT_PASS)
       (kv_range (TranscriptByTargetBucketEpochScanRange target (bucket_num BUCKET_RECHECK) startEpoch endEpoch) (us_transcriptIndex s))"

definition setStorageTruthFailedHeal :: "string \<Rightarrow> int \<Rightarrow> string \<Rightarrow> audit_store \<Rightarrow> audit_error + audit_store" where
  "setStorageTruthFailedHeal acct epochID ticketID s =
     (if acct = [] then Inl (AuText ''failed heal marker missing healer account'')
      else if ticketID = [] then Inl (AuText ''failed heal marker missing ticket id'')
      else Inr (s\<lparr>us_failedHeals := kv_set (StorageTruthFailedHealKey acct epochID ticketID) () (us_failedHeals s)\<rparr>))"

definition hasStorageTruthFailedHeal :: "audit_store \<Rightarrow> string \<Rightarrow> int \<Rightarrow> int \<Rightarrow> bool" where
  "hasStorageTruthFailedHeal s acct startEpoch endEpoch =
     (let pre = StorageTruthFailedHealPrefix acct in
      list_ex (\<lambda>e. length pre + 8 \<le> length (fst e)
                 \<and> startEpoch \<le> be_val (take 8 (drop (length pre) (fst e)))
                 \<and> be_val (take 8 (drop (length pre) (fst e))) \<le> endEpoch)
        (kv_prefix pre (us_failedHeals s)))"

end
