(* ===== verification/Audit_Report.thy ===== *)
theory Audit_Report
  imports Audit_State Supernode_Select
begin

text \<open>
  The messages of the audit module: epoch reports with their scoring
  (msg\_submit\_epoch\_report.go, msg\_submit\_epoch\_report\_storage\_proofs.go,
  storage\_truth\_scoring.go), recheck evidence and heal operations (msg\_storage\_truth.go), evidence
  (evidence.go, msg\_submit\_evidence.go) and parameters (msg\_update\_params.go).
\<close>

section \<open>Score updates (storage\_truth\_scoring.go)\<close>

definition new_node :: "string \<Rightarrow> node_suspicion" where
  "new_node acct = \<lparr>ns_SupernodeAccount = acct, ns_SuspicionScore = 0, ns_LastUpdatedEpoch = 0, ns_LastRecentFailEpoch = 0,
     ns_LastOldFailEpoch = 0, ns_DistinctTicketFailWindow = 0, ns_WindowStartEpoch = 0, ns_ClassACountWindow = 0,
     ns_LastClassAEpoch = 0, ns_ClassBCountWindow = 0, ns_LastClassBEpoch = 0, ns_CleanPassCount = 0,
     ns_LastCleanPassEpoch = 0, ns_LastIndexFailEpoch = 0, ns_CleanPassCountAtPostpone = 0\<rparr>"

definition new_reporter :: "string \<Rightarrow> reporter_reliability" where
  "new_reporter acct = \<lparr>rr_ReporterSupernodeAccount = acct, rr_ReliabilityScore = 0, rr_LastUpdatedEpoch = 0,
     rr_TrustBand = BAND_UNSPECIFIED, rr_ContradictionCount = 0, rr_IneligibleUntilEpoch = 0, rr_WindowPositiveCount = 0,
     rr_WindowNegativeCount = 0, rr_WindowStartEpoch = 0\<rparr>"

definition new_ticket :: "string \<Rightarrow> ticket_deterioration" where
  "new_ticket t = \<lparr>td_TicketId = t, td_DeteriorationScore = 0, td_LastUpdatedEpoch = 0, td_ActiveHealOpId = 0,
     td_ProbationUntilEpoch = 0, td_LastHealEpoch = 0, td_LastFailureEpoch = 0, td_RecentFailureEpochCount = 0,
     td_ContradictionCount = 0, td_LastTargetSupernodeAccount = [], td_LastReporterSupernodeAccount = [],
     td_LastResultClass = RESULT_UNSPECIFIED, td_LastResultEpoch = 0, td_DistinctHolderFailureCount = 0,
     td_LastIndexFailureEpoch = 0, td_RecentBucketFailureEpoch = 0, td_OldBucketFailureEpoch = 0\<rparr>"

text \<open>A score after decay and delta, never below zero.\<close>

definition next_score :: "int \<Rightarrow> int \<Rightarrow> int" where
  "next_score current delta = (if addInt64Saturated current delta < 0 then 0 else addInt64Saturated current delta)"

definition updateNodeSuspicionHistoryFields :: "proof_result \<Rightarrow> int \<Rightarrow> audit_params \<Rightarrow> node_suspicion \<Rightarrow> node_suspicion" where
  "updateNodeSuspicionHistoryFields r epochID params st0 =
     (let window = dflt 14 (up_StorageTruthPatternEscalationWindow params);
          st1 = (if pr_ResultClass r = RESULT_PASS
                 then st0\<lparr>ns_CleanPassCount := u32 (ns_CleanPassCount st0 + 1), ns_LastCleanPassEpoch := epochID\<rparr> else st0)
      in if \<not> isStorageTruthFailureClass (pr_ResultClass r) then st1
         else
           let st2 = (case pr_BucketType r of
                        BUCKET_RECENT \<Rightarrow> st1\<lparr>ns_LastRecentFailEpoch := epochID\<rparr>
                      | BUCKET_OLD \<Rightarrow> st1\<lparr>ns_LastOldFailEpoch := epochID\<rparr>
                      | _ \<Rightarrow> st1);
               st3 = (if pr_ArtifactClass r = ARTIFACT_INDEX then st2\<lparr>ns_LastIndexFailEpoch := epochID\<rparr> else st2);
               st4 = (if epochDelta epochID (ns_WindowStartEpoch st3) \<ge> window
                      then st3\<lparr>ns_WindowStartEpoch := epochID, ns_DistinctTicketFailWindow := 0, ns_ClassACountWindow := 0,
                               ns_ClassBCountWindow := 0\<rparr> else st3);
               st5 = st4\<lparr>ns_DistinctTicketFailWindow := u32 (ns_DistinctTicketFailWindow st4 + 1)\<rparr>;
               st6 = (if pr_ResultClass r = RESULT_HASH_MISMATCH \<or> pr_ResultClass r = RESULT_RECHECK_CONFIRMED_FAIL
                      then st5\<lparr>ns_ClassACountWindow := u32 (ns_ClassACountWindow st5 + 1), ns_LastClassAEpoch := epochID,
                               ns_CleanPassCount := 0\<rparr> else st5)
           in if pr_ResultClass r = RESULT_TIMEOUT_OR_NO_RESPONSE
              then st6\<lparr>ns_ClassBCountWindow := u32 (ns_ClassBCountWindow st6 + 1), ns_LastClassBEpoch := epochID\<rparr> else st6)"

definition applyNodeSuspicionDelta ::
    "int \<Rightarrow> proof_result \<Rightarrow> int \<Rightarrow> int \<Rightarrow> audit_params \<Rightarrow> audit_store \<Rightarrow> audit_store" where
  "applyNodeSuspicionDelta epochID r delta decayPerEpoch params s =
     (let acct = pr_TargetSupernodeAccount r; old = GetNodeSuspicionState s acct in
      if acct = [] then s
      else if old = None \<and> delta = 0 then s
      else
        let st = (case old of None \<Rightarrow> new_node [] | Some x \<Rightarrow> x);
            current = (case old of None \<Rightarrow> 0
              | Some x \<Rightarrow> decayTowardZero (ns_SuspicionScore x) decayPerEpoch (epochDelta epochID (ns_LastUpdatedEpoch x)))
        in SetNodeSuspicionState
             (updateNodeSuspicionHistoryFields r epochID params
               (st\<lparr>ns_SupernodeAccount := acct, ns_SuspicionScore := next_score current delta, ns_LastUpdatedEpoch := epochID\<rparr>)) s)"

definition reporter_window :: "int \<Rightarrow> int \<Rightarrow> int \<Rightarrow> reporter_reliability \<Rightarrow> reporter_reliability" where
  "reporter_window epochID divergenceWindow delta st =
     (let st1 = (if epochDelta epochID (rr_WindowStartEpoch st) \<ge> divergenceWindow
                 then st\<lparr>rr_WindowStartEpoch := epochID, rr_WindowPositiveCount := 0, rr_WindowNegativeCount := 0\<rparr> else st)
      in if 0 < delta then (if rr_WindowNegativeCount st1 < 2 ^ 32 - 1
                            then st1\<lparr>rr_WindowNegativeCount := rr_WindowNegativeCount st1 + 1\<rparr> else st1)
         else if delta < 0 then (if rr_WindowPositiveCount st1 < 2 ^ 32 - 1
                            then st1\<lparr>rr_WindowPositiveCount := rr_WindowPositiveCount st1 + 1\<rparr> else st1)
         else st1)"

definition next_reporter ::
    "int \<Rightarrow> string \<Rightarrow> int \<Rightarrow> int \<Rightarrow> int \<Rightarrow> audit_params \<Rightarrow> reporter_reliability option \<Rightarrow> reporter_reliability" where
  "next_reporter epochID acct delta decayPerEpoch incs params old =
     (let st = (case old of None \<Rightarrow> new_reporter [] | Some x \<Rightarrow> x);
          current = (case old of None \<Rightarrow> 0
            | Some x \<Rightarrow> decayTowardZero (rr_ReliabilityScore x) decayPerEpoch (epochDelta epochID (rr_LastUpdatedEpoch x)));
          nxt = next_score current delta; band = reporterTrustBandForScore nxt params;
          st1 = st\<lparr>rr_ReporterSupernodeAccount := acct, rr_ReliabilityScore := nxt, rr_LastUpdatedEpoch := epochID,
                   rr_TrustBand := band, rr_ContradictionCount := u64 (rr_ContradictionCount st + incs)\<rparr>;
          st2 = (if band = BAND_CHALLENGER_INELIGIBLE
                 then st1\<lparr>rr_IneligibleUntilEpoch := u64 (epochID + dflt 7 (up_StorageTruthReporterIneligibleDurationEpochs params))\<rparr>
                 else if nxt < up_StorageTruthReporterReliabilityIneligibleThreshold params
                 then st1\<lparr>rr_IneligibleUntilEpoch := 0\<rparr> else st1)
      in reporter_window epochID (dflt 14 (up_StorageTruthDivergenceWindowEpochs params)) delta st2)"

definition applyReporterReliabilityDelta ::
    "int \<Rightarrow> string \<Rightarrow> int \<Rightarrow> int \<Rightarrow> int \<Rightarrow> audit_params \<Rightarrow> audit_store \<Rightarrow> audit_store" where
  "applyReporterReliabilityDelta epochID acct delta decayPerEpoch incs params s =
     (if acct = [] then s
      else if GetReporterReliabilityState s acct = None \<and> delta = 0 \<and> incs = 0 then s
      else SetReporterReliabilityState
             (next_reporter epochID acct delta decayPerEpoch incs params (GetReporterReliabilityState s acct)) s)"

definition updateRecentFailureEpochCount :: "ticket_deterioration \<Rightarrow> int \<Rightarrow> audit_params \<Rightarrow> int" where
  "updateRecentFailureEpochCount st epochID params =
     (if epochID = td_LastFailureEpoch st then dflt 1 (td_RecentFailureEpochCount st)
      else if td_RecentFailureEpochCount st = 0 then 1
      else if epochDelta epochID (td_LastFailureEpoch st) > max 2 (dflt 14 (up_StorageTruthPatternEscalationWindow params)) then 1
      else if td_RecentFailureEpochCount st = 2 ^ 32 - 1 then 2 ^ 32 - 1
      else td_RecentFailureEpochCount st + 1)"

definition ticket_score :: "int \<Rightarrow> proof_result \<Rightarrow> int \<Rightarrow> int \<Rightarrow> ticket_deterioration option \<Rightarrow> int" where
  "ticket_score epochID r delta decayPerEpoch old =
     (case old of
        None \<Rightarrow> next_score 0 delta
      | Some x \<Rightarrow>
          let current = decayTowardZero (td_DeteriorationScore x) decayPerEpoch (epochDelta epochID (td_LastUpdatedEpoch x));
              nxt = addInt64Saturated current delta;
              nxt' = (if pr_ResultClass r = RESULT_PASS \<and> td_LastTargetSupernodeAccount x \<noteq> []
                         \<and> td_LastTargetSupernodeAccount x \<noteq> pr_TargetSupernodeAccount r
                         \<and> isStorageTruthFailureClass (td_LastResultClass x)
                      then addInt64Saturated nxt (-3) else nxt)
          in if nxt' < 0 then 0 else nxt')"

definition next_ticket ::
    "int \<Rightarrow> string \<Rightarrow> proof_result \<Rightarrow> string \<Rightarrow> int \<Rightarrow> int \<Rightarrow> bool \<Rightarrow> audit_params \<Rightarrow> ticket_deterioration option
       \<Rightarrow> ticket_deterioration" where
  "next_ticket epochID reporter r ticketID delta decayPerEpoch confirmed params old =
     (let st = (case old of None \<Rightarrow> new_ticket [] | Some x \<Rightarrow> x); fl = isStorageTruthFailureClass (pr_ResultClass r);
          n1 = st\<lparr>td_TicketId := ticketID, td_DeteriorationScore := ticket_score epochID r delta decayPerEpoch old,
                  td_LastUpdatedEpoch := epochID\<rparr>;
          n2 = (if fl \<and> (old = None \<or> epochID \<noteq> td_LastFailureEpoch st)
                then n1\<lparr>td_LastFailureEpoch := epochID, td_RecentFailureEpochCount := updateRecentFailureEpochCount st epochID params\<rparr>
                else n1)
      in if pr_TicketId r = [] then n2
         else
           let n3 = (if fl \<and> td_LastTargetSupernodeAccount st \<noteq> [] \<and> td_LastTargetSupernodeAccount st \<noteq> pr_TargetSupernodeAccount r
                        \<and> td_DistinctHolderFailureCount n2 < 2 ^ 32 - 1
                     then n2\<lparr>td_DistinctHolderFailureCount := td_DistinctHolderFailureCount n2 + 1\<rparr> else n2);
               n4 = (if fl \<and> pr_ArtifactClass r = ARTIFACT_INDEX then n3\<lparr>td_LastIndexFailureEpoch := epochID\<rparr> else n3);
               n5 = (if fl then (case pr_BucketType r of
                          BUCKET_RECENT \<Rightarrow> n4\<lparr>td_RecentBucketFailureEpoch := epochID\<rparr>
                        | BUCKET_OLD \<Rightarrow> n4\<lparr>td_OldBucketFailureEpoch := epochID\<rparr>
                        | _ \<Rightarrow> n4) else n4);
               n6 = n5\<lparr>td_LastTargetSupernodeAccount := pr_TargetSupernodeAccount r, td_LastReporterSupernodeAccount := reporter,
                       td_LastResultClass := pr_ResultClass r, td_LastResultEpoch := epochID\<rparr>
           in if confirmed \<and> td_LastResultEpoch st \<le> epochID \<and> td_LastTargetSupernodeAccount st = pr_TargetSupernodeAccount r
                 \<and> storageTruthResultsContradict (td_LastResultClass st) (pr_ResultClass r)
              then n6\<lparr>td_ContradictionCount := u64 (td_ContradictionCount st + 1)\<rparr> else n6)"

definition applyTicketDeteriorationDelta ::
    "int \<Rightarrow> string \<Rightarrow> proof_result \<Rightarrow> string \<Rightarrow> int \<Rightarrow> int \<Rightarrow> bool \<Rightarrow> audit_store \<Rightarrow> audit_store" where
  "applyTicketDeteriorationDelta epochID reporter r ticketID delta decayPerEpoch confirmed s =
     (if ticketID = [] then s
      else if GetTicketDeteriorationState s ticketID = None \<and> delta = 0 then s
      else SetTicketDeteriorationState
             (next_ticket epochID reporter r ticketID delta decayPerEpoch confirmed (up s) (GetTicketDeteriorationState s ticketID)) s)"

record bookkeeping =
  bk_trustMultiplier :: int
  bk_applyTrustScaling :: bool
  bk_contradictionDetected :: bool
  bk_contradictedReporter :: string
  bk_contradictedReporterDelta :: int
  bk_currentReporterPenalty :: int
  bk_nodeBonus :: int
  bk_ticketBonus :: int

definition no_bookkeeping :: bookkeeping where
  "no_bookkeeping = \<lparr>bk_trustMultiplier = 0, bk_applyTrustScaling = False, bk_contradictionDetected = False,
     bk_contradictedReporter = [], bk_contradictedReporterDelta = 0, bk_currentReporterPenalty = 0, bk_nodeBonus = 0,
     bk_ticketBonus = 0\<rparr>"

definition hasStorageTruthContradictionConfirmation :: "audit_store \<Rightarrow> int \<Rightarrow> string \<Rightarrow> string \<Rightarrow> string \<Rightarrow> int \<Rightarrow> bool" where
  "hasStorageTruthContradictionConfirmation s epochID ticketID target currentReporter window =
     (if ticketID = [] \<or> target = [] then False
      else
        let startEpoch = storageTruthWindowStart epochID window
        in hasIndependentReporterPassInWindow s ticketID target currentReporter startEpoch epochID
           \<or> hasCleanRecheckInWindow s ticketID target startEpoch epochID)"

text \<open>The bonus of a failure: repeated tickets of the node, then failures in both buckets.\<close>

definition failure_node_bonus :: "audit_store \<Rightarrow> int \<Rightarrow> proof_result \<Rightarrow> audit_params \<Rightarrow> int" where
  "failure_node_bonus s epochID r params =
     (let patternWindow = dflt 14 (up_StorageTruthPatternEscalationWindow params);
          target = pr_TargetSupernodeAccount r; start = storageTruthWindowStart epochID patternWindow;
          tickets = fst (distinctNodeFailedTickets s target start epochID (\<lambda>_. True));
          repeated = u32 (int (card (insert (pr_TicketId r) (set tickets))));
          b = (if repeated > 1 then repeatedFailureEscalationBonus repeated else 0)
      in if target = [] then b
         else if (pr_BucketType r = BUCKET_RECENT \<or> hasNodeFailure s target start epochID (\<lambda>f. nf_BucketType f = BUCKET_RECENT))
               \<and> (pr_BucketType r = BUCKET_OLD \<or> hasNodeFailure s target start epochID (\<lambda>f. nf_BucketType f = BUCKET_OLD))
         then addInt64Saturated b 12 else b)"

definition failure_ticket_bonus :: "ticket_deterioration option \<Rightarrow> int \<Rightarrow> proof_result \<Rightarrow> int" where
  "failure_ticket_bonus old epochID r =
     (case old of
        None \<Rightarrow> 0
      | Some t \<Rightarrow>
          if epochID \<noteq> td_LastFailureEpoch t \<and> td_LastTargetSupernodeAccount t \<noteq> []
          then (if td_LastTargetSupernodeAccount t \<noteq> pr_TargetSupernodeAccount r then 10 else 6) else 0)"

definition storageTruthBookkeepingForResult ::
    "audit_store \<Rightarrow> int \<Rightarrow> string \<Rightarrow> proof_result \<Rightarrow> audit_params \<Rightarrow> bookkeeping" where
  "storageTruthBookkeepingForResult s epochID reporter r params =
     (let score = (case GetReporterReliabilityState s reporter of
            None \<Rightarrow> 0
          | Some x \<Rightarrow> decayTowardZero (rr_ReliabilityScore x) (up_StorageTruthReporterReliabilityDecayPerEpoch params)
                       (epochDelta epochID (rr_LastUpdatedEpoch x)));
          b0 = no_bookkeeping\<lparr>bk_trustMultiplier := reporterTrustMultiplierNumerator score,
                 bk_applyTrustScaling := pr_ResultClass r = RESULT_HASH_MISMATCH \<and> isStorageTruthFailureClass (pr_ResultClass r)
                   \<and> pr_ResultClass r \<noteq> RESULT_RECHECK_CONFIRMED_FAIL \<and> pr_BucketType r \<noteq> BUCKET_RECHECK\<rparr>;
          t = GetTicketDeteriorationState s (pr_TicketId r)
      in if pr_TicketId r = [] then b0
         else
           let b1 = (if isStorageTruthFailureClass (pr_ResultClass r)
                     then b0\<lparr>bk_nodeBonus := failure_node_bonus s epochID r params,
                             bk_ticketBonus := failure_ticket_bonus t epochID r\<rparr> else b0)
           in case t of
                None \<Rightarrow> b1
              | Some ts \<Rightarrow>
                  if td_LastResultEpoch ts \<le> epochID \<and> td_LastTargetSupernodeAccount ts = pr_TargetSupernodeAccount r
                     \<and> isStorageTruthFailureClass (td_LastResultClass ts) \<and> pr_ResultClass r = RESULT_PASS
                     \<and> hasStorageTruthContradictionConfirmation s epochID (pr_TicketId r) (pr_TargetSupernodeAccount r) reporter
                          (dflt 7 (up_StorageTruthContradictionWindowEpochs params))
                  then (if td_LastReporterSupernodeAccount ts \<noteq> [] \<and> td_LastReporterSupernodeAccount ts \<noteq> reporter
                        then b1\<lparr>bk_contradictionDetected := True, bk_contradictedReporter := td_LastReporterSupernodeAccount ts,
                                bk_contradictedReporterDelta := 12\<rparr>
                        else b1\<lparr>bk_contradictionDetected := True\<rparr>)
                  else b1)"

text \<open>The deltas of a result with the bookkeeping: only positive base deltas are scaled by trust.\<close>

definition scaled_deltas :: "proof_result \<Rightarrow> bookkeeping \<Rightarrow> score_deltas" where
  "scaled_deltas r b =
     (let d = storageTruthScoreDeltasForResult r;
          sc = (\<lambda>x. if bk_applyTrustScaling b \<and> 0 < x then scaleInt64TowardZero x (bk_trustMultiplier b) 100 else x)
      in \<lparr>sd_node = addInt64Saturated (sc (sd_node d)) (bk_nodeBonus b),
          sd_reporter = addInt64Saturated (sd_reporter d) (bk_currentReporterPenalty b),
          sd_ticket = addInt64Saturated (sc (sd_ticket d)) (bk_ticketBonus b)\<rparr>)"

definition score_result :: "int \<Rightarrow> string \<Rightarrow> audit_params \<Rightarrow> proof_result \<Rightarrow> audit_store \<Rightarrow> audit_store" where
  "score_result epochID reporter params r s =
     (let b = (if pr_BucketType r \<noteq> BUCKET_RECHECK then storageTruthBookkeepingForResult s epochID reporter r params else no_bookkeeping);
          d = scaled_deltas r b;
          rdecay = up_StorageTruthReporterReliabilityDecayPerEpoch params;
          s1 = applyNodeSuspicionDelta epochID r (sd_node d) (up_StorageTruthNodeSuspicionDecayPerEpoch params) params s;
          s2 = applyReporterReliabilityDelta epochID reporter (sd_reporter d) rdecay (if bk_contradictionDetected b then 1 else 0) params s1;
          s3 = (if bk_contradictedReporter b \<noteq> [] \<and> bk_contradictedReporterDelta b \<noteq> 0
                then applyReporterReliabilityDelta epochID (bk_contradictedReporter b) (bk_contradictedReporterDelta b) rdecay 1 params s2
                else s2);
          s4 = (if pr_BucketType r \<noteq> BUCKET_RECHECK then setStorageTruthReporterResult epochID reporter r s3 else s3);
          s5 = setStorageTruthNodeFailure epochID reporter r s4
      in applyTicketDeteriorationDelta epochID reporter r (pr_TicketId r) (sd_ticket d)
           (up_StorageTruthTicketDeteriorationDecayPerEpoch params) (bk_contradictionDetected b) s5)"

definition applyStorageTruthScores :: "int \<Rightarrow> string \<Rightarrow> proof_result list \<Rightarrow> audit_store \<Rightarrow> audit_store" where
  "applyStorageTruthScores epochID reporter results s =
     (if results = [] then s
      else if up_StorageTruthEnforcementMode (up s) \<in> {MODE_SHADOW, MODE_SOFT, MODE_FULL}
      then fold (score_result epochID reporter (up s)) results s else s)"

section \<open>Epoch reports (msg\_submit\_epoch\_report.go)\<close>

record msg_epoch_report =
  mer_Creator :: string
  mer_EpochId :: int
  mer_HostReport :: host_report
  mer_StorageChallengeObservations :: "observation list"
  mer_StorageProofResults :: "proof_result list"

definition ensure :: "'e \<Rightarrow> bool \<Rightarrow> 'e + unit" where
  "ensure e b = (if b then Inr () else Inl e)"

fun ensures :: "('e + unit) list \<Rightarrow> 'e + unit" where
  "ensures [] = Inr ()"
| "ensures (c # cs) = bindR c (\<lambda>_. ensures cs)"

definition validateHostMetricFields :: "host_report \<Rightarrow> audit_error + unit" where
  "validateHostMetricFields h = ensures
     [ensure AuErrInvalidHostMetric (isValidHostUsagePercent (hr_CpuUsagePercent h)),
      ensure AuErrInvalidHostMetric (isValidHostUsagePercent (hr_MemUsagePercent h)),
      ensure AuErrInvalidHostMetric (isValidHostUsagePercent (hr_DiskUsagePercent h)),
      ensure AuErrInvalidHostMetric (flt_finite (hr_CascadeKademliaDbBytes h)),
      ensure AuErrInvalidHostMetric (\<not> flt_less (hr_CascadeKademliaDbBytes h) (FFin 0))]"

definition storageTruthEligibleChallengers :: "audit_store \<Rightarrow> string list \<Rightarrow> int \<Rightarrow> audit_params \<Rightarrow> string list" where
  "storageTruthEligibleChallengers s activeSorted epochID params =
     (if up_StorageTruthEnforcementMode params = MODE_UNSPECIFIED then activeSorted
      else
        let threshold = (if up_StorageTruthReporterReliabilityIneligibleThreshold params \<le> 0 then 90
                         else up_StorageTruthReporterReliabilityIneligibleThreshold params)
        in filter (\<lambda>account. case GetReporterReliabilityState s account of
             None \<Rightarrow> True
           | Some st \<Rightarrow>
               \<not> (decayTowardZero (rr_ReliabilityScore st) (up_StorageTruthReporterReliabilityDecayPerEpoch params)
                     (epochDelta epochID (rr_LastUpdatedEpoch st)) \<ge> threshold
                  \<or> (rr_IneligibleUntilEpoch st \<noteq> 0 \<and> rr_IneligibleUntilEpoch st \<ge> epochID))) activeSorted)"

text \<open>The observations of a prober: assigned, distinct targets with one state per required port.\<close>

fun validate_observations :: "string \<Rightarrow> string list \<Rightarrow> nat \<Rightarrow> string list \<Rightarrow> observation list \<Rightarrow> audit_error + unit" where
  "validate_observations reporter allowed nports seen [] = Inr ()"
| "validate_observations reporter allowed nports seen (ob # obs) =
     (let t = ob_TargetSupernodeAccount ob in
      if t = [] then Inl AuErrInvalidPeerObservations
      else if t = reporter then Inl AuErrInvalidPeerObservations
      else if t \<notin> set allowed then Inl AuErrInvalidPeerObservations
      else if t \<in> set seen then Inl AuErrInvalidPeerObservations
      else if nports \<noteq> 0 \<and> length (ob_PortStates ob) \<noteq> nports then Inl AuErrInvalidPortStatesLength
      else validate_observations reporter allowed nports (t # seen) obs)"

subsection \<open>Storage proofs (msg\_submit\_epoch\_report\_storage\_proofs.go)\<close>

definition descriptor :: "proof_result \<Rightarrow> string \<times> bucket_type \<times> string \<times> artifact_class \<times> int" where
  "descriptor r = (pr_TargetSupernodeAccount r, pr_BucketType r, pr_TicketId r, pr_ArtifactClass r, pr_ArtifactOrdinal r)"

definition validate_result :: "string \<Rightarrow> string list \<Rightarrow> proof_result \<Rightarrow> audit_error + unit" where
  "validate_result reporter allowed r = ensures
     (map (ensure AuErrInvalidStorageProofs)
       ([pr_TargetSupernodeAccount r \<noteq> [], pr_ChallengerSupernodeAccount r \<noteq> [], pr_ChallengerSupernodeAccount r = reporter,
         pr_TargetSupernodeAccount r \<noteq> reporter, pr_TargetSupernodeAccount r \<in> set allowed, pr_TranscriptHash r \<noteq> [],
         pr_BucketType r \<in> {BUCKET_RECENT, BUCKET_OLD, BUCKET_PROBATION, BUCKET_RECHECK},
         pr_ResultClass r \<in> {RESULT_PASS, RESULT_HASH_MISMATCH, RESULT_TIMEOUT_OR_NO_RESPONSE, RESULT_OBSERVER_QUORUM_FAIL,
           RESULT_NO_ELIGIBLE_TICKET, RESULT_INVALID_TRANSCRIPT, RESULT_RECHECK_CONFIRMED_FAIL}]
        @ (if pr_ResultClass r = RESULT_NO_ELIGIBLE_TICKET
           then [pr_BucketType r = BUCKET_RECENT \<or> pr_BucketType r = BUCKET_OLD, pr_TicketId r = [],
                 pr_ArtifactClass r = ARTIFACT_UNSPECIFIED, pr_ArtifactOrdinal r = 0, pr_ArtifactKey r = []]
           else [pr_TicketId r \<noteq> [], pr_ArtifactCount r \<noteq> 0, pr_ArtifactOrdinal r < pr_ArtifactCount r,
                 pr_DerivationInputHash r \<noteq> [], pr_ChallengerSignature r \<noteq> [],
                 pr_ArtifactClass r \<in> {ARTIFACT_INDEX, ARTIFACT_SYMBOL}, pr_ArtifactKey r \<noteq> []])
        @ [\<not> (pr_ResultClass r = RESULT_RECHECK_CONFIRMED_FAIL \<and> pr_BucketType r \<noteq> BUCKET_RECHECK)]))"

fun validate_results ::
    "string \<Rightarrow> string list \<Rightarrow> (string \<times> bucket_type \<times> string \<times> artifact_class \<times> int) list \<Rightarrow> proof_result list
       \<Rightarrow> audit_error + unit" where
  "validate_results reporter allowed seen [] = Inr ()"
| "validate_results reporter allowed seen (r # rs) =
     bindR (validate_result reporter allowed r) (\<lambda>_.
       if descriptor r \<in> set seen then Inl AuErrInvalidStorageProofs
       else validate_results reporter allowed (descriptor r # seen) rs)"

text \<open>Each assigned target has exactly one RECENT and one OLD result.\<close>

definition bucket_results :: "bucket_type \<Rightarrow> string \<Rightarrow> proof_result list \<Rightarrow> nat" where
  "bucket_results b t results = length (filter (\<lambda>r. pr_TargetSupernodeAccount r = t \<and> pr_BucketType r = b) results)"

definition validateCompoundStorageProofCoverage :: "string list \<Rightarrow> proof_result list \<Rightarrow> audit_error + unit" where
  "validateCompoundStorageProofCoverage allowed results =
     ensure AuErrInvalidStorageProofs
       (list_all (\<lambda>t. bucket_results BUCKET_RECENT t results = 1 \<and> bucket_results BUCKET_OLD t results = 1) allowed)"

definition validateStorageProofResults :: "string \<Rightarrow> string list \<Rightarrow> bool \<Rightarrow> bool \<Rightarrow> proof_result list \<Rightarrow> audit_error + unit" where
  "validateStorageProofResults reporter allowed isProber enforceCompound results =
     (if results = [] then
        (if enforceCompound \<and> isProber \<and> allowed \<noteq> [] then Inl AuErrInvalidStorageProofs else Inr ())
      else if \<not> isProber then Inl AuErrInvalidReporterState
      else bindR (validate_results reporter allowed [] results) (\<lambda>_.
             if enforceCompound then validateCompoundStorageProofCoverage allowed results else Inr ()))"

definition storageTruthNoEligibleConsistencyWindow :: "bucket_type \<Rightarrow> audit_params \<Rightarrow> int" where
  "storageTruthNoEligibleConsistencyWindow bucket params =
     (case bucket of
        BUCKET_RECENT \<Rightarrow>
          if up_EpochLengthBlocks params = 0 \<or> up_StorageTruthRecentBucketMaxBlocks params = 0 then 3
          else
            let q = up_StorageTruthRecentBucketMaxBlocks params div up_EpochLengthBlocks params;
                w = (if up_StorageTruthRecentBucketMaxBlocks params mod up_EpochLengthBlocks params \<noteq> 0 then u64 (q + 1) else q)
            in if w = 0 then 1 else w
      | BUCKET_OLD \<Rightarrow> dflt 21 (up_StorageTruthOldClassAFaultWindow params)
      | _ \<Rightarrow> dflt 14 (up_StorageTruthPatternEscalationWindow params))"

definition hasObservedEligibleTicketForTargetBucketInWindow ::
    "audit_store \<Rightarrow> string \<Rightarrow> bucket_type \<Rightarrow> int \<Rightarrow> int \<Rightarrow> bool" where
  "hasObservedEligibleTicketForTargetBucketInWindow s target bucket startEpoch endEpoch =
     (let pre = TranscriptByTargetBucketEpochScanPrefix target (bucket_num bucket) in
      target \<noteq> [] \<and>
      list_ex (\<lambda>e. spt_ResultClass (snd e) \<noteq> RESULT_NO_ELIGIBLE_TICKET \<and> spt_TicketID (snd e) \<noteq> [])
        (kv_range (pre @ be64s startEpoch, Some (pre @ be64s (u64 (endEpoch + 1)))) (us_transcriptIndex s)))"

definition validateNoEligibleTicketConsistency :: "audit_store \<Rightarrow> int \<Rightarrow> audit_params \<Rightarrow> proof_result \<Rightarrow> audit_error + unit" where
  "validateNoEligibleTicketConsistency s epochID params r =
     (if pr_ResultClass r \<noteq> RESULT_NO_ELIGIBLE_TICKET \<or> pr_TargetSupernodeAccount r = [] then Inr ()
      else
        let startEpoch = storageTruthWindowStart epochID (storageTruthNoEligibleConsistencyWindow (pr_BucketType r) params)
        in ensure AuErrInvalidStorageProofs
             (\<not> hasObservedEligibleTicketForTargetBucketInWindow s (pr_TargetSupernodeAccount r) (pr_BucketType r) startEpoch epochID))"

definition canonical_count :: "artifact_counts \<Rightarrow> artifact_class \<Rightarrow> int" where
  "canonical_count st c = (case c of
     ARTIFACT_INDEX \<Rightarrow> tac_IndexArtifactCount st | ARTIFACT_SYMBOL \<Rightarrow> tac_SymbolArtifactCount st | _ \<Rightarrow> 0)"

text \<open>A class other than INDEX or SYMBOL has the canonical count 0, which is accepted as unanchored.\<close>

definition validate_count :: "audit_store \<Rightarrow> int \<Rightarrow> audit_params \<Rightarrow> proof_result \<Rightarrow> audit_error + unit" where
  "validate_count s epochID params r =
     (if pr_ResultClass r = RESULT_NO_ELIGIBLE_TICKET then validateNoEligibleTicketConsistency s epochID params r
      else case GetTicketArtifactCountState s (pr_TicketId r) of
        None \<Rightarrow> Inr ()
      | Some st \<Rightarrow>
          let c = canonical_count st (pr_ArtifactClass r) in
          if c = 0 then Inr ()
          else if c \<noteq> pr_ArtifactCount r then Inl AuErrTicketArtifactMismatch
          else if pr_ArtifactOrdinal r \<ge> c then Inl AuErrInvalidStorageProofs
          else Inr ())"

definition validateStorageProofArtifactCounts :: "audit_store \<Rightarrow> int \<Rightarrow> audit_params \<Rightarrow> proof_result list \<Rightarrow> audit_error + unit" where
  "validateStorageProofArtifactCounts s epochID params results = ensures (map (validate_count s epochID params) results)"

subsection \<open>The handler\<close>

definition new_metrics :: sn_metrics where
  "new_metrics = \<lparr>sm_VersionMajor = 0, sm_VersionMinor = 0, sm_VersionPatch = 0, sm_CpuCoresTotal = FFin 0,
     sm_CpuUsagePercent = FFin 0, sm_MemTotalGb = FFin 0, sm_MemUsagePercent = FFin 0, sm_MemFreeGb = FFin 0,
     sm_DiskTotalGb = FFin 0, sm_DiskUsagePercent = FFin 0, sm_DiskFreeGb = FFin 0, sm_UptimeSeconds = FFin 0,
     sm_PeersCount = 0, sm_OpenPorts = [], sm_CascadeKademliaDbBytes = FFin 0\<rparr>"

definition bridgeCascadeBytesToSupernodeMetrics ::
    "audit_env \<Rightarrow> supernode \<Rightarrow> float64 \<Rightarrow> sn_store \<Rightarrow> audit_error + sn_store" where
  "bridgeCascadeBytesToSupernodeMetrics env sn cascadeBytes sns =
     (if sn_ValidatorAddress sn = [] then Inr sns
      else case ValAddressFromBech32 (se_codec (ue_sn env)) (sn_ValidatorAddress sn) of
        None \<Rightarrow> Inr sns
      | Some v \<Rightarrow>
          let st = (case GetMetricsState sns v of
                      None \<Rightarrow> \<lparr>ms_ValidatorAddress = sn_ValidatorAddress sn, ms_Metrics = None, ms_ReportCount = 0, ms_Height = 0\<rparr>
                    | Some x \<Rightarrow> x);
              m = (case ms_Metrics st of None \<Rightarrow> new_metrics | Some x \<Rightarrow> x)
          in liftSn (SetMetricsState (se_codec (ue_sn env))
               (st\<lparr>ms_Metrics := Some (m\<lparr>sm_CascadeKademliaDbBytes := cascadeBytes\<rparr>), ms_Height := ue_Height env,
                   ms_ReportCount := u64 (ms_ReportCount st + 1)\<rparr>) sns))"

definition applyIncompleteReportPenalty :: "int \<Rightarrow> string \<Rightarrow> audit_params \<Rightarrow> audit_store \<Rightarrow> audit_store" where
  "applyIncompleteReportPenalty epochID reporter params s =
     applyReporterReliabilityDelta epochID reporter 8 (up_StorageTruthReporterReliabilityDecayPerEpoch params) 0 params s"

definition assign_params :: "audit_store \<Rightarrow> int \<Rightarrow> audit_params" where
  "assign_params s epochID = (case GetEpochParamsSnapshot s epochID of Some snap \<Rightarrow> audit_WithDefaults snap | None \<Rightarrow> up s)"

text \<open>The targets that a reporter is assigned in the epoch of an anchor.\<close>

definition report_targets :: "audit_env \<Rightarrow> audit_store \<Rightarrow> int \<Rightarrow> epoch_anchor \<Rightarrow> string \<Rightarrow> audit_error + string list \<times> bool" where
  "report_targets env s epochID anchor reporter =
     (let ap = assign_params s epochID
      in liftT (computeAuditPeerTargetsForReporter (ue_ord env) (ue_sha256 env) ap
           (storageTruthEligibleChallengers s (ea_ActiveSupernodeAccounts anchor) epochID ap)
           (ea_TargetSupernodeAccounts anchor) (ea_Seed anchor) reporter))"

definition report_checks ::
    "msg_epoch_report \<Rightarrow> audit_params \<Rightarrow> string list \<Rightarrow> bool \<Rightarrow> audit_store \<Rightarrow> audit_error + unit" where
  "report_checks req ap allowed isProber s = ensures
     [ensure AuErrInvalidPortStatesLength
        (length (hr_InboundPortStates (mer_HostReport req)) \<in> {0, length (up_RequiredOpenPorts ap)}),
      (if \<not> isProber then ensure AuErrInvalidReporterState (mer_StorageChallengeObservations req = [])
       else validate_observations (mer_Creator req) allowed (length (up_RequiredOpenPorts ap)) []
              (mer_StorageChallengeObservations req)),
      ensure AuErrInvalidStorageProofs (length (mer_StorageProofResults req) \<le> 16),
      validateStorageProofResults (mer_Creator req) allowed isProber
        (up_StorageTruthEnforcementMode ap = MODE_FULL) (mer_StorageProofResults req),
      validateStorageProofArtifactCounts s (mer_EpochId req) ap (mer_StorageProofResults req),
      ensure AuErrDuplicateReport (\<not> HasReport s (mer_EpochId req) (mer_Creator req))]"

text \<open>
  What an accepted report does. Targets are distinct, so every observation is indexed; the report is
  incomplete when an assigned target has no observation.
\<close>

definition report_effects ::
    "audit_env \<Rightarrow> msg_epoch_report \<Rightarrow> audit_params \<Rightarrow> string list \<Rightarrow> bool \<Rightarrow> supernode \<Rightarrow> audit_state \<Rightarrow> audit_error + audit_state" where
  "report_effects env req ap allowed isProber sn st =
     (let e = mer_EpochId req; reporter = mer_Creator req;
          report = \<lparr>er_SupernodeAccount = reporter, er_EpochId = e, er_ReportHeight = ue_Height env,
            er_HostReport = mer_HostReport req, er_StorageChallengeObservations = mer_StorageChallengeObservations req,
            er_StorageProofResults = mer_StorageProofResults req\<rparr>
      in bindR (SetReport env report st) (\<lambda>(s1, sns1).
           let s2 = SetHostReportIndex e reporter (SetReportIndex e reporter s1) in
           bindR (bridgeCascadeBytesToSupernodeMetrics env sn (hr_CascadeKademliaDbBytes (mer_HostReport req)) sns1) (\<lambda>sns2.
             let s3 = fold (\<lambda>ob s. if ob_TargetSupernodeAccount ob = [] then s
                                   else SetStorageChallengeReportIndex (ob_TargetSupernodeAccount ob) e reporter s)
                        (mer_StorageChallengeObservations req) s2;
                 s4 = indexStorageProofTranscripts e reporter (mer_StorageProofResults req) s3;
                 s5 = applyStorageTruthScores e reporter (mer_StorageProofResults req) s4;
                 incomplete = isProber \<and> card (set (map ob_TargetSupernodeAccount (mer_StorageChallengeObservations req))) < card (set allowed)
             in Inr (if incomplete then applyIncompleteReportPenalty e reporter ap s5 else s5, sns2))))"

definition SubmitEpochReport :: "audit_env \<Rightarrow> msg_epoch_report \<Rightarrow> audit_state \<Rightarrow> audit_error + audit_state" where
  "SubmitEpochReport env req st =
     (case st of (s, sns) \<Rightarrow>
        if mer_Creator req = [] then Inl AuErrInvalidSigner
        else bindR (liftT (deriveEpochAtHeight (ue_Height env) (up s))) (\<lambda>epoch.
          if mer_EpochId req \<noteq> ei_EpochID epoch then Inl AuErrInvalidEpochID
          else if ue_Height env < ei_StartHeight epoch \<or> ue_Height env > ei_EndHeight epoch then Inl AuErrInvalidEpochID
          else case GetSuperNodeByAccount sns (mer_Creator req) of
            None \<Rightarrow> Inl AuErrReporterNotFound
          | Some sn \<Rightarrow>
              bindR (validateHostMetricFields (mer_HostReport req)) (\<lambda>_.
                case GetEpochAnchor s (mer_EpochId req) of
                  None \<Rightarrow> Inl AuErrInvalidEpochID
                | Some anchor \<Rightarrow>
                    bindR (report_targets env s (mer_EpochId req) anchor (mer_Creator req)) (\<lambda>(allowed, isProber).
                      let ap = assign_params s (mer_EpochId req) in
                      bindR (report_checks req ap allowed isProber s) (\<lambda>_.
                        report_effects env req ap allowed isProber sn (s, sns))))))"

section \<open>Recheck evidence and heal operations (msg\_storage\_truth.go)\<close>

record msg_recheck =
  mrc_Creator :: string
  mrc_EpochId :: int
  mrc_ChallengedSupernodeAccount :: string
  mrc_TicketId :: string
  mrc_ChallengedResultTranscriptHash :: string
  mrc_RecheckTranscriptHash :: string
  mrc_RecheckResultClass :: result_class
  mrc_Details :: string

definition recheck_result :: "msg_recheck \<Rightarrow> proof_result" where
  "recheck_result req =
     \<lparr>pr_TargetSupernodeAccount = mrc_ChallengedSupernodeAccount req, pr_ChallengerSupernodeAccount = [],
      pr_TicketId = mrc_TicketId req, pr_BucketType = BUCKET_RECHECK, pr_ArtifactClass = ARTIFACT_UNSPECIFIED,
      pr_ArtifactOrdinal = 0, pr_ArtifactKey = [], pr_ResultClass = mrc_RecheckResultClass req, pr_TranscriptHash = [],
      pr_Details = [], pr_ArtifactCount = 0, pr_DerivationInputHash = [], pr_ChallengerSignature = [],
      pr_ObserverAttestationSignatures = []\<rparr>"

definition recheck_checks :: "msg_recheck \<Rightarrow> transcript \<Rightarrow> audit_store \<Rightarrow> audit_error + unit" where
  "recheck_checks req ch s = ensures (map (ensure AuErrInvalidRecheckEvidence)
     [spt_EpochID ch = mrc_EpochId req, spt_TicketID ch = mrc_TicketId req,
      spt_TargetAccount ch = mrc_ChallengedSupernodeAccount req, spt_ReporterAccount ch \<noteq> mrc_Creator req,
      spt_RecheckEligible ch, \<not> HasRecheckEvidence s (mrc_EpochId req) (mrc_TicketId req) (mrc_Creator req)])"

text \<open>The scores after an accepted recheck: a pass overturns the original report, a confirmation credits it.\<close>

definition recheck_effects :: "msg_recheck \<Rightarrow> transcript \<Rightarrow> int \<Rightarrow> audit_store \<Rightarrow> audit_store" where
  "recheck_effects req ch cur s =
     (let params = up s; orig = spt_ReporterAccount ch; ok = orig \<noteq> [] \<and> orig \<noteq> mrc_Creator req;
          overturn = ok \<and> mrc_RecheckResultClass req = RESULT_PASS;
          confirm = ok \<and> mrc_RecheckResultClass req = RESULT_RECHECK_CONFIRMED_FAIL;
          rdecay = up_StorageTruthReporterReliabilityDecayPerEpoch params;
          s1 = applyStorageTruthScores cur (mrc_Creator req) [recheck_result req] s;
          s2 = (if overturn then applyReporterReliabilityDelta cur orig 25 rdecay 1 params s1 else s1);
          s3 = (if confirm then applyReporterReliabilityDelta cur orig (-3) rdecay 0 params s2 else s2);
          s4 = (if overturn then markStorageTruthReporterResultRecheck orig (mrc_ChallengedResultTranscriptHash req) False s3 else s3)
      in if confirm then markStorageTruthReporterResultRecheck orig (mrc_ChallengedResultTranscriptHash req) True s4 else s4)"

definition SubmitStorageRecheckEvidence ::
    "audit_env \<Rightarrow> msg_recheck \<Rightarrow> sn_store \<Rightarrow> audit_store \<Rightarrow> audit_error + audit_store" where
  "SubmitStorageRecheckEvidence env req sns s =
     bindR (ensures
       [ensure AuErrInvalidSigner (mrc_Creator req \<noteq> []),
        ensure AuErrInvalidRecheckEvidence (mrc_ChallengedSupernodeAccount req \<noteq> []),
        ensure AuErrInvalidRecheckEvidence (mrc_ChallengedSupernodeAccount req \<noteq> mrc_Creator req),
        ensure AuErrInvalidRecheckEvidence (mrc_TicketId req \<noteq> []),
        ensure AuErrInvalidRecheckEvidence (mrc_ChallengedResultTranscriptHash req \<noteq> []),
        ensure AuErrInvalidRecheckEvidence (mrc_RecheckTranscriptHash req \<noteq> []),
        ensure AuErrInvalidEpochID (GetEpochAnchor s (mrc_EpochId req) \<noteq> None),
        ensure AuErrReporterNotFound (GetSuperNodeByAccount sns (mrc_Creator req) \<noteq> None),
        ensure AuErrInvalidRecheckEvidence (GetSuperNodeByAccount sns (mrc_ChallengedSupernodeAccount req) \<noteq> None),
        ensure AuErrInvalidRecheckEvidence (mrc_RecheckResultClass req \<in>
          {RESULT_PASS, RESULT_HASH_MISMATCH, RESULT_TIMEOUT_OR_NO_RESPONSE, RESULT_OBSERVER_QUORUM_FAIL,
           RESULT_INVALID_TRANSCRIPT, RESULT_RECHECK_CONFIRMED_FAIL})]) (\<lambda>_.
     case getStorageProofTranscriptRecord s (mrc_ChallengedResultTranscriptHash req) of
       None \<Rightarrow> Inl AuErrInvalidRecheckEvidence
     | Some ch \<Rightarrow>
         bindR (recheck_checks req ch s) (\<lambda>_.
         bindR (linkStorageTruthRecheckTranscript (mrc_ChallengedResultTranscriptHash req) (mrc_RecheckTranscriptHash req)
                  (mrc_Creator req) (mrc_RecheckResultClass req) s) (\<lambda>s1.
           let s2 = SetRecheckEvidence (mrc_EpochId req) (mrc_TicketId req) (mrc_Creator req) s1 in
           bindR (liftT (deriveEpochAtHeight (ue_Height env) (up s2))) (\<lambda>cur.
             Inr (recheck_effects req ch (ei_EpochID cur) s2)))))"

record msg_heal_complete =
  mhc_Creator :: string
  mhc_HealOpId :: int
  mhc_TicketId :: string
  mhc_HealManifestHash :: string
  mhc_Details :: string

record msg_heal_verification =
  mhv_Creator :: string
  mhv_HealOpId :: int
  mhv_Verified :: bool
  mhv_VerificationHash :: string
  mhv_Details :: string

definition appendStorageTruthNote :: "string \<Rightarrow> string \<Rightarrow> string" where
  "appendStorageTruthNote existing note0 =
     (let note = TrimSpace note0 in
      if note = [] then existing else if existing = [] then note else existing @ '' | '' @ note)"

definition ClaimHealComplete :: "audit_env \<Rightarrow> msg_heal_complete \<Rightarrow> audit_store \<Rightarrow> audit_error + audit_store" where
  "ClaimHealComplete env req s =
     (if mhc_Creator req = [] then Inl AuErrInvalidSigner
      else if mhc_HealOpId req = 0 then Inl AuErrHealOpNotFound
      else if mhc_TicketId req = [] then Inl AuErrHealOpTicketMismatch
      else if mhc_HealManifestHash req = [] then Inl AuErrHealOpInvalidState
      else case GetHealOp s (mhc_HealOpId req) of
        None \<Rightarrow> Inl AuErrHealOpNotFound
      | Some op \<Rightarrow>
          if ho_TicketId op \<noteq> mhc_TicketId req then Inl AuErrHealOpTicketMismatch
          else if ho_HealerSupernodeAccount op \<noteq> mhc_Creator req then Inl AuErrHealOpUnauthorized
          else if ho_Status op \<noteq> HEAL_SCHEDULED \<and> ho_Status op \<noteq> HEAL_IN_PROGRESS then Inl AuErrHealOpInvalidState
          else if ho_VerifierSupernodeAccounts op = [] then Inl AuErrHealOpInvalidState
          else Inr (SetHealOp (op\<lparr>ho_Status := HEAL_HEALER_REPORTED, ho_UpdatedHeight := u64 (ue_Height env),
                 ho_ResultHash := mhc_HealManifestHash req,
                 ho_Notes := appendStorageTruthNote (ho_Notes op) (mhc_Details req)\<rparr>) s))"

definition healed_ticket :: "int \<Rightarrow> audit_params \<Rightarrow> ticket_deterioration \<Rightarrow> ticket_deterioration" where
  "healed_ticket cur params t =
     t\<lparr>td_DeteriorationScore := max 8 (td_DeteriorationScore t sdiv 4), td_LastHealEpoch := cur,
       td_ProbationUntilEpoch := u64 (cur + up_StorageTruthProbationEpochs params), td_DistinctHolderFailureCount := 0,
       td_RecentFailureEpochCount := 0, td_LastIndexFailureEpoch := 0, td_LastFailureEpoch := 0\<rparr>"

definition failed_ticket :: "int \<Rightarrow> audit_params \<Rightarrow> ticket_deterioration \<Rightarrow> ticket_deterioration" where
  "failed_ticket cur params t =
     t\<lparr>td_DeteriorationScore := addInt64Saturated (td_DeteriorationScore t) 15,
       td_ProbationUntilEpoch := max (td_ProbationUntilEpoch t) (u64 (cur + up_StorageTruthProbationEpochs params))\<rparr>"

definition finalizeHealOp :: "audit_env \<Rightarrow> heal_op \<Rightarrow> bool \<Rightarrow> string \<Rightarrow> string \<Rightarrow> audit_store \<Rightarrow> audit_error + audit_store" where
  "finalizeHealOp env op0 verified verificationHash details s =
     (let op = op0\<lparr>ho_Status := (if verified then HEAL_VERIFIED else HEAL_FAILED), ho_UpdatedHeight := u64 (ue_Height env),
            ho_ResultHash := dflts (ho_ResultHash op0) verificationHash,
            ho_Notes := appendStorageTruthNote (ho_Notes op0) details\<rparr>;
          s1 = SetHealOp op s
      in case GetTicketDeteriorationState s1 (ho_TicketId op) of
           None \<Rightarrow> Inr s1
         | Some t0 \<Rightarrow>
             let t = (if td_ActiveHealOpId t0 = ho_HealOpId op then t0\<lparr>td_ActiveHealOpId := 0\<rparr> else t0); params = up s1 in
             bindR (liftT (deriveEpochAtHeight (ue_Height env) params)) (\<lambda>cur.
               if verified then Inr (SetTicketDeteriorationState (healed_ticket (ei_EpochID cur) params t) s1)
               else bindR (setStorageTruthFailedHeal (ho_HealerSupernodeAccount op) (ei_EpochID cur) (ho_TicketId op) s1) (\<lambda>s2.
                      Inr (SetTicketDeteriorationState (failed_ticket (ei_EpochID cur) params t) s2))))"

definition votes :: "(string \<rightharpoonup> bool) \<Rightarrow> string list \<Rightarrow> bool \<Rightarrow> nat" where
  "votes vs verifiers b = length (filter (\<lambda>v. vs v = Some b) verifiers)"

definition SubmitHealVerification :: "audit_env \<Rightarrow> msg_heal_verification \<Rightarrow> audit_store \<Rightarrow> audit_error + audit_store" where
  "SubmitHealVerification env req s =
     (if mhv_Creator req = [] then Inl AuErrInvalidSigner
      else if mhv_HealOpId req = 0 then Inl AuErrHealOpNotFound
      else if mhv_VerificationHash req = [] then Inl AuErrHealOpInvalidState
      else case GetHealOp s (mhv_HealOpId req) of
        None \<Rightarrow> Inl AuErrHealOpNotFound
      | Some op \<Rightarrow>
          if ho_Status op \<noteq> HEAL_HEALER_REPORTED then Inl AuErrHealOpInvalidState
          else if mhv_Creator req \<notin> set (ho_VerifierSupernodeAccounts op) then Inl AuErrHealOpUnauthorized
          else if HasHealOpVerification s (mhv_HealOpId req) (mhv_Creator req) then Inl AuErrHealVerificationExists
          else if mhv_Verified req \<and> ho_ResultHash op \<noteq> [] \<and> mhv_VerificationHash req \<noteq> ho_ResultHash op
               then Inl AuErrInvalidHealVerification
          else
            let s1 = SetHealOpVerification (mhv_HealOpId req) (mhv_Creator req) (mhv_Verified req) s;
                vs = GetAllHealOpVerifications s1 (mhv_HealOpId req);
                verifiers = ho_VerifierSupernodeAccounts op; majority = length verifiers div 2 + 1
            in if votes vs verifiers False \<ge> majority
               then finalizeHealOp env op False (mhv_VerificationHash req) (mhv_Details req) s1
               else if votes vs verifiers True \<ge> majority
               then finalizeHealOp env op True (mhv_VerificationHash req) (mhv_Details req) s1
               else Inr s1)"

section \<open>Evidence (evidence.go, msg\_submit\_evidence.go)\<close>

definition is_action_evidence :: "evidence_type \<Rightarrow> bool" where
  "is_action_evidence et \<longleftrightarrow> et \<in> {EVIDENCE_ACTION_EXPIRED, EVIDENCE_ACTION_FINALIZATION_SIGNATURE_FAILURE,
     EVIDENCE_ACTION_FINALIZATION_NOT_IN_TOP_10}"

definition marshalEvidenceMetadataJSON :: "audit_env \<Rightarrow> evidence_type \<Rightarrow> string \<Rightarrow> audit_error + bytes" where
  "marshalEvidenceMetadataJSON env et json =
     (if et \<in> {EVIDENCE_ACTION_EXPIRED, EVIDENCE_ACTION_FINALIZATION_SIGNATURE_FAILURE,
               EVIDENCE_ACTION_FINALIZATION_NOT_IN_TOP_10, EVIDENCE_STORAGE_CHALLENGE_FAILURE, EVIDENCE_CASCADE_CLIENT_FAILURE}
      then (case ue_evidenceBytes env et json of None \<Rightarrow> Inl AuErrInvalidMetadata | Some b \<Rightarrow> Inr b)
      else Inl AuErrInvalidMetadata)"

text \<open>Who may report a storage challenge failure: a challenger that the anchor selects, about a target of the anchor.\<close>

definition sc_evidence_checks :: "audit_env \<Rightarrow> string \<Rightarrow> string \<Rightarrow> bytes \<Rightarrow> audit_store \<Rightarrow> audit_error + unit" where
  "sc_evidence_checks env reporter subject metadata s =
     (case ue_scMetadata env metadata of
        None \<Rightarrow> Inl AuErrInvalidMetadata
      | Some m \<Rightarrow>
          if TrimSpace (scm_ChallengerSupernodeAccount m) = [] then Inl AuErrInvalidMetadata
          else if reporter \<noteq> scm_ChallengerSupernodeAccount m then Inl AuErrInvalidReporter
          else if TrimSpace (scm_ChallengedSupernodeAccount m) = [] then Inl AuErrInvalidMetadata
          else if subject \<noteq> scm_ChallengedSupernodeAccount m then Inl AuErrInvalidSubject
          else case GetEpochAnchor s (scm_EpochId m) of
            None \<Rightarrow> Inl AuErrInvalidMetadata
          | Some anchor \<Rightarrow>
              if \<not> up_ScEnabled (up s) then Inl AuErrInvalidEvidenceType
              else
                let kc = storageChallengeChallengerCount (length (ea_ActiveSupernodeAccounts anchor)) (up_ScChallengersPerEpoch (up s));
                    t = storageChallengeComparisonTarget (ea_Seed anchor) (scm_EpochId m)
                in if reporter \<notin> set (selectTopByXORDistance (ue_blake3 env) (ea_ActiveSupernodeAccounts anchor) t kc)
                   then Inl AuErrInvalidReporter
                   else if subject \<notin> set (ea_TargetSupernodeAccounts anchor) then Inl AuErrInvalidSubject
                   else Inr ())"

definition evidence_checks :: "audit_env \<Rightarrow> string \<Rightarrow> string \<Rightarrow> string \<Rightarrow> evidence_type \<Rightarrow> string \<Rightarrow> audit_error + unit" where
  "evidence_checks env reporter subject actionID et json = ensures
     [ensure AuErrInvalidReporter (ue_StringToBytes env reporter \<noteq> None),
      ensure AuErrInvalidSubject (ue_StringToBytes env subject \<noteq> None),
      ensure AuErrInvalidEvidenceType (et \<noteq> EVIDENCE_UNSPECIFIED),
      ensure AuErrInvalidReporter (is_action_evidence et \<longrightarrow> ue_actionModule env = Some reporter),
      ensure AuErrInvalidMetadata (json \<noteq> []),
      ensure AuErrInvalidActionID (actionID = [] \<longrightarrow> \<not> is_action_evidence et),
      ensure AuErrInvalidActionID (length actionID \<le> 4096)]"

definition count_evidence :: "audit_env \<Rightarrow> string \<Rightarrow> evidence_type \<Rightarrow> audit_store \<Rightarrow> audit_error + audit_store" where
  "count_evidence env subject et s =
     (if is_action_evidence et
      then bindR (liftT (deriveEpochAtHeight (ue_Height env) (up s))) (\<lambda>epoch.
             Inr (incrementEvidenceEpochCount (ei_EpochID epoch) subject et s))
      else Inr s)"

definition CreateEvidence ::
    "audit_env \<Rightarrow> string \<Rightarrow> string \<Rightarrow> string \<Rightarrow> evidence_type \<Rightarrow> string \<Rightarrow> audit_store \<Rightarrow> audit_error + int \<times> audit_store" where
  "CreateEvidence env reporter subject actionID et metadataJSON s =
     (let json = TrimSpace metadataJSON in
      bindR (evidence_checks env reporter subject actionID et json) (\<lambda>_.
      bindR (marshalEvidenceMetadataJSON env et json) (\<lambda>metadata.
      bindR (count_evidence env subject et s) (\<lambda>s1.
      bindR (if et = EVIDENCE_STORAGE_CHALLENGE_FAILURE then sc_evidence_checks env reporter subject metadata s1 else Inr ()) (\<lambda>_.
        let evidenceID = GetNextEvidenceID s1;
            s2 = SetNextEvidenceID (evidenceID + 1) s1;
            s3 = SetEvidence \<lparr>evd_EvidenceId = evidenceID, evd_SubjectAddress = subject, evd_ReporterAddress = reporter,
                   evd_ActionId = actionID, evd_EvidenceType = et, evd_Metadata = metadata,
                   evd_ReportedHeight = u64 (ue_Height env)\<rparr> s2;
            s4 = SetEvidenceBySubjectIndex subject evidenceID s3
        in Inr (evidenceID, if actionID \<noteq> [] then SetEvidenceByActionIndex actionID evidenceID s4 else s4))))))"

record msg_submit_evidence =
  mev_Creator :: string
  mev_SubjectAddress :: string
  mev_EvidenceType :: evidence_type
  mev_ActionId :: string
  mev_Metadata :: string

definition SubmitEvidence :: "audit_env \<Rightarrow> msg_submit_evidence \<Rightarrow> audit_store \<Rightarrow> audit_error + int \<times> audit_store" where
  "SubmitEvidence env msg s =
     (if mev_EvidenceType msg \<in> {EVIDENCE_ACTION_FINALIZATION_SIGNATURE_FAILURE, EVIDENCE_ACTION_FINALIZATION_NOT_IN_TOP_10,
           EVIDENCE_ACTION_EXPIRED, EVIDENCE_CASCADE_CLIENT_FAILURE}
      then Inl AuErrInvalidEvidenceType
      else CreateEvidence env (mev_Creator msg) (mev_SubjectAddress msg) (mev_ActionId msg) (mev_EvidenceType msg) (mev_Metadata msg) s)"

section \<open>Parameters (msg\_update\_params.go)\<close>

definition audit_SubmitParams :: "audit_env \<Rightarrow> string \<Rightarrow> audit_params \<Rightarrow> audit_store \<Rightarrow> audit_error + audit_store" where
  "audit_SubmitParams env signer p s =
     (case audit_UpdateParams (ue_authority env) signer p (us_params s) of
        Inl e \<Rightarrow> Inl (AuParams e)
      | Inr p' \<Rightarrow> Inr (s\<lparr>us_params := p'\<rparr>))"

end
