(* ===== verification/Audit_Epoch.thy ===== *)
theory Audit_Epoch
  imports Audit_Report
begin

text \<open>
  What the audit module does at the boundaries of an epoch: the anchor at its first block and, at its
  last block, enforcement (enforcement.go), reporter divergence and recovery
  (storage\_truth\_divergence.go), heal operations (storage\_truth\_heal\_ops.go) and pruning (prune.go),
  in the order of abci.go.
\<close>

section \<open>Postponement and recovery rules (enforcement.go)\<close>

text \<open>The epochs \<open>epochID, epochID - 1, ...\<close>; the caller has checked that there are enough of them.\<close>

definition last_epochs :: "int \<Rightarrow> int \<Rightarrow> int list" where
  "last_epochs epochID n = map (\<lambda>i. u64 (epochID - int i)) [0..<nat n]"

definition evidenceMeetsConsecutiveEpochsThreshold ::
    "audit_store \<Rightarrow> string \<Rightarrow> int \<Rightarrow> evidence_type \<Rightarrow> int \<Rightarrow> int \<Rightarrow> bool" where
  "evidenceMeetsConsecutiveEpochsThreshold s acct epochID et minPerEpoch consecutive =
     (if minPerEpoch = 0 \<or> consecutive = 0 then False
      else if consecutive > u32 (epochID + 1) then False
      else list_all (\<lambda>e. minPerEpoch \<le> getEvidenceEpochCount s e acct et) (last_epochs epochID consecutive))"

definition shouldPostponeForActionFinalizationEvidence :: "audit_store \<Rightarrow> string \<Rightarrow> int \<Rightarrow> audit_params \<Rightarrow> string option" where
  "shouldPostponeForActionFinalizationEvidence s acct epochID params =
     (if evidenceMeetsConsecutiveEpochsThreshold s acct epochID EVIDENCE_ACTION_FINALIZATION_SIGNATURE_FAILURE
           (up_ActionFinalizationSignatureFailureEvidencesPerEpoch params)
           (up_ActionFinalizationSignatureFailureConsecutiveEpochs params)
      then Some ''audit_action_finalization_signature_failure''
      else if evidenceMeetsConsecutiveEpochsThreshold s acct epochID EVIDENCE_ACTION_FINALIZATION_NOT_IN_TOP_10
           (up_ActionFinalizationNotInTop10EvidencesPerEpoch params) (up_ActionFinalizationNotInTop10ConsecutiveEpochs params)
      then Some ''audit_action_finalization_not_in_top_10''
      else None)"

definition missingReportsForConsecutiveEpochs :: "audit_store \<Rightarrow> string \<Rightarrow> int \<Rightarrow> int \<Rightarrow> bool" where
  "missingReportsForConsecutiveEpochs s acct epochID consecutive0 =
     (let consecutive = dflt 1 consecutive0 in
      if consecutive > u32 (epochID + 1) then False
      else list_all (\<lambda>e. \<not> HasReport s e acct) (last_epochs epochID consecutive))"

text \<open>\<open>100.0 - usage\<close> is rounded to a \<open>float64\<close>; the minimum is exact.\<close>

definition min_free_ok :: "float64 \<Rightarrow> int \<Rightarrow> bool" where
  "min_free_ok usage minFree =
     (case usage of
        FFin u \<Rightarrow> if u < 0 \<or> u > 100 then False else round_sig (100 - u) \<ge> of_int minFree
      | FNaN \<Rightarrow> False | FPosInf \<Rightarrow> False | FNegInf \<Rightarrow> False)"

definition violatesMinFree :: "float64 \<Rightarrow> int \<Rightarrow> bool" where
  "violatesMinFree usage minFree =
     (if minFree = 0 then False
      else if usage = FFin 0 then False
      else if usage = FNaN then False
      else \<not> min_free_ok usage minFree)"

definition compliesMinFree :: "float64 \<Rightarrow> int \<Rightarrow> bool" where
  "compliesMinFree usage minFree =
     (if minFree = 0 then True
      else if usage = FFin 0 then True
      else min_free_ok usage minFree)"

definition selfHostViolatesMinimums :: "audit_store \<Rightarrow> string \<Rightarrow> int \<Rightarrow> audit_params \<Rightarrow> bool" where
  "selfHostViolatesMinimums s acct epochID params =
     (case GetReport s epochID acct of
        None \<Rightarrow> False
      | Some r \<Rightarrow> violatesMinFree (hr_CpuUsagePercent (er_HostReport r)) (up_MinCpuFreePercent params)
                \<or> violatesMinFree (hr_MemUsagePercent (er_HostReport r)) (up_MinMemFreePercent params))"

definition selfHostCompliant :: "audit_store \<Rightarrow> string \<Rightarrow> int \<Rightarrow> audit_params \<Rightarrow> bool" where
  "selfHostCompliant s acct epochID params =
     (case GetReport s epochID acct of
        None \<Rightarrow> False
      | Some r \<Rightarrow> compliesMinFree (hr_CpuUsagePercent (er_HostReport r)) (up_MinCpuFreePercent params)
                \<and> compliesMinFree (hr_MemUsagePercent (er_HostReport r)) (up_MinMemFreePercent params))"

definition observation_of :: "audit_store \<Rightarrow> int \<Rightarrow> string \<Rightarrow> string \<Rightarrow> observation option" where
  "observation_of s epochID target reporter =
     (case GetReport s epochID reporter of
        None \<Rightarrow> None
      | Some r \<Rightarrow> find (\<lambda>ob. ob_TargetSupernodeAccount ob = target) (er_StorageChallengeObservations r))"

text \<open>Every peer must have an observation that covers the port.\<close>

definition peersPortStateMeetsThresholdWithPeers ::
    "audit_store \<Rightarrow> string \<Rightarrow> int \<Rightarrow> nat \<Rightarrow> audit_port \<Rightarrow> int \<Rightarrow> string list \<Rightarrow> bool" where
  "peersPortStateMeetsThresholdWithPeers s target epochID portIndex desired thresholdPercent peers =
     (let obs = map (observation_of s epochID target) peers in
      peers \<noteq> [] \<and> list_all (\<lambda>ob. case ob of None \<Rightarrow> False | Some x \<Rightarrow> portIndex < length (ob_PortStates x)) obs
      \<and> u64 (int (length (filter (\<lambda>ob. case ob of None \<Rightarrow> False | Some x \<Rightarrow> ob_PortStates x ! portIndex = desired) obs)) * 100)
          \<ge> u64 (thresholdPercent * int (length peers)))"

definition peersPortStateMeetsThreshold ::
    "audit_store \<Rightarrow> string \<Rightarrow> int \<Rightarrow> nat \<Rightarrow> audit_port \<Rightarrow> int \<Rightarrow> string + bool" where
  "peersPortStateMeetsThreshold s target epochID portIndex desired thresholdPercent =
     bindR (peerReportersForTargetEpoch s target epochID) (\<lambda>peers.
       Inr (peersPortStateMeetsThresholdWithPeers s target epochID portIndex desired thresholdPercent peers))"

text \<open>Whether a port was closed in all of the given epochs; the loop stops at the first that is not.\<close>

fun port_streak :: "audit_store \<Rightarrow> string \<Rightarrow> nat \<Rightarrow> int \<Rightarrow> int list \<Rightarrow> string + bool" where
  "port_streak s acct port threshold [] = Inr True"
| "port_streak s acct port threshold (e # es) =
     bindR (peersPortStateMeetsThreshold s acct e port AUDIT_PORT_CLOSED threshold) (\<lambda>closed.
       if closed then port_streak s acct port threshold es else Inr False)"

fun any_port_streak :: "audit_store \<Rightarrow> string \<Rightarrow> nat list \<Rightarrow> int \<Rightarrow> int list \<Rightarrow> string + bool" where
  "any_port_streak s acct [] threshold es = Inr False"
| "any_port_streak s acct (p # ps) threshold es =
     bindR (port_streak s acct p threshold es) (\<lambda>b. if b then Inr True else any_port_streak s acct ps threshold es)"

definition shouldPostponeAtEpochEnd :: "audit_store \<Rightarrow> string \<Rightarrow> int \<Rightarrow> audit_params \<Rightarrow> audit_error + string option" where
  "shouldPostponeAtEpochEnd s acct epochID params =
     (let consecutive = dflt 1 (up_ConsecutiveEpochsToPostpone params); n = length (up_RequiredOpenPorts params) in
      case shouldPostponeForActionFinalizationEvidence s acct epochID params of
        Some reason \<Rightarrow> Inr (Some reason)
      | None \<Rightarrow>
          if missingReportsForConsecutiveEpochs s acct epochID consecutive then Inr (Some ''audit_missing_reports'')
          else if selfHostViolatesMinimums s acct epochID params then Inr (Some ''audit_host_requirements'')
          else if n = 0 then Inr None
          else if consecutive > u32 (epochID + 1) then Inr None
          else bindR (liftT (any_port_streak s acct [0..<n] (up_PeerPortPostponeThresholdPercent params)
                               (last_epochs epochID consecutive))) (\<lambda>b.
                 Inr (if b then Some ''audit_peer_ports'' else None)))"

definition shouldRecoverFromActionFinalizationPostponement ::
    "audit_store \<Rightarrow> string \<Rightarrow> int \<Rightarrow> int \<Rightarrow> audit_params \<Rightarrow> bool" where
  "shouldRecoverFromActionFinalizationPostponement s acct epochID postponedAt params =
     (let recoveryEpochs = dflt 1 (up_ActionFinalizationRecoveryEpochs params) in
      if epochID < u64 (postponedAt + recoveryEpochs) then False
      else
        let start = (if u64 (epochID + 1) > recoveryEpochs then u64 (epochID + 1 - recoveryEpochs) else 0);
            totalBad = fold (\<lambda>e t. u64 (u64 (t + getEvidenceEpochCount s e acct EVIDENCE_ACTION_FINALIZATION_SIGNATURE_FAILURE)
                                  + getEvidenceEpochCount s e acct EVIDENCE_ACTION_FINALIZATION_NOT_IN_TOP_10)) [start..epochID] 0
        in totalBad < dflt 1 (up_ActionFinalizationRecoveryMaxTotalBadEvidences params))"

definition shouldRecoverFromStorageTruthPostponement :: "audit_store \<Rightarrow> string \<Rightarrow> int \<Rightarrow> audit_params \<Rightarrow> bool" where
  "shouldRecoverFromStorageTruthPostponement s acct epochID params =
     (case GetNodeSuspicionState s acct of
        None \<Rightarrow> True
      | Some st \<Rightarrow>
          let score = decayTowardZero (ns_SuspicionScore st) (up_StorageTruthNodeSuspicionDecayPerEpoch params)
                (epochDelta epochID (ns_LastUpdatedEpoch st));
              watch = (if up_StorageTruthNodeSuspicionThresholdWatch params \<le> 0 then 1
                       else up_StorageTruthNodeSuspicionThresholdWatch params);
              requiredPasses = (if hasStorageTruthStrongPostponeMarker s acct
                then dflt 5 (up_StorageTruthStrongRecoveryCleanPassCount params)
                else dflt 3 (up_StorageTruthRecoveryCleanPassCount params));
              cleanPassDelta = (if ns_CleanPassCount st \<ge> ns_CleanPassCountAtPostpone st
                then ns_CleanPassCount st - ns_CleanPassCountAtPostpone st else 0)
          in if score \<ge> watch then False
             else if cleanPassDelta < requiredPasses then False
             else \<not> (ns_LastClassAEpoch st \<noteq> 0 \<and> ns_LastCleanPassEpoch st \<le> ns_LastClassAEpoch st))"

definition shouldRecoverAtEpochEnd :: "audit_store \<Rightarrow> string \<Rightarrow> int \<Rightarrow> audit_params \<Rightarrow> audit_error + bool" where
  "shouldRecoverAtEpochEnd s acct epochID params =
     (if getStorageTruthPostponedAtEpochID s acct \<noteq> None
      then Inr (shouldRecoverFromStorageTruthPostponement s acct epochID params)
      else case getActionFinalizationPostponedAtEpochID s acct of
        Some at_epoch \<Rightarrow> Inr (shouldRecoverFromActionFinalizationPostponement s acct epochID at_epoch params)
      | None \<Rightarrow>
          if \<not> selfHostCompliant s acct epochID params then Inr False
          else if (case GetEpochAnchor s epochID of Some a \<Rightarrow> ea_ActiveSupernodeAccounts a = [] | None \<Rightarrow> False) then Inr True
          else
            let n = length (up_RequiredOpenPorts params) in
            if n = 0 then Inr True
            else bindR (liftT (peerReportersForTargetEpoch s acct epochID)) (\<lambda>peers.
              Inr (list_ex (\<lambda>reporter. case observation_of s epochID acct reporter of
                     None \<Rightarrow> False
                   | Some ob \<Rightarrow> length (ob_PortStates ob) = n \<and> list_all (\<lambda>p. p = AUDIT_PORT_OPEN) (ob_PortStates ob)) peers)))"

section \<open>Storage-truth bands\<close>

definition storageTruthIsClassAFault :: "node_failure \<Rightarrow> bool" where
  "storageTruthIsClassAFault f \<longleftrightarrow> nf_ResultClass f = RESULT_HASH_MISMATCH \<or> nf_ResultClass f = RESULT_RECHECK_CONFIRMED_FAIL"

definition storageTruthIsClassBFault :: "node_failure \<Rightarrow> bool" where
  "storageTruthIsClassBFault f \<longleftrightarrow> nf_ResultClass f = RESULT_TIMEOUT_OR_NO_RESPONSE"

definition postpone_predicates :: "audit_store \<Rightarrow> string \<Rightarrow> node_suspicion \<Rightarrow> int \<Rightarrow> audit_params \<Rightarrow> bool" where
  "postpone_predicates s acct st epochID params =
     (let classAStart = storageTruthWindowStart epochID (dflt 14 (up_StorageTruthClassAFaultWindow params));
          classBStart = storageTruthWindowStart epochID (dflt 7 (up_StorageTruthClassBFaultWindow params));
          oldStart = storageTruthWindowStart epochID (dflt 21 (up_StorageTruthOldClassAFaultWindow params));
          recentClassA = hasNodeFailure s acct classAStart epochID (\<lambda>f. nf_BucketType f = BUCKET_RECENT \<and> storageTruthIsClassAFault f);
          events = snd (distinctNodeFailedTickets s acct classAStart epochID (\<lambda>_. True));
          classAMet = (if events = 0
            then ns_ClassACountWindow st \<ge> 1 \<and> u32 (ns_ClassACountWindow st + ns_ClassBCountWindow st) \<ge> 2
            else recentClassA \<and> events \<ge> 2);
          classBMet = snd (distinctNodeFailedTickets s acct classBStart epochID storageTruthIsClassBFault) \<ge> 4;
          oldClassAMet = length (fst (distinctNodeFailedTickets s acct oldStart epochID
            (\<lambda>f. nf_BucketType f = BUCKET_OLD \<and> storageTruthIsClassAFault f))) \<ge> 2
      in classAMet \<or> classBMet \<or> oldClassAMet)"

definition strong_postpone_predicates :: "audit_store \<Rightarrow> string \<Rightarrow> node_suspicion \<Rightarrow> int \<Rightarrow> audit_params \<Rightarrow> bool" where
  "strong_postpone_predicates s acct st epochID params =
     (let window = dflt 14 (up_StorageTruthClassAFaultWindow params); start = storageTruthWindowStart epochID window;
          tickets = fst (distinctNodeFailedTickets s acct start epochID storageTruthIsClassAFault);
          classAMet = (if tickets = [] then ns_ClassACountWindow st \<ge> 2 else length tickets \<ge> 2);
          indexMet = hasNodeFailure s acct start epochID (\<lambda>f. nf_ArtifactClass f = ARTIFACT_INDEX)
            \<or> (ns_LastIndexFailEpoch st > 0 \<and> epochDelta epochID (ns_LastIndexFailEpoch st) < window)
      in classAMet \<or> indexMet \<or> hasStorageTruthFailedHeal s acct start epochID)"

definition storageTruthPostponePredicatesMet :: "audit_store \<Rightarrow> string \<Rightarrow> suspicion_band \<Rightarrow> int \<Rightarrow> audit_params \<Rightarrow> bool" where
  "storageTruthPostponePredicatesMet s acct band epochID params =
     (case GetNodeSuspicionState s acct of
        None \<Rightarrow> False
      | Some st \<Rightarrow>
          (case band of
             SB_Postpone \<Rightarrow> postpone_predicates s acct st epochID params
           | SB_StrongPostpone \<Rightarrow> strong_postpone_predicates s acct st epochID params
           | _ \<Rightarrow> True))"

definition storage_truth_postpone ::
    "audit_env \<Rightarrow> supernode \<Rightarrow> suspicion_band \<Rightarrow> node_suspicion \<Rightarrow> int \<Rightarrow> audit_state \<Rightarrow> audit_error + audit_state" where
  "storage_truth_postpone env sn band ns epochID st =
     (case st of (s, sns) \<Rightarrow>
        let acct = sn_SupernodeAccount sn;
            reason = (if band = SB_StrongPostpone then ''audit_storage_truth_strong_suspicion'' else ''audit_storage_truth_suspicion'')
        in bindR (setSupernodePostponed env sn reason sns) (\<lambda>sns'.
             let s1 = setStorageTruthPostponedAtEpochID acct epochID s;
                 s2 = (if band = SB_StrongPostpone then setStorageTruthStrongPostponeMarker acct s1 else s1);
                 s3 = clearActionFinalizationPostponedAtEpochID acct s2
             in Inr (SetNodeSuspicionState (ns\<lparr>ns_CleanPassCountAtPostpone := ns_CleanPassCount ns\<rparr>) s3, sns')))"

text \<open>In SHADOW mode, and for bands below postponement, only events are emitted.\<close>

definition applyStorageTruthBandAtEpochEnd ::
    "audit_env \<Rightarrow> supernode \<Rightarrow> int \<Rightarrow> audit_params \<Rightarrow> audit_state \<Rightarrow> audit_error + audit_state" where
  "applyStorageTruthBandAtEpochEnd env sn epochID params st =
     (if up_StorageTruthEnforcementMode params = MODE_UNSPECIFIED then Inr st
      else case GetNodeSuspicionState (fst st) (sn_SupernodeAccount sn) of
        None \<Rightarrow> Inr st
      | Some ns \<Rightarrow>
          let score = decayTowardZero (ns_SuspicionScore ns) (up_StorageTruthNodeSuspicionDecayPerEpoch params)
                (epochDelta epochID (ns_LastUpdatedEpoch ns));
              band = storageTruthBandForScore score params
          in if score \<le> 0 then Inr st
             else if up_StorageTruthEnforcementMode params = MODE_SHADOW then Inr st
             else if band \<notin> {SB_Postpone, SB_StrongPostpone} then Inr st
             else if \<not> storageTruthPostponePredicatesMet (fst st) (sn_SupernodeAccount sn) band epochID params then Inr st
             else storage_truth_postpone env sn band ns epochID st)"

section \<open>Enforcement at the end of an epoch\<close>

definition legacy_postpone :: "audit_env \<Rightarrow> supernode \<Rightarrow> int \<Rightarrow> audit_params \<Rightarrow> audit_state \<Rightarrow> audit_error + audit_state" where
  "legacy_postpone env sn epochID params st =
     (case st of (s0, sns) \<Rightarrow>
        let acct = sn_SupernodeAccount sn; s = clearActionFinalizationPostponedAtEpochID acct s0 in
        bindR (shouldPostponeAtEpochEnd s acct epochID params) (\<lambda>d.
          case d of
            None \<Rightarrow> Inr (s, sns)
          | Some reason \<Rightarrow>
              bindR (setSupernodePostponed env sn reason sns) (\<lambda>sns'.
                Inr (if reason = ''audit_action_finalization_signature_failure'' \<or> reason = ''audit_action_finalization_not_in_top_10''
                     then setActionFinalizationPostponedAtEpochID acct epochID s
                     else clearActionFinalizationPostponedAtEpochID acct s, sns'))))"

definition enforce_active :: "audit_env \<Rightarrow> int \<Rightarrow> audit_params \<Rightarrow> supernode \<Rightarrow> audit_state \<Rightarrow> audit_error + audit_state" where
  "enforce_active env epochID params sn st =
     (if sn_SupernodeAccount sn = [] then Inr st
      else bindR (applyStorageTruthBandAtEpochEnd env sn epochID params st) (\<lambda>st1.
        if getStorageTruthPostponedAtEpochID (fst st1) (sn_SupernodeAccount sn) \<noteq> None then Inr st1
        else legacy_postpone env sn epochID params st1))"

definition recoverSupernodeFromPostponed :: "audit_env \<Rightarrow> supernode \<Rightarrow> int \<Rightarrow> audit_state \<Rightarrow> audit_error + sn_store" where
  "recoverSupernodeFromPostponed env sn epochID st =
     (case st of (s, sns) \<Rightarrow>
        case GetReport s epochID (sn_SupernodeAccount sn) of
          None \<Rightarrow> recoverSupernodeActive env sn sns
        | Some r \<Rightarrow>
            let disk = hr_DiskUsagePercent (er_HostReport r) in
            if disk = FFin 0 then recoverSupernodeActive env sn sns
            else if \<not> isValidHostUsagePercent disk then markSupernodeStorageFull env sn sns
            else if flt_le disk (maxStorage sns) then recoverSupernodeActive env sn sns
            else markSupernodeStorageFull env sn sns)"

definition enforce_postponed :: "audit_env \<Rightarrow> int \<Rightarrow> audit_params \<Rightarrow> supernode \<Rightarrow> audit_state \<Rightarrow> audit_error + audit_state" where
  "enforce_postponed env epochID params sn st =
     (let acct = sn_SupernodeAccount sn in
      if acct = [] then Inr st
      else bindR (shouldRecoverAtEpochEnd (fst st) acct epochID params) (\<lambda>b.
        if \<not> b then Inr st
        else bindR (recoverSupernodeFromPostponed env sn epochID st) (\<lambda>sns'.
          Inr (clearStorageTruthPostponedAtEpochID acct (clearActionFinalizationPostponedAtEpochID acct (fst st)), sns'))))"

fun foldR :: "('a \<Rightarrow> 's \<Rightarrow> 'e + 's) \<Rightarrow> 'a list \<Rightarrow> 's \<Rightarrow> 'e + 's" where
  "foldR f [] s = Inr s"
| "foldR f (x # xs) s = bindR (f x s) (foldR f xs)"

text \<open>Both sets of supernodes are read before any of them changes.\<close>

definition EnforceEpochEnd :: "audit_env \<Rightarrow> int \<Rightarrow> audit_params \<Rightarrow> audit_state \<Rightarrow> audit_error + audit_state" where
  "EnforceEpochEnd env epochID params0 st =
     (let params = audit_WithDefaults params0;
          active = GetAllSuperNodes [SuperNodeStateActive] (snd st);
          postponed = GetAllSuperNodes [SuperNodeStatePostponed] (snd st)
      in bindR (foldR (enforce_active env epochID params) active st) (foldR (enforce_postponed env epochID params) postponed))"

section \<open>Reporter divergence and recovery (storage\_truth\_divergence.go)\<close>

record divergence_stats =
  ds_total :: int
  ds_negative :: int
  ds_confirmedNegative :: int

definition results_in :: "audit_store \<Rightarrow> string \<Rightarrow> int \<Rightarrow> int \<Rightarrow> reporter_result list" where
  "results_in s reporter startEpoch endEpoch =
     map snd (kv_range (ReporterStorageTruthResultEpochScanRange reporter startEpoch endEpoch) (us_results s))"

definition storageTruthReporterDivergenceStats :: "audit_store \<Rightarrow> string \<Rightarrow> int \<Rightarrow> int \<Rightarrow> divergence_stats" where
  "storageTruthReporterDivergenceStats s reporter startEpoch endEpoch =
     (let rs = results_in s reporter startEpoch endEpoch; neg = filter (\<lambda>r. isStorageTruthFailureClass (rrs_ResultClass r)) rs
      in \<lparr>ds_total = int (length rs), ds_negative = int (length neg),
          ds_confirmedNegative = int (length (filter rrs_ConfirmedByRecheck neg))\<rparr>)"

definition lower_rate :: "string \<times> divergence_stats \<Rightarrow> string \<times> divergence_stats \<Rightarrow> bool" where
  "lower_rate x y \<longleftrightarrow> ds_negative (snd x) * ds_total (snd y) < ds_negative (snd y) * ds_total (snd x)"

definition divergence_outlier :: "divergence_stats \<Rightarrow> divergence_stats \<Rightarrow> bool" where
  "divergence_outlier median e \<longleftrightarrow>
     ds_total e \<noteq> 0 \<and> ds_negative e * ds_total median > 2 * ds_negative median * ds_total e
     \<and> \<not> (ds_negative e \<noteq> 0 \<and> ds_confirmedNegative e * 2 \<ge> ds_negative e)"

text \<open>
  The sort is not stable; its order among equal rates only decides which of them is the median, with
  the same rate, so a stable sort stands for it.
\<close>

definition ApplyReporterDivergenceAtEpochEnd :: "int \<Rightarrow> audit_params \<Rightarrow> audit_store \<Rightarrow> audit_store" where
  "ApplyReporterDivergenceAtEpochEnd epochID params s =
     (let minReports = dflt 5 (up_StorageTruthReporterMinReportsForDivergence params);
          start = storageTruthWindowStart epochID (up_StorageTruthDivergenceWindowEpochs params);
          entries = map (\<lambda>st. (rr_ReporterSupernodeAccount st,
                       storageTruthReporterDivergenceStats s (rr_ReporterSupernodeAccount st) start epochID))
                      (GetAllReporterReliabilityStates s);
          qualifying = slice_stable lower_rate (filter (\<lambda>e. ds_total (snd e) \<ge> minReports) entries)
      in if qualifying = [] then s
         else
           let median = snd (qualifying ! (length qualifying div 2)) in
           if ds_total median = 0 then s
           else fold (\<lambda>e s. if divergence_outlier median (snd e)
                            then applyReporterReliabilityDelta epochID (fst e) 8
                                   (up_StorageTruthReporterReliabilityDecayPerEpoch params) 0 params s
                            else s) qualifying s)"

definition storageTruthReporterAccountsForEpoch :: "audit_store \<Rightarrow> int \<Rightarrow> string list" where
  "storageTruthReporterAccountsForEpoch s epochID =
     (let pre = ReporterStorageTruthResultByEpochPrefix epochID
      in filter (\<lambda>r. r \<noteq> []) (map (\<lambda>e. drop (length pre) (fst e)) (kv_prefix pre (us_resultsByEpoch s))))"

definition storageTruthReporterEpochPassStats :: "audit_store \<Rightarrow> string \<Rightarrow> int \<Rightarrow> int \<times> bool" where
  "storageTruthReporterEpochPassStats s reporter epochID =
     (let rs = results_in s reporter epochID epochID
      in (int (length (filter (\<lambda>r. rrs_ResultClass r = RESULT_PASS) rs)),
          list_ex (\<lambda>r. rrs_OverturnedByRecheck r \<and> isStorageTruthFailureClass (rrs_ResultClass r)) rs))"

definition ApplyReporterCleanEpochRecoveryAtEpochEnd :: "int \<Rightarrow> audit_params \<Rightarrow> audit_store \<Rightarrow> audit_store" where
  "ApplyReporterCleanEpochRecoveryAtEpochEnd epochID params s =
     (let known = filter (\<lambda>r. r \<noteq> []) (map rr_ReporterSupernodeAccount (GetAllReporterReliabilityStates s));
          reporters = sort (remdups (known @ storageTruthReporterAccountsForEpoch s epochID))
      in fold (\<lambda>r s. case storageTruthReporterEpochPassStats s r epochID of (passes, overturned) \<Rightarrow>
                if overturned \<or> passes < 5 then s
                else applyReporterReliabilityDelta epochID r (-4) (up_StorageTruthReporterReliabilityDecayPerEpoch params) 0 params s)
           reporters s)"

section \<open>Heal operations (storage\_truth\_heal\_ops.go)\<close>

definition isHealOpFinalStatus :: "heal_status \<Rightarrow> bool" where
  "isHealOpFinalStatus st \<longleftrightarrow> st \<in> {HEAL_VERIFIED, HEAL_FAILED, HEAL_EXPIRED}"

definition expire_ticket :: "int \<Rightarrow> audit_params \<Rightarrow> heal_op \<Rightarrow> ticket_deterioration \<Rightarrow> ticket_deterioration" where
  "expire_ticket epochID params op t =
     (let t1 = failed_ticket epochID params t
      in if td_ActiveHealOpId t1 = ho_HealOpId op then t1\<lparr>td_ActiveHealOpId := 0\<rparr> else t1)"

definition expire_op :: "audit_env \<Rightarrow> int \<Rightarrow> audit_params \<Rightarrow> heal_op \<Rightarrow> audit_store \<Rightarrow> audit_error + audit_store" where
  "expire_op env epochID params op0 s =
     (if isHealOpFinalStatus (ho_Status op0) then Inr s
      else if ho_DeadlineEpochId op0 = 0 \<or> ho_DeadlineEpochId op0 > epochID then Inr s
      else
        let op = op0\<lparr>ho_Status := HEAL_EXPIRED, ho_UpdatedHeight := u64 (ue_Height env)\<rparr>; s1 = SetHealOp op s
        in case GetTicketDeteriorationState s1 (ho_TicketId op) of
             None \<Rightarrow> Inr s1
           | Some t \<Rightarrow> setStorageTruthFailedHeal (ho_HealerSupernodeAccount op) epochID (ho_TicketId op)
                        (SetTicketDeteriorationState (expire_ticket epochID params op t) s1))"

definition expireStorageTruthHealOpsAtEpochEnd :: "audit_env \<Rightarrow> int \<Rightarrow> audit_params \<Rightarrow> audit_store \<Rightarrow> audit_error + audit_store" where
  "expireStorageTruthHealOpsAtEpochEnd env epochID params s = foldR (expire_op env epochID params) (GetAllHealOps s) s"

definition storageTruthSchedulerAccounts :: "sn_store \<Rightarrow> audit_store \<Rightarrow> int \<Rightarrow> audit_error + string list" where
  "storageTruthSchedulerAccounts sns s epochID =
     (case GetEpochAnchor s epochID of
        Some a \<Rightarrow> if ea_ActiveSupernodeAccounts a \<noteq> [] then Inr (ea_ActiveSupernodeAccounts a)
                  else bindR (liftT (supernodeAccountsFromSet (GetAllSuperNodes [SuperNodeStateActive] sns) [])) (\<lambda>xs. Inr (sort xs))
      | None \<Rightarrow> bindR (liftT (supernodeAccountsFromSet (GetAllSuperNodes [SuperNodeStateActive] sns) [])) (\<lambda>xs. Inr (sort xs)))"

definition ineligible_healers :: "int \<Rightarrow> audit_params \<Rightarrow> audit_store \<Rightarrow> string list" where
  "ineligible_healers epochID params s =
     map fst (GetAllStorageTruthPostponements s)
     @ (let th = up_StorageTruthNodeSuspicionThresholdProbation params in
        if th > 0 then map ns_SupernodeAccount (filter (\<lambda>ns. decayTowardZero (ns_SuspicionScore ns)
               (up_StorageTruthNodeSuspicionDecayPerEpoch params) (epochDelta epochID (ns_LastUpdatedEpoch ns)) \<ge> th)
             (GetAllNodeSuspicionStates s)) else [])"

text \<open>
  The tickets to heal. A pointer to an operation that is not open is cleared; \<open>open_tickets\<close> and
  \<open>open_ids\<close> are those of the operations that are open.
\<close>

definition heal_eligible :: "ticket_deterioration \<Rightarrow> bool" where
  "heal_eligible t \<longleftrightarrow> td_DistinctHolderFailureCount t \<ge> 2 \<or> td_LastIndexFailureEpoch t > 0 \<or> td_RecentFailureEpochCount t \<ge> 2"

definition heal_due :: "int \<Rightarrow> audit_params \<Rightarrow> ticket_deterioration \<Rightarrow> bool" where
  "heal_due epochID params t \<longleftrightarrow> td_TicketId t \<noteq> [] \<and> td_DeteriorationScore t \<ge> up_StorageTruthTicketDeteriorationHealThreshold params
     \<and> td_ProbationUntilEpoch t \<le> epochID"

fun heal_candidates ::
    "int \<Rightarrow> audit_params \<Rightarrow> int list \<Rightarrow> string list \<Rightarrow> ticket_deterioration list \<Rightarrow> audit_store
       \<Rightarrow> ticket_deterioration list \<times> audit_store" where
  "heal_candidates epochID params open_ids open_tickets [] s = ([], s)"
| "heal_candidates epochID params open_ids open_tickets (t # ts) s =
     (if \<not> heal_due epochID params t then heal_candidates epochID params open_ids open_tickets ts s
      else if td_ActiveHealOpId t \<noteq> 0 \<and> td_ActiveHealOpId t \<in> set open_ids
      then heal_candidates epochID params open_ids (td_TicketId t # open_tickets) ts s
      else
        let t' = t\<lparr>td_ActiveHealOpId := 0\<rparr>;
            s' = (if td_ActiveHealOpId t \<noteq> 0 then SetTicketDeteriorationState t' s else s);
            (cs, s'') = heal_candidates epochID params open_ids open_tickets ts s'
        in (if td_TicketId t \<in> set open_tickets \<or> \<not> heal_eligible t then cs else t' # cs, s''))"

definition heal_before :: "ticket_deterioration \<Rightarrow> ticket_deterioration \<Rightarrow> bool" where
  "heal_before x y =
     (if td_DeteriorationScore x \<noteq> td_DeteriorationScore y then td_DeteriorationScore x > td_DeteriorationScore y
      else if (td_LastIndexFailureEpoch x > 0) \<noteq> (td_LastIndexFailureEpoch y > 0) then td_LastIndexFailureEpoch x > 0
      else if td_DistinctHolderFailureCount x \<noteq> td_DistinctHolderFailureCount y
      then td_DistinctHolderFailureCount x > td_DistinctHolderFailureCount y
      else if td_LastFailureEpoch x \<noteq> td_LastFailureEpoch y then td_LastFailureEpoch x < td_LastFailureEpoch y
      else td_TicketId x < td_TicketId y)"

definition new_heal_op :: "audit_env \<Rightarrow> int \<Rightarrow> audit_params \<Rightarrow> int \<Rightarrow> string \<Rightarrow> string \<Rightarrow> string list \<Rightarrow> heal_op" where
  "new_heal_op env epochID params healOpID ticketID healer verifiers =
     \<lparr>ho_HealOpId = healOpID, ho_TicketId = ticketID, ho_ScheduledEpochId = epochID, ho_HealerSupernodeAccount = healer,
      ho_VerifierSupernodeAccounts = verifiers, ho_Status = HEAL_SCHEDULED, ho_CreatedHeight = u64 (ue_Height env),
      ho_UpdatedHeight = u64 (ue_Height env),
      ho_DeadlineEpochId = u64 (epochID + dflt 3 (up_StorageTruthHealDeadlineEpochs params)), ho_ResultHash = [], ho_Notes = []\<rparr>"

text \<open>Scheduling in priority order until the limit of the epoch; a ticket without participants is passed over.\<close>

fun schedule_loop ::
    "audit_env \<Rightarrow> int \<Rightarrow> audit_params \<Rightarrow> string list \<Rightarrow> string list \<Rightarrow> int \<Rightarrow> ticket_deterioration list \<Rightarrow> audit_store
       \<Rightarrow> audit_error + audit_store" where
  "schedule_loop env epochID params active bad scheduled [] s = Inr s"
| "schedule_loop env epochID params active bad scheduled (c # cs) s =
     (if scheduled \<ge> up_StorageTruthMaxSelfHealOpsPerEpoch params then Inr s
      else
        let eligible = filter (\<lambda>a. a \<notin> set bad \<and> a \<noteq> td_LastTargetSupernodeAccount c) active;
            (healer, verifiers) = assignStorageTruthHealParticipants eligible (td_TicketId c) epochID params
        in if eligible = [] \<or> verifiers = [] then schedule_loop env epochID params active bad scheduled cs s
           else
             let healOpID = GetNextHealOpID s;
                 s1 = SetNextHealOpID (healOpID + 1)
                        (SetHealOp (new_heal_op env epochID params healOpID (td_TicketId c) healer verifiers) s)
             in case GetTicketDeteriorationState s1 (td_TicketId c) of
                  None \<Rightarrow> Inl (AuText ''ticket deterioration state not found'')
                | Some t \<Rightarrow> schedule_loop env epochID params active bad (scheduled + 1) cs
                             (SetTicketDeteriorationState (t\<lparr>td_ActiveHealOpId := healOpID\<rparr>) s1))"

definition scheduleStorageTruthHealOpsAtEpochEnd ::
    "audit_env \<Rightarrow> int \<Rightarrow> audit_params \<Rightarrow> sn_store \<Rightarrow> audit_store \<Rightarrow> audit_error + audit_store" where
  "scheduleStorageTruthHealOpsAtEpochEnd env epochID params sns s =
     (if up_StorageTruthEnforcementMode params = MODE_UNSPECIFIED then Inr s
      else if up_StorageTruthMaxSelfHealOpsPerEpoch params = 0 then Inr s
      else bindR (storageTruthSchedulerAccounts sns s epochID) (\<lambda>active.
        if active = [] then Inr s
        else
          let open_ops = filter (\<lambda>op. \<not> isHealOpFinalStatus (ho_Status op)) (GetAllHealOps s);
              (cands, s1) = heal_candidates epochID params (map ho_HealOpId open_ops) (map ho_TicketId open_ops)
                              (GetAllTicketDeteriorationStates s) s
          in schedule_loop env epochID params active (ineligible_healers epochID params s) 0 (slice_stable heal_before cands) s1))"

definition ProcessStorageTruthHealOpsAtEpochEnd ::
    "audit_env \<Rightarrow> int \<Rightarrow> audit_params \<Rightarrow> sn_store \<Rightarrow> audit_store \<Rightarrow> audit_error + audit_store" where
  "ProcessStorageTruthHealOpsAtEpochEnd env epochID params sns s =
     bindR (expireStorageTruthHealOpsAtEpochEnd env epochID params s)
       (scheduleStorageTruthHealOpsAtEpochEnd env epochID params sns)"

section \<open>Pruning (prune.go)\<close>

text \<open>Keys that start with an epoch: deletion stops at the first epoch to keep; keys that are too short are passed over.\<close>

fun leading_old :: "string \<Rightarrow> int \<Rightarrow> (string \<times> 'v) list \<Rightarrow> string list" where
  "leading_old pre minKeep [] = []"
| "leading_old pre minKeep (e # es) =
     (if length (fst e) < length pre + 8 then leading_old pre minKeep es
      else if be_val (take 8 (drop (length pre) (fst e))) \<ge> minKeep then []
      else fst e # leading_old pre minKeep es)"

definition delete_keys :: "string list \<Rightarrow> (string \<times> 'v) list \<Rightarrow> (string \<times> 'v) list" where
  "delete_keys ks m = fold kv_del ks m"

definition prunePrefixByWindowIDLeadingU64 :: "string \<Rightarrow> int \<Rightarrow> (string \<times> 'v) list \<Rightarrow> (string \<times> 'v) list" where
  "prunePrefixByWindowIDLeadingU64 pre minKeep m = delete_keys (leading_old pre minKeep m) m"

definition pruneReporterTrailingWindowID :: "string \<Rightarrow> int \<Rightarrow> (string \<times> 'v) list \<Rightarrow> (string \<times> 'v) list" where
  "pruneReporterTrailingWindowID pre minKeep m =
     delete_keys (map fst (filter (\<lambda>e. length pre + 9 \<le> length (fst e)
       \<and> be_val (drop (length (fst e) - 8) (fst e)) < minKeep) m)) m"

definition bytesIndexByte :: "string \<Rightarrow> char \<Rightarrow> nat option" where
  "bytesIndexByte b c = index_of c b"

definition pruneSupernodeWindowReporter :: "string \<Rightarrow> int \<Rightarrow> (string \<times> 'v) list \<Rightarrow> (string \<times> 'v) list" where
  "pruneSupernodeWindowReporter pre minKeep m =
     delete_keys (map fst (filter (\<lambda>e. length pre + 11 \<le> length (fst e) \<and>
       (let rest = drop (length pre) (fst e) in
        case bytesIndexByte rest CHR ''/'' of
          None \<Rightarrow> False
        | Some sep \<Rightarrow> 0 < sep \<and> sep + 10 \<le> length rest \<and> be_val (take 8 (drop (sep + 1) rest)) < minKeep)) m)) m"

definition pruneTargetBucketEpoch :: "string \<Rightarrow> int \<Rightarrow> (string \<times> 'v) list \<Rightarrow> (string \<times> 'v) list" where
  "pruneTargetBucketEpoch pre minKeep m =
     delete_keys (map fst (filter (\<lambda>e.
       (let rest = drop (length pre) (fst e) in
        case bytesIndexByte rest CHR ''/'' of
          None \<Rightarrow> False
        | Some sep \<Rightarrow> 0 < sep \<and> sep + 15 \<le> length rest \<and> be_val (take 8 (drop (sep + 6) rest)) < minKeep)) m)) m"

definition pruneStorageProofTranscripts :: "int \<Rightarrow> (string \<times> transcript) list \<Rightarrow> (string \<times> transcript) list" where
  "pruneStorageProofTranscripts minKeep m = delete_keys (map fst (filter (\<lambda>e. spt_EpochID (snd e) < minKeep) m)) m"

definition pruneInactiveTicketDeteriorationStates :: "int \<Rightarrow> int \<Rightarrow> audit_store \<Rightarrow> audit_store" where
  "pruneInactiveTicketDeteriorationStates currentEpochID keep s =
     (if keep = 0 \<or> currentEpochID \<le> keep then s
      else s\<lparr>us_tickets := delete_keys (map fst (filter (\<lambda>e. td_LastUpdatedEpoch (snd e) < currentEpochID - keep
               \<and> td_DeteriorationScore (snd e) = 0 \<and> td_ActiveHealOpId (snd e) = 0) (us_tickets s))) (us_tickets s)\<rparr>)"

definition delete_heal_op :: "heal_op \<Rightarrow> audit_store \<Rightarrow> audit_store" where
  "delete_heal_op op s =
     s\<lparr>us_heals := kv_del (HealOpKey (ho_HealOpId op)) (us_heals s),
       us_healsByTicket := kv_del (HealOpByTicketIndexKey (ho_TicketId op) (ho_HealOpId op)) (us_healsByTicket s),
       us_healsByStatus := kv_del (HealOpByStatusIndexKey (heal_num (ho_Status op)) (ho_HealOpId op)) (us_healsByStatus s),
       us_healVotes := delete_keys (map fst (kv_prefix (HealOpVerificationPrefix (ho_HealOpId op)) (us_healVotes s))) (us_healVotes s)\<rparr>"

definition pruneTerminalHealOps :: "int \<Rightarrow> int \<Rightarrow> audit_store \<Rightarrow> audit_store" where
  "pruneTerminalHealOps currentEpochID keep s =
     fold delete_heal_op (filter (\<lambda>op. isHealOpFinalStatus (ho_Status op) \<and> u64 (ho_ScheduledEpochId op + keep) < currentEpochID)
       (map snd (us_heals s))) s"

definition PruneOldEpochs :: "int \<Rightarrow> audit_params \<Rightarrow> audit_store \<Rightarrow> audit_store" where
  "PruneOldEpochs currentEpochID params s =
     (let keep = up_KeepLastEpochEntries (audit_WithDefaults params);
          minKeep = (if u64 (currentEpochID + 1) > keep then u64 (currentEpochID + 1 - keep) else 0);
          s1 = s\<lparr>us_anchors := prunePrefixByWindowIDLeadingU64 EpochAnchorPrefix minKeep (us_anchors s),
            us_snapshots := prunePrefixByWindowIDLeadingU64 EpochParamsSnapshotPrefix minKeep (us_snapshots s),
            us_reports := prunePrefixByWindowIDLeadingU64 ReportPrefix minKeep (us_reports s),
            us_reportIndex := pruneReporterTrailingWindowID ReportIndexRootPrefix minKeep (us_reportIndex s),
            us_hostIndex := pruneReporterTrailingWindowID HostReportIndexRootPrefix minKeep (us_hostIndex s),
            us_scIndex := pruneSupernodeWindowReporter StorageChallengeReportIndexRootPrefix minKeep (us_scIndex s),
            us_evidenceCounts := prunePrefixByWindowIDLeadingU64 EvidenceEpochCountPrefix minKeep (us_evidenceCounts s),
            us_recheck := prunePrefixByWindowIDLeadingU64 RecheckEvidencePrefix minKeep (us_recheck s),
            us_failures := pruneSupernodeWindowReporter NodeStorageTruthFailureRootPrefix minKeep (us_failures s),
            us_results := pruneSupernodeWindowReporter ReporterStorageTruthResultRootPrefix minKeep (us_results s),
            us_failedHeals := pruneSupernodeWindowReporter StorageTruthFailedHealRootPrefix minKeep (us_failedHeals s),
            us_resultsByTarget := pruneSupernodeWindowReporter reporterResultByTargetPrefix minKeep (us_resultsByTarget s),
            us_resultsByEpoch := prunePrefixByWindowIDLeadingU64 ReporterStorageTruthResultByEpochRootPrefix minKeep (us_resultsByEpoch s),
            us_transcriptIndex := pruneTargetBucketEpoch transcriptByTargetBucketEpochPrefix minKeep (us_transcriptIndex s),
            us_transcripts := pruneStorageProofTranscripts minKeep (us_transcripts s)\<rparr>
      in pruneTerminalHealOps currentEpochID keep (pruneInactiveTicketDeteriorationStates currentEpochID keep s1))"

section \<open>Blocks (abci.go)\<close>

definition audit_BeginBlocker :: "audit_env \<Rightarrow> audit_state \<Rightarrow> audit_error + audit_state" where
  "audit_BeginBlocker env st =
     (case st of (s, sns) \<Rightarrow>
        bindR (liftT (deriveEpochAtHeight (ue_Height env) (up s))) (\<lambda>epoch.
          if ue_Height env \<noteq> ei_StartHeight epoch then Inr (s, sns)
          else bindR (CreateEpochAnchorIfNeeded env (ei_EpochID epoch) (ei_StartHeight epoch) (ei_EndHeight epoch) (up s) sns s)
                 (\<lambda>s'. Inr (s', sns))))"

definition audit_EndBlocker :: "audit_env \<Rightarrow> audit_state \<Rightarrow> audit_error + audit_state" where
  "audit_EndBlocker env st =
     (let params = up (fst st) in
      bindR (liftT (deriveEpochAtHeight (ue_Height env) params)) (\<lambda>epoch.
        let e = ei_EpochID epoch in
        if ue_Height env \<noteq> ei_EndHeight epoch then Inr st
        else bindR (EnforceEpochEnd env e params st) (\<lambda>(s1, sns).
          let s2 = ApplyReporterCleanEpochRecoveryAtEpochEnd e params (ApplyReporterDivergenceAtEpochEnd e params s1) in
          bindR (ProcessStorageTruthHealOpsAtEpochEnd env e params sns s2) (\<lambda>s3.
            Inr (PruneOldEpochs e params s3, sns)))))"

end
