(* ===== verification/Audit_Genesis.thy ===== *)
theory Audit_Genesis
  imports Audit_Epoch
begin

text \<open>
  Genesis of the audit module (keeper/genesis.go, types/genesis.go, types/genesis\_validate.go and the
  exporters of the key families). Exported keys are parsed back into their fields; a key of another
  shape is skipped. Records that the code stores as JSON are exported as values.
\<close>

section \<open>Genesis state\<close>

record audit_genesis =
  ug_Params :: audit_params
  ug_Evidence :: "evidence list"
  ug_NextEvidenceId :: int
  ug_NodeSuspicionStates :: "node_suspicion list"
  ug_ReporterReliabilityStates :: "reporter_reliability list"
  ug_TicketDeteriorationStates :: "ticket_deterioration list"
  ug_HealOps :: "heal_op list"
  ug_NextHealOpId :: int
  ug_TicketArtifactCountStates :: "artifact_counts list"
  ug_StorageTruthPostponements :: "(string \<times> int \<times> bool) list"
  ug_RecheckEvidence :: "(int \<times> string \<times> string) list"
  ug_StorageProofTranscripts :: "(string \<times> transcript) list"
  ug_NodeFailureFacts :: "(string \<times> int \<times> string \<times> string \<times> node_failure) list"
  ug_ReporterResultFacts :: "(string \<times> int \<times> string \<times> string \<times> reporter_result) list"
  ug_FailedHealMarkers :: "(string \<times> int \<times> string) list"
  ug_EpochReports :: "epoch_report list"
  ug_ReportIndices :: "(string \<times> int) list"
  ug_HostReportIndices :: "(string \<times> int) list"
  ug_StorageChallengeIndices :: "(string \<times> int \<times> string) list"
  ug_ActionFinalizationPostponements :: "(string \<times> int) list"
  ug_EvidenceEpochCounts :: "(int \<times> string \<times> evidence_type \<times> int) list"
  ug_HealOpVerifications :: "(int \<times> string \<times> bool) list"

definition audit_Genesis_Validate :: "audit_genesis \<Rightarrow> param_error + unit" where
  "audit_Genesis_Validate g =
     bindR (audit_Params_Validate (ug_Params g)) (\<lambda>_. checks
       [check ''duplicate evidence_id'' (distinct (map evd_EvidenceId (ug_Evidence g))),
        check ''duplicate heal_op_id'' (distinct (map ho_HealOpId (ug_HealOps g)))])"

definition ValidateScoreStatesGenesis :: "audit_genesis \<Rightarrow> int \<Rightarrow> string + unit" where
  "ValidateScoreStatesGenesis g currentEpoch = ensures
     (map (\<lambda>st. ensure ''node suspicion'' (ns_LastUpdatedEpoch st \<le> currentEpoch \<and> ns_WindowStartEpoch st \<le> currentEpoch
                   \<and> 0 \<le> ns_SuspicionScore st)) (ug_NodeSuspicionStates g)
      @ map (\<lambda>st. ensure ''reporter reliability'' (rr_LastUpdatedEpoch st \<le> currentEpoch \<and> rr_WindowStartEpoch st \<le> currentEpoch))
          (ug_ReporterReliabilityStates g)
      @ map (\<lambda>st. ensure ''ticket deterioration'' (td_LastUpdatedEpoch st \<le> currentEpoch)) (ug_TicketDeteriorationStates g)
      @ map (\<lambda>st. ensure ''ticket artifact count'' (tac_TicketId st \<noteq> []
                   \<and> \<not> (tac_IndexArtifactCount st = 0 \<and> tac_SymbolArtifactCount st = 0))) (ug_TicketArtifactCountStates g))"

section \<open>Reading keys back\<close>

text \<open>An account up to the first slash, an epoch, a byte that is not looked at, and the rest.\<close>

definition parse_account_epoch :: "string \<Rightarrow> string \<Rightarrow> (string \<times> int \<times> string) option" where
  "parse_account_epoch pre key =
     (let body = drop (length pre) key in
      case index_of CHR ''/'' body of
        None \<Rightarrow> None
      | Some i \<Rightarrow> if length body < i + 10 then None
                  else Some (take i body, be_val (take 8 (drop (i + 1) body)), drop (i + 10) body))"

definition parse_trailing_epoch :: "string \<Rightarrow> string \<Rightarrow> (string \<times> int) option" where
  "parse_trailing_epoch pre key =
     (let body = drop (length pre) key in
      if length body < 9 \<or> body ! (length body - 9) \<noteq> CHR ''/'' then None
      else Some (take (length body - 9) body, be_val (drop (length body - 8) body)))"

definition split_nul :: "string \<Rightarrow> (string \<times> string) option" where
  "split_nul rest = (case index_of nul rest of None \<Rightarrow> None | Some i \<Rightarrow> Some (take i rest, drop (i + 1) rest))"

definition parse_account_epoch_pair :: "string \<Rightarrow> string \<Rightarrow> (string \<times> int \<times> string \<times> string) option" where
  "parse_account_epoch_pair pre key =
     (case parse_account_epoch pre key of
        None \<Rightarrow> None
      | Some (a, e, rest) \<Rightarrow> map_option (\<lambda>(t, r). (a, e, t, r)) (split_nul rest))"

definition parse_recheck :: "string \<Rightarrow> (int \<times> string \<times> string) option" where
  "parse_recheck key =
     (let body = drop (length RecheckEvidencePrefix) key in
      if length body < 9 then None
      else map_option (\<lambda>(t, c). (be_val (take 8 body), t, c)) (split_nul (drop 9 body)))"

fun evidence_of :: "int \<Rightarrow> evidence_type" where
  "evidence_of n =
     (if n = 0 then EVIDENCE_UNSPECIFIED else if n = 1 then EVIDENCE_ACTION_FINALIZATION_SIGNATURE_FAILURE
      else if n = 2 then EVIDENCE_ACTION_FINALIZATION_NOT_IN_TOP_10 else if n = 3 then EVIDENCE_ACTION_EXPIRED
      else if n = 4 then EVIDENCE_STORAGE_CHALLENGE_FAILURE else if n = 5 then EVIDENCE_CASCADE_CLIENT_FAILURE
      else EVIDENCE_OTHER n)"

definition parse_evidence_count :: "string \<times> int \<Rightarrow> (int \<times> string \<times> evidence_type \<times> int) option" where
  "parse_evidence_count e =
     (let body = drop (length EvidenceEpochCountPrefix) (fst e) in
      if length body \<le> 14 \<or> body ! 8 \<noteq> CHR ''/'' then None
      else
        let rest = drop 9 body in
        case index_of CHR ''/'' rest of
          None \<Rightarrow> None
        | Some i \<Rightarrow> if i = 0 \<or> length (drop (i + 1) rest) \<noteq> 4 then None
                    else Some (be_val (take 8 body), take i rest, evidence_of (be_val (drop (i + 1) rest)), snd e))"

definition parse_vote :: "string \<times> bool \<Rightarrow> (int \<times> string \<times> bool) option" where
  "parse_vote e =
     (let rest = drop (length HealOpVerificationRootPrefix) (fst e) in
      if length rest \<le> 9 \<or> rest ! 8 \<noteq> CHR ''/'' then None
      else Some (be_val (take 8 rest), drop 9 rest, snd e))"

section \<open>Export\<close>

definition audit_ExportGenesis :: "audit_store \<Rightarrow> string + audit_genesis" where
  "audit_ExportGenesis s =
     (if GetNextEvidenceID s = 0 then Inl ''invalid next evidence id''
      else if GetNextHealOpID s = 0 then Inl ''invalid next heal op id''
      else Inr
       \<lparr>ug_Params = audit_GetParams (us_params s),
        ug_Evidence = GetAllEvidence s,
        ug_NextEvidenceId = GetNextEvidenceID s,
        ug_NodeSuspicionStates = GetAllNodeSuspicionStates s,
        ug_ReporterReliabilityStates = GetAllReporterReliabilityStates s,
        ug_TicketDeteriorationStates = GetAllTicketDeteriorationStates s,
        ug_HealOps = GetAllHealOps s,
        ug_NextHealOpId = GetNextHealOpID s,
        ug_TicketArtifactCountStates = GetAllTicketArtifactCountStates s,
        ug_StorageTruthPostponements = GetAllStorageTruthPostponements s,
        ug_RecheckEvidence = List.map_filter (\<lambda>e. parse_recheck (fst e)) (us_recheck s),
        ug_StorageProofTranscripts = map (\<lambda>e. (drop (length StorageProofTranscriptPrefix) (fst e), snd e)) (us_transcripts s),
        ug_NodeFailureFacts = List.map_filter (\<lambda>e. map_option (\<lambda>(a, ep, t, r). (a, ep, t, r, snd e))
          (parse_account_epoch_pair NodeStorageTruthFailureRootPrefix (fst e))) (us_failures s),
        ug_ReporterResultFacts = List.map_filter (\<lambda>e. map_option (\<lambda>(a, ep, t, r). (a, ep, t, r, snd e))
          (parse_account_epoch_pair ReporterStorageTruthResultRootPrefix (fst e))) (us_results s),
        ug_FailedHealMarkers = List.map_filter (\<lambda>e. parse_account_epoch StorageTruthFailedHealRootPrefix (fst e)) (us_failedHeals s),
        ug_EpochReports = map snd (us_reports s),
        ug_ReportIndices = List.map_filter (\<lambda>e. parse_trailing_epoch ReportIndexRootPrefix (fst e)) (us_reportIndex s),
        ug_HostReportIndices = List.map_filter (\<lambda>e. parse_trailing_epoch HostReportIndexRootPrefix (fst e)) (us_hostIndex s),
        ug_StorageChallengeIndices =
          List.map_filter (\<lambda>e. parse_account_epoch StorageChallengeReportIndexRootPrefix (fst e)) (us_scIndex s),
        ug_ActionFinalizationPostponements = map (\<lambda>e. (drop (length ActionFinalizationPostponementPrefix) (fst e), snd e))
          (filter (\<lambda>e. length ActionFinalizationPostponementPrefix < length (fst e)) (us_afPostponed s)),
        ug_EvidenceEpochCounts = List.map_filter parse_evidence_count (us_evidenceCounts s),
        ug_HealOpVerifications = List.map_filter parse_vote (us_healVotes s)\<rparr>)"

section \<open>Import\<close>

definition import_evidence :: "evidence \<Rightarrow> audit_store \<times> int \<Rightarrow> audit_store \<times> int" where
  "import_evidence ev st =
     (let s1 = SetEvidenceBySubjectIndex (evd_SubjectAddress ev) (evd_EvidenceId ev) (SetEvidence ev (fst st));
          s2 = (if evd_ActionId ev \<noteq> [] then SetEvidenceByActionIndex (evd_ActionId ev) (evd_EvidenceId ev) s1 else s1)
      in (s2, if evd_EvidenceId ev \<ge> snd st then u64 (evd_EvidenceId ev + 1) else snd st))"

definition import_heal :: "heal_op \<Rightarrow> audit_store \<times> int \<Rightarrow> audit_store \<times> int" where
  "import_heal op st =
     (SetHealOp op (fst st), if ho_HealOpId op \<ge> snd st then u64 (ho_HealOpId op + 1) else snd st)"

definition import_postponement :: "sn_store \<Rightarrow> string \<times> int \<times> bool \<Rightarrow> audit_store \<Rightarrow> audit_error + audit_store" where
  "import_postponement sns p s =
     (case p of (acct, epochID, strong) \<Rightarrow>
        case GetSuperNodeByAccount sns acct of
          None \<Rightarrow> Inl (AuText ''storage-truth postponement references unknown supernode'')
        | Some sn \<Rightarrow>
            if sn_States sn = [] \<or> last_state sn \<noteq> SuperNodeStatePostponed
            then Inl (AuText ''storage-truth postponement lacks corresponding supernode-postponed state'')
            else Inr (let s1 = setStorageTruthPostponedAtEpochID acct epochID s
                      in if strong then setStorageTruthStrongPostponeMarker acct s1 else s1))"

definition importReporterResultFactForGenesis :: "string \<times> int \<times> string \<times> string \<times> reporter_result \<Rightarrow> audit_store \<Rightarrow> audit_store" where
  "importReporterResultFactForGenesis f s =
     (case f of (reporter, epochID, ticketID, target, r) \<Rightarrow>
        s\<lparr>us_results := kv_set (ReporterStorageTruthResultKey reporter epochID ticketID target) r (us_results s),
          us_resultsByTarget := kv_set (ReporterStorageTruthResultByTargetKey target epochID ticketID reporter) r (us_resultsByTarget s),
          us_resultsByEpoch := kv_set (ReporterStorageTruthResultByEpochReporterKey epochID reporter) () (us_resultsByEpoch s)\<rparr>)"

definition importNodeFailureFactForGenesis :: "string \<times> int \<times> string \<times> string \<times> node_failure \<Rightarrow> audit_store \<Rightarrow> audit_store" where
  "importNodeFailureFactForGenesis f s =
     (case f of (acct, epochID, ticketID, reporter, r) \<Rightarrow>
        s\<lparr>us_failures := kv_set (NodeStorageTruthFailureKey acct epochID ticketID reporter) r (us_failures s)\<rparr>)"

text \<open>The families that cannot fail, in the order of the code, around the three that can.\<close>

definition import_states :: "audit_genesis \<Rightarrow> audit_store \<Rightarrow> audit_store" where
  "import_states g s =
     (let (s1, nextEv) = fold import_evidence (ug_Evidence g) (s, ug_NextEvidenceId g);
          s2 = SetNextEvidenceID (if nextEv = 0 then 1 else nextEv) s1;
          s3 = fold SetNodeSuspicionState (ug_NodeSuspicionStates g) s2;
          s4 = fold SetReporterReliabilityState (ug_ReporterReliabilityStates g) s3;
          s5 = fold SetTicketDeteriorationState (ug_TicketDeteriorationStates g) s4;
          s6 = fold SetTicketArtifactCountState (ug_TicketArtifactCountStates g) s5;
          (s7, nextHeal) = fold import_heal (ug_HealOps g) (s6, if ug_NextHealOpId g \<noteq> 0 then ug_NextHealOpId g else 1)
      in SetNextHealOpID nextHeal s7)"

definition import_facts :: "audit_genesis \<Rightarrow> audit_store \<Rightarrow> audit_error + audit_store" where
  "import_facts g s =
     (let s1 = fold (\<lambda>(a, e). setActionFinalizationPostponedAtEpochID a e) (ug_ActionFinalizationPostponements g) s;
          s2 = fold (\<lambda>(e, a, t, c). setEvidenceEpochCount e a t c) (ug_EvidenceEpochCounts g) s1;
          s3 = fold (\<lambda>(i, v, b). SetHealOpVerification i v b) (ug_HealOpVerifications g) s2;
          s4 = fold (\<lambda>(e, t, c). SetRecheckEvidence e t c) (ug_RecheckEvidence g) s3;
          s5 = fold (\<lambda>(h, r). setStorageProofTranscriptRecord h r) (ug_StorageProofTranscripts g) s4;
          s6 = fold importNodeFailureFactForGenesis (ug_NodeFailureFacts g) s5;
          s7 = fold importReporterResultFactForGenesis (ug_ReporterResultFacts g) s6
      in bindR (foldR (\<lambda>(a, e, t). setStorageTruthFailedHeal a e t) (ug_FailedHealMarkers g) s7) (\<lambda>s8.
           let s9 = fold SetReportRaw (ug_EpochReports g) s8;
               s10 = fold (\<lambda>(r, e). SetReportIndex e r) (ug_ReportIndices g) s9;
               s11 = fold (\<lambda>(r, e). SetHostReportIndex e r) (ug_HostReportIndices g) s10
           in Inr (fold (\<lambda>(a, e, r). SetStorageChallengeReportIndex a e r) (ug_StorageChallengeIndices g) s11)))"

definition audit_InitGenesis :: "audit_env \<Rightarrow> audit_genesis \<Rightarrow> sn_store \<Rightarrow> audit_store \<Rightarrow> audit_error + audit_store" where
  "audit_InitGenesis env g sns s =
     (let params = audit_WithDefaults (ug_Params g) in
      case audit_Params_Validate params of
        Inl e \<Rightarrow> Inl (AuParams e)
      | Inr _ \<Rightarrow>
          (case audit_SetParams params of
             Inl e \<Rightarrow> Inl (AuParams e)
           | Inr p \<Rightarrow>
               let currentEpoch = (case deriveEpochAtHeight (ue_Height env) params of Inl _ \<Rightarrow> 0 | Inr i \<Rightarrow> ei_EpochID i) in
               bindR (liftT (ValidateScoreStatesGenesis g currentEpoch)) (\<lambda>_.
               bindR (foldR (import_postponement sns) (ug_StorageTruthPostponements g) (import_states g (s\<lparr>us_params := p\<rparr>)))
                 (import_facts g))))"

end
