(* ===== verification/Spec2Isabelle.thy ===== *)
theory Spec2Isabelle
  imports Claim Action_Props Audit_Genesis
begin

text \<open>Verification of the Lumera chain modules.\<close>

end
